theory Spec2Isabelle
  imports Complex_Main "HOL-Library.Log_Nat" "HOL-Library.Multiset"
begin

section \<open>JavaScript numbers\<close>

text \<open>
  Every \<^verbatim>\<open>number\<close> of the TypeScript sources is an IEEE-754 binary64 value. A finite
  value is kept as the rational it denotes; the two zeros are identified, which no
  comparison of the sources (\<^verbatim>\<open>===\<close>, \<^verbatim>\<open><\<close>, \<^verbatim>\<open>>=\<close>) can tell apart. The type
  has a value for every rational, the binary64 values among them; every arithmetic
  operation rounds its exact result to binary64 by \<open>rnd\<close>, as IEEE-754 prescribes.
\<close>

datatype number = NaN | NegInf | Finite rat | PosInf

text \<open>Rounding a rational to an integer, ties to the even neighbour.\<close>

definition round_even :: "rat \<Rightarrow> int" where
  "round_even y =
     (let f = \<lfloor>y\<rfloor>; d = y - of_int f
      in if d < 1 / 2 then f else if 1 / 2 < d then f + 1
         else if even f then f else f + 1)"

text \<open>The binary exponent of a positive rational: \<open>2 powi ilog2 q \<le> q < 2 powi (ilog2 q + 1)\<close>.\<close>

definition ilog2 :: "rat \<Rightarrow> int" where
  "ilog2 q =
     (let k = bitlen (fst (quotient_of q)) - bitlen (snd (quotient_of q))
      in if 2 powi k \<le> q then k else k - 1)"

text \<open>
  Round to nearest, ties to even, in binary64: 53 significant bits, so the unit in the
  last place of \<open>q\<close> is \<open>2 powi expo q\<close>, never below \<open>2 powi (- 1074)\<close> (subnormals);
  a result that reaches \<open>2 powi 1024\<close> overflows to an infinity.
\<close>

definition expo :: "rat \<Rightarrow> int" where
  "expo q = max (ilog2 \<bar>q\<bar> - 52) (- 1074)"

definition rval :: "rat \<Rightarrow> rat" where
  "rval q = of_int (round_even (q / 2 powi expo q)) * 2 powi expo q"

definition rnd :: "rat \<Rightarrow> number" where
  "rnd q =
     (if 2 powi 1024 \<le> \<bar>rval q\<bar> then (if 0 < q then PosInf else NegInf)
      else Finite (rval q))"

text \<open>A decimal literal of the source denotes the binary64 value nearest to it.\<close>

abbreviation lit :: "rat \<Rightarrow> number" where
  "lit q \<equiv> rnd q"

fun fneg :: "number \<Rightarrow> number" where
  "fneg NaN = NaN"
| "fneg NegInf = PosInf"
| "fneg PosInf = NegInf"
| "fneg (Finite x) = Finite (- x)"

fun fadd :: "number \<Rightarrow> number \<Rightarrow> number" where
  "fadd NaN _ = NaN"
| "fadd _ NaN = NaN"
| "fadd PosInf NegInf = NaN"
| "fadd NegInf PosInf = NaN"
| "fadd PosInf _ = PosInf"
| "fadd _ PosInf = PosInf"
| "fadd NegInf _ = NegInf"
| "fadd _ NegInf = NegInf"
| "fadd (Finite x) (Finite y) = rnd (x + y)"

definition fsub :: "number \<Rightarrow> number \<Rightarrow> number" where
  "fsub a b = fadd a (fneg b)"

text \<open>The sign of an infinity times, or divided by, a finite value.\<close>

definition signed_inf :: "bool \<Rightarrow> number" where
  "signed_inf positive = (if positive then PosInf else NegInf)"

fun fmul :: "number \<Rightarrow> number \<Rightarrow> number" where
  "fmul NaN _ = NaN"
| "fmul _ NaN = NaN"
| "fmul (Finite x) (Finite y) = rnd (x * y)"
| "fmul (Finite x) PosInf = (if x = 0 then NaN else signed_inf (0 < x))"
| "fmul (Finite x) NegInf = (if x = 0 then NaN else signed_inf (x < 0))"
| "fmul PosInf (Finite y) = (if y = 0 then NaN else signed_inf (0 < y))"
| "fmul NegInf (Finite y) = (if y = 0 then NaN else signed_inf (y < 0))"
| "fmul PosInf PosInf = PosInf"
| "fmul NegInf NegInf = PosInf"
| "fmul PosInf NegInf = NegInf"
| "fmul NegInf PosInf = NegInf"

text \<open>
  Division. A zero divisor is read as \<open>+0\<close>; the sources divide by the literal
  \<^verbatim>\<open>100\<close> only.
\<close>

fun fdiv :: "number \<Rightarrow> number \<Rightarrow> number" where
  "fdiv NaN _ = NaN"
| "fdiv _ NaN = NaN"
| "fdiv (Finite x) (Finite y) =
     (if y = 0 then (if x = 0 then NaN else signed_inf (0 < x)) else rnd (x / y))"
| "fdiv (Finite x) PosInf = Finite 0"
| "fdiv (Finite x) NegInf = Finite 0"
| "fdiv PosInf (Finite y) = signed_inf (0 \<le> y)"
| "fdiv NegInf (Finite y) = signed_inf (y < 0)"
| "fdiv PosInf PosInf = NaN"
| "fdiv NegInf NegInf = NaN"
| "fdiv PosInf NegInf = NaN"
| "fdiv NegInf PosInf = NaN"

text \<open>Comparisons: every comparison with \<open>NaN\<close> is false.\<close>

fun flt :: "number \<Rightarrow> number \<Rightarrow> bool" where
  "flt NaN _ = False"
| "flt _ NaN = False"
| "flt (Finite x) (Finite y) = (x < y)"
| "flt NegInf NegInf = False"
| "flt NegInf _ = True"
| "flt PosInf _ = False"
| "flt (Finite x) PosInf = True"
| "flt (Finite x) NegInf = False"

fun feq :: "number \<Rightarrow> number \<Rightarrow> bool" where
  "feq NaN _ = False"
| "feq _ NaN = False"
| "feq a b = (a = b)"

definition fge :: "number \<Rightarrow> number \<Rightarrow> bool" where
  "fge a b = (flt b a \<or> feq a b)"

text \<open>\<^verbatim>\<open>Math.ceil\<close> and \<^verbatim>\<open>Math.round\<close> (ties towards \<open>+\<infinity>\<close>) are exact.\<close>

fun js_ceil :: "number \<Rightarrow> number" where
  "js_ceil (Finite x) = Finite (of_int \<lceil>x\<rceil>)"
| "js_ceil a = a"

fun js_round :: "number \<Rightarrow> number" where
  "js_round (Finite x) = Finite (of_int \<lfloor>x + 1 / 2\<rfloor>)"
| "js_round a = a"

section \<open>The clock and \<^verbatim>\<open>Date\<close>\<close>

text \<open>
  A time value is a number of milliseconds since the epoch. \<^verbatim>\<open>new Date()\<close> reads the
  clock of the environment; \<open>localTZA t True\<close> is the offset of local time at the
  UTC instant \<open>t\<close>, \<open>localTZA t False\<close> the offset at the local time \<open>t\<close>. An ISO
  date string is represented by the time value it renders.
\<close>

type_synonym timestamp = int

record env =
  clock :: timestamp
  localTZA :: "int \<Rightarrow> bool \<Rightarrow> int"

datatype error = RangeError | StoreError string

definition msPerDay :: int where
  "msPerDay = 86400000"

text \<open>
  \<^verbatim>\<open>nextDate.setDate(nextDate.getDate() + n)\<close> on \<^verbatim>\<open>nextDate = new Date()\<close>: the day of
  the month moves by \<open>n\<close> days in local time, and the result is clipped to the range of
  valid time values (\<open>None\<close> is the invalid date). \<open>n\<close> is integral wherever \<open>sm2\<close>
  calls this (1, 6 or a result of \<^verbatim>\<open>Math.ceil\<close>).
\<close>

fun setDate_getDate_plus :: "env \<Rightarrow> number \<Rightarrow> timestamp option" where
  "setDate_getDate_plus ev (Finite n) =
     (let t = clock ev + localTZA ev (clock ev) True;
          newDate = t + \<lfloor>n\<rfloor> * msPerDay;
          u = newDate - localTZA ev newDate False
      in if \<bar>u\<bar> \<le> 8640000000000000 then Some u else None)"
| "setDate_getDate_plus ev _ = None"

text \<open>\<^verbatim>\<open>toISOString\<close> throws a \<^verbatim>\<open>RangeError\<close> on the invalid date.\<close>

definition toISOString :: "timestamp option \<Rightarrow> error + timestamp" where
  "toISOString d = (case d of None \<Rightarrow> Inl RangeError | Some u \<Rightarrow> Inr u)"

section \<open>The scheduler: \<^verbatim>\<open>sm2\<close>\<close>

record SM2State =
  repetitions :: number
  easeFactor :: number
  intervalDays :: number
  nextReviewAt :: timestamp

definition sm2 :: "env \<Rightarrow> number \<Rightarrow> SM2State \<Rightarrow> error + SM2State" where
  "sm2 ev quality state =
     (let (repetitions', intervalDays') =
            (if fge quality (lit 3) then
               ((fadd (repetitions state) (lit 1)),
                (if feq (repetitions state) (lit 0) then lit 1
                 else if feq (repetitions state) (lit 1) then lit 6
                 else js_ceil (fmul (intervalDays state) (easeFactor state))))
             else (lit 0, lit 1));
          easeFactor1 =
            fadd (easeFactor state)
              (fsub (lit (1 / 10))
                 (fmul (fsub (lit 5) quality)
                    (fadd (lit (8 / 100)) (fmul (fsub (lit 5) quality) (lit (2 / 100))))));
          easeFactor2 = (if flt easeFactor1 (lit (13 / 10)) then lit (13 / 10) else easeFactor1);
          nextDate = setDate_getDate_plus ev intervalDays'
      in case toISOString nextDate of
           Inl e \<Rightarrow> Inl e
         | Inr isoString \<Rightarrow>
             Inr \<lparr>repetitions = repetitions',
                  easeFactor = fdiv (js_round (fmul easeFactor2 (lit 100))) (lit 100),
                  intervalDays = intervalDays',
                  nextReviewAt = isoString\<rparr>)"

text \<open>The three values \<open>sm2\<close> computes before it reads the clock, each on its own.\<close>

definition next_repetitions :: "number \<Rightarrow> SM2State \<Rightarrow> number" where
  "next_repetitions quality state =
     (if fge quality (lit 3) then fadd (repetitions state) (lit 1) else lit 0)"

definition next_intervalDays :: "number \<Rightarrow> SM2State \<Rightarrow> number" where
  "next_intervalDays quality state =
     (if fge quality (lit 3) then
        (if feq (repetitions state) (lit 0) then lit 1
         else if feq (repetitions state) (lit 1) then lit 6
         else js_ceil (fmul (intervalDays state) (easeFactor state)))
      else lit 1)"

text \<open>The ease update before the clamp, after the clamp, and as returned.\<close>

definition ease_delta :: "number \<Rightarrow> number" where
  "ease_delta quality =
     fsub (lit (1 / 10))
       (fmul (fsub (lit 5) quality)
          (fadd (lit (8 / 100)) (fmul (fsub (lit 5) quality) (lit (2 / 100)))))"

definition clamp_ease :: "number \<Rightarrow> number" where
  "clamp_ease e = (if flt e (lit (13 / 10)) then lit (13 / 10) else e)"

definition round2 :: "number \<Rightarrow> number" where
  "round2 e = fdiv (js_round (fmul e (lit 100))) (lit 100)"

definition next_easeFactor :: "number \<Rightarrow> SM2State \<Rightarrow> number" where
  "next_easeFactor quality state =
     round2 (clamp_ease (fadd (easeFactor state) (ease_delta quality)))"

section \<open>The word store: \<^verbatim>\<open>lib/services/words.ts\<close>\<close>

record VocabWord =
  w_id :: string
  w_word :: string
  w_translation :: string
  w_definition :: string
  w_example :: string
  w_audio_url :: "string option"
  w_category :: string
  w_repetitions :: number
  w_ease_factor :: number
  w_interval_days :: number
  w_next_review_at :: timestamp
  w_created_at :: timestamp

text \<open>\<^verbatim>\<open>Partial<Omit<VocabWord, "id" | "created_at">>\<close>: an absent key is \<open>None\<close>.\<close>

record word_updates =
  u_word :: "string option"
  u_translation :: "string option"
  u_definition :: "string option"
  u_example :: "string option"
  u_audio_url :: "string option option"
  u_category :: "string option"
  u_repetitions :: "number option"
  u_ease_factor :: "number option"
  u_interval_days :: "number option"
  u_next_review_at :: "timestamp option"

definition no_updates :: word_updates where
  "no_updates =
     \<lparr>u_word = None, u_translation = None, u_definition = None, u_example = None,
      u_audio_url = None, u_category = None, u_repetitions = None, u_ease_factor = None,
      u_interval_days = None, u_next_review_at = None\<rparr>"

definition apply_updates :: "word_updates \<Rightarrow> VocabWord \<Rightarrow> VocabWord" where
  "apply_updates u r =
     r\<lparr>w_word := case_option (w_word r) (\<lambda>v. v) (u_word u),
       w_translation := case_option (w_translation r) (\<lambda>v. v) (u_translation u),
       w_definition := case_option (w_definition r) (\<lambda>v. v) (u_definition u),
       w_example := case_option (w_example r) (\<lambda>v. v) (u_example u),
       w_audio_url := case_option (w_audio_url r) (\<lambda>v. v) (u_audio_url u),
       w_category := case_option (w_category r) (\<lambda>v. v) (u_category u),
       w_repetitions := case_option (w_repetitions r) (\<lambda>v. v) (u_repetitions u),
       w_ease_factor := case_option (w_ease_factor r) (\<lambda>v. v) (u_ease_factor u),
       w_interval_days := case_option (w_interval_days r) (\<lambda>v. v) (u_interval_days u),
       w_next_review_at := case_option (w_next_review_at r) (\<lambda>v. v) (u_next_review_at u)\<rparr>"

text \<open>
  The \<^verbatim>\<open>words\<close> table as the signed-in user sees it, whether the service answers, and
  the update requests made so far, in order.
\<close>

record backend =
  rows :: "VocabWord list"
  online :: bool
  calls :: "(string \<times> word_updates) list"

text \<open>
  \<^verbatim>\<open>from("words").select("*").lte("next_review_at", now).order("next_review_at",
  {ascending: true})\<close>; an error of the service is thrown.
\<close>

definition getDueWords :: "env \<Rightarrow> backend \<Rightarrow> error + VocabWord list" where
  "getDueWords ev b =
     (if \<not> online b then Inl (StoreError ''fetch failed'')
      else Inr (sort_key w_next_review_at
                  (filter (\<lambda>r. w_next_review_at r \<le> clock ev) (rows b))))"

text \<open>
  \<^verbatim>\<open>from("words").update(updates).eq("id", id).select().single()\<close>: \<^verbatim>\<open>single()\<close> is an
  error unless exactly one row comes back.
\<close>

definition updateWord ::
  "backend \<Rightarrow> string \<Rightarrow> word_updates \<Rightarrow> (error + VocabWord) \<times> backend" where
  "updateWord b i u =
     (let b1 = b\<lparr>calls := calls b @ [(i, u)]\<rparr>
      in if \<not> online b then (Inl (StoreError ''fetch failed''), b1)
         else case filter (\<lambda>r. w_id r = i) (rows b) of
                [r] \<Rightarrow>
                  (Inr (apply_updates u r),
                   b1\<lparr>rows := map (\<lambda>r. if w_id r = i then apply_updates u r else r) (rows b)\<rparr>)
              | _ \<Rightarrow> (Inl (StoreError ''PGRST116''), b1))"

section \<open>The review page\<close>

record session =
  dueWords :: "VocabWord list"
  currentIndex :: nat
  revealed :: bool
  sessionComplete :: bool
  reviewed :: nat
  loading :: bool

record page =
  store :: backend
  sess :: session
  console :: "string list"

definition initial_session :: session where
  "initial_session =
     \<lparr>dueWords = [], currentIndex = 0, revealed = False, sessionComplete = False,
      reviewed = 0, loading = True\<rparr>"

definition loadDueWords :: "env \<Rightarrow> page \<Rightarrow> page" where
  "loadDueWords ev p =
     (let s1 = (sess p)\<lparr>loading := True\<rparr>
      in case getDueWords ev (store p) of
           Inr due \<Rightarrow>
             p\<lparr>sess := s1\<lparr>dueWords := due,
                              sessionComplete := (if length due = 0 then True else sessionComplete s1),
                              loading := False\<rparr>\<rparr>
         | Inl e \<Rightarrow>
             p\<lparr>sess := s1\<lparr>loading := False\<rparr>,
               console := console p @ [''Failed to load due words:'']\<rparr>)"

text \<open>\<^verbatim>\<open>dueWords[currentIndex]\<close>, \<^verbatim>\<open>undefined\<close> past the end.\<close>

definition currentWord :: "session \<Rightarrow> VocabWord option" where
  "currentWord s =
     (if currentIndex s < length (dueWords s) then Some (dueWords s ! currentIndex s) else None)"

definition review_category :: "number \<Rightarrow> string" where
  "review_category quality =
     (if feq quality (lit 5) then ''learned''
      else if feq quality (lit 1) then ''difficult'' else ''learning'')"

text \<open>
  \<^verbatim>\<open>handleReview\<close>. The call of \<open>sm2\<close> stands before the \<^verbatim>\<open>try\<close> block, so its
  exception leaves the handler (\<open>Inl\<close>); an error of \<open>updateWord\<close> is caught and logged.
\<close>

definition handleReview :: "env \<Rightarrow> number \<Rightarrow> page \<Rightarrow> error + page" where
  "handleReview ev quality p =
     (case currentWord (sess p) of
        None \<Rightarrow> Inr p
      | Some cw \<Rightarrow>
          (case sm2 ev quality
                  \<lparr>repetitions = w_repetitions cw, easeFactor = w_ease_factor cw,
                   intervalDays = w_interval_days cw, nextReviewAt = w_next_review_at cw\<rparr> of
             Inl e \<Rightarrow> Inl e
           | Inr newState \<Rightarrow>
               (let category = review_category quality;
                    (res, store') =
                      updateWord (store p) (w_id cw)
                        (no_updates\<lparr>u_repetitions := Some (repetitions newState),
                                    u_ease_factor := Some (easeFactor newState),
                                    u_interval_days := Some (intervalDays newState),
                                    u_next_review_at := Some (nextReviewAt newState),
                                    u_category := Some category\<rparr>)
                in case res of
                     Inr row \<Rightarrow>
                       Inr (p\<lparr>store := store',
                              sess :=
                                (let s1 = (sess p)\<lparr>reviewed := reviewed (sess p) + 1,
                                                    revealed := False\<rparr>
                                 in if currentIndex (sess p) + 1 < length (dueWords (sess p))
                                    then s1\<lparr>currentIndex := currentIndex (sess p) + 1\<rparr>
                                    else s1\<lparr>sessionComplete := True\<rparr>)\<rparr>)
                   | Inl e \<Rightarrow>
                       Inr (p\<lparr>store := store',
                              console := console p @ [''Failed to update word:'']\<rparr>))))"

text \<open>
  What the page renders: the three rating buttons are on screen when a word is
  presented and its answer has been revealed.
\<close>

definition rating_controls_shown :: "session \<Rightarrow> bool" where
  "rating_controls_shown s =
     (\<not> loading s \<and> \<not> sessionComplete s \<and> currentWord s \<noteq> None \<and> revealed s)"

text \<open>
  What the page shows: a spinner while loading, the summary once the session is
  complete, nothing without a current word, and otherwise the flashcard of the current
  word. A tap on the flashcard reveals the answer: \<^verbatim>\<open>!revealed && setRevealed(true)\<close>.
\<close>

definition presented :: "session \<Rightarrow> VocabWord option" where
  "presented s =
     (if loading s then None else if sessionComplete s then None else currentWord s)"

definition reveal :: "page \<Rightarrow> page" where
  "reveal p = (if \<not> revealed (sess p) then p\<lparr>sess := (sess p)\<lparr>revealed := True\<rparr>\<rparr> else p)"

section \<open>Auxiliary definitions\<close>

text \<open>The arguments \<^verbatim>\<open>handleReview\<close> builds for \<open>sm2\<close> and for \<open>updateWord\<close>.\<close>

definition state_of_word :: "VocabWord \<Rightarrow> SM2State" where
  "state_of_word cw =
     \<lparr>repetitions = w_repetitions cw, easeFactor = w_ease_factor cw,
      intervalDays = w_interval_days cw, nextReviewAt = w_next_review_at cw\<rparr>"

definition review_updates :: "number \<Rightarrow> SM2State \<Rightarrow> word_updates" where
  "review_updates quality newState =
     no_updates\<lparr>u_repetitions := Some (repetitions newState),
                 u_ease_factor := Some (easeFactor newState),
                 u_interval_days := Some (intervalDays newState),
                 u_next_review_at := Some (nextReviewAt newState),
                 u_category := Some (review_category quality)\<rparr>"

text \<open>
  Concrete data for the examples: a freshly saved word (\<^verbatim>\<open>repetitions: 0, ease_factor:
  2.5, interval_days: 0\<close>), a clock in a zone without offset, a table of four words of
  which three are due (three days, one day and five days ago), and a session on them.
\<close>

definition demo_word :: "string \<Rightarrow> timestamp \<Rightarrow> VocabWord" where
  "demo_word i t =
     \<lparr>w_id = i, w_word = i, w_translation = [], w_definition = [], w_example = [],
      w_audio_url = None, w_category = ''learning'', w_repetitions = Finite 0,
      w_ease_factor = Finite (5 / 2), w_interval_days = Finite 0, w_next_review_at = t,
      w_created_at = 0\<rparr>"

definition demo_state :: SM2State where
  "demo_state =
     \<lparr>repetitions = Finite 0, easeFactor = Finite (5 / 2), intervalDays = Finite 0,
      nextReviewAt = 0\<rparr>"

text \<open>A word with five successful reviews behind it (\<^verbatim>\<open>repetitions: 5, easeFactor: 2.0,
  intervalDays: 30\<close>).\<close>

definition learnt_state :: SM2State where
  "learnt_state =
     \<lparr>repetitions = Finite 5, easeFactor = Finite 2, intervalDays = Finite 30,
      nextReviewAt = 0\<rparr>"

text \<open>What the examples compute: the states after one, two and three Easy reviews of the
  fresh word (the first one also a minute later), and after an Easy and after a Hard
  review of the learnt word.\<close>

definition first_review :: SM2State where
  "first_review =
     \<lparr>repetitions = Finite 1, easeFactor = Finite (5854679515581645 / 2251799813685248),
      intervalDays = Finite 1, nextReviewAt = 1000086400000\<rparr>"

definition first_review_later :: SM2State where
  "first_review_later = first_review\<lparr>nextReviewAt := 1000086460000\<rparr>"

definition second_review :: SM2State where
  "second_review =
     \<lparr>repetitions = Finite 2, easeFactor = Finite (3039929748475085 / 1125899906842624),
      intervalDays = Finite 6, nextReviewAt = 1000518400000\<rparr>"

definition third_review :: SM2State where
  "third_review =
     \<lparr>repetitions = Finite 3, easeFactor = Finite (3152519739159347 / 1125899906842624),
      intervalDays = Finite 17, nextReviewAt = 1001468800000\<rparr>"

definition sixth_review :: SM2State where
  "sixth_review =
     \<lparr>repetitions = Finite 6, easeFactor = Finite (4728779608739021 / 2251799813685248),
      intervalDays = Finite 60, nextReviewAt = 1005184000000\<rparr>"

text \<open>Neutral reviews: of the fresh word, of a word whose ease factor is at the floor
  1.3, and of a state with the ease factor \<open>10^17\<close>.\<close>

definition neutral_review :: SM2State where
  "neutral_review =
     \<lparr>repetitions = Finite 1, easeFactor = Finite (5314247560297185 / 2251799813685248),
      intervalDays = Finite 1, nextReviewAt = 1000086400000\<rparr>"

definition floor_state :: SM2State where
  "floor_state =
     \<lparr>repetitions = Finite 3, easeFactor = Finite (5854679515581645 / 4503599627370496),
      intervalDays = Finite 17, nextReviewAt = 0\<rparr>"

definition floor_review :: SM2State where
  "floor_review =
     \<lparr>repetitions = Finite 4, easeFactor = Finite (5854679515581645 / 4503599627370496),
      intervalDays = Finite 23, nextReviewAt = 1001987200000\<rparr>"

definition huge_state :: SM2State where
  "huge_state =
     \<lparr>repetitions = Finite 0, easeFactor = Finite 100000000000000000,
      intervalDays = Finite 0, nextReviewAt = 0\<rparr>"

definition huge_review :: SM2State where
  "huge_review =
     \<lparr>repetitions = Finite 1, easeFactor = Finite 100000000000000000,
      intervalDays = Finite 1, nextReviewAt = 1000086400000\<rparr>"

definition lapsed_review :: SM2State where
  "lapsed_review =
     \<lparr>repetitions = Finite 0, easeFactor = Finite (1643813863990231 / 1125899906842624),
      intervalDays = Finite 1, nextReviewAt = 1000086400000\<rparr>"

definition demo_env :: env where
  "demo_env = \<lparr>clock = 1000000000000, localTZA = (\<lambda>t utc. 0)\<rparr>"

definition later_env :: env where
  "later_env = \<lparr>clock = 1000000060000, localTZA = (\<lambda>t utc. 0)\<rparr>"

definition demo_backend :: backend where
  "demo_backend =
     \<lparr>rows = [demo_word ''a'' (1000000000000 - 3 * 86400000),
              demo_word ''b'' (1000000000000 - 86400000),
              demo_word ''c'' (1000000000000 + 86400000),
              demo_word ''d'' (1000000000000 - 5 * 86400000)],
      online = True, calls = []\<rparr>"

definition due_word :: VocabWord where
  "due_word = demo_word ''d'' (1000000000000 - 5 * 86400000)"

definition demo_session :: session where
  "demo_session =
     \<lparr>dueWords = [due_word,
                  demo_word ''a'' (1000000000000 - 3 * 86400000),
                  demo_word ''b'' (1000000000000 - 86400000)],
      currentIndex = 0, revealed = True, sessionComplete = False, reviewed = 0,
      loading = False\<rparr>"

definition demo_page :: page where
  "demo_page = \<lparr>store = demo_backend, sess = demo_session, console = []\<rparr>"

definition offline_page :: page where
  "offline_page =
     \<lparr>store = demo_backend\<lparr>online := False\<rparr>, sess = demo_session, console = []\<rparr>"

section \<open>Repeated reviews\<close>

text \<open>
  A run of reviews of one word with the same rating, one clock reading per review: the
  state that one call of \<open>sm2\<close> returns is the state the next call receives. The
  result lists the states after each review; the first exception ends the run.
\<close>

fun reviews :: "env list \<Rightarrow> number \<Rightarrow> SM2State \<Rightarrow> error + SM2State list" where
  "reviews [] quality s = Inr []"
| "reviews (ev # evs) quality s =
     (case sm2 ev quality s of
        Inl e \<Rightarrow> Inl e
      | Inr s' \<Rightarrow> (case reviews evs quality s' of Inl e \<Rightarrow> Inl e | Inr ss \<Rightarrow> Inr (s' # ss)))"

text \<open>
  The interval sequence as the specification words it, for an ease factor held fixed:
  \<open>1, 6, ceil(6*ease), ceil(6*ease*ease), ...\<close>, the products being those of the
  program.
\<close>

fun spec_product :: "number \<Rightarrow> nat \<Rightarrow> number" where
  "spec_product ease 0 = Finite 6"
| "spec_product ease (Suc n) = fmul (spec_product ease n) ease"

definition spec_interval :: "number \<Rightarrow> nat \<Rightarrow> number" where
  "spec_interval ease n =
     (if n = 0 then Finite 1 else if n = 1 then Finite 6 else js_ceil (spec_product ease (n - 1)))"

text \<open>How the program grows the interval from one state to the next, from the third
  successful review on.\<close>

definition grows :: "SM2State \<Rightarrow> SM2State \<Rightarrow> bool" where
  "grows a b \<longleftrightarrow> intervalDays b = js_ceil (fmul (intervalDays a) (easeFactor a))"

section \<open>The ease update in exact decimal arithmetic\<close>

text \<open>
  The update of the ease factor as the specification words it, computed exactly on
  rationals: add \<open>0.1 - (5 - quality) * (0.08 + (5 - quality) * 0.02)\<close>, clamp up to
  1.3, round to two decimal places (halves upwards).
\<close>

definition spec_ease_exact :: "rat \<Rightarrow> rat \<Rightarrow> rat" where
  "spec_ease_exact quality ease =
     (let e = ease + (1 / 10 - (5 - quality) * (8 / 100 + (5 - quality) * (2 / 100)));
          clamped = (if e < 13 / 10 then 13 / 10 else e)
      in of_int \<lfloor>clamped * 100 + 1 / 2\<rfloor> / 100)"

section \<open>The states of three runs of reviews\<close>

text \<open>
  The fresh word after the eight ratings Neutral, Neutral, Hard and five times Easy,
  and that state after one more Easy rating.
\<close>

definition drift_state :: SM2State where
  "drift_state =
     \<lparr>repetitions = Finite 5, easeFactor = Finite (4908923593833841 / 2251799813685248),
      intervalDays = Finite 50, nextReviewAt = 1004320000000\<rparr>"

definition drift_review :: SM2State where
  "drift_review =
     \<lparr>repetitions = Finite 6, easeFactor = Finite (5134103575202365 / 2251799813685248),
      intervalDays = Finite 110, nextReviewAt = 1009504000000\<rparr>"

text \<open>The states of the fresh word after one to nine Neutral ratings.\<close>

definition neutral_run :: "SM2State list" where
  "neutral_run =
     [\<lparr>repetitions = Finite 1, easeFactor = Finite (5314247560297185 / 2251799813685248),
       intervalDays = Finite 1, nextReviewAt = 1000086400000\<rparr>,
      \<lparr>repetitions = Finite 2, easeFactor = Finite (4998995586381251 / 2251799813685248),
       intervalDays = Finite 6, nextReviewAt = 1000518400000\<rparr>,
      \<lparr>repetitions = Finite 3, easeFactor = Finite (1170935903116329 / 562949953421312),
       intervalDays = Finite 14, nextReviewAt = 1001209600000\<rparr>,
      \<lparr>repetitions = Finite 4, easeFactor = Finite (4368491638549381 / 2251799813685248),
       intervalDays = Finite 30, nextReviewAt = 1002592000000\<rparr>,
      \<lparr>repetitions = Finite 5, easeFactor = Finite (8106479329266893 / 4503599627370496),
       intervalDays = Finite 59, nextReviewAt = 1005097600000\<rparr>,
      \<lparr>repetitions = Finite 6, easeFactor = Finite (7475975381435023 / 4503599627370496),
       intervalDays = Finite 107, nextReviewAt = 1009244800000\<rparr>,
      \<lparr>repetitions = Finite 7, easeFactor = Finite (3422735716801577 / 2251799813685248),
       intervalDays = Finite 178, nextReviewAt = 1015379200000\<rparr>,
      \<lparr>repetitions = Finite 8, easeFactor = Finite (1553741871442821 / 1125899906842624),
       intervalDays = Finite 271, nextReviewAt = 1023414400000\<rparr>,
      \<lparr>repetitions = Finite 9, easeFactor = Finite (5854679515581645 / 4503599627370496),
       intervalDays = Finite 374, nextReviewAt = 1032313600000\<rparr>]"

text \<open>The states of the fresh word after one to six Easy ratings.\<close>

definition easy_run :: "SM2State list" where
  "easy_run =
     [\<lparr>repetitions = Finite 1, easeFactor = Finite (5854679515581645 / 2251799813685248),
       intervalDays = Finite 1, nextReviewAt = 1000086400000\<rparr>,
      \<lparr>repetitions = Finite 2, easeFactor = Finite (3039929748475085 / 1125899906842624),
       intervalDays = Finite 6, nextReviewAt = 1000518400000\<rparr>,
      \<lparr>repetitions = Finite 3, easeFactor = Finite (3152519739159347 / 1125899906842624),
       intervalDays = Finite 17, nextReviewAt = 1001468800000\<rparr>,
      \<lparr>repetitions = Finite 4, easeFactor = Finite (6530219459687219 / 2251799813685248),
       intervalDays = Finite 48, nextReviewAt = 1004147200000\<rparr>,
      \<lparr>repetitions = Finite 5, easeFactor = Finite 3,
       intervalDays = Finite 140, nextReviewAt = 1012096000000\<rparr>,
      \<lparr>repetitions = Finite 6, easeFactor = Finite (6980579422424269 / 2251799813685248),
       intervalDays = Finite 420, nextReviewAt = 1036288000000\<rparr>]"

section \<open>States of the data model, runs of ratings and of a session\<close>

text \<open>
  A state as the \<^verbatim>\<open>words\<close> table holds it and the review page passes it to \<open>sm2\<close>:
  \<open>repetitions\<close> and \<open>interval_days\<close> are \<^verbatim>\<open>INTEGER\<close> columns that are never negative,
  \<open>ease_factor\<close> is a \<^verbatim>\<open>DECIMAL(4,2)\<close> column, read as the binary64 value nearest to
  its decimal \<open>k / 100\<close>, and never below 1.30. \<open>stored s r k n\<close> says that the state
  \<open>s\<close> holds the column values \<open>r\<close>, \<open>k / 100\<close> and \<open>n\<close>.
\<close>

definition stored :: "SM2State \<Rightarrow> int \<Rightarrow> int \<Rightarrow> int \<Rightarrow> bool" where
  "stored s r k n \<longleftrightarrow>
     repetitions s = Finite (of_int r) \<and> 0 \<le> r \<and> r < 2 ^ 31 \<and>
     easeFactor s = lit (of_int k / 100) \<and> 130 \<le> k \<and> k \<le> 9999 \<and>
     intervalDays s = Finite (of_int n) \<and> 0 \<le> n \<and> n < 2 ^ 31"

text \<open>
  The counts that the scheduler itself produces from a freshly saved word
  (\<^verbatim>\<open>repetitions: 0, interval_days: 0\<close>): no interval or one day before the first
  success, one day after it, at least six days from the second success on.
\<close>

definition on_schedule :: "int \<Rightarrow> int \<Rightarrow> bool" where
  "on_schedule r n \<longleftrightarrow>
     (r = 0 \<and> (n = 0 \<or> n = 1)) \<or> (r = 1 \<and> n = 1) \<or> (2 \<le> r \<and> 6 \<le> n)"

text \<open>
  The interval as the specification words it, \<open>ceil(intervalDays * easeFactor)\<close>, on the
  column values and in exact arithmetic.
\<close>

definition spec_next_interval :: "int \<Rightarrow> int \<Rightarrow> int" where
  "spec_next_interval n k = \<lceil>of_int n * (of_int k / 100 :: rat)\<rceil>"

text \<open>
  A run of ratings of one word, each with its clock reading: the state that one call of
  \<open>sm2\<close> returns is the state the next call receives. The result is the last state.
\<close>

fun ratings :: "(env \<times> number) list \<Rightarrow> SM2State \<Rightarrow> error + SM2State" where
  "ratings [] s = Inr s"
| "ratings ((ev, quality) # rs) s =
     (case sm2 ev quality s of Inl e \<Rightarrow> Inl e | Inr s' \<Rightarrow> ratings rs s')"

text \<open>
  A session on the review page: the words that the page shows one after the other
  while the user reveals and rates the word on screen, once for every entry of the
  list. A rating whose handler throws leaves the page as it was.
\<close>

fun review_session :: "(env \<times> number) list \<Rightarrow> page \<Rightarrow> VocabWord list" where
  "review_session [] p = (case presented (sess p) of None \<Rightarrow> [] | Some w \<Rightarrow> [w])"
| "review_session ((ev, quality) # rs) p =
     (case presented (sess p) of
        None \<Rightarrow> []
      | Some w \<Rightarrow>
          w # (case handleReview ev quality (reveal p) of
                 Inl e \<Rightarrow> review_session rs (reveal p)
               | Inr p' \<Rightarrow> review_session rs p'))"

text \<open>
  New York in the night of 28 October 2001, when daylight saving time ended at 06:00
  UTC (02:00 local time): two clock readings an hour apart, both 01:30 local time.
\<close>

definition new_york :: "int \<Rightarrow> bool \<Rightarrow> int" where
  "new_york t utc =
     (if utc then (if t < 1004248800000 then - 14400000 else - 18000000)
      else (if t < 1004234400000 then - 14400000 else - 18000000))"

definition autumn_env :: env where
  "autumn_env = \<lparr>clock = 1004247000000, localTZA = new_york\<rparr>"

definition autumn_env_later :: env where
  "autumn_env_later = \<lparr>clock = 1004250600000, localTZA = new_york\<rparr>"

section \<open>Properties of rounding\<close>

lemma powi2_pos [simp]: "0 < (2::rat) powi k"
  by (simp add: zero_less_power_int)

lemma powi2_mono: "a \<le> b \<Longrightarrow> (2::rat) powi a \<le> 2 powi b"
  by (rule power_int_increasing) simp_all

lemma powi2_strict_mono: "a < b \<Longrightarrow> (2::rat) powi a < 2 powi b"
  by (rule power_int_strict_increasing) simp_all

lemma powi2_le_iff [simp]: "(2::rat) powi a \<le> 2 powi b \<longleftrightarrow> a \<le> b"
  by (meson powi2_mono powi2_strict_mono linorder_not_le)

lemma powi2_less_iff [simp]: "(2::rat) powi a < 2 powi b \<longleftrightarrow> a < b"
  by (meson powi2_mono powi2_strict_mono linorder_not_le)

lemma powi2_add: "(2::rat) powi (a + b) = 2 powi a * 2 powi b"
  by (simp add: power_int_add)

lemma powi2_diff: "(2::rat) powi (a - b) = 2 powi a / 2 powi b"
  by (simp add: power_int_diff)

lemma bitlen_rat_bounds:
  assumes "0 < a"
  shows "(2::rat) powi (bitlen a - 1) \<le> of_int a" and "of_int a < (2::rat) powi (bitlen a)"
proof -
  have b: "2 ^ nat (bitlen a - 1) \<le> a" "a < 2 ^ nat (bitlen a)"
    using bitlen_bounds [OF assms] by simp_all
  have ge1: "1 \<le> bitlen a"
    using assms bitlen_eq_zero_iff [of a] bitlen_nonneg [of a] by linarith
  have "(2::rat) powi (bitlen a - 1) = 2 ^ nat (bitlen a - 1)"
    using ge1 by (simp add: power_int_def)
  also have "\<dots> = of_int (2 ^ nat (bitlen a - 1))" by simp
  also have "\<dots> \<le> of_int a" using b(1) by (simp only: of_int_le_iff)
  finally show "(2::rat) powi (bitlen a - 1) \<le> of_int a" .
  have "(of_int a :: rat) < of_int (2 ^ nat (bitlen a))"
    using b(2) by (simp only: of_int_less_iff)
  also have "\<dots> = 2 powi (bitlen a)"
    using ge1 by (simp add: power_int_def)
  finally show "of_int a < (2::rat) powi (bitlen a)" .
qed

lemma ilog2_bounds:
  assumes "0 < q"
  shows "2 powi (ilog2 q) \<le> q" and "q < 2 powi (ilog2 q + 1)"
proof -
  obtain a b where ab: "quotient_of q = (a, b)" by (cases "quotient_of q")
  have bpos: "0 < b" using ab quotient_of_denom_pos by blast
  have q: "q = of_int a / of_int b" using ab quotient_of_div by blast
  have apos: "0 < a"
    using assms bpos unfolding q by (simp add: zero_less_divide_iff)
  define k where "k = bitlen a - bitlen b"
  have lo: "2 powi (k - 1) \<le> q"
  proof -
    have "2 powi (k - 1) * of_int b \<le> 2 powi (k - 1) * (2::rat) powi (bitlen b)"
      using bitlen_rat_bounds(2) [OF bpos] by (simp add: less_imp_le)
    also have "\<dots> = 2 powi (bitlen a - 1)"
      by (simp add: k_def flip: powi2_add)
    also have "\<dots> \<le> of_int a" by (rule bitlen_rat_bounds(1) [OF apos])
    finally show ?thesis using bpos unfolding q by (simp add: pos_le_divide_eq)
  qed
  have hi: "q < 2 powi (k + 1)"
  proof -
    have "(of_int a :: rat) < 2 powi (bitlen a)" by (rule bitlen_rat_bounds(2) [OF apos])
    also have "\<dots> = 2 powi (k + 1) * 2 powi (bitlen b - 1)"
      by (simp add: k_def flip: powi2_add)
    also have "\<dots> \<le> 2 powi (k + 1) * of_int b"
      using bitlen_rat_bounds(1) [OF bpos] by simp
    finally show ?thesis using bpos unfolding q by (simp add: pos_divide_less_eq)
  qed
  have il: "ilog2 q = (if 2 powi k \<le> q then k else k - 1)"
    by (simp add: ilog2_def ab k_def Let_def)
  show "2 powi (ilog2 q) \<le> q" using lo by (simp add: il)
  show "q < 2 powi (ilog2 q + 1)" using hi by (simp add: il)
qed

lemma ilog2_unique:
  assumes "2 powi k \<le> q" "q < 2 powi (k + 1)"
  shows "ilog2 q = k"
proof -
  have qpos: "0 < q" using assms(1) powi2_pos [of k] by linarith
  note b = ilog2_bounds [OF qpos]
  have "2 powi k < (2::rat) powi (ilog2 q + 1)" using assms(1) b(2) by linarith
  moreover have "2 powi (ilog2 q) < (2::rat) powi (k + 1)" using assms(2) b(1) by linarith
  ultimately show ?thesis by simp
qed

lemma round_even_diff: "\<bar>of_int (round_even y) - y\<bar> \<le> 1 / 2"
proof -
  have "of_int \<lfloor>y\<rfloor> \<le> y" "y < of_int \<lfloor>y\<rfloor> + 1" by linarith+
  then show ?thesis by (auto simp: round_even_def Let_def)
qed

lemma round_even_of_int [simp]: "round_even (of_int n) = n"
  by (simp add: round_even_def)

lemma round_even_le_int: "y \<le> of_int n \<Longrightarrow> round_even y \<le> n"
proof -
  assume le: "y \<le> of_int n"
  show ?thesis
  proof (cases "y = of_int n")
    case True then show ?thesis by simp
  next
    case False
    with le have "y < of_int n" by simp
    then have "\<lfloor>y\<rfloor> < n" by (simp add: floor_less_iff)
    moreover have "round_even y \<le> \<lfloor>y\<rfloor> + 1" by (simp add: round_even_def Let_def)
    ultimately show ?thesis by linarith
  qed
qed

lemma round_even_ge_int: "of_int n \<le> y \<Longrightarrow> n \<le> round_even y"
proof -
  assume "of_int n \<le> y"
  then have "n \<le> \<lfloor>y\<rfloor>" by (simp add: le_floor_iff)
  moreover have "\<lfloor>y\<rfloor> \<le> round_even y" by (simp add: round_even_def Let_def)
  ultimately show ?thesis by linarith
qed

lemma round_even_mono: "x \<le> y \<Longrightarrow> round_even x \<le> round_even y"
proof -
  assume le: "x \<le> y"
  have fl: "\<lfloor>x\<rfloor> \<le> \<lfloor>y\<rfloor>" using le by (rule floor_mono)
  show ?thesis
  proof (cases "\<lfloor>x\<rfloor> = \<lfloor>y\<rfloor>")
    case True
    then show ?thesis using le by (auto simp: round_even_def Let_def)
  next
    case False
    with fl have "\<lfloor>x\<rfloor> + 1 \<le> \<lfloor>y\<rfloor>" by linarith
    moreover have "round_even x \<le> \<lfloor>x\<rfloor> + 1" by (simp add: round_even_def Let_def)
    moreover have "\<lfloor>y\<rfloor> \<le> round_even y" by (simp add: round_even_def Let_def)
    ultimately show ?thesis by linarith
  qed
qed

lemma rval_error: "\<bar>rval q - q\<bar> \<le> 2 powi (expo q - 1)"
proof -
  let ?e = "expo q"
  have "rval q - q = (of_int (round_even (q / 2 powi ?e)) - q / 2 powi ?e) * 2 powi ?e"
    by (simp add: rval_def left_diff_distrib)
  then have "\<bar>rval q - q\<bar> = \<bar>of_int (round_even (q / 2 powi ?e)) - q / 2 powi ?e\<bar> * 2 powi ?e"
    by (simp add: abs_mult)
  also have "\<dots> \<le> 1 / 2 * 2 powi ?e"
    by (rule mult_right_mono [OF round_even_diff]) simp
  also have "\<dots> = 2 powi (?e - 1)" by (simp add: powi2_diff)
  finally show ?thesis .
qed

lemma rval_le_grid:
  assumes "q \<le> of_int n * 2 powi j" "expo q \<le> j"
  shows "rval q \<le> of_int n * 2 powi j"
proof -
  let ?e = "expo q"
  have g: "of_int n * (2::rat) powi j = of_int (n * 2 ^ nat (j - ?e)) * 2 powi ?e"
  proof -
    have "(2::rat) powi j = 2 powi (j - ?e) * 2 powi ?e" by (simp flip: powi2_add)
    also have "(2::rat) powi (j - ?e) = 2 ^ nat (j - ?e)"
      using assms(2) by (simp add: power_int_def)
    finally show ?thesis by simp
  qed
  have "q / 2 powi ?e \<le> of_int (n * 2 ^ nat (j - ?e))"
    using assms(1) unfolding g by (simp add: pos_divide_le_eq)
  then have "round_even (q / 2 powi ?e) \<le> n * 2 ^ nat (j - ?e)" by (rule round_even_le_int)
  then have "(of_int (round_even (q / 2 powi ?e)) :: rat) \<le> of_int (n * 2 ^ nat (j - ?e))"
    by (simp only: of_int_le_iff)
  then show ?thesis unfolding g rval_def by (rule mult_right_mono) simp
qed

lemma rval_ge_grid:
  assumes "of_int n * 2 powi j \<le> q" "expo q \<le> j"
  shows "of_int n * 2 powi j \<le> rval q"
proof -
  let ?e = "expo q"
  have g: "of_int n * (2::rat) powi j = of_int (n * 2 ^ nat (j - ?e)) * 2 powi ?e"
  proof -
    have "(2::rat) powi j = 2 powi (j - ?e) * 2 powi ?e" by (simp flip: powi2_add)
    also have "(2::rat) powi (j - ?e) = 2 ^ nat (j - ?e)"
      using assms(2) by (simp add: power_int_def)
    finally show ?thesis by simp
  qed
  have "of_int (n * 2 ^ nat (j - ?e)) \<le> q / 2 powi ?e"
    using assms(1) unfolding g by (simp add: pos_le_divide_eq)
  then have "n * 2 ^ nat (j - ?e) \<le> round_even (q / 2 powi ?e)" by (rule round_even_ge_int)
  then have "(of_int (n * 2 ^ nat (j - ?e)) :: rat) \<le> of_int (round_even (q / 2 powi ?e))"
    by (simp only: of_int_le_iff)
  then show ?thesis unfolding g rval_def by (rule mult_right_mono) simp
qed

lemma ilog2_mono:
  assumes "0 < x" "x \<le> y"
  shows "ilog2 x \<le> ilog2 y"
proof -
  have ypos: "0 < y" using assms by linarith
  have "2 powi (ilog2 x) \<le> x" by (rule ilog2_bounds(1) [OF assms(1)])
  also have "x \<le> y" by fact
  also have "y < 2 powi (ilog2 y + 1)" by (rule ilog2_bounds(2) [OF ypos])
  finally show ?thesis by simp
qed

lemma expo_mono: "0 < x \<Longrightarrow> x \<le> y \<Longrightarrow> expo x \<le> expo y"
  using ilog2_mono [of x y] by (simp add: expo_def)

lemma expo_ge: "ilog2 \<bar>q\<bar> - 52 \<le> expo q" and expo_ge_min: "- 1074 \<le> expo q"
  by (simp_all add: expo_def)

lemma rval_mono_pos:
  assumes "0 < x" "x \<le> y"
  shows "rval x \<le> rval y"
proof (cases "expo x = expo y")
  case True
  have "x / 2 powi expo y \<le> y / 2 powi expo y"
    using assms(2) by (simp add: divide_right_mono)
  then have "round_even (x / 2 powi expo y) \<le> round_even (y / 2 powi expo y)"
    by (rule round_even_mono)
  then have "(of_int (round_even (x / 2 powi expo y)) :: rat)
      \<le> of_int (round_even (y / 2 powi expo y))"
    by (simp only: of_int_le_iff)
  then show ?thesis unfolding rval_def True by (rule mult_right_mono) simp
next
  case False
  have ypos: "0 < y" using assms by linarith
  from False expo_mono [OF assms] have lt: "expo x < expo y" by linarith
  with expo_ge_min [of x] have ey: "expo y = ilog2 y - 52"
    using ypos by (simp add: expo_def max_def split: if_splits)
  let ?j = "expo y + 52"
  have "x < 2 powi (ilog2 x + 1)" by (rule ilog2_bounds(2) [OF assms(1)])
  also have "\<dots> \<le> 2 powi ?j"
    using expo_ge [of x] lt assms(1) by simp
  finally have "x \<le> of_int 1 * 2 powi ?j" by simp
  then have "rval x \<le> of_int 1 * 2 powi ?j"
    by (rule rval_le_grid) (use lt in simp)
  also have "of_int 1 * 2 powi ?j \<le> rval y"
  proof (rule rval_ge_grid)
    show "of_int 1 * 2 powi ?j \<le> y"
      using ilog2_bounds(1) [OF ypos] by (simp add: ey)
  qed simp
  finally show ?thesis .
qed

lemma round_even_eqI:
  assumes "\<bar>of_int m - y\<bar> < 1 / 2"
  shows "round_even y = m"
proof -
  have "\<bar>(of_int (round_even y) :: rat) - of_int m\<bar> < 1"
    using round_even_diff [of y] assms by linarith
  then have "\<bar>(of_int (round_even y - m) :: rat)\<bar> < of_int 1" by simp
  then have "\<bar>round_even y - m\<bar> < 1" by (simp only: of_int_abs [symmetric] of_int_less_iff)
  then show ?thesis by linarith
qed

lemma round_even_tie:
  assumes "y = of_int m + 1 / 2 \<or> y = of_int m - 1 / 2" "even m"
  shows "round_even y = m"
proof -
  from assms(1) show ?thesis
  proof
    assume y: "y = of_int m + 1 / 2"
    have "\<lfloor>y\<rfloor> = m" unfolding y by (simp add: floor_eq_iff)
    then show ?thesis using assms(2) by (simp add: round_even_def Let_def y)
  next
    assume y: "y = of_int m - 1 / 2"
    have "\<lfloor>y\<rfloor> = m - 1" unfolding y by (simp add: floor_eq_iff)
    then show ?thesis using assms(2) by (simp add: round_even_def Let_def y)
  qed
qed

lemma expo_normal:
  assumes "2 powi k \<le> \<bar>q\<bar>" "\<bar>q\<bar> < 2 powi (k + 1)" "- 1022 \<le> k"
  shows "expo q = k - 52"
  using ilog2_unique [OF assms(1,2)] assms(3) by (simp add: expo_def)

lemma rnd_normal_eq:
  assumes "2 powi k \<le> \<bar>q\<bar>" "\<bar>q\<bar> < 2 powi (k + 1)" "- 1022 \<le> k" "k \<le> 1023"
    and "round_even (q / 2 powi (k - 52)) = m" "\<bar>m\<bar> < 2 ^ 53"
  shows "rnd q = Finite (of_int m * 2 powi (k - 52))"
proof -
  have e: "expo q = k - 52" by (rule expo_normal [OF assms(1-3)])
  from assms(5) have r: "rval q = of_int m * 2 powi (k - 52)" by (simp add: rval_def e)
  have "(of_int \<bar>m\<bar> :: rat) < of_int (2 ^ 53)" using assms(6) by (simp only: of_int_less_iff)
  then have "\<bar>of_int m :: rat\<bar> < 2 powi 53" by simp
  then have "\<bar>rval q\<bar> < 2 powi 53 * 2 powi (k - 52)"
    unfolding r abs_mult by (simp add: mult_strict_right_mono)
  also have "\<dots> = 2 powi (53 + (k - 52))" by (rule powi2_add [symmetric])
  also have "\<dots> \<le> 2 powi 1024" using assms(4) by (simp only: powi2_le_iff)
  finally show ?thesis by (simp add: rnd_def r)
qed

lemma rnd_normal_near:
  assumes "2 powi k \<le> \<bar>q\<bar>" "\<bar>q\<bar> < 2 powi (k + 1)" "- 1022 \<le> k" "k \<le> 1023"
    and "\<bar>of_int m - q / 2 powi (k - 52)\<bar> < 1 / 2" "\<bar>m\<bar> < 2 ^ 53"
  shows "rnd q = Finite (of_int m * 2 powi (k - 52))"
  by (rule rnd_normal_eq [OF assms(1-4) round_even_eqI [OF assms(5)] assms(6)])

lemma rnd_normal_tie:
  assumes "2 powi k \<le> \<bar>q\<bar>" "\<bar>q\<bar> < 2 powi (k + 1)" "- 1022 \<le> k" "k \<le> 1023"
    and "q / 2 powi (k - 52) = of_int m + 1 / 2 \<or> q / 2 powi (k - 52) = of_int m - 1 / 2"
    and "even m" "\<bar>m\<bar> < 2 ^ 53"
  shows "rnd q = Finite (of_int m * 2 powi (k - 52))"
  by (rule rnd_normal_eq [OF assms(1-4) round_even_tie [OF assms(5,6)] assms(7)])

lemma ilog2_less:
  assumes "0 < q" "q < 2 powi k"
  shows "ilog2 q < k"
proof -
  have "2 powi (ilog2 q) < (2::rat) powi k"
    using ilog2_bounds(1) [OF assms(1)] assms(2) by linarith
  then show ?thesis by simp
qed

lemma rval_0 [simp]: "rval 0 = 0"
  using round_even_of_int [of 0] by (simp add: rval_def)

lemma rval_of_int:
  assumes "\<bar>n\<bar> < 2 ^ 53"
  shows "rval (of_int n) = of_int n"
proof (cases "n = 0")
  case True then show ?thesis by simp
next
  case False
  have "(of_int \<bar>n\<bar> :: rat) < of_int (2 ^ 53)" using assms by (simp only: of_int_less_iff)
  then have "\<bar>of_int n :: rat\<bar> < 2 powi 53" by simp
  moreover have "0 < \<bar>of_int n :: rat\<bar>" using False by simp
  ultimately have "ilog2 \<bar>of_int n :: rat\<bar> < 53" by (intro ilog2_less)
  then have e: "expo (of_int n) \<le> 0" by (simp add: expo_def)
  have "rval (of_int n) \<le> of_int n * 2 powi 0"
    by (rule rval_le_grid) (use e in simp_all)
  moreover have "of_int n * 2 powi 0 \<le> rval (of_int n)"
    by (rule rval_ge_grid) (use e in simp_all)
  ultimately show ?thesis by simp
qed

lemma rnd_of_int:
  assumes "\<bar>n\<bar> < 2 ^ 53"
  shows "rnd (of_int n) = Finite (of_int n)"
proof -
  have "(of_int \<bar>n\<bar> :: rat) < of_int (2 ^ 53)" using assms by (simp only: of_int_less_iff)
  then have "\<bar>of_int n :: rat\<bar> < 2 powi 53" by simp
  also have "(2::rat) powi 53 \<le> 2 powi 1024" by (simp only: powi2_le_iff)
  finally show ?thesis by (simp add: rnd_def rval_of_int [OF assms])
qed

lemma rnd_0 [simp]: "rnd 0 = Finite 0"
  using rnd_of_int [of 0] by simp

lemma rnd_1 [simp]: "rnd 1 = Finite 1"
  using rnd_of_int [of 1] by simp

lemma rnd_numeral [simp]:
  "numeral w < (9007199254740992::int) \<Longrightarrow> rnd (numeral w) = Finite (numeral w)"
  using rnd_of_int [of "numeral w"] by simp


lemma js_round_eqI:
  assumes "of_int n \<le> x + 1 / 2" "x + 1 / 2 < of_int n + 1"
  shows "js_round (Finite x) = Finite (of_int n)"
proof -
  have "\<lfloor>x + 1 / 2\<rfloor> = n" using assms by (simp add: floor_eq_iff)
  then show ?thesis by simp
qed

lemma js_ceil_eqI:
  assumes "of_int n - 1 < x" "x \<le> of_int n"
  shows "js_ceil (Finite x) = Finite (of_int n)"
proof -
  have "\<lceil>x\<rceil> = n" using assms by (simp add: ceiling_eq_iff)
  then show ?thesis by simp
qed

section \<open>Order and monotonicity\<close>

lemma fge_Finite [simp]: "fge (Finite x) (Finite y) \<longleftrightarrow> y \<le> x"
  by (auto simp: fge_def)

lemma fge_not_flt: "fge a b \<Longrightarrow> \<not> flt a b"
  by (cases a; cases b) (auto simp: fge_def)

lemma flt_not_fge: "flt a b \<Longrightarrow> \<not> fge a b"
  by (cases a; cases b) (auto simp: fge_def)

lemma fge_not_NaN: "fge a b \<Longrightarrow> a \<noteq> NaN"
  by (cases b) (auto simp: fge_def)

lemma fge_Finite_iff: "fge a (Finite c) \<longleftrightarrow> a = PosInf \<or> (\<exists>x. a = Finite x \<and> c \<le> x)"
  by (cases a) (auto simp: fge_def)

lemma rval_nonneg: "0 \<le> q \<Longrightarrow> 0 \<le> rval q"
  using rval_ge_grid [of 0 "expo q" q] by simp

lemma rval_nonpos: "q \<le> 0 \<Longrightarrow> rval q \<le> 0"
  using rval_le_grid [of q 0 "expo q"] by simp

lemma rnd_cases_pos:
  assumes "0 < q"
  obtains "rnd q = PosInf" | "rnd q = Finite (rval q)" "0 \<le> rval q" "rval q < 2 powi 1024"
  using assms rval_nonneg [of q] by (cases "2 powi 1024 \<le> \<bar>rval q\<bar>") (auto simp: rnd_def)

lemma rnd_not_NaN [simp]: "rnd q \<noteq> NaN"
  by (simp add: rnd_def)

lemma rnd_mono_pos:
  assumes "0 < x" "x \<le> y"
  shows "fge (rnd y) (rnd x)"
proof -
  have ypos: "0 < y" using assms by linarith
  have m: "rval x \<le> rval y" by (rule rval_mono_pos [OF assms])
  have nx: "0 \<le> rval x" using assms(1) by (simp add: rval_nonneg)
  show ?thesis
  proof (cases "2 powi 1024 \<le> \<bar>rval y\<bar>")
    case True
    then have y: "rnd y = PosInf" using ypos by (simp add: rnd_def)
    show ?thesis by (rule rnd_cases_pos [OF assms(1)]) (simp_all add: y fge_def)
  next
    case False
    then have "rnd y = Finite (rval y)" by (simp add: rnd_def)
    moreover have "rnd x = Finite (rval x)"
      using False m nx by (simp add: rnd_def)
    ultimately show ?thesis using m by simp
  qed
qed

lemma rnd_ge_Finite:
  assumes "0 < c" "c \<le> q" "rnd c = Finite c'"
  shows "fge (rnd q) (Finite c')"
  using rnd_mono_pos [OF assms(1,2)] by (simp add: assms(3))

section \<open>Unfolding the scheduler and the review handler\<close>

lemma sm2_unfold:
  "sm2 ev quality state =
     (case setDate_getDate_plus ev (next_intervalDays quality state) of
        None \<Rightarrow> Inl RangeError
      | Some u \<Rightarrow>
          Inr \<lparr>repetitions = next_repetitions quality state,
               easeFactor = next_easeFactor quality state,
               intervalDays = next_intervalDays quality state,
               nextReviewAt = u\<rparr>)"
  by (simp add: sm2_def next_repetitions_def next_intervalDays_def next_easeFactor_def
      ease_delta_def clamp_ease_def round2_def toISOString_def Let_def split: option.splits)

lemma sm2_fields:
  assumes "sm2 ev quality state = Inr s'"
  shows "repetitions s' = next_repetitions quality state"
    and "easeFactor s' = next_easeFactor quality state"
    and "intervalDays s' = next_intervalDays quality state"
    and "setDate_getDate_plus ev (next_intervalDays quality state) = Some (nextReviewAt s')"
  using assms by (auto simp: sm2_unfold split: option.splits)

lemma sm2_returns:
  assumes "setDate_getDate_plus ev (next_intervalDays quality state) = Some u"
  shows "\<exists>s'. sm2 ev quality state = Inr s'"
  using assms by (simp add: sm2_unfold)

lemma sm2_throws:
  "sm2 ev quality state = Inl e \<longleftrightarrow>
     e = RangeError \<and> setDate_getDate_plus ev (next_intervalDays quality state) = None"
  by (auto simp: sm2_unfold split: option.splits)

text \<open>The interval that \<open>sm2\<close> hands to \<^verbatim>\<open>setDate\<close> is integral whenever it is finite.\<close>

lemma next_intervalDays_integral:
  assumes "next_intervalDays quality state = Finite x"
  shows "of_int \<lfloor>x\<rfloor> = x"
proof -
  have "js_ceil a = Finite x \<Longrightarrow> of_int \<lfloor>x\<rfloor> = x" for a
    by (cases a) auto
  then show ?thesis
    using assms by (auto simp: next_intervalDays_def split: if_splits)
qed

lemma loadDueWords_online:
  assumes "online (store p)"
  shows "dueWords (sess (loadDueWords ev p))
           = sort_key w_next_review_at
               (filter (\<lambda>r. w_next_review_at r \<le> clock ev) (rows (store p)))"
  using assms by (simp add: loadDueWords_def getDueWords_def Let_def)

lemma handleReview_unfold:
  assumes "currentWord (sess p) = Some cw" "sm2 ev quality (state_of_word cw) = Inr ns"
  shows "handleReview ev quality p =
     (case updateWord (store p) (w_id cw) (review_updates quality ns) of
        (Inr row, store') \<Rightarrow>
           Inr (p\<lparr>store := store',
                  sess := (if currentIndex (sess p) + 1 < length (dueWords (sess p))
                           then (sess p)\<lparr>reviewed := reviewed (sess p) + 1, revealed := False,
                                         currentIndex := currentIndex (sess p) + 1\<rparr>
                           else (sess p)\<lparr>reviewed := reviewed (sess p) + 1, revealed := False,
                                         sessionComplete := True\<rparr>)\<rparr>)
      | (Inl e, store') \<Rightarrow>
           Inr (p\<lparr>store := store', console := console p @ [''Failed to update word:'']\<rparr>))"
  using assms
  by (simp add: handleReview_def state_of_word_def review_updates_def Let_def
      split: prod.splits sum.splits)

lemma updateWord_calls:
  "calls (snd (updateWord b i u)) = calls b @ [(i, u)]"
  by (simp add: updateWord_def Let_def split: list.splits)

lemma updateWord_fails_rows:
  "fst (updateWord b i u) = Inl e \<Longrightarrow> rows (snd (updateWord b i u)) = rows b"
  by (auto simp: updateWord_def Let_def split: list.splits if_splits)

lemma updateWord_succeeds:
  assumes "online b" "filter (\<lambda>r. w_id r = i) (rows b) = [r]"
  shows "updateWord b i u =
     (Inr (apply_updates u r),
      b\<lparr>calls := calls b @ [(i, u)],
        rows := map (\<lambda>r. if w_id r = i then apply_updates u r else r) (rows b)\<rparr>)"
  using assms by (simp add: updateWord_def Let_def)

lemma offline_update_fails:
  "fst (updateWord (store offline_page) i u) = Inl (StoreError ''fetch failed'')"
  by (simp add: updateWord_def offline_page_def Let_def)

lemma demo_current:
  "currentWord (sess demo_page) = Some due_word"
  "currentWord (sess offline_page) = Some due_word"
  by (simp_all add: currentWord_def demo_page_def offline_page_def demo_session_def)

lemma demo_state_of_word: "state_of_word (demo_word i t) = demo_state\<lparr>nextReviewAt := t\<rparr>"
  by (simp add: state_of_word_def demo_word_def demo_state_def)

lemma demo_interval:
  "next_intervalDays (Finite 5) (demo_state\<lparr>nextReviewAt := t\<rparr>) = Finite 1"
  by (simp add: next_intervalDays_def demo_state_def)

lemma demo_repetitions:
  "next_repetitions (Finite 5) (demo_state\<lparr>nextReviewAt := t\<rparr>) = Finite 1"
  by (simp add: next_repetitions_def demo_state_def)

section \<open>The arithmetic at concrete inputs\<close>

text \<open>Each step names the binary exponent and the significand of the rounded result.\<close>

lemma lit_5: "rnd 5 = Finite 5"
  by (simp)

lemma calc_1: "fsub (Finite 5) (Finite 5) = Finite 0"
  by (simp add: fsub_def)

lemma lit_2_100: "rnd (2 / 100) = Finite (5764607523034235 / 288230376151711744)"
  by (rule rnd_normal_near [where k = "-6" and m = "5764607523034235", THEN trans]) simp_all

lemma calc_2: "fmul (Finite 0) (Finite (5764607523034235 / 288230376151711744)) = Finite 0"
  by (simp)

lemma lit_8_100: "rnd (8 / 100) = Finite (5764607523034235 / 72057594037927936)"
  by (rule rnd_normal_near [where k = "-4" and m = "5764607523034235", THEN trans]) simp_all

lemma calc_3: "fadd (Finite (5764607523034235 / 72057594037927936)) (Finite 0) = Finite (5764607523034235 / 72057594037927936)"
proof -
  have "rnd ((5764607523034235 / 72057594037927936) + 0) = Finite (5764607523034235 / 72057594037927936)"
    by (rule rnd_normal_near [where k = "-4" and m = "5764607523034235", THEN trans]) simp_all
  then show ?thesis by (simp)
qed

lemma calc_4: "fmul (Finite 0) (Finite (5764607523034235 / 72057594037927936)) = Finite 0"
  by (simp)

lemma lit_1_10: "rnd (1 / 10) = Finite (3602879701896397 / 36028797018963968)"
  by (rule rnd_normal_near [where k = "-4" and m = "7205759403792794", THEN trans]) simp_all

lemma calc_5: "fsub (Finite (3602879701896397 / 36028797018963968)) (Finite 0) = Finite (3602879701896397 / 36028797018963968)"
proof -
  have "rnd ((3602879701896397 / 36028797018963968) - 0) = Finite (3602879701896397 / 36028797018963968)"
    by (rule rnd_normal_near [where k = "-4" and m = "7205759403792794", THEN trans]) simp_all
  then show ?thesis by (simp add: fsub_def)
qed

lemma ease_delta_5: "ease_delta (Finite 5) = Finite (3602879701896397 / 36028797018963968)"
  by (simp only: ease_delta_def lit_5 calc_1 lit_2_100 calc_2 lit_8_100 calc_3 calc_4 lit_1_10 calc_5)

lemma calc_6: "fsub (Finite 5) (Finite 3) = Finite 2"
  by (simp add: fsub_def)

lemma calc_7: "fmul (Finite 2) (Finite (5764607523034235 / 288230376151711744)) = Finite (5764607523034235 / 144115188075855872)"
proof -
  have "rnd (2 * (5764607523034235 / 288230376151711744)) = Finite (5764607523034235 / 144115188075855872)"
    by (rule rnd_normal_near [where k = "-5" and m = "5764607523034235", THEN trans]) simp_all
  then show ?thesis by (simp)
qed

lemma calc_8: "fadd (Finite (5764607523034235 / 72057594037927936)) (Finite (5764607523034235 / 144115188075855872)) = Finite (1080863910568919 / 9007199254740992)"
proof -
  have "rnd ((5764607523034235 / 72057594037927936) + (5764607523034235 / 144115188075855872)) = Finite (1080863910568919 / 9007199254740992)"
    by (rule rnd_normal_tie [where k = "-4" and m = "8646911284551352", THEN trans]) simp_all
  then show ?thesis by (simp)
qed

lemma calc_9: "fmul (Finite 2) (Finite (1080863910568919 / 9007199254740992)) = Finite (1080863910568919 / 4503599627370496)"
proof -
  have "rnd (2 * (1080863910568919 / 9007199254740992)) = Finite (1080863910568919 / 4503599627370496)"
    by (rule rnd_normal_near [where k = "-3" and m = "8646911284551352", THEN trans]) simp_all
  then show ?thesis by (simp)
qed

lemma calc_10: "fsub (Finite (3602879701896397 / 36028797018963968)) (Finite (1080863910568919 / 4503599627370496)) = Finite (- (5044031582654955 / 36028797018963968))"
proof -
  have "rnd ((3602879701896397 / 36028797018963968) - (1080863910568919 / 4503599627370496)) = Finite (- (5044031582654955 / 36028797018963968))"
    by (rule rnd_normal_near [where k = "-3" and m = "-5044031582654955", THEN trans]) simp_all
  then show ?thesis by (simp add: fsub_def)
qed

lemma ease_delta_3: "ease_delta (Finite 3) = Finite (- (5044031582654955 / 36028797018963968))"
  by (simp only: ease_delta_def lit_5 calc_1 lit_2_100 calc_2 lit_8_100 calc_3 calc_4 lit_1_10 calc_5 ease_delta_5 calc_6 calc_7 calc_8 calc_9 calc_10)

lemma calc_11: "fsub (Finite 5) (Finite 1) = Finite 4"
  by (simp add: fsub_def)

lemma calc_12: "fmul (Finite 4) (Finite (5764607523034235 / 288230376151711744)) = Finite (5764607523034235 / 72057594037927936)"
proof -
  have "rnd (4 * (5764607523034235 / 288230376151711744)) = Finite (5764607523034235 / 72057594037927936)"
    by (rule rnd_normal_near [where k = "-4" and m = "5764607523034235", THEN trans]) simp_all
  then show ?thesis by (simp)
qed

lemma calc_13: "fadd (Finite (5764607523034235 / 72057594037927936)) (Finite (5764607523034235 / 72057594037927936)) = Finite (5764607523034235 / 36028797018963968)"
proof -
  have "rnd ((5764607523034235 / 72057594037927936) + (5764607523034235 / 72057594037927936)) = Finite (5764607523034235 / 36028797018963968)"
    by (rule rnd_normal_near [where k = "-3" and m = "5764607523034235", THEN trans]) simp_all
  then show ?thesis by (simp)
qed

lemma calc_14: "fmul (Finite 4) (Finite (5764607523034235 / 36028797018963968)) = Finite (5764607523034235 / 9007199254740992)"
proof -
  have "rnd (4 * (5764607523034235 / 36028797018963968)) = Finite (5764607523034235 / 9007199254740992)"
    by (rule rnd_normal_near [where k = "-1" and m = "5764607523034235", THEN trans]) simp_all
  then show ?thesis by (simp)
qed

lemma calc_15: "fsub (Finite (3602879701896397 / 36028797018963968)) (Finite (5764607523034235 / 9007199254740992)) = Finite (- (607985949695017 / 1125899906842624))"
proof -
  have "rnd ((3602879701896397 / 36028797018963968) - (5764607523034235 / 9007199254740992)) = Finite (- (607985949695017 / 1125899906842624))"
    by (rule rnd_normal_near [where k = "-1" and m = "-4863887597560136", THEN trans]) simp_all
  then show ?thesis by (simp add: fsub_def)
qed

lemma ease_delta_1: "ease_delta (Finite 1) = Finite (- (607985949695017 / 1125899906842624))"
  by (simp only: ease_delta_def lit_5 calc_1 lit_2_100 calc_2 lit_8_100 calc_3 calc_4 lit_1_10 calc_5 ease_delta_5 calc_6 calc_7 calc_8 calc_9 calc_10 ease_delta_3 calc_11 calc_12 calc_13 calc_14 calc_15)

lemma calc_16: "fsub (Finite 5) (Finite 4) = Finite 1"
  by (simp add: fsub_def)

lemma calc_17: "fmul (Finite 1) (Finite (5764607523034235 / 288230376151711744)) = Finite (5764607523034235 / 288230376151711744)"
proof -
  have "rnd (1 * (5764607523034235 / 288230376151711744)) = Finite (5764607523034235 / 288230376151711744)"
    by (rule rnd_normal_near [where k = "-6" and m = "5764607523034235", THEN trans]) simp_all
  then show ?thesis by (simp)
qed

lemma calc_18: "fadd (Finite (5764607523034235 / 72057594037927936)) (Finite (5764607523034235 / 288230376151711744)) = Finite (3602879701896397 / 36028797018963968)"
proof -
  have "rnd ((5764607523034235 / 72057594037927936) + (5764607523034235 / 288230376151711744)) = Finite (3602879701896397 / 36028797018963968)"
    by (rule rnd_normal_near [where k = "-4" and m = "7205759403792794", THEN trans]) simp_all
  then show ?thesis by (simp)
qed

lemma calc_19: "fmul (Finite 1) (Finite (3602879701896397 / 36028797018963968)) = Finite (3602879701896397 / 36028797018963968)"
proof -
  have "rnd (1 * (3602879701896397 / 36028797018963968)) = Finite (3602879701896397 / 36028797018963968)"
    by (rule rnd_normal_near [where k = "-4" and m = "7205759403792794", THEN trans]) simp_all
  then show ?thesis by (simp)
qed

lemma calc_20: "fsub (Finite (3602879701896397 / 36028797018963968)) (Finite (3602879701896397 / 36028797018963968)) = Finite 0"
  by (simp add: fsub_def)

lemma ease_delta_4: "ease_delta (Finite 4) = Finite 0"
  by (simp only: ease_delta_def lit_5 calc_1 lit_2_100 calc_2 lit_8_100 calc_3 calc_4 lit_1_10 calc_5 ease_delta_5 calc_6 calc_7 calc_8 calc_9 calc_10 ease_delta_3 calc_11 calc_12 calc_13 calc_14 calc_15 ease_delta_1 calc_16 calc_17 calc_18 calc_19 calc_20)

lemma calc_21: "fsub (Finite 5) (Finite 2) = Finite 3"
  by (simp add: fsub_def)

lemma calc_22: "fmul (Finite 3) (Finite (5764607523034235 / 288230376151711744)) = Finite (1080863910568919 / 18014398509481984)"
proof -
  have "rnd (3 * (5764607523034235 / 288230376151711744)) = Finite (1080863910568919 / 18014398509481984)"
    by (rule rnd_normal_tie [where k = "-5" and m = "8646911284551352", THEN trans]) simp_all
  then show ?thesis by (simp)
qed

lemma calc_23: "fadd (Finite (5764607523034235 / 72057594037927936)) (Finite (1080863910568919 / 18014398509481984)) = Finite (1261007895663739 / 9007199254740992)"
proof -
  have "rnd ((5764607523034235 / 72057594037927936) + (1080863910568919 / 18014398509481984)) = Finite (1261007895663739 / 9007199254740992)"
    by (rule rnd_normal_tie [where k = "-3" and m = "5044031582654956", THEN trans]) simp_all
  then show ?thesis by (simp)
qed

lemma calc_24: "fmul (Finite 3) (Finite (1261007895663739 / 9007199254740992)) = Finite (3783023686991217 / 9007199254740992)"
proof -
  have "rnd (3 * (1261007895663739 / 9007199254740992)) = Finite (3783023686991217 / 9007199254740992)"
    by (rule rnd_normal_near [where k = "-2" and m = "7566047373982434", THEN trans]) simp_all
  then show ?thesis by (simp)
qed

lemma calc_25: "fsub (Finite (3602879701896397 / 36028797018963968)) (Finite (3783023686991217 / 9007199254740992)) = Finite (- (1441151880758559 / 4503599627370496))"
proof -
  have "rnd ((3602879701896397 / 36028797018963968) - (3783023686991217 / 9007199254740992)) = Finite (- (1441151880758559 / 4503599627370496))"
    by (rule rnd_normal_tie [where k = "-2" and m = "-5764607523034236", THEN trans]) simp_all
  then show ?thesis by (simp add: fsub_def)
qed

lemma ease_delta_2: "ease_delta (Finite 2) = Finite (- (1441151880758559 / 4503599627370496))"
  by (simp only: ease_delta_def lit_5 calc_1 lit_2_100 calc_2 lit_8_100 calc_3 calc_4 lit_1_10 calc_5 ease_delta_5 calc_6 calc_7 calc_8 calc_9 calc_10 ease_delta_3 calc_11 calc_12 calc_13 calc_14 calc_15 ease_delta_1 calc_16 calc_17 calc_18 calc_19 calc_20 ease_delta_4 calc_21 calc_22 calc_23 calc_24 calc_25)

lemma calc_26: "fsub (Finite 5) (Finite 0) = Finite 5"
  by (simp add: fsub_def)

lemma calc_27: "fmul (Finite 5) (Finite (5764607523034235 / 288230376151711744)) = Finite (3602879701896397 / 36028797018963968)"
proof -
  have "rnd (5 * (5764607523034235 / 288230376151711744)) = Finite (3602879701896397 / 36028797018963968)"
    by (rule rnd_normal_near [where k = "-4" and m = "7205759403792794", THEN trans]) simp_all
  then show ?thesis by (simp)
qed

lemma calc_28: "fadd (Finite (5764607523034235 / 72057594037927936)) (Finite (3602879701896397 / 36028797018963968)) = Finite (3242591731706757 / 18014398509481984)"
proof -
  have "rnd ((5764607523034235 / 72057594037927936) + (3602879701896397 / 36028797018963968)) = Finite (3242591731706757 / 18014398509481984)"
    by (rule rnd_normal_tie [where k = "-3" and m = "6485183463413514", THEN trans]) simp_all
  then show ?thesis by (simp)
qed

lemma calc_29: "fmul (Finite 5) (Finite (3242591731706757 / 18014398509481984)) = Finite (2026619832316723 / 2251799813685248)"
proof -
  have "rnd (5 * (3242591731706757 / 18014398509481984)) = Finite (2026619832316723 / 2251799813685248)"
    by (rule rnd_normal_tie [where k = "-1" and m = "8106479329266892", THEN trans]) simp_all
  then show ?thesis by (simp)
qed

lemma calc_30: "fsub (Finite (3602879701896397 / 36028797018963968)) (Finite (2026619832316723 / 2251799813685248)) = Finite (- (7205759403792793 / 9007199254740992))"
proof -
  have "rnd ((3602879701896397 / 36028797018963968) - (2026619832316723 / 2251799813685248)) = Finite (- (7205759403792793 / 9007199254740992))"
    by (rule rnd_normal_near [where k = "-1" and m = "-7205759403792793", THEN trans]) simp_all
  then show ?thesis by (simp add: fsub_def)
qed

lemma ease_delta_0: "ease_delta (Finite 0) = Finite (- (7205759403792793 / 9007199254740992))"
  by (simp only: ease_delta_def lit_5 calc_1 lit_2_100 calc_2 lit_8_100 calc_3 calc_4 lit_1_10 calc_5 ease_delta_5 calc_6 calc_7 calc_8 calc_9 calc_10 ease_delta_3 calc_11 calc_12 calc_13 calc_14 calc_15 ease_delta_1 calc_16 calc_17 calc_18 calc_19 calc_20 ease_delta_4 calc_21 calc_22 calc_23 calc_24 calc_25 ease_delta_2 calc_26 calc_27 calc_28 calc_29 calc_30)

lemma calc_31: "fadd (Finite (5 / 2)) (Finite (3602879701896397 / 36028797018963968)) = Finite (5854679515581645 / 2251799813685248)"
proof -
  have "rnd ((5 / 2) + (3602879701896397 / 36028797018963968)) = Finite (5854679515581645 / 2251799813685248)"
    by (rule rnd_normal_near [where k = "1" and m = "5854679515581645", THEN trans]) simp_all
  then show ?thesis by (simp)
qed

lemma lit_13_10: "rnd (13 / 10) = Finite (5854679515581645 / 4503599627370496)"
  by (rule rnd_normal_near [where k = "0" and m = "5854679515581645", THEN trans]) simp_all

lemma calc_32: "clamp_ease (Finite (5854679515581645 / 2251799813685248)) = Finite (5854679515581645 / 2251799813685248)"
  by (simp add: clamp_ease_def lit_13_10)

lemma lit_100: "rnd 100 = Finite 100"
  by (simp)

lemma calc_33: "fmul (Finite (5854679515581645 / 2251799813685248)) (Finite 100) = Finite 260"
proof -
  have "rnd ((5854679515581645 / 2251799813685248) * 100) = Finite (260)"
    by (rule rnd_normal_near [where k = "8" and m = "4573968371548160", THEN trans]) simp_all
  then show ?thesis by (simp)
qed

lemma calc_34: "js_round (Finite 260) = Finite 260"
  by (rule js_round_eqI [where n = "260", THEN trans]) simp_all

lemma calc_35: "fdiv (Finite 260) (Finite 100) = Finite (5854679515581645 / 2251799813685248)"
proof -
  have "rnd (260 / 100) = Finite (5854679515581645 / 2251799813685248)"
    by (rule rnd_normal_near [where k = "1" and m = "5854679515581645", THEN trans]) simp_all
  then show ?thesis by (simp)
qed

lemma calc_36: "round2 (Finite (5854679515581645 / 2251799813685248)) = Finite (5854679515581645 / 2251799813685248)"
  by (simp only: round2_def lit_5 calc_1 lit_2_100 calc_2 lit_8_100 calc_3 calc_4 lit_1_10 calc_5 ease_delta_5 calc_6 calc_7 calc_8 calc_9 calc_10 ease_delta_3 calc_11 calc_12 calc_13 calc_14 calc_15 ease_delta_1 calc_16 calc_17 calc_18 calc_19 calc_20 ease_delta_4 calc_21 calc_22 calc_23 calc_24 calc_25 ease_delta_2 calc_26 calc_27 calc_28 calc_29 calc_30 ease_delta_0 calc_31 lit_13_10 calc_32 lit_100 calc_33 calc_34 calc_35)

lemma ease_after_first: "round2 (clamp_ease (fadd (Finite (5 / 2)) (ease_delta (Finite 5)))) = Finite (5854679515581645 / 2251799813685248)"
  by (simp only: lit_5 calc_1 lit_2_100 calc_2 lit_8_100 calc_3 calc_4 lit_1_10 calc_5 ease_delta_5 calc_6 calc_7 calc_8 calc_9 calc_10 ease_delta_3 calc_11 calc_12 calc_13 calc_14 calc_15 ease_delta_1 calc_16 calc_17 calc_18 calc_19 calc_20 ease_delta_4 calc_21 calc_22 calc_23 calc_24 calc_25 ease_delta_2 calc_26 calc_27 calc_28 calc_29 calc_30 ease_delta_0 calc_31 lit_13_10 calc_32 lit_100 calc_33 calc_34 calc_35 calc_36)

lemma floor_times_100: "fmul (Finite (5854679515581645 / 4503599627370496)) (Finite 100) = Finite 130"
proof -
  have "rnd ((5854679515581645 / 4503599627370496) * 100) = Finite (130)"
    by (rule rnd_normal_near [where k = "7" and m = "4573968371548160", THEN trans]) simp_all
  then show ?thesis by (simp)
qed

lemma calc_37: "js_round (Finite 130) = Finite 130"
  by (rule js_round_eqI [where n = "130", THEN trans]) simp_all

lemma floor_from_130: "fdiv (Finite 130) (Finite 100) = Finite (5854679515581645 / 4503599627370496)"
proof -
  have "rnd (130 / 100) = Finite (5854679515581645 / 4503599627370496)"
    by (rule rnd_normal_near [where k = "0" and m = "5854679515581645", THEN trans]) simp_all
  then show ?thesis by (simp)
qed

lemma round2_floor: "round2 (Finite (5854679515581645 / 4503599627370496)) = Finite (5854679515581645 / 4503599627370496)"
  by (simp only: round2_def lit_5 calc_1 lit_2_100 calc_2 lit_8_100 calc_3 calc_4 lit_1_10 calc_5 ease_delta_5 calc_6 calc_7 calc_8 calc_9 calc_10 ease_delta_3 calc_11 calc_12 calc_13 calc_14 calc_15 ease_delta_1 calc_16 calc_17 calc_18 calc_19 calc_20 ease_delta_4 calc_21 calc_22 calc_23 calc_24 calc_25 ease_delta_2 calc_26 calc_27 calc_28 calc_29 calc_30 ease_delta_0 calc_31 lit_13_10 calc_32 lit_100 calc_33 calc_34 calc_35 calc_36 ease_after_first floor_times_100 calc_37 floor_from_130)

lemma calc_38: "fadd (Finite 2) (Finite (- (607985949695017 / 1125899906842624))) = Finite (1643813863990231 / 1125899906842624)"
proof -
  have "rnd (2 + (- (607985949695017 / 1125899906842624))) = Finite (1643813863990231 / 1125899906842624)"
    by (rule rnd_normal_near [where k = "0" and m = "6575255455960924", THEN trans]) simp_all
  then show ?thesis by (simp)
qed

lemma calc_39: "clamp_ease (Finite (1643813863990231 / 1125899906842624)) = Finite (1643813863990231 / 1125899906842624)"
  by (simp add: clamp_ease_def lit_13_10)

lemma calc_40: "fmul (Finite (1643813863990231 / 1125899906842624)) (Finite 100) = Finite 146"
proof -
  have "rnd ((1643813863990231 / 1125899906842624) * 100) = Finite (146)"
    by (rule rnd_normal_near [where k = "7" and m = "5136918324969472", THEN trans]) simp_all
  then show ?thesis by (simp)
qed

lemma calc_41: "js_round (Finite 146) = Finite 146"
  by (rule js_round_eqI [where n = "146", THEN trans]) simp_all

lemma calc_42: "fdiv (Finite 146) (Finite 100) = Finite (1643813863990231 / 1125899906842624)"
proof -
  have "rnd (146 / 100) = Finite (1643813863990231 / 1125899906842624)"
    by (rule rnd_normal_near [where k = "0" and m = "6575255455960924", THEN trans]) simp_all
  then show ?thesis by (simp)
qed

lemma calc_43: "round2 (Finite (1643813863990231 / 1125899906842624)) = Finite (1643813863990231 / 1125899906842624)"
  by (simp only: round2_def lit_5 calc_1 lit_2_100 calc_2 lit_8_100 calc_3 calc_4 lit_1_10 calc_5 ease_delta_5 calc_6 calc_7 calc_8 calc_9 calc_10 ease_delta_3 calc_11 calc_12 calc_13 calc_14 calc_15 ease_delta_1 calc_16 calc_17 calc_18 calc_19 calc_20 ease_delta_4 calc_21 calc_22 calc_23 calc_24 calc_25 ease_delta_2 calc_26 calc_27 calc_28 calc_29 calc_30 ease_delta_0 calc_31 lit_13_10 calc_32 lit_100 calc_33 calc_34 calc_35 calc_36 ease_after_first floor_times_100 calc_37 floor_from_130 round2_floor calc_38 calc_39 calc_40 calc_41 calc_42)

lemma ease_after_lapse: "round2 (clamp_ease (fadd (Finite 2) (ease_delta (Finite 1)))) = Finite (1643813863990231 / 1125899906842624)"
  by (simp only: lit_5 calc_1 lit_2_100 calc_2 lit_8_100 calc_3 calc_4 lit_1_10 calc_5 ease_delta_5 calc_6 calc_7 calc_8 calc_9 calc_10 ease_delta_3 calc_11 calc_12 calc_13 calc_14 calc_15 ease_delta_1 calc_16 calc_17 calc_18 calc_19 calc_20 ease_delta_4 calc_21 calc_22 calc_23 calc_24 calc_25 ease_delta_2 calc_26 calc_27 calc_28 calc_29 calc_30 ease_delta_0 calc_31 lit_13_10 calc_32 lit_100 calc_33 calc_34 calc_35 calc_36 ease_after_first floor_times_100 calc_37 floor_from_130 round2_floor calc_38 calc_39 calc_40 calc_41 calc_42 calc_43)

lemma calc_44: "fadd (Finite (5854679515581645 / 2251799813685248)) (Finite (3602879701896397 / 36028797018963968)) = Finite (3039929748475085 / 1125899906842624)"
proof -
  have "rnd ((5854679515581645 / 2251799813685248) + (3602879701896397 / 36028797018963968)) = Finite (3039929748475085 / 1125899906842624)"
    by (rule rnd_normal_near [where k = "1" and m = "6079859496950170", THEN trans]) simp_all
  then show ?thesis by (simp)
qed

lemma calc_45: "clamp_ease (Finite (3039929748475085 / 1125899906842624)) = Finite (3039929748475085 / 1125899906842624)"
  by (simp add: clamp_ease_def lit_13_10)

lemma calc_46: "fmul (Finite (3039929748475085 / 1125899906842624)) (Finite 100) = Finite 270"
proof -
  have "rnd ((3039929748475085 / 1125899906842624) * 100) = Finite (270)"
    by (rule rnd_normal_near [where k = "8" and m = "4749890231992320", THEN trans]) simp_all
  then show ?thesis by (simp)
qed

lemma calc_47: "js_round (Finite 270) = Finite 270"
  by (rule js_round_eqI [where n = "270", THEN trans]) simp_all

lemma calc_48: "fdiv (Finite 270) (Finite 100) = Finite (3039929748475085 / 1125899906842624)"
proof -
  have "rnd (270 / 100) = Finite (3039929748475085 / 1125899906842624)"
    by (rule rnd_normal_near [where k = "1" and m = "6079859496950170", THEN trans]) simp_all
  then show ?thesis by (simp)
qed

lemma calc_49: "round2 (Finite (3039929748475085 / 1125899906842624)) = Finite (3039929748475085 / 1125899906842624)"
  by (simp only: round2_def lit_5 calc_1 lit_2_100 calc_2 lit_8_100 calc_3 calc_4 lit_1_10 calc_5 ease_delta_5 calc_6 calc_7 calc_8 calc_9 calc_10 ease_delta_3 calc_11 calc_12 calc_13 calc_14 calc_15 ease_delta_1 calc_16 calc_17 calc_18 calc_19 calc_20 ease_delta_4 calc_21 calc_22 calc_23 calc_24 calc_25 ease_delta_2 calc_26 calc_27 calc_28 calc_29 calc_30 ease_delta_0 calc_31 lit_13_10 calc_32 lit_100 calc_33 calc_34 calc_35 calc_36 ease_after_first floor_times_100 calc_37 floor_from_130 round2_floor calc_38 calc_39 calc_40 calc_41 calc_42 calc_43 ease_after_lapse calc_44 calc_45 calc_46 calc_47 calc_48)

lemma ease_after_second: "round2 (clamp_ease (fadd (Finite (5854679515581645 / 2251799813685248)) (ease_delta (Finite 5)))) = Finite (3039929748475085 / 1125899906842624)"
  by (simp only: lit_5 calc_1 lit_2_100 calc_2 lit_8_100 calc_3 calc_4 lit_1_10 calc_5 ease_delta_5 calc_6 calc_7 calc_8 calc_9 calc_10 ease_delta_3 calc_11 calc_12 calc_13 calc_14 calc_15 ease_delta_1 calc_16 calc_17 calc_18 calc_19 calc_20 ease_delta_4 calc_21 calc_22 calc_23 calc_24 calc_25 ease_delta_2 calc_26 calc_27 calc_28 calc_29 calc_30 ease_delta_0 calc_31 lit_13_10 calc_32 lit_100 calc_33 calc_34 calc_35 calc_36 ease_after_first floor_times_100 calc_37 floor_from_130 round2_floor calc_38 calc_39 calc_40 calc_41 calc_42 calc_43 ease_after_lapse calc_44 calc_45 calc_46 calc_47 calc_48 calc_49)

lemma third_product: "fmul (Finite 6) (Finite (3039929748475085 / 1125899906842624)) = Finite (1139973655678157 / 70368744177664)"
proof -
  have "rnd (6 * (3039929748475085 / 1125899906842624)) = Finite (1139973655678157 / 70368744177664)"
    by (rule rnd_normal_tie [where k = "4" and m = "4559894622712628", THEN trans]) simp_all
  then show ?thesis by (simp)
qed

lemma calc_50: "js_ceil (Finite (1139973655678157 / 70368744177664)) = Finite 17"
  by (rule js_ceil_eqI [where n = "17", THEN trans]) simp_all

lemma third_interval: "js_ceil (fmul (Finite 6) (Finite (3039929748475085 / 1125899906842624))) = Finite 17"
  by (simp only: lit_5 calc_1 lit_2_100 calc_2 lit_8_100 calc_3 calc_4 lit_1_10 calc_5 ease_delta_5 calc_6 calc_7 calc_8 calc_9 calc_10 ease_delta_3 calc_11 calc_12 calc_13 calc_14 calc_15 ease_delta_1 calc_16 calc_17 calc_18 calc_19 calc_20 ease_delta_4 calc_21 calc_22 calc_23 calc_24 calc_25 ease_delta_2 calc_26 calc_27 calc_28 calc_29 calc_30 ease_delta_0 calc_31 lit_13_10 calc_32 lit_100 calc_33 calc_34 calc_35 calc_36 ease_after_first floor_times_100 calc_37 floor_from_130 round2_floor calc_38 calc_39 calc_40 calc_41 calc_42 calc_43 ease_after_lapse calc_44 calc_45 calc_46 calc_47 calc_48 calc_49 ease_after_second third_product calc_50)

lemma calc_51: "fadd (Finite (3039929748475085 / 1125899906842624)) (Finite (3602879701896397 / 36028797018963968)) = Finite (6305039478318695 / 2251799813685248)"
proof -
  have "rnd ((3039929748475085 / 1125899906842624) + (3602879701896397 / 36028797018963968)) = Finite (6305039478318695 / 2251799813685248)"
    by (rule rnd_normal_near [where k = "1" and m = "6305039478318695", THEN trans]) simp_all
  then show ?thesis by (simp)
qed

lemma calc_52: "clamp_ease (Finite (6305039478318695 / 2251799813685248)) = Finite (6305039478318695 / 2251799813685248)"
  by (simp add: clamp_ease_def lit_13_10)

lemma calc_53: "fmul (Finite (6305039478318695 / 2251799813685248)) (Finite 100) = Finite 280"
proof -
  have "rnd ((6305039478318695 / 2251799813685248) * 100) = Finite (280)"
    by (rule rnd_normal_near [where k = "8" and m = "4925812092436480", THEN trans]) simp_all
  then show ?thesis by (simp)
qed

lemma calc_54: "js_round (Finite 280) = Finite 280"
  by (rule js_round_eqI [where n = "280", THEN trans]) simp_all

lemma calc_55: "fdiv (Finite 280) (Finite 100) = Finite (3152519739159347 / 1125899906842624)"
proof -
  have "rnd (280 / 100) = Finite (3152519739159347 / 1125899906842624)"
    by (rule rnd_normal_near [where k = "1" and m = "6305039478318694", THEN trans]) simp_all
  then show ?thesis by (simp)
qed

lemma calc_56: "round2 (Finite (6305039478318695 / 2251799813685248)) = Finite (3152519739159347 / 1125899906842624)"
  by (simp only: round2_def lit_5 calc_1 lit_2_100 calc_2 lit_8_100 calc_3 calc_4 lit_1_10 calc_5 ease_delta_5 calc_6 calc_7 calc_8 calc_9 calc_10 ease_delta_3 calc_11 calc_12 calc_13 calc_14 calc_15 ease_delta_1 calc_16 calc_17 calc_18 calc_19 calc_20 ease_delta_4 calc_21 calc_22 calc_23 calc_24 calc_25 ease_delta_2 calc_26 calc_27 calc_28 calc_29 calc_30 ease_delta_0 calc_31 lit_13_10 calc_32 lit_100 calc_33 calc_34 calc_35 calc_36 ease_after_first floor_times_100 calc_37 floor_from_130 round2_floor calc_38 calc_39 calc_40 calc_41 calc_42 calc_43 ease_after_lapse calc_44 calc_45 calc_46 calc_47 calc_48 calc_49 ease_after_second third_product calc_50 third_interval calc_51 calc_52 calc_53 calc_54 calc_55)

lemma ease_after_third: "round2 (clamp_ease (fadd (Finite (3039929748475085 / 1125899906842624)) (ease_delta (Finite 5)))) = Finite (3152519739159347 / 1125899906842624)"
  by (simp only: lit_5 calc_1 lit_2_100 calc_2 lit_8_100 calc_3 calc_4 lit_1_10 calc_5 ease_delta_5 calc_6 calc_7 calc_8 calc_9 calc_10 ease_delta_3 calc_11 calc_12 calc_13 calc_14 calc_15 ease_delta_1 calc_16 calc_17 calc_18 calc_19 calc_20 ease_delta_4 calc_21 calc_22 calc_23 calc_24 calc_25 ease_delta_2 calc_26 calc_27 calc_28 calc_29 calc_30 ease_delta_0 calc_31 lit_13_10 calc_32 lit_100 calc_33 calc_34 calc_35 calc_36 ease_after_first floor_times_100 calc_37 floor_from_130 round2_floor calc_38 calc_39 calc_40 calc_41 calc_42 calc_43 ease_after_lapse calc_44 calc_45 calc_46 calc_47 calc_48 calc_49 ease_after_second third_product calc_50 third_interval calc_51 calc_52 calc_53 calc_54 calc_55 calc_56)

lemma calc_57: "fmul (Finite 6) (Finite (5 / 2)) = Finite 15"
  by (simp)

lemma calc_58: "js_ceil (Finite 15) = Finite 15"
  by (rule js_ceil_eqI [where n = "15", THEN trans]) simp_all

lemma spec_third_interval: "js_ceil (fmul (Finite 6) (Finite (5 / 2))) = Finite 15"
  by (simp only: lit_5 calc_1 lit_2_100 calc_2 lit_8_100 calc_3 calc_4 lit_1_10 calc_5 ease_delta_5 calc_6 calc_7 calc_8 calc_9 calc_10 ease_delta_3 calc_11 calc_12 calc_13 calc_14 calc_15 ease_delta_1 calc_16 calc_17 calc_18 calc_19 calc_20 ease_delta_4 calc_21 calc_22 calc_23 calc_24 calc_25 ease_delta_2 calc_26 calc_27 calc_28 calc_29 calc_30 ease_delta_0 calc_31 lit_13_10 calc_32 lit_100 calc_33 calc_34 calc_35 calc_36 ease_after_first floor_times_100 calc_37 floor_from_130 round2_floor calc_38 calc_39 calc_40 calc_41 calc_42 calc_43 ease_after_lapse calc_44 calc_45 calc_46 calc_47 calc_48 calc_49 ease_after_second third_product calc_50 third_interval calc_51 calc_52 calc_53 calc_54 calc_55 calc_56 ease_after_third calc_57 calc_58)

lemma calc_59: "fmul (Finite 30) (Finite 2) = Finite 60"
  by (simp)

lemma calc_60: "js_ceil (Finite 60) = Finite 60"
  by (rule js_ceil_eqI [where n = "60", THEN trans]) simp_all

lemma sixth_interval: "js_ceil (fmul (Finite 30) (Finite 2)) = Finite 60"
  by (simp only: lit_5 calc_1 lit_2_100 calc_2 lit_8_100 calc_3 calc_4 lit_1_10 calc_5 ease_delta_5 calc_6 calc_7 calc_8 calc_9 calc_10 ease_delta_3 calc_11 calc_12 calc_13 calc_14 calc_15 ease_delta_1 calc_16 calc_17 calc_18 calc_19 calc_20 ease_delta_4 calc_21 calc_22 calc_23 calc_24 calc_25 ease_delta_2 calc_26 calc_27 calc_28 calc_29 calc_30 ease_delta_0 calc_31 lit_13_10 calc_32 lit_100 calc_33 calc_34 calc_35 calc_36 ease_after_first floor_times_100 calc_37 floor_from_130 round2_floor calc_38 calc_39 calc_40 calc_41 calc_42 calc_43 ease_after_lapse calc_44 calc_45 calc_46 calc_47 calc_48 calc_49 ease_after_second third_product calc_50 third_interval calc_51 calc_52 calc_53 calc_54 calc_55 calc_56 ease_after_third calc_57 calc_58 spec_third_interval calc_59 calc_60)

lemma calc_61: "fadd (Finite 2) (Finite (3602879701896397 / 36028797018963968)) = Finite (4728779608739021 / 2251799813685248)"
proof -
  have "rnd (2 + (3602879701896397 / 36028797018963968)) = Finite (4728779608739021 / 2251799813685248)"
    by (rule rnd_normal_near [where k = "1" and m = "4728779608739021", THEN trans]) simp_all
  then show ?thesis by (simp)
qed

lemma calc_62: "clamp_ease (Finite (4728779608739021 / 2251799813685248)) = Finite (4728779608739021 / 2251799813685248)"
  by (simp add: clamp_ease_def lit_13_10)

lemma calc_63: "fmul (Finite (4728779608739021 / 2251799813685248)) (Finite 100) = Finite 210"
proof -
  have "rnd ((4728779608739021 / 2251799813685248) * 100) = Finite (210)"
    by (rule rnd_normal_near [where k = "7" and m = "7388718138654720", THEN trans]) simp_all
  then show ?thesis by (simp)
qed

lemma calc_64: "js_round (Finite 210) = Finite 210"
  by (rule js_round_eqI [where n = "210", THEN trans]) simp_all

lemma calc_65: "fdiv (Finite 210) (Finite 100) = Finite (4728779608739021 / 2251799813685248)"
proof -
  have "rnd (210 / 100) = Finite (4728779608739021 / 2251799813685248)"
    by (rule rnd_normal_near [where k = "1" and m = "4728779608739021", THEN trans]) simp_all
  then show ?thesis by (simp)
qed

lemma calc_66: "round2 (Finite (4728779608739021 / 2251799813685248)) = Finite (4728779608739021 / 2251799813685248)"
  by (simp only: round2_def lit_5 calc_1 lit_2_100 calc_2 lit_8_100 calc_3 calc_4 lit_1_10 calc_5 ease_delta_5 calc_6 calc_7 calc_8 calc_9 calc_10 ease_delta_3 calc_11 calc_12 calc_13 calc_14 calc_15 ease_delta_1 calc_16 calc_17 calc_18 calc_19 calc_20 ease_delta_4 calc_21 calc_22 calc_23 calc_24 calc_25 ease_delta_2 calc_26 calc_27 calc_28 calc_29 calc_30 ease_delta_0 calc_31 lit_13_10 calc_32 lit_100 calc_33 calc_34 calc_35 calc_36 ease_after_first floor_times_100 calc_37 floor_from_130 round2_floor calc_38 calc_39 calc_40 calc_41 calc_42 calc_43 ease_after_lapse calc_44 calc_45 calc_46 calc_47 calc_48 calc_49 ease_after_second third_product calc_50 third_interval calc_51 calc_52 calc_53 calc_54 calc_55 calc_56 ease_after_third calc_57 calc_58 spec_third_interval calc_59 calc_60 sixth_interval calc_61 calc_62 calc_63 calc_64 calc_65)

lemma ease_after_sixth: "round2 (clamp_ease (fadd (Finite 2) (ease_delta (Finite 5)))) = Finite (4728779608739021 / 2251799813685248)"
  by (simp only: lit_5 calc_1 lit_2_100 calc_2 lit_8_100 calc_3 calc_4 lit_1_10 calc_5 ease_delta_5 calc_6 calc_7 calc_8 calc_9 calc_10 ease_delta_3 calc_11 calc_12 calc_13 calc_14 calc_15 ease_delta_1 calc_16 calc_17 calc_18 calc_19 calc_20 ease_delta_4 calc_21 calc_22 calc_23 calc_24 calc_25 ease_delta_2 calc_26 calc_27 calc_28 calc_29 calc_30 ease_delta_0 calc_31 lit_13_10 calc_32 lit_100 calc_33 calc_34 calc_35 calc_36 ease_after_first floor_times_100 calc_37 floor_from_130 round2_floor calc_38 calc_39 calc_40 calc_41 calc_42 calc_43 ease_after_lapse calc_44 calc_45 calc_46 calc_47 calc_48 calc_49 ease_after_second third_product calc_50 third_interval calc_51 calc_52 calc_53 calc_54 calc_55 calc_56 ease_after_third calc_57 calc_58 spec_third_interval calc_59 calc_60 sixth_interval calc_61 calc_62 calc_63 calc_64 calc_65 calc_66)

lemma calc_67: "fadd (Finite (5 / 2)) (Finite (- (5044031582654955 / 36028797018963968))) = Finite (5314247560297185 / 2251799813685248)"
proof -
  have "rnd ((5 / 2) + (- (5044031582654955 / 36028797018963968))) = Finite (5314247560297185 / 2251799813685248)"
    by (rule rnd_normal_near [where k = "1" and m = "5314247560297185", THEN trans]) simp_all
  then show ?thesis by (simp)
qed

lemma calc_68: "clamp_ease (Finite (5314247560297185 / 2251799813685248)) = Finite (5314247560297185 / 2251799813685248)"
  by (simp add: clamp_ease_def lit_13_10)

lemma calc_69: "fmul (Finite (5314247560297185 / 2251799813685248)) (Finite 100) = Finite 236"
proof -
  have "rnd ((5314247560297185 / 2251799813685248) * 100) = Finite (236)"
    by (rule rnd_normal_near [where k = "7" and m = "8303511812964352", THEN trans]) simp_all
  then show ?thesis by (simp)
qed

lemma calc_70: "js_round (Finite 236) = Finite 236"
  by (rule js_round_eqI [where n = "236", THEN trans]) simp_all

lemma calc_71: "fdiv (Finite 236) (Finite 100) = Finite (5314247560297185 / 2251799813685248)"
proof -
  have "rnd (236 / 100) = Finite (5314247560297185 / 2251799813685248)"
    by (rule rnd_normal_near [where k = "1" and m = "5314247560297185", THEN trans]) simp_all
  then show ?thesis by (simp)
qed

lemma calc_72: "round2 (Finite (5314247560297185 / 2251799813685248)) = Finite (5314247560297185 / 2251799813685248)"
  by (simp only: round2_def lit_5 calc_1 lit_2_100 calc_2 lit_8_100 calc_3 calc_4 lit_1_10 calc_5 ease_delta_5 calc_6 calc_7 calc_8 calc_9 calc_10 ease_delta_3 calc_11 calc_12 calc_13 calc_14 calc_15 ease_delta_1 calc_16 calc_17 calc_18 calc_19 calc_20 ease_delta_4 calc_21 calc_22 calc_23 calc_24 calc_25 ease_delta_2 calc_26 calc_27 calc_28 calc_29 calc_30 ease_delta_0 calc_31 lit_13_10 calc_32 lit_100 calc_33 calc_34 calc_35 calc_36 ease_after_first floor_times_100 calc_37 floor_from_130 round2_floor calc_38 calc_39 calc_40 calc_41 calc_42 calc_43 ease_after_lapse calc_44 calc_45 calc_46 calc_47 calc_48 calc_49 ease_after_second third_product calc_50 third_interval calc_51 calc_52 calc_53 calc_54 calc_55 calc_56 ease_after_third calc_57 calc_58 spec_third_interval calc_59 calc_60 sixth_interval calc_61 calc_62 calc_63 calc_64 calc_65 calc_66 ease_after_sixth calc_67 calc_68 calc_69 calc_70 calc_71)

lemma ease_after_neutral: "round2 (clamp_ease (fadd (Finite (5 / 2)) (ease_delta (Finite 3)))) = Finite (5314247560297185 / 2251799813685248)"
  by (simp only: lit_5 calc_1 lit_2_100 calc_2 lit_8_100 calc_3 calc_4 lit_1_10 calc_5 ease_delta_5 calc_6 calc_7 calc_8 calc_9 calc_10 ease_delta_3 calc_11 calc_12 calc_13 calc_14 calc_15 ease_delta_1 calc_16 calc_17 calc_18 calc_19 calc_20 ease_delta_4 calc_21 calc_22 calc_23 calc_24 calc_25 ease_delta_2 calc_26 calc_27 calc_28 calc_29 calc_30 ease_delta_0 calc_31 lit_13_10 calc_32 lit_100 calc_33 calc_34 calc_35 calc_36 ease_after_first floor_times_100 calc_37 floor_from_130 round2_floor calc_38 calc_39 calc_40 calc_41 calc_42 calc_43 ease_after_lapse calc_44 calc_45 calc_46 calc_47 calc_48 calc_49 ease_after_second third_product calc_50 third_interval calc_51 calc_52 calc_53 calc_54 calc_55 calc_56 ease_after_third calc_57 calc_58 spec_third_interval calc_59 calc_60 sixth_interval calc_61 calc_62 calc_63 calc_64 calc_65 calc_66 ease_after_sixth calc_67 calc_68 calc_69 calc_70 calc_71 calc_72)

lemma calc_73: "fadd (Finite (5854679515581645 / 4503599627370496)) (Finite (- (5044031582654955 / 36028797018963968))) = Finite (326510972984361 / 281474976710656)"
proof -
  have "rnd ((5854679515581645 / 4503599627370496) + (- (5044031582654955 / 36028797018963968))) = Finite (326510972984361 / 281474976710656)"
    by (rule rnd_normal_near [where k = "0" and m = "5224175567749776", THEN trans]) simp_all
  then show ?thesis by (simp)
qed

lemma calc_74: "clamp_ease (Finite (326510972984361 / 281474976710656)) = Finite (5854679515581645 / 4503599627370496)"
  by (simp add: clamp_ease_def lit_13_10)

lemma ease_neutral_at_floor: "round2 (clamp_ease (fadd (Finite (5854679515581645 / 4503599627370496)) (ease_delta (Finite 3)))) = Finite (5854679515581645 / 4503599627370496)"
  by (simp only: lit_5 calc_1 lit_2_100 calc_2 lit_8_100 calc_3 calc_4 lit_1_10 calc_5 ease_delta_5 calc_6 calc_7 calc_8 calc_9 calc_10 ease_delta_3 calc_11 calc_12 calc_13 calc_14 calc_15 ease_delta_1 calc_16 calc_17 calc_18 calc_19 calc_20 ease_delta_4 calc_21 calc_22 calc_23 calc_24 calc_25 ease_delta_2 calc_26 calc_27 calc_28 calc_29 calc_30 ease_delta_0 calc_31 lit_13_10 calc_32 lit_100 calc_33 calc_34 calc_35 calc_36 ease_after_first floor_times_100 calc_37 floor_from_130 round2_floor calc_38 calc_39 calc_40 calc_41 calc_42 calc_43 ease_after_lapse calc_44 calc_45 calc_46 calc_47 calc_48 calc_49 ease_after_second third_product calc_50 third_interval calc_51 calc_52 calc_53 calc_54 calc_55 calc_56 ease_after_third calc_57 calc_58 spec_third_interval calc_59 calc_60 sixth_interval calc_61 calc_62 calc_63 calc_64 calc_65 calc_66 ease_after_sixth calc_67 calc_68 calc_69 calc_70 calc_71 calc_72 ease_after_neutral calc_73 calc_74)

lemma calc_75: "fadd (Finite 100000000000000000) (Finite (- (5044031582654955 / 36028797018963968))) = Finite 100000000000000000"
proof -
  have "rnd (100000000000000000 + (- (5044031582654955 / 36028797018963968))) = Finite (100000000000000000)"
    by (rule rnd_normal_near [where k = "56" and m = "6250000000000000", THEN trans]) simp_all
  then show ?thesis by (simp)
qed

lemma calc_76: "clamp_ease (Finite 100000000000000000) = Finite 100000000000000000"
  by (simp add: clamp_ease_def lit_13_10)

lemma calc_77: "fmul (Finite 100000000000000000) (Finite 100) = Finite 10000000000000000000"
proof -
  have "rnd (100000000000000000 * 100) = Finite (10000000000000000000)"
    by (rule rnd_normal_near [where k = "63" and m = "4882812500000000", THEN trans]) simp_all
  then show ?thesis by (simp)
qed

lemma calc_78: "js_round (Finite 10000000000000000000) = Finite 10000000000000000000"
  by (rule js_round_eqI [where n = "10000000000000000000", THEN trans]) simp_all

lemma calc_79: "fdiv (Finite 10000000000000000000) (Finite 100) = Finite 100000000000000000"
proof -
  have "rnd (10000000000000000000 / 100) = Finite (100000000000000000)"
    by (rule rnd_normal_near [where k = "56" and m = "6250000000000000", THEN trans]) simp_all
  then show ?thesis by (simp)
qed

lemma calc_80: "round2 (Finite 100000000000000000) = Finite 100000000000000000"
  by (simp only: round2_def lit_5 calc_1 lit_2_100 calc_2 lit_8_100 calc_3 calc_4 lit_1_10 calc_5 ease_delta_5 calc_6 calc_7 calc_8 calc_9 calc_10 ease_delta_3 calc_11 calc_12 calc_13 calc_14 calc_15 ease_delta_1 calc_16 calc_17 calc_18 calc_19 calc_20 ease_delta_4 calc_21 calc_22 calc_23 calc_24 calc_25 ease_delta_2 calc_26 calc_27 calc_28 calc_29 calc_30 ease_delta_0 calc_31 lit_13_10 calc_32 lit_100 calc_33 calc_34 calc_35 calc_36 ease_after_first floor_times_100 calc_37 floor_from_130 round2_floor calc_38 calc_39 calc_40 calc_41 calc_42 calc_43 ease_after_lapse calc_44 calc_45 calc_46 calc_47 calc_48 calc_49 ease_after_second third_product calc_50 third_interval calc_51 calc_52 calc_53 calc_54 calc_55 calc_56 ease_after_third calc_57 calc_58 spec_third_interval calc_59 calc_60 sixth_interval calc_61 calc_62 calc_63 calc_64 calc_65 calc_66 ease_after_sixth calc_67 calc_68 calc_69 calc_70 calc_71 calc_72 ease_after_neutral calc_73 calc_74 ease_neutral_at_floor calc_75 calc_76 calc_77 calc_78 calc_79)

lemma ease_neutral_huge: "round2 (clamp_ease (fadd (Finite 100000000000000000) (ease_delta (Finite 3)))) = Finite 100000000000000000"
  by (simp only: lit_5 calc_1 lit_2_100 calc_2 lit_8_100 calc_3 calc_4 lit_1_10 calc_5 ease_delta_5 calc_6 calc_7 calc_8 calc_9 calc_10 ease_delta_3 calc_11 calc_12 calc_13 calc_14 calc_15 ease_delta_1 calc_16 calc_17 calc_18 calc_19 calc_20 ease_delta_4 calc_21 calc_22 calc_23 calc_24 calc_25 ease_delta_2 calc_26 calc_27 calc_28 calc_29 calc_30 ease_delta_0 calc_31 lit_13_10 calc_32 lit_100 calc_33 calc_34 calc_35 calc_36 ease_after_first floor_times_100 calc_37 floor_from_130 round2_floor calc_38 calc_39 calc_40 calc_41 calc_42 calc_43 ease_after_lapse calc_44 calc_45 calc_46 calc_47 calc_48 calc_49 ease_after_second third_product calc_50 third_interval calc_51 calc_52 calc_53 calc_54 calc_55 calc_56 ease_after_third calc_57 calc_58 spec_third_interval calc_59 calc_60 sixth_interval calc_61 calc_62 calc_63 calc_64 calc_65 calc_66 ease_after_sixth calc_67 calc_68 calc_69 calc_70 calc_71 calc_72 ease_after_neutral calc_73 calc_74 ease_neutral_at_floor calc_75 calc_76 calc_77 calc_78 calc_79 calc_80)

lemma calc_81: "fmul (Finite 17) (Finite (5854679515581645 / 4503599627370496)) = Finite (3110298492652749 / 140737488355328)"
proof -
  have "rnd (17 * (5854679515581645 / 4503599627370496)) = Finite (3110298492652749 / 140737488355328)"
    by (rule rnd_normal_near [where k = "4" and m = "6220596985305498", THEN trans]) simp_all
  then show ?thesis by (simp)
qed

lemma calc_82: "js_ceil (Finite (3110298492652749 / 140737488355328)) = Finite 23"
  by (rule js_ceil_eqI [where n = "23", THEN trans]) simp_all

lemma floor_interval: "js_ceil (fmul (Finite 17) (Finite (5854679515581645 / 4503599627370496))) = Finite 23"
  by (simp only: lit_5 calc_1 lit_2_100 calc_2 lit_8_100 calc_3 calc_4 lit_1_10 calc_5 ease_delta_5 calc_6 calc_7 calc_8 calc_9 calc_10 ease_delta_3 calc_11 calc_12 calc_13 calc_14 calc_15 ease_delta_1 calc_16 calc_17 calc_18 calc_19 calc_20 ease_delta_4 calc_21 calc_22 calc_23 calc_24 calc_25 ease_delta_2 calc_26 calc_27 calc_28 calc_29 calc_30 ease_delta_0 calc_31 lit_13_10 calc_32 lit_100 calc_33 calc_34 calc_35 calc_36 ease_after_first floor_times_100 calc_37 floor_from_130 round2_floor calc_38 calc_39 calc_40 calc_41 calc_42 calc_43 ease_after_lapse calc_44 calc_45 calc_46 calc_47 calc_48 calc_49 ease_after_second third_product calc_50 third_interval calc_51 calc_52 calc_53 calc_54 calc_55 calc_56 ease_after_third calc_57 calc_58 spec_third_interval calc_59 calc_60 sixth_interval calc_61 calc_62 calc_63 calc_64 calc_65 calc_66 ease_after_sixth calc_67 calc_68 calc_69 calc_70 calc_71 calc_72 ease_after_neutral calc_73 calc_74 ease_neutral_at_floor calc_75 calc_76 calc_77 calc_78 calc_79 calc_80 ease_neutral_huge calc_81 calc_82)

lemma lit_5_2: "rnd (5 / 2) = Finite (5 / 2)"
  by (rule rnd_normal_near [where k = "1" and m = "5629499534213120", THEN trans]) simp_all

lemma lit_13_5: "rnd (13 / 5) = Finite (5854679515581645 / 2251799813685248)"
  by (rule rnd_normal_near [where k = "1" and m = "5854679515581645", THEN trans]) simp_all

lemma lit_73_50: "rnd (73 / 50) = Finite (1643813863990231 / 1125899906842624)"
  by (rule rnd_normal_near [where k = "0" and m = "6575255455960924", THEN trans]) simp_all

lemma calc_83: "fadd (Finite (5314247560297185 / 2251799813685248)) (Finite (- (5044031582654955 / 36028797018963968))) = Finite (2499497793190625 / 1125899906842624)"
proof -
  have "rnd ((5314247560297185 / 2251799813685248) + (- (5044031582654955 / 36028797018963968))) = Finite (2499497793190625 / 1125899906842624)"
    by (rule rnd_normal_near [where k = "1" and m = "4998995586381250", THEN trans]) simp_all
  then show ?thesis by (simp)
qed

lemma calc_84: "clamp_ease (Finite (2499497793190625 / 1125899906842624)) = Finite (2499497793190625 / 1125899906842624)"
  by (simp add: clamp_ease_def lit_13_10)

lemma calc_85: "fmul (Finite (2499497793190625 / 1125899906842624)) (Finite 100) = Finite (7810930603720703 / 35184372088832)"
proof -
  have "rnd ((2499497793190625 / 1125899906842624) * 100) = Finite (7810930603720703 / 35184372088832)"
    by (rule rnd_normal_near [where k = "7" and m = "7810930603720703", THEN trans]) simp_all
  then show ?thesis by (simp)
qed

lemma calc_86: "js_round (Finite (7810930603720703 / 35184372088832)) = Finite 222"
  by (rule js_round_eqI [where n = "222", THEN trans]) simp_all

lemma calc_87: "fdiv (Finite 222) (Finite 100) = Finite (4998995586381251 / 2251799813685248)"
proof -
  have "rnd (222 / 100) = Finite (4998995586381251 / 2251799813685248)"
    by (rule rnd_normal_near [where k = "1" and m = "4998995586381251", THEN trans]) simp_all
  then show ?thesis by (simp)
qed

lemma calc_88: "round2 (Finite (2499497793190625 / 1125899906842624)) = Finite (4998995586381251 / 2251799813685248)"
  by (simp only: round2_def lit_5 calc_1 lit_2_100 calc_2 lit_8_100 calc_3 calc_4 lit_1_10 calc_5 ease_delta_5 calc_6 calc_7 calc_8 calc_9 calc_10 ease_delta_3 calc_11 calc_12 calc_13 calc_14 calc_15 ease_delta_1 calc_16 calc_17 calc_18 calc_19 calc_20 ease_delta_4 calc_21 calc_22 calc_23 calc_24 calc_25 ease_delta_2 calc_26 calc_27 calc_28 calc_29 calc_30 ease_delta_0 calc_31 lit_13_10 calc_32 lit_100 calc_33 calc_34 calc_35 calc_36 ease_after_first floor_times_100 calc_37 floor_from_130 round2_floor calc_38 calc_39 calc_40 calc_41 calc_42 calc_43 ease_after_lapse calc_44 calc_45 calc_46 calc_47 calc_48 calc_49 ease_after_second third_product calc_50 third_interval calc_51 calc_52 calc_53 calc_54 calc_55 calc_56 ease_after_third calc_57 calc_58 spec_third_interval calc_59 calc_60 sixth_interval calc_61 calc_62 calc_63 calc_64 calc_65 calc_66 ease_after_sixth calc_67 calc_68 calc_69 calc_70 calc_71 calc_72 ease_after_neutral calc_73 calc_74 ease_neutral_at_floor calc_75 calc_76 calc_77 calc_78 calc_79 calc_80 ease_neutral_huge calc_81 calc_82 floor_interval lit_5_2 lit_13_5 lit_73_50 calc_83 calc_84 calc_85 calc_86 calc_87)

lemma calc_89: "round2 (clamp_ease (fadd (Finite (5314247560297185 / 2251799813685248)) (ease_delta (Finite 3)))) = Finite (4998995586381251 / 2251799813685248)"
  by (simp only: lit_5 calc_1 lit_2_100 calc_2 lit_8_100 calc_3 calc_4 lit_1_10 calc_5 ease_delta_5 calc_6 calc_7 calc_8 calc_9 calc_10 ease_delta_3 calc_11 calc_12 calc_13 calc_14 calc_15 ease_delta_1 calc_16 calc_17 calc_18 calc_19 calc_20 ease_delta_4 calc_21 calc_22 calc_23 calc_24 calc_25 ease_delta_2 calc_26 calc_27 calc_28 calc_29 calc_30 ease_delta_0 calc_31 lit_13_10 calc_32 lit_100 calc_33 calc_34 calc_35 calc_36 ease_after_first floor_times_100 calc_37 floor_from_130 round2_floor calc_38 calc_39 calc_40 calc_41 calc_42 calc_43 ease_after_lapse calc_44 calc_45 calc_46 calc_47 calc_48 calc_49 ease_after_second third_product calc_50 third_interval calc_51 calc_52 calc_53 calc_54 calc_55 calc_56 ease_after_third calc_57 calc_58 spec_third_interval calc_59 calc_60 sixth_interval calc_61 calc_62 calc_63 calc_64 calc_65 calc_66 ease_after_sixth calc_67 calc_68 calc_69 calc_70 calc_71 calc_72 ease_after_neutral calc_73 calc_74 ease_neutral_at_floor calc_75 calc_76 calc_77 calc_78 calc_79 calc_80 ease_neutral_huge calc_81 calc_82 floor_interval lit_5_2 lit_13_5 lit_73_50 calc_83 calc_84 calc_85 calc_86 calc_87 calc_88)

lemma calc_90: "fadd (Finite (4998995586381251 / 2251799813685248)) (Finite (- (607985949695017 / 1125899906842624))) = Finite (3783023686991217 / 2251799813685248)"
proof -
  have "rnd ((4998995586381251 / 2251799813685248) + (- (607985949695017 / 1125899906842624))) = Finite (3783023686991217 / 2251799813685248)"
    by (rule rnd_normal_near [where k = "0" and m = "7566047373982434", THEN trans]) simp_all
  then show ?thesis by (simp)
qed

lemma calc_91: "clamp_ease (Finite (3783023686991217 / 2251799813685248)) = Finite (3783023686991217 / 2251799813685248)"
  by (simp add: clamp_ease_def lit_13_10)

lemma calc_92: "fmul (Finite (3783023686991217 / 2251799813685248)) (Finite 100) = Finite (5910974510923777 / 35184372088832)"
proof -
  have "rnd ((3783023686991217 / 2251799813685248) * 100) = Finite (5910974510923777 / 35184372088832)"
    by (rule rnd_normal_near [where k = "7" and m = "5910974510923777", THEN trans]) simp_all
  then show ?thesis by (simp)
qed

lemma calc_93: "js_round (Finite (5910974510923777 / 35184372088832)) = Finite 168"
  by (rule js_round_eqI [where n = "168", THEN trans]) simp_all

lemma calc_94: "fdiv (Finite 168) (Finite 100) = Finite (7566047373982433 / 4503599627370496)"
proof -
  have "rnd (168 / 100) = Finite (7566047373982433 / 4503599627370496)"
    by (rule rnd_normal_near [where k = "0" and m = "7566047373982433", THEN trans]) simp_all
  then show ?thesis by (simp)
qed

lemma calc_95: "round2 (Finite (3783023686991217 / 2251799813685248)) = Finite (7566047373982433 / 4503599627370496)"
  by (simp only: round2_def lit_5 calc_1 lit_2_100 calc_2 lit_8_100 calc_3 calc_4 lit_1_10 calc_5 ease_delta_5 calc_6 calc_7 calc_8 calc_9 calc_10 ease_delta_3 calc_11 calc_12 calc_13 calc_14 calc_15 ease_delta_1 calc_16 calc_17 calc_18 calc_19 calc_20 ease_delta_4 calc_21 calc_22 calc_23 calc_24 calc_25 ease_delta_2 calc_26 calc_27 calc_28 calc_29 calc_30 ease_delta_0 calc_31 lit_13_10 calc_32 lit_100 calc_33 calc_34 calc_35 calc_36 ease_after_first floor_times_100 calc_37 floor_from_130 round2_floor calc_38 calc_39 calc_40 calc_41 calc_42 calc_43 ease_after_lapse calc_44 calc_45 calc_46 calc_47 calc_48 calc_49 ease_after_second third_product calc_50 third_interval calc_51 calc_52 calc_53 calc_54 calc_55 calc_56 ease_after_third calc_57 calc_58 spec_third_interval calc_59 calc_60 sixth_interval calc_61 calc_62 calc_63 calc_64 calc_65 calc_66 ease_after_sixth calc_67 calc_68 calc_69 calc_70 calc_71 calc_72 ease_after_neutral calc_73 calc_74 ease_neutral_at_floor calc_75 calc_76 calc_77 calc_78 calc_79 calc_80 ease_neutral_huge calc_81 calc_82 floor_interval lit_5_2 lit_13_5 lit_73_50 calc_83 calc_84 calc_85 calc_86 calc_87 calc_88 calc_89 calc_90 calc_91 calc_92 calc_93 calc_94)

lemma calc_96: "round2 (clamp_ease (fadd (Finite (4998995586381251 / 2251799813685248)) (ease_delta (Finite 1)))) = Finite (7566047373982433 / 4503599627370496)"
  by (simp only: lit_5 calc_1 lit_2_100 calc_2 lit_8_100 calc_3 calc_4 lit_1_10 calc_5 ease_delta_5 calc_6 calc_7 calc_8 calc_9 calc_10 ease_delta_3 calc_11 calc_12 calc_13 calc_14 calc_15 ease_delta_1 calc_16 calc_17 calc_18 calc_19 calc_20 ease_delta_4 calc_21 calc_22 calc_23 calc_24 calc_25 ease_delta_2 calc_26 calc_27 calc_28 calc_29 calc_30 ease_delta_0 calc_31 lit_13_10 calc_32 lit_100 calc_33 calc_34 calc_35 calc_36 ease_after_first floor_times_100 calc_37 floor_from_130 round2_floor calc_38 calc_39 calc_40 calc_41 calc_42 calc_43 ease_after_lapse calc_44 calc_45 calc_46 calc_47 calc_48 calc_49 ease_after_second third_product calc_50 third_interval calc_51 calc_52 calc_53 calc_54 calc_55 calc_56 ease_after_third calc_57 calc_58 spec_third_interval calc_59 calc_60 sixth_interval calc_61 calc_62 calc_63 calc_64 calc_65 calc_66 ease_after_sixth calc_67 calc_68 calc_69 calc_70 calc_71 calc_72 ease_after_neutral calc_73 calc_74 ease_neutral_at_floor calc_75 calc_76 calc_77 calc_78 calc_79 calc_80 ease_neutral_huge calc_81 calc_82 floor_interval lit_5_2 lit_13_5 lit_73_50 calc_83 calc_84 calc_85 calc_86 calc_87 calc_88 calc_89 calc_90 calc_91 calc_92 calc_93 calc_94 calc_95)

lemma calc_97: "fadd (Finite (7566047373982433 / 4503599627370496)) (Finite (3602879701896397 / 36028797018963968)) = Finite (8016407336719483 / 4503599627370496)"
proof -
  have "rnd ((7566047373982433 / 4503599627370496) + (3602879701896397 / 36028797018963968)) = Finite (8016407336719483 / 4503599627370496)"
    by (rule rnd_normal_near [where k = "0" and m = "8016407336719483", THEN trans]) simp_all
  then show ?thesis by (simp)
qed

lemma calc_98: "clamp_ease (Finite (8016407336719483 / 4503599627370496)) = Finite (8016407336719483 / 4503599627370496)"
  by (simp add: clamp_ease_def lit_13_10)

lemma calc_99: "fmul (Finite (8016407336719483 / 4503599627370496)) (Finite 100) = Finite 178"
proof -
  have "rnd ((8016407336719483 / 4503599627370496) * 100) = Finite (178)"
    by (rule rnd_normal_near [where k = "7" and m = "6262818231812096", THEN trans]) simp_all
  then show ?thesis by (simp)
qed

lemma calc_100: "js_round (Finite 178) = Finite 178"
  by (rule js_round_eqI [where n = "178", THEN trans]) simp_all

lemma calc_101: "fdiv (Finite 178) (Finite 100) = Finite (8016407336719483 / 4503599627370496)"
proof -
  have "rnd (178 / 100) = Finite (8016407336719483 / 4503599627370496)"
    by (rule rnd_normal_near [where k = "0" and m = "8016407336719483", THEN trans]) simp_all
  then show ?thesis by (simp)
qed

lemma calc_102: "round2 (Finite (8016407336719483 / 4503599627370496)) = Finite (8016407336719483 / 4503599627370496)"
  by (simp only: round2_def lit_5 calc_1 lit_2_100 calc_2 lit_8_100 calc_3 calc_4 lit_1_10 calc_5 ease_delta_5 calc_6 calc_7 calc_8 calc_9 calc_10 ease_delta_3 calc_11 calc_12 calc_13 calc_14 calc_15 ease_delta_1 calc_16 calc_17 calc_18 calc_19 calc_20 ease_delta_4 calc_21 calc_22 calc_23 calc_24 calc_25 ease_delta_2 calc_26 calc_27 calc_28 calc_29 calc_30 ease_delta_0 calc_31 lit_13_10 calc_32 lit_100 calc_33 calc_34 calc_35 calc_36 ease_after_first floor_times_100 calc_37 floor_from_130 round2_floor calc_38 calc_39 calc_40 calc_41 calc_42 calc_43 ease_after_lapse calc_44 calc_45 calc_46 calc_47 calc_48 calc_49 ease_after_second third_product calc_50 third_interval calc_51 calc_52 calc_53 calc_54 calc_55 calc_56 ease_after_third calc_57 calc_58 spec_third_interval calc_59 calc_60 sixth_interval calc_61 calc_62 calc_63 calc_64 calc_65 calc_66 ease_after_sixth calc_67 calc_68 calc_69 calc_70 calc_71 calc_72 ease_after_neutral calc_73 calc_74 ease_neutral_at_floor calc_75 calc_76 calc_77 calc_78 calc_79 calc_80 ease_neutral_huge calc_81 calc_82 floor_interval lit_5_2 lit_13_5 lit_73_50 calc_83 calc_84 calc_85 calc_86 calc_87 calc_88 calc_89 calc_90 calc_91 calc_92 calc_93 calc_94 calc_95 calc_96 calc_97 calc_98 calc_99 calc_100 calc_101)

lemma calc_103: "round2 (clamp_ease (fadd (Finite (7566047373982433 / 4503599627370496)) (ease_delta (Finite 5)))) = Finite (8016407336719483 / 4503599627370496)"
  by (simp only: lit_5 calc_1 lit_2_100 calc_2 lit_8_100 calc_3 calc_4 lit_1_10 calc_5 ease_delta_5 calc_6 calc_7 calc_8 calc_9 calc_10 ease_delta_3 calc_11 calc_12 calc_13 calc_14 calc_15 ease_delta_1 calc_16 calc_17 calc_18 calc_19 calc_20 ease_delta_4 calc_21 calc_22 calc_23 calc_24 calc_25 ease_delta_2 calc_26 calc_27 calc_28 calc_29 calc_30 ease_delta_0 calc_31 lit_13_10 calc_32 lit_100 calc_33 calc_34 calc_35 calc_36 ease_after_first floor_times_100 calc_37 floor_from_130 round2_floor calc_38 calc_39 calc_40 calc_41 calc_42 calc_43 ease_after_lapse calc_44 calc_45 calc_46 calc_47 calc_48 calc_49 ease_after_second third_product calc_50 third_interval calc_51 calc_52 calc_53 calc_54 calc_55 calc_56 ease_after_third calc_57 calc_58 spec_third_interval calc_59 calc_60 sixth_interval calc_61 calc_62 calc_63 calc_64 calc_65 calc_66 ease_after_sixth calc_67 calc_68 calc_69 calc_70 calc_71 calc_72 ease_after_neutral calc_73 calc_74 ease_neutral_at_floor calc_75 calc_76 calc_77 calc_78 calc_79 calc_80 ease_neutral_huge calc_81 calc_82 floor_interval lit_5_2 lit_13_5 lit_73_50 calc_83 calc_84 calc_85 calc_86 calc_87 calc_88 calc_89 calc_90 calc_91 calc_92 calc_93 calc_94 calc_95 calc_96 calc_97 calc_98 calc_99 calc_100 calc_101 calc_102)

lemma calc_104: "fadd (Finite (8016407336719483 / 4503599627370496)) (Finite (3602879701896397 / 36028797018963968)) = Finite (8466767299456533 / 4503599627370496)"
proof -
  have "rnd ((8016407336719483 / 4503599627370496) + (3602879701896397 / 36028797018963968)) = Finite (8466767299456533 / 4503599627370496)"
    by (rule rnd_normal_near [where k = "0" and m = "8466767299456533", THEN trans]) simp_all
  then show ?thesis by (simp)
qed

lemma calc_105: "clamp_ease (Finite (8466767299456533 / 4503599627370496)) = Finite (8466767299456533 / 4503599627370496)"
  by (simp add: clamp_ease_def lit_13_10)

lemma calc_106: "fmul (Finite (8466767299456533 / 4503599627370496)) (Finite 100) = Finite 188"
proof -
  have "rnd ((8466767299456533 / 4503599627370496) * 100) = Finite (188)"
    by (rule rnd_normal_near [where k = "7" and m = "6614661952700416", THEN trans]) simp_all
  then show ?thesis by (simp)
qed

lemma calc_107: "js_round (Finite 188) = Finite 188"
  by (rule js_round_eqI [where n = "188", THEN trans]) simp_all

lemma calc_108: "fdiv (Finite 188) (Finite 100) = Finite (2116691824864133 / 1125899906842624)"
proof -
  have "rnd (188 / 100) = Finite (2116691824864133 / 1125899906842624)"
    by (rule rnd_normal_near [where k = "0" and m = "8466767299456532", THEN trans]) simp_all
  then show ?thesis by (simp)
qed

lemma calc_109: "round2 (Finite (8466767299456533 / 4503599627370496)) = Finite (2116691824864133 / 1125899906842624)"
  by (simp only: round2_def lit_5 calc_1 lit_2_100 calc_2 lit_8_100 calc_3 calc_4 lit_1_10 calc_5 ease_delta_5 calc_6 calc_7 calc_8 calc_9 calc_10 ease_delta_3 calc_11 calc_12 calc_13 calc_14 calc_15 ease_delta_1 calc_16 calc_17 calc_18 calc_19 calc_20 ease_delta_4 calc_21 calc_22 calc_23 calc_24 calc_25 ease_delta_2 calc_26 calc_27 calc_28 calc_29 calc_30 ease_delta_0 calc_31 lit_13_10 calc_32 lit_100 calc_33 calc_34 calc_35 calc_36 ease_after_first floor_times_100 calc_37 floor_from_130 round2_floor calc_38 calc_39 calc_40 calc_41 calc_42 calc_43 ease_after_lapse calc_44 calc_45 calc_46 calc_47 calc_48 calc_49 ease_after_second third_product calc_50 third_interval calc_51 calc_52 calc_53 calc_54 calc_55 calc_56 ease_after_third calc_57 calc_58 spec_third_interval calc_59 calc_60 sixth_interval calc_61 calc_62 calc_63 calc_64 calc_65 calc_66 ease_after_sixth calc_67 calc_68 calc_69 calc_70 calc_71 calc_72 ease_after_neutral calc_73 calc_74 ease_neutral_at_floor calc_75 calc_76 calc_77 calc_78 calc_79 calc_80 ease_neutral_huge calc_81 calc_82 floor_interval lit_5_2 lit_13_5 lit_73_50 calc_83 calc_84 calc_85 calc_86 calc_87 calc_88 calc_89 calc_90 calc_91 calc_92 calc_93 calc_94 calc_95 calc_96 calc_97 calc_98 calc_99 calc_100 calc_101 calc_102 calc_103 calc_104 calc_105 calc_106 calc_107 calc_108)

lemma calc_110: "round2 (clamp_ease (fadd (Finite (8016407336719483 / 4503599627370496)) (ease_delta (Finite 5)))) = Finite (2116691824864133 / 1125899906842624)"
  by (simp only: lit_5 calc_1 lit_2_100 calc_2 lit_8_100 calc_3 calc_4 lit_1_10 calc_5 ease_delta_5 calc_6 calc_7 calc_8 calc_9 calc_10 ease_delta_3 calc_11 calc_12 calc_13 calc_14 calc_15 ease_delta_1 calc_16 calc_17 calc_18 calc_19 calc_20 ease_delta_4 calc_21 calc_22 calc_23 calc_24 calc_25 ease_delta_2 calc_26 calc_27 calc_28 calc_29 calc_30 ease_delta_0 calc_31 lit_13_10 calc_32 lit_100 calc_33 calc_34 calc_35 calc_36 ease_after_first floor_times_100 calc_37 floor_from_130 round2_floor calc_38 calc_39 calc_40 calc_41 calc_42 calc_43 ease_after_lapse calc_44 calc_45 calc_46 calc_47 calc_48 calc_49 ease_after_second third_product calc_50 third_interval calc_51 calc_52 calc_53 calc_54 calc_55 calc_56 ease_after_third calc_57 calc_58 spec_third_interval calc_59 calc_60 sixth_interval calc_61 calc_62 calc_63 calc_64 calc_65 calc_66 ease_after_sixth calc_67 calc_68 calc_69 calc_70 calc_71 calc_72 ease_after_neutral calc_73 calc_74 ease_neutral_at_floor calc_75 calc_76 calc_77 calc_78 calc_79 calc_80 ease_neutral_huge calc_81 calc_82 floor_interval lit_5_2 lit_13_5 lit_73_50 calc_83 calc_84 calc_85 calc_86 calc_87 calc_88 calc_89 calc_90 calc_91 calc_92 calc_93 calc_94 calc_95 calc_96 calc_97 calc_98 calc_99 calc_100 calc_101 calc_102 calc_103 calc_104 calc_105 calc_106 calc_107 calc_108 calc_109)

lemma calc_111: "fadd (Finite (2116691824864133 / 1125899906842624)) (Finite (3602879701896397 / 36028797018963968)) = Finite (4458563631096791 / 2251799813685248)"
proof -
  have "rnd ((2116691824864133 / 1125899906842624) + (3602879701896397 / 36028797018963968)) = Finite (4458563631096791 / 2251799813685248)"
    by (rule rnd_normal_near [where k = "0" and m = "8917127262193582", THEN trans]) simp_all
  then show ?thesis by (simp)
qed

lemma calc_112: "clamp_ease (Finite (4458563631096791 / 2251799813685248)) = Finite (4458563631096791 / 2251799813685248)"
  by (simp add: clamp_ease_def lit_13_10)

lemma calc_113: "fmul (Finite (4458563631096791 / 2251799813685248)) (Finite 100) = Finite 198"
proof -
  have "rnd ((4458563631096791 / 2251799813685248) * 100) = Finite (198)"
    by (rule rnd_normal_near [where k = "7" and m = "6966505673588736", THEN trans]) simp_all
  then show ?thesis by (simp)
qed

lemma calc_114: "js_round (Finite 198) = Finite 198"
  by (rule js_round_eqI [where n = "198", THEN trans]) simp_all

lemma calc_115: "fdiv (Finite 198) (Finite 100) = Finite (4458563631096791 / 2251799813685248)"
proof -
  have "rnd (198 / 100) = Finite (4458563631096791 / 2251799813685248)"
    by (rule rnd_normal_near [where k = "0" and m = "8917127262193582", THEN trans]) simp_all
  then show ?thesis by (simp)
qed

lemma calc_116: "round2 (Finite (4458563631096791 / 2251799813685248)) = Finite (4458563631096791 / 2251799813685248)"
  by (simp only: round2_def lit_5 calc_1 lit_2_100 calc_2 lit_8_100 calc_3 calc_4 lit_1_10 calc_5 ease_delta_5 calc_6 calc_7 calc_8 calc_9 calc_10 ease_delta_3 calc_11 calc_12 calc_13 calc_14 calc_15 ease_delta_1 calc_16 calc_17 calc_18 calc_19 calc_20 ease_delta_4 calc_21 calc_22 calc_23 calc_24 calc_25 ease_delta_2 calc_26 calc_27 calc_28 calc_29 calc_30 ease_delta_0 calc_31 lit_13_10 calc_32 lit_100 calc_33 calc_34 calc_35 calc_36 ease_after_first floor_times_100 calc_37 floor_from_130 round2_floor calc_38 calc_39 calc_40 calc_41 calc_42 calc_43 ease_after_lapse calc_44 calc_45 calc_46 calc_47 calc_48 calc_49 ease_after_second third_product calc_50 third_interval calc_51 calc_52 calc_53 calc_54 calc_55 calc_56 ease_after_third calc_57 calc_58 spec_third_interval calc_59 calc_60 sixth_interval calc_61 calc_62 calc_63 calc_64 calc_65 calc_66 ease_after_sixth calc_67 calc_68 calc_69 calc_70 calc_71 calc_72 ease_after_neutral calc_73 calc_74 ease_neutral_at_floor calc_75 calc_76 calc_77 calc_78 calc_79 calc_80 ease_neutral_huge calc_81 calc_82 floor_interval lit_5_2 lit_13_5 lit_73_50 calc_83 calc_84 calc_85 calc_86 calc_87 calc_88 calc_89 calc_90 calc_91 calc_92 calc_93 calc_94 calc_95 calc_96 calc_97 calc_98 calc_99 calc_100 calc_101 calc_102 calc_103 calc_104 calc_105 calc_106 calc_107 calc_108 calc_109 calc_110 calc_111 calc_112 calc_113 calc_114 calc_115)

lemma calc_117: "round2 (clamp_ease (fadd (Finite (2116691824864133 / 1125899906842624)) (ease_delta (Finite 5)))) = Finite (4458563631096791 / 2251799813685248)"
  by (simp only: lit_5 calc_1 lit_2_100 calc_2 lit_8_100 calc_3 calc_4 lit_1_10 calc_5 ease_delta_5 calc_6 calc_7 calc_8 calc_9 calc_10 ease_delta_3 calc_11 calc_12 calc_13 calc_14 calc_15 ease_delta_1 calc_16 calc_17 calc_18 calc_19 calc_20 ease_delta_4 calc_21 calc_22 calc_23 calc_24 calc_25 ease_delta_2 calc_26 calc_27 calc_28 calc_29 calc_30 ease_delta_0 calc_31 lit_13_10 calc_32 lit_100 calc_33 calc_34 calc_35 calc_36 ease_after_first floor_times_100 calc_37 floor_from_130 round2_floor calc_38 calc_39 calc_40 calc_41 calc_42 calc_43 ease_after_lapse calc_44 calc_45 calc_46 calc_47 calc_48 calc_49 ease_after_second third_product calc_50 third_interval calc_51 calc_52 calc_53 calc_54 calc_55 calc_56 ease_after_third calc_57 calc_58 spec_third_interval calc_59 calc_60 sixth_interval calc_61 calc_62 calc_63 calc_64 calc_65 calc_66 ease_after_sixth calc_67 calc_68 calc_69 calc_70 calc_71 calc_72 ease_after_neutral calc_73 calc_74 ease_neutral_at_floor calc_75 calc_76 calc_77 calc_78 calc_79 calc_80 ease_neutral_huge calc_81 calc_82 floor_interval lit_5_2 lit_13_5 lit_73_50 calc_83 calc_84 calc_85 calc_86 calc_87 calc_88 calc_89 calc_90 calc_91 calc_92 calc_93 calc_94 calc_95 calc_96 calc_97 calc_98 calc_99 calc_100 calc_101 calc_102 calc_103 calc_104 calc_105 calc_106 calc_107 calc_108 calc_109 calc_110 calc_111 calc_112 calc_113 calc_114 calc_115 calc_116)

lemma calc_118: "fmul (Finite 6) (Finite (2116691824864133 / 1125899906842624)) = Finite (6350075474592399 / 562949953421312)"
proof -
  have "rnd (6 * (2116691824864133 / 1125899906842624)) = Finite (6350075474592399 / 562949953421312)"
    by (rule rnd_normal_near [where k = "3" and m = "6350075474592399", THEN trans]) simp_all
  then show ?thesis by (simp)
qed

lemma calc_119: "js_ceil (Finite (6350075474592399 / 562949953421312)) = Finite 12"
  by (rule js_ceil_eqI [where n = "12", THEN trans]) simp_all

lemma calc_120: "js_ceil (fmul (Finite 6) (Finite (2116691824864133 / 1125899906842624))) = Finite 12"
  by (simp only: calc_118 calc_119)

lemma calc_121: "fadd (Finite (4458563631096791 / 2251799813685248)) (Finite (3602879701896397 / 36028797018963968)) = Finite (1170935903116329 / 562949953421312)"
proof -
  have "rnd ((4458563631096791 / 2251799813685248) + (3602879701896397 / 36028797018963968)) = Finite (1170935903116329 / 562949953421312)"
    by (rule rnd_normal_near [where k = "1" and m = "4683743612465316", THEN trans]) simp_all
  then show ?thesis by (simp)
qed

lemma calc_122: "clamp_ease (Finite (1170935903116329 / 562949953421312)) = Finite (1170935903116329 / 562949953421312)"
  by (simp add: clamp_ease_def lit_13_10)

lemma calc_123: "fmul (Finite (1170935903116329 / 562949953421312)) (Finite 100) = Finite 208"
proof -
  have "rnd ((1170935903116329 / 562949953421312) * 100) = Finite (208)"
    by (rule rnd_normal_near [where k = "7" and m = "7318349394477056", THEN trans]) simp_all
  then show ?thesis by (simp)
qed

lemma calc_124: "js_round (Finite 208) = Finite 208"
  by (rule js_round_eqI [where n = "208", THEN trans]) simp_all

lemma calc_125: "fdiv (Finite 208) (Finite 100) = Finite (1170935903116329 / 562949953421312)"
proof -
  have "rnd (208 / 100) = Finite (1170935903116329 / 562949953421312)"
    by (rule rnd_normal_near [where k = "1" and m = "4683743612465316", THEN trans]) simp_all
  then show ?thesis by (simp)
qed

lemma calc_126: "round2 (Finite (1170935903116329 / 562949953421312)) = Finite (1170935903116329 / 562949953421312)"
  by (simp only: round2_def lit_5 calc_1 lit_2_100 calc_2 lit_8_100 calc_3 calc_4 lit_1_10 calc_5 ease_delta_5 calc_6 calc_7 calc_8 calc_9 calc_10 ease_delta_3 calc_11 calc_12 calc_13 calc_14 calc_15 ease_delta_1 calc_16 calc_17 calc_18 calc_19 calc_20 ease_delta_4 calc_21 calc_22 calc_23 calc_24 calc_25 ease_delta_2 calc_26 calc_27 calc_28 calc_29 calc_30 ease_delta_0 calc_31 lit_13_10 calc_32 lit_100 calc_33 calc_34 calc_35 calc_36 ease_after_first floor_times_100 calc_37 floor_from_130 round2_floor calc_38 calc_39 calc_40 calc_41 calc_42 calc_43 ease_after_lapse calc_44 calc_45 calc_46 calc_47 calc_48 calc_49 ease_after_second third_product calc_50 third_interval calc_51 calc_52 calc_53 calc_54 calc_55 calc_56 ease_after_third calc_57 calc_58 spec_third_interval calc_59 calc_60 sixth_interval calc_61 calc_62 calc_63 calc_64 calc_65 calc_66 ease_after_sixth calc_67 calc_68 calc_69 calc_70 calc_71 calc_72 ease_after_neutral calc_73 calc_74 ease_neutral_at_floor calc_75 calc_76 calc_77 calc_78 calc_79 calc_80 ease_neutral_huge calc_81 calc_82 floor_interval lit_5_2 lit_13_5 lit_73_50 calc_83 calc_84 calc_85 calc_86 calc_87 calc_88 calc_89 calc_90 calc_91 calc_92 calc_93 calc_94 calc_95 calc_96 calc_97 calc_98 calc_99 calc_100 calc_101 calc_102 calc_103 calc_104 calc_105 calc_106 calc_107 calc_108 calc_109 calc_110 calc_111 calc_112 calc_113 calc_114 calc_115 calc_116 calc_117 calc_118 calc_119 calc_120 calc_121 calc_122 calc_123 calc_124 calc_125)

lemma calc_127: "round2 (clamp_ease (fadd (Finite (4458563631096791 / 2251799813685248)) (ease_delta (Finite 5)))) = Finite (1170935903116329 / 562949953421312)"
  by (simp only: lit_5 calc_1 lit_2_100 calc_2 lit_8_100 calc_3 calc_4 lit_1_10 calc_5 ease_delta_5 calc_6 calc_7 calc_8 calc_9 calc_10 ease_delta_3 calc_11 calc_12 calc_13 calc_14 calc_15 ease_delta_1 calc_16 calc_17 calc_18 calc_19 calc_20 ease_delta_4 calc_21 calc_22 calc_23 calc_24 calc_25 ease_delta_2 calc_26 calc_27 calc_28 calc_29 calc_30 ease_delta_0 calc_31 lit_13_10 calc_32 lit_100 calc_33 calc_34 calc_35 calc_36 ease_after_first floor_times_100 calc_37 floor_from_130 round2_floor calc_38 calc_39 calc_40 calc_41 calc_42 calc_43 ease_after_lapse calc_44 calc_45 calc_46 calc_47 calc_48 calc_49 ease_after_second third_product calc_50 third_interval calc_51 calc_52 calc_53 calc_54 calc_55 calc_56 ease_after_third calc_57 calc_58 spec_third_interval calc_59 calc_60 sixth_interval calc_61 calc_62 calc_63 calc_64 calc_65 calc_66 ease_after_sixth calc_67 calc_68 calc_69 calc_70 calc_71 calc_72 ease_after_neutral calc_73 calc_74 ease_neutral_at_floor calc_75 calc_76 calc_77 calc_78 calc_79 calc_80 ease_neutral_huge calc_81 calc_82 floor_interval lit_5_2 lit_13_5 lit_73_50 calc_83 calc_84 calc_85 calc_86 calc_87 calc_88 calc_89 calc_90 calc_91 calc_92 calc_93 calc_94 calc_95 calc_96 calc_97 calc_98 calc_99 calc_100 calc_101 calc_102 calc_103 calc_104 calc_105 calc_106 calc_107 calc_108 calc_109 calc_110 calc_111 calc_112 calc_113 calc_114 calc_115 calc_116 calc_117 calc_118 calc_119 calc_120 calc_121 calc_122 calc_123 calc_124 calc_125 calc_126)

lemma calc_128: "fmul (Finite 12) (Finite (4458563631096791 / 2251799813685248)) = Finite (3343922723322593 / 140737488355328)"
proof -
  have "rnd (12 * (4458563631096791 / 2251799813685248)) = Finite (3343922723322593 / 140737488355328)"
    by (rule rnd_normal_tie [where k = "4" and m = "6687845446645186", THEN trans]) simp_all
  then show ?thesis by (simp)
qed

lemma calc_129: "js_ceil (Finite (3343922723322593 / 140737488355328)) = Finite 24"
  by (rule js_ceil_eqI [where n = "24", THEN trans]) simp_all

lemma calc_130: "js_ceil (fmul (Finite 12) (Finite (4458563631096791 / 2251799813685248))) = Finite 24"
  by (simp only: calc_128 calc_129)

lemma calc_131: "fadd (Finite (1170935903116329 / 562949953421312)) (Finite (3602879701896397 / 36028797018963968)) = Finite (4908923593833841 / 2251799813685248)"
proof -
  have "rnd ((1170935903116329 / 562949953421312) + (3602879701896397 / 36028797018963968)) = Finite (4908923593833841 / 2251799813685248)"
    by (rule rnd_normal_near [where k = "1" and m = "4908923593833841", THEN trans]) simp_all
  then show ?thesis by (simp)
qed

lemma calc_132: "clamp_ease (Finite (4908923593833841 / 2251799813685248)) = Finite (4908923593833841 / 2251799813685248)"
  by (simp add: clamp_ease_def lit_13_10)

lemma calc_133: "fmul (Finite (4908923593833841 / 2251799813685248)) (Finite 100) = Finite (7670193115365377 / 35184372088832)"
proof -
  have "rnd ((4908923593833841 / 2251799813685248) * 100) = Finite (7670193115365377 / 35184372088832)"
    by (rule rnd_normal_near [where k = "7" and m = "7670193115365377", THEN trans]) simp_all
  then show ?thesis by (simp)
qed

lemma calc_134: "js_round (Finite (7670193115365377 / 35184372088832)) = Finite 218"
  by (rule js_round_eqI [where n = "218", THEN trans]) simp_all

lemma calc_135: "fdiv (Finite 218) (Finite 100) = Finite (4908923593833841 / 2251799813685248)"
proof -
  have "rnd (218 / 100) = Finite (4908923593833841 / 2251799813685248)"
    by (rule rnd_normal_near [where k = "1" and m = "4908923593833841", THEN trans]) simp_all
  then show ?thesis by (simp)
qed

lemma calc_136: "round2 (Finite (4908923593833841 / 2251799813685248)) = Finite (4908923593833841 / 2251799813685248)"
  by (simp only: round2_def lit_5 calc_1 lit_2_100 calc_2 lit_8_100 calc_3 calc_4 lit_1_10 calc_5 ease_delta_5 calc_6 calc_7 calc_8 calc_9 calc_10 ease_delta_3 calc_11 calc_12 calc_13 calc_14 calc_15 ease_delta_1 calc_16 calc_17 calc_18 calc_19 calc_20 ease_delta_4 calc_21 calc_22 calc_23 calc_24 calc_25 ease_delta_2 calc_26 calc_27 calc_28 calc_29 calc_30 ease_delta_0 calc_31 lit_13_10 calc_32 lit_100 calc_33 calc_34 calc_35 calc_36 ease_after_first floor_times_100 calc_37 floor_from_130 round2_floor calc_38 calc_39 calc_40 calc_41 calc_42 calc_43 ease_after_lapse calc_44 calc_45 calc_46 calc_47 calc_48 calc_49 ease_after_second third_product calc_50 third_interval calc_51 calc_52 calc_53 calc_54 calc_55 calc_56 ease_after_third calc_57 calc_58 spec_third_interval calc_59 calc_60 sixth_interval calc_61 calc_62 calc_63 calc_64 calc_65 calc_66 ease_after_sixth calc_67 calc_68 calc_69 calc_70 calc_71 calc_72 ease_after_neutral calc_73 calc_74 ease_neutral_at_floor calc_75 calc_76 calc_77 calc_78 calc_79 calc_80 ease_neutral_huge calc_81 calc_82 floor_interval lit_5_2 lit_13_5 lit_73_50 calc_83 calc_84 calc_85 calc_86 calc_87 calc_88 calc_89 calc_90 calc_91 calc_92 calc_93 calc_94 calc_95 calc_96 calc_97 calc_98 calc_99 calc_100 calc_101 calc_102 calc_103 calc_104 calc_105 calc_106 calc_107 calc_108 calc_109 calc_110 calc_111 calc_112 calc_113 calc_114 calc_115 calc_116 calc_117 calc_118 calc_119 calc_120 calc_121 calc_122 calc_123 calc_124 calc_125 calc_126 calc_127 calc_128 calc_129 calc_130 calc_131 calc_132 calc_133 calc_134 calc_135)

lemma calc_137: "round2 (clamp_ease (fadd (Finite (1170935903116329 / 562949953421312)) (ease_delta (Finite 5)))) = Finite (4908923593833841 / 2251799813685248)"
  by (simp only: lit_5 calc_1 lit_2_100 calc_2 lit_8_100 calc_3 calc_4 lit_1_10 calc_5 ease_delta_5 calc_6 calc_7 calc_8 calc_9 calc_10 ease_delta_3 calc_11 calc_12 calc_13 calc_14 calc_15 ease_delta_1 calc_16 calc_17 calc_18 calc_19 calc_20 ease_delta_4 calc_21 calc_22 calc_23 calc_24 calc_25 ease_delta_2 calc_26 calc_27 calc_28 calc_29 calc_30 ease_delta_0 calc_31 lit_13_10 calc_32 lit_100 calc_33 calc_34 calc_35 calc_36 ease_after_first floor_times_100 calc_37 floor_from_130 round2_floor calc_38 calc_39 calc_40 calc_41 calc_42 calc_43 ease_after_lapse calc_44 calc_45 calc_46 calc_47 calc_48 calc_49 ease_after_second third_product calc_50 third_interval calc_51 calc_52 calc_53 calc_54 calc_55 calc_56 ease_after_third calc_57 calc_58 spec_third_interval calc_59 calc_60 sixth_interval calc_61 calc_62 calc_63 calc_64 calc_65 calc_66 ease_after_sixth calc_67 calc_68 calc_69 calc_70 calc_71 calc_72 ease_after_neutral calc_73 calc_74 ease_neutral_at_floor calc_75 calc_76 calc_77 calc_78 calc_79 calc_80 ease_neutral_huge calc_81 calc_82 floor_interval lit_5_2 lit_13_5 lit_73_50 calc_83 calc_84 calc_85 calc_86 calc_87 calc_88 calc_89 calc_90 calc_91 calc_92 calc_93 calc_94 calc_95 calc_96 calc_97 calc_98 calc_99 calc_100 calc_101 calc_102 calc_103 calc_104 calc_105 calc_106 calc_107 calc_108 calc_109 calc_110 calc_111 calc_112 calc_113 calc_114 calc_115 calc_116 calc_117 calc_118 calc_119 calc_120 calc_121 calc_122 calc_123 calc_124 calc_125 calc_126 calc_127 calc_128 calc_129 calc_130 calc_131 calc_132 calc_133 calc_134 calc_135 calc_136)

lemma calc_138: "fmul (Finite 24) (Finite (1170935903116329 / 562949953421312)) = Finite (3512807709348987 / 70368744177664)"
proof -
  have "rnd (24 * (1170935903116329 / 562949953421312)) = Finite (3512807709348987 / 70368744177664)"
    by (rule rnd_normal_near [where k = "5" and m = "7025615418697974", THEN trans]) simp_all
  then show ?thesis by (simp)
qed

lemma calc_139: "js_ceil (Finite (3512807709348987 / 70368744177664)) = Finite 50"
  by (rule js_ceil_eqI [where n = "50", THEN trans]) simp_all

lemma calc_140: "js_ceil (fmul (Finite 24) (Finite (1170935903116329 / 562949953421312))) = Finite 50"
  by (simp only: calc_138 calc_139)

lemma calc_141: "fadd (Finite (4908923593833841 / 2251799813685248)) (Finite (3602879701896397 / 36028797018963968)) = Finite (2567051787601183 / 1125899906842624)"
proof -
  have "rnd ((4908923593833841 / 2251799813685248) + (3602879701896397 / 36028797018963968)) = Finite (2567051787601183 / 1125899906842624)"
    by (rule rnd_normal_near [where k = "1" and m = "5134103575202366", THEN trans]) simp_all
  then show ?thesis by (simp)
qed

lemma calc_142: "clamp_ease (Finite (2567051787601183 / 1125899906842624)) = Finite (2567051787601183 / 1125899906842624)"
  by (simp add: clamp_ease_def lit_13_10)

lemma calc_143: "fmul (Finite (2567051787601183 / 1125899906842624)) (Finite 100) = Finite (8022036836253697 / 35184372088832)"
proof -
  have "rnd ((2567051787601183 / 1125899906842624) * 100) = Finite (8022036836253697 / 35184372088832)"
    by (rule rnd_normal_near [where k = "7" and m = "8022036836253697", THEN trans]) simp_all
  then show ?thesis by (simp)
qed

lemma calc_144: "js_round (Finite (8022036836253697 / 35184372088832)) = Finite 228"
  by (rule js_round_eqI [where n = "228", THEN trans]) simp_all

lemma calc_145: "fdiv (Finite 228) (Finite 100) = Finite (5134103575202365 / 2251799813685248)"
proof -
  have "rnd (228 / 100) = Finite (5134103575202365 / 2251799813685248)"
    by (rule rnd_normal_near [where k = "1" and m = "5134103575202365", THEN trans]) simp_all
  then show ?thesis by (simp)
qed

lemma calc_146: "round2 (Finite (2567051787601183 / 1125899906842624)) = Finite (5134103575202365 / 2251799813685248)"
  by (simp only: round2_def lit_5 calc_1 lit_2_100 calc_2 lit_8_100 calc_3 calc_4 lit_1_10 calc_5 ease_delta_5 calc_6 calc_7 calc_8 calc_9 calc_10 ease_delta_3 calc_11 calc_12 calc_13 calc_14 calc_15 ease_delta_1 calc_16 calc_17 calc_18 calc_19 calc_20 ease_delta_4 calc_21 calc_22 calc_23 calc_24 calc_25 ease_delta_2 calc_26 calc_27 calc_28 calc_29 calc_30 ease_delta_0 calc_31 lit_13_10 calc_32 lit_100 calc_33 calc_34 calc_35 calc_36 ease_after_first floor_times_100 calc_37 floor_from_130 round2_floor calc_38 calc_39 calc_40 calc_41 calc_42 calc_43 ease_after_lapse calc_44 calc_45 calc_46 calc_47 calc_48 calc_49 ease_after_second third_product calc_50 third_interval calc_51 calc_52 calc_53 calc_54 calc_55 calc_56 ease_after_third calc_57 calc_58 spec_third_interval calc_59 calc_60 sixth_interval calc_61 calc_62 calc_63 calc_64 calc_65 calc_66 ease_after_sixth calc_67 calc_68 calc_69 calc_70 calc_71 calc_72 ease_after_neutral calc_73 calc_74 ease_neutral_at_floor calc_75 calc_76 calc_77 calc_78 calc_79 calc_80 ease_neutral_huge calc_81 calc_82 floor_interval lit_5_2 lit_13_5 lit_73_50 calc_83 calc_84 calc_85 calc_86 calc_87 calc_88 calc_89 calc_90 calc_91 calc_92 calc_93 calc_94 calc_95 calc_96 calc_97 calc_98 calc_99 calc_100 calc_101 calc_102 calc_103 calc_104 calc_105 calc_106 calc_107 calc_108 calc_109 calc_110 calc_111 calc_112 calc_113 calc_114 calc_115 calc_116 calc_117 calc_118 calc_119 calc_120 calc_121 calc_122 calc_123 calc_124 calc_125 calc_126 calc_127 calc_128 calc_129 calc_130 calc_131 calc_132 calc_133 calc_134 calc_135 calc_136 calc_137 calc_138 calc_139 calc_140 calc_141 calc_142 calc_143 calc_144 calc_145)

lemma calc_147: "round2 (clamp_ease (fadd (Finite (4908923593833841 / 2251799813685248)) (ease_delta (Finite 5)))) = Finite (5134103575202365 / 2251799813685248)"
  by (simp only: lit_5 calc_1 lit_2_100 calc_2 lit_8_100 calc_3 calc_4 lit_1_10 calc_5 ease_delta_5 calc_6 calc_7 calc_8 calc_9 calc_10 ease_delta_3 calc_11 calc_12 calc_13 calc_14 calc_15 ease_delta_1 calc_16 calc_17 calc_18 calc_19 calc_20 ease_delta_4 calc_21 calc_22 calc_23 calc_24 calc_25 ease_delta_2 calc_26 calc_27 calc_28 calc_29 calc_30 ease_delta_0 calc_31 lit_13_10 calc_32 lit_100 calc_33 calc_34 calc_35 calc_36 ease_after_first floor_times_100 calc_37 floor_from_130 round2_floor calc_38 calc_39 calc_40 calc_41 calc_42 calc_43 ease_after_lapse calc_44 calc_45 calc_46 calc_47 calc_48 calc_49 ease_after_second third_product calc_50 third_interval calc_51 calc_52 calc_53 calc_54 calc_55 calc_56 ease_after_third calc_57 calc_58 spec_third_interval calc_59 calc_60 sixth_interval calc_61 calc_62 calc_63 calc_64 calc_65 calc_66 ease_after_sixth calc_67 calc_68 calc_69 calc_70 calc_71 calc_72 ease_after_neutral calc_73 calc_74 ease_neutral_at_floor calc_75 calc_76 calc_77 calc_78 calc_79 calc_80 ease_neutral_huge calc_81 calc_82 floor_interval lit_5_2 lit_13_5 lit_73_50 calc_83 calc_84 calc_85 calc_86 calc_87 calc_88 calc_89 calc_90 calc_91 calc_92 calc_93 calc_94 calc_95 calc_96 calc_97 calc_98 calc_99 calc_100 calc_101 calc_102 calc_103 calc_104 calc_105 calc_106 calc_107 calc_108 calc_109 calc_110 calc_111 calc_112 calc_113 calc_114 calc_115 calc_116 calc_117 calc_118 calc_119 calc_120 calc_121 calc_122 calc_123 calc_124 calc_125 calc_126 calc_127 calc_128 calc_129 calc_130 calc_131 calc_132 calc_133 calc_134 calc_135 calc_136 calc_137 calc_138 calc_139 calc_140 calc_141 calc_142 calc_143 calc_144 calc_145 calc_146)

lemma calc_148: "fmul (Finite 50) (Finite (4908923593833841 / 2251799813685248)) = Finite (7670193115365377 / 70368744177664)"
proof -
  have "rnd (50 * (4908923593833841 / 2251799813685248)) = Finite (7670193115365377 / 70368744177664)"
    by (rule rnd_normal_near [where k = "6" and m = "7670193115365377", THEN trans]) simp_all
  then show ?thesis by (simp)
qed

lemma calc_149: "js_ceil (Finite (7670193115365377 / 70368744177664)) = Finite 110"
  by (rule js_ceil_eqI [where n = "110", THEN trans]) simp_all

lemma calc_150: "js_ceil (fmul (Finite 50) (Finite (4908923593833841 / 2251799813685248))) = Finite 110"
  by (simp only: calc_148 calc_149)

lemma calc_151: "fadd (Finite (4998995586381251 / 2251799813685248)) (Finite (- (5044031582654955 / 36028797018963968))) = Finite (1170935903116329 / 562949953421312)"
proof -
  have "rnd ((4998995586381251 / 2251799813685248) + (- (5044031582654955 / 36028797018963968))) = Finite (1170935903116329 / 562949953421312)"
    by (rule rnd_normal_near [where k = "1" and m = "4683743612465316", THEN trans]) simp_all
  then show ?thesis by (simp)
qed

lemma calc_152: "round2 (clamp_ease (fadd (Finite (4998995586381251 / 2251799813685248)) (ease_delta (Finite 3)))) = Finite (1170935903116329 / 562949953421312)"
  by (simp only: lit_5 calc_1 lit_2_100 calc_2 lit_8_100 calc_3 calc_4 lit_1_10 calc_5 ease_delta_5 calc_6 calc_7 calc_8 calc_9 calc_10 ease_delta_3 calc_11 calc_12 calc_13 calc_14 calc_15 ease_delta_1 calc_16 calc_17 calc_18 calc_19 calc_20 ease_delta_4 calc_21 calc_22 calc_23 calc_24 calc_25 ease_delta_2 calc_26 calc_27 calc_28 calc_29 calc_30 ease_delta_0 calc_31 lit_13_10 calc_32 lit_100 calc_33 calc_34 calc_35 calc_36 ease_after_first floor_times_100 calc_37 floor_from_130 round2_floor calc_38 calc_39 calc_40 calc_41 calc_42 calc_43 ease_after_lapse calc_44 calc_45 calc_46 calc_47 calc_48 calc_49 ease_after_second third_product calc_50 third_interval calc_51 calc_52 calc_53 calc_54 calc_55 calc_56 ease_after_third calc_57 calc_58 spec_third_interval calc_59 calc_60 sixth_interval calc_61 calc_62 calc_63 calc_64 calc_65 calc_66 ease_after_sixth calc_67 calc_68 calc_69 calc_70 calc_71 calc_72 ease_after_neutral calc_73 calc_74 ease_neutral_at_floor calc_75 calc_76 calc_77 calc_78 calc_79 calc_80 ease_neutral_huge calc_81 calc_82 floor_interval lit_5_2 lit_13_5 lit_73_50 calc_83 calc_84 calc_85 calc_86 calc_87 calc_88 calc_89 calc_90 calc_91 calc_92 calc_93 calc_94 calc_95 calc_96 calc_97 calc_98 calc_99 calc_100 calc_101 calc_102 calc_103 calc_104 calc_105 calc_106 calc_107 calc_108 calc_109 calc_110 calc_111 calc_112 calc_113 calc_114 calc_115 calc_116 calc_117 calc_118 calc_119 calc_120 calc_121 calc_122 calc_123 calc_124 calc_125 calc_126 calc_127 calc_128 calc_129 calc_130 calc_131 calc_132 calc_133 calc_134 calc_135 calc_136 calc_137 calc_138 calc_139 calc_140 calc_141 calc_142 calc_143 calc_144 calc_145 calc_146 calc_147 calc_148 calc_149 calc_150 calc_151)

lemma calc_153: "fmul (Finite 6) (Finite (4998995586381251 / 2251799813685248)) = Finite (1874623344892969 / 140737488355328)"
proof -
  have "rnd (6 * (4998995586381251 / 2251799813685248)) = Finite (1874623344892969 / 140737488355328)"
    by (rule rnd_normal_tie [where k = "3" and m = "7498493379571876", THEN trans]) simp_all
  then show ?thesis by (simp)
qed

lemma calc_154: "js_ceil (Finite (1874623344892969 / 140737488355328)) = Finite 14"
  by (rule js_ceil_eqI [where n = "14", THEN trans]) simp_all

lemma calc_155: "js_ceil (fmul (Finite 6) (Finite (4998995586381251 / 2251799813685248))) = Finite 14"
  by (simp only: calc_153 calc_154)

lemma calc_156: "fadd (Finite (1170935903116329 / 562949953421312)) (Finite (- (5044031582654955 / 36028797018963968))) = Finite (8736983277098763 / 4503599627370496)"
proof -
  have "rnd ((1170935903116329 / 562949953421312) + (- (5044031582654955 / 36028797018963968))) = Finite (8736983277098763 / 4503599627370496)"
    by (rule rnd_normal_near [where k = "0" and m = "8736983277098763", THEN trans]) simp_all
  then show ?thesis by (simp)
qed

lemma calc_157: "clamp_ease (Finite (8736983277098763 / 4503599627370496)) = Finite (8736983277098763 / 4503599627370496)"
  by (simp add: clamp_ease_def lit_13_10)

lemma calc_158: "fmul (Finite (8736983277098763 / 4503599627370496)) (Finite 100) = Finite (6825768185233409 / 35184372088832)"
proof -
  have "rnd ((8736983277098763 / 4503599627370496) * 100) = Finite (6825768185233409 / 35184372088832)"
    by (rule rnd_normal_near [where k = "7" and m = "6825768185233409", THEN trans]) simp_all
  then show ?thesis by (simp)
qed

lemma calc_159: "js_round (Finite (6825768185233409 / 35184372088832)) = Finite 194"
  by (rule js_round_eqI [where n = "194", THEN trans]) simp_all

lemma calc_160: "fdiv (Finite 194) (Finite 100) = Finite (4368491638549381 / 2251799813685248)"
proof -
  have "rnd (194 / 100) = Finite (4368491638549381 / 2251799813685248)"
    by (rule rnd_normal_near [where k = "0" and m = "8736983277098762", THEN trans]) simp_all
  then show ?thesis by (simp)
qed

lemma calc_161: "round2 (Finite (8736983277098763 / 4503599627370496)) = Finite (4368491638549381 / 2251799813685248)"
  by (simp only: round2_def lit_5 calc_1 lit_2_100 calc_2 lit_8_100 calc_3 calc_4 lit_1_10 calc_5 ease_delta_5 calc_6 calc_7 calc_8 calc_9 calc_10 ease_delta_3 calc_11 calc_12 calc_13 calc_14 calc_15 ease_delta_1 calc_16 calc_17 calc_18 calc_19 calc_20 ease_delta_4 calc_21 calc_22 calc_23 calc_24 calc_25 ease_delta_2 calc_26 calc_27 calc_28 calc_29 calc_30 ease_delta_0 calc_31 lit_13_10 calc_32 lit_100 calc_33 calc_34 calc_35 calc_36 ease_after_first floor_times_100 calc_37 floor_from_130 round2_floor calc_38 calc_39 calc_40 calc_41 calc_42 calc_43 ease_after_lapse calc_44 calc_45 calc_46 calc_47 calc_48 calc_49 ease_after_second third_product calc_50 third_interval calc_51 calc_52 calc_53 calc_54 calc_55 calc_56 ease_after_third calc_57 calc_58 spec_third_interval calc_59 calc_60 sixth_interval calc_61 calc_62 calc_63 calc_64 calc_65 calc_66 ease_after_sixth calc_67 calc_68 calc_69 calc_70 calc_71 calc_72 ease_after_neutral calc_73 calc_74 ease_neutral_at_floor calc_75 calc_76 calc_77 calc_78 calc_79 calc_80 ease_neutral_huge calc_81 calc_82 floor_interval lit_5_2 lit_13_5 lit_73_50 calc_83 calc_84 calc_85 calc_86 calc_87 calc_88 calc_89 calc_90 calc_91 calc_92 calc_93 calc_94 calc_95 calc_96 calc_97 calc_98 calc_99 calc_100 calc_101 calc_102 calc_103 calc_104 calc_105 calc_106 calc_107 calc_108 calc_109 calc_110 calc_111 calc_112 calc_113 calc_114 calc_115 calc_116 calc_117 calc_118 calc_119 calc_120 calc_121 calc_122 calc_123 calc_124 calc_125 calc_126 calc_127 calc_128 calc_129 calc_130 calc_131 calc_132 calc_133 calc_134 calc_135 calc_136 calc_137 calc_138 calc_139 calc_140 calc_141 calc_142 calc_143 calc_144 calc_145 calc_146 calc_147 calc_148 calc_149 calc_150 calc_151 calc_152 calc_153 calc_154 calc_155 calc_156 calc_157 calc_158 calc_159 calc_160)

lemma calc_162: "round2 (clamp_ease (fadd (Finite (1170935903116329 / 562949953421312)) (ease_delta (Finite 3)))) = Finite (4368491638549381 / 2251799813685248)"
  by (simp only: lit_5 calc_1 lit_2_100 calc_2 lit_8_100 calc_3 calc_4 lit_1_10 calc_5 ease_delta_5 calc_6 calc_7 calc_8 calc_9 calc_10 ease_delta_3 calc_11 calc_12 calc_13 calc_14 calc_15 ease_delta_1 calc_16 calc_17 calc_18 calc_19 calc_20 ease_delta_4 calc_21 calc_22 calc_23 calc_24 calc_25 ease_delta_2 calc_26 calc_27 calc_28 calc_29 calc_30 ease_delta_0 calc_31 lit_13_10 calc_32 lit_100 calc_33 calc_34 calc_35 calc_36 ease_after_first floor_times_100 calc_37 floor_from_130 round2_floor calc_38 calc_39 calc_40 calc_41 calc_42 calc_43 ease_after_lapse calc_44 calc_45 calc_46 calc_47 calc_48 calc_49 ease_after_second third_product calc_50 third_interval calc_51 calc_52 calc_53 calc_54 calc_55 calc_56 ease_after_third calc_57 calc_58 spec_third_interval calc_59 calc_60 sixth_interval calc_61 calc_62 calc_63 calc_64 calc_65 calc_66 ease_after_sixth calc_67 calc_68 calc_69 calc_70 calc_71 calc_72 ease_after_neutral calc_73 calc_74 ease_neutral_at_floor calc_75 calc_76 calc_77 calc_78 calc_79 calc_80 ease_neutral_huge calc_81 calc_82 floor_interval lit_5_2 lit_13_5 lit_73_50 calc_83 calc_84 calc_85 calc_86 calc_87 calc_88 calc_89 calc_90 calc_91 calc_92 calc_93 calc_94 calc_95 calc_96 calc_97 calc_98 calc_99 calc_100 calc_101 calc_102 calc_103 calc_104 calc_105 calc_106 calc_107 calc_108 calc_109 calc_110 calc_111 calc_112 calc_113 calc_114 calc_115 calc_116 calc_117 calc_118 calc_119 calc_120 calc_121 calc_122 calc_123 calc_124 calc_125 calc_126 calc_127 calc_128 calc_129 calc_130 calc_131 calc_132 calc_133 calc_134 calc_135 calc_136 calc_137 calc_138 calc_139 calc_140 calc_141 calc_142 calc_143 calc_144 calc_145 calc_146 calc_147 calc_148 calc_149 calc_150 calc_151 calc_152 calc_153 calc_154 calc_155 calc_156 calc_157 calc_158 calc_159 calc_160 calc_161)

lemma calc_163: "fmul (Finite 14) (Finite (1170935903116329 / 562949953421312)) = Finite (8196551321814303 / 281474976710656)"
proof -
  have "rnd (14 * (1170935903116329 / 562949953421312)) = Finite (8196551321814303 / 281474976710656)"
    by (rule rnd_normal_near [where k = "4" and m = "8196551321814303", THEN trans]) simp_all
  then show ?thesis by (simp)
qed

lemma calc_164: "js_ceil (Finite (8196551321814303 / 281474976710656)) = Finite 30"
  by (rule js_ceil_eqI [where n = "30", THEN trans]) simp_all

lemma calc_165: "js_ceil (fmul (Finite 14) (Finite (1170935903116329 / 562949953421312))) = Finite 30"
  by (simp only: calc_163 calc_164)

lemma calc_166: "fadd (Finite (4368491638549381 / 2251799813685248)) (Finite (- (5044031582654955 / 36028797018963968))) = Finite (8106479329266893 / 4503599627370496)"
proof -
  have "rnd ((4368491638549381 / 2251799813685248) + (- (5044031582654955 / 36028797018963968))) = Finite (8106479329266893 / 4503599627370496)"
    by (rule rnd_normal_near [where k = "0" and m = "8106479329266893", THEN trans]) simp_all
  then show ?thesis by (simp)
qed

lemma calc_167: "clamp_ease (Finite (8106479329266893 / 4503599627370496)) = Finite (8106479329266893 / 4503599627370496)"
  by (simp add: clamp_ease_def lit_13_10)

lemma calc_168: "fmul (Finite (8106479329266893 / 4503599627370496)) (Finite 100) = Finite 180"
proof -
  have "rnd ((8106479329266893 / 4503599627370496) * 100) = Finite (180)"
    by (rule rnd_normal_near [where k = "7" and m = "6333186975989760", THEN trans]) simp_all
  then show ?thesis by (simp)
qed

lemma calc_169: "js_round (Finite 180) = Finite 180"
  by (rule js_round_eqI [where n = "180", THEN trans]) simp_all

lemma calc_170: "fdiv (Finite 180) (Finite 100) = Finite (8106479329266893 / 4503599627370496)"
proof -
  have "rnd (180 / 100) = Finite (8106479329266893 / 4503599627370496)"
    by (rule rnd_normal_near [where k = "0" and m = "8106479329266893", THEN trans]) simp_all
  then show ?thesis by (simp)
qed

lemma calc_171: "round2 (Finite (8106479329266893 / 4503599627370496)) = Finite (8106479329266893 / 4503599627370496)"
  by (simp only: round2_def lit_5 calc_1 lit_2_100 calc_2 lit_8_100 calc_3 calc_4 lit_1_10 calc_5 ease_delta_5 calc_6 calc_7 calc_8 calc_9 calc_10 ease_delta_3 calc_11 calc_12 calc_13 calc_14 calc_15 ease_delta_1 calc_16 calc_17 calc_18 calc_19 calc_20 ease_delta_4 calc_21 calc_22 calc_23 calc_24 calc_25 ease_delta_2 calc_26 calc_27 calc_28 calc_29 calc_30 ease_delta_0 calc_31 lit_13_10 calc_32 lit_100 calc_33 calc_34 calc_35 calc_36 ease_after_first floor_times_100 calc_37 floor_from_130 round2_floor calc_38 calc_39 calc_40 calc_41 calc_42 calc_43 ease_after_lapse calc_44 calc_45 calc_46 calc_47 calc_48 calc_49 ease_after_second third_product calc_50 third_interval calc_51 calc_52 calc_53 calc_54 calc_55 calc_56 ease_after_third calc_57 calc_58 spec_third_interval calc_59 calc_60 sixth_interval calc_61 calc_62 calc_63 calc_64 calc_65 calc_66 ease_after_sixth calc_67 calc_68 calc_69 calc_70 calc_71 calc_72 ease_after_neutral calc_73 calc_74 ease_neutral_at_floor calc_75 calc_76 calc_77 calc_78 calc_79 calc_80 ease_neutral_huge calc_81 calc_82 floor_interval lit_5_2 lit_13_5 lit_73_50 calc_83 calc_84 calc_85 calc_86 calc_87 calc_88 calc_89 calc_90 calc_91 calc_92 calc_93 calc_94 calc_95 calc_96 calc_97 calc_98 calc_99 calc_100 calc_101 calc_102 calc_103 calc_104 calc_105 calc_106 calc_107 calc_108 calc_109 calc_110 calc_111 calc_112 calc_113 calc_114 calc_115 calc_116 calc_117 calc_118 calc_119 calc_120 calc_121 calc_122 calc_123 calc_124 calc_125 calc_126 calc_127 calc_128 calc_129 calc_130 calc_131 calc_132 calc_133 calc_134 calc_135 calc_136 calc_137 calc_138 calc_139 calc_140 calc_141 calc_142 calc_143 calc_144 calc_145 calc_146 calc_147 calc_148 calc_149 calc_150 calc_151 calc_152 calc_153 calc_154 calc_155 calc_156 calc_157 calc_158 calc_159 calc_160 calc_161 calc_162 calc_163 calc_164 calc_165 calc_166 calc_167 calc_168 calc_169 calc_170)

lemma calc_172: "round2 (clamp_ease (fadd (Finite (4368491638549381 / 2251799813685248)) (ease_delta (Finite 3)))) = Finite (8106479329266893 / 4503599627370496)"
  by (simp only: lit_5 calc_1 lit_2_100 calc_2 lit_8_100 calc_3 calc_4 lit_1_10 calc_5 ease_delta_5 calc_6 calc_7 calc_8 calc_9 calc_10 ease_delta_3 calc_11 calc_12 calc_13 calc_14 calc_15 ease_delta_1 calc_16 calc_17 calc_18 calc_19 calc_20 ease_delta_4 calc_21 calc_22 calc_23 calc_24 calc_25 ease_delta_2 calc_26 calc_27 calc_28 calc_29 calc_30 ease_delta_0 calc_31 lit_13_10 calc_32 lit_100 calc_33 calc_34 calc_35 calc_36 ease_after_first floor_times_100 calc_37 floor_from_130 round2_floor calc_38 calc_39 calc_40 calc_41 calc_42 calc_43 ease_after_lapse calc_44 calc_45 calc_46 calc_47 calc_48 calc_49 ease_after_second third_product calc_50 third_interval calc_51 calc_52 calc_53 calc_54 calc_55 calc_56 ease_after_third calc_57 calc_58 spec_third_interval calc_59 calc_60 sixth_interval calc_61 calc_62 calc_63 calc_64 calc_65 calc_66 ease_after_sixth calc_67 calc_68 calc_69 calc_70 calc_71 calc_72 ease_after_neutral calc_73 calc_74 ease_neutral_at_floor calc_75 calc_76 calc_77 calc_78 calc_79 calc_80 ease_neutral_huge calc_81 calc_82 floor_interval lit_5_2 lit_13_5 lit_73_50 calc_83 calc_84 calc_85 calc_86 calc_87 calc_88 calc_89 calc_90 calc_91 calc_92 calc_93 calc_94 calc_95 calc_96 calc_97 calc_98 calc_99 calc_100 calc_101 calc_102 calc_103 calc_104 calc_105 calc_106 calc_107 calc_108 calc_109 calc_110 calc_111 calc_112 calc_113 calc_114 calc_115 calc_116 calc_117 calc_118 calc_119 calc_120 calc_121 calc_122 calc_123 calc_124 calc_125 calc_126 calc_127 calc_128 calc_129 calc_130 calc_131 calc_132 calc_133 calc_134 calc_135 calc_136 calc_137 calc_138 calc_139 calc_140 calc_141 calc_142 calc_143 calc_144 calc_145 calc_146 calc_147 calc_148 calc_149 calc_150 calc_151 calc_152 calc_153 calc_154 calc_155 calc_156 calc_157 calc_158 calc_159 calc_160 calc_161 calc_162 calc_163 calc_164 calc_165 calc_166 calc_167 calc_168 calc_169 calc_170 calc_171)

lemma calc_173: "fmul (Finite 30) (Finite (4368491638549381 / 2251799813685248)) = Finite (8190921822280089 / 140737488355328)"
proof -
  have "rnd (30 * (4368491638549381 / 2251799813685248)) = Finite (8190921822280089 / 140737488355328)"
    by (rule rnd_normal_near [where k = "5" and m = "8190921822280089", THEN trans]) simp_all
  then show ?thesis by (simp)
qed

lemma calc_174: "js_ceil (Finite (8190921822280089 / 140737488355328)) = Finite 59"
  by (rule js_ceil_eqI [where n = "59", THEN trans]) simp_all

lemma calc_175: "js_ceil (fmul (Finite 30) (Finite (4368491638549381 / 2251799813685248))) = Finite 59"
  by (simp only: calc_173 calc_174)

lemma calc_176: "fadd (Finite (8106479329266893 / 4503599627370496)) (Finite (- (5044031582654955 / 36028797018963968))) = Finite (467248461339689 / 281474976710656)"
proof -
  have "rnd ((8106479329266893 / 4503599627370496) + (- (5044031582654955 / 36028797018963968))) = Finite (467248461339689 / 281474976710656)"
    by (rule rnd_normal_near [where k = "0" and m = "7475975381435024", THEN trans]) simp_all
  then show ?thesis by (simp)
qed

lemma calc_177: "clamp_ease (Finite (467248461339689 / 281474976710656)) = Finite (467248461339689 / 281474976710656)"
  by (simp add: clamp_ease_def lit_13_10)

lemma calc_178: "fmul (Finite (467248461339689 / 281474976710656)) (Finite 100) = Finite 166"
proof -
  have "rnd ((467248461339689 / 281474976710656) * 100) = Finite (166)"
    by (rule rnd_normal_tie [where k = "7" and m = "5840605766746112", THEN trans]) simp_all
  then show ?thesis by (simp)
qed

lemma calc_179: "js_round (Finite 166) = Finite 166"
  by (rule js_round_eqI [where n = "166", THEN trans]) simp_all

lemma calc_180: "fdiv (Finite 166) (Finite 100) = Finite (7475975381435023 / 4503599627370496)"
proof -
  have "rnd (166 / 100) = Finite (7475975381435023 / 4503599627370496)"
    by (rule rnd_normal_near [where k = "0" and m = "7475975381435023", THEN trans]) simp_all
  then show ?thesis by (simp)
qed

lemma calc_181: "round2 (Finite (467248461339689 / 281474976710656)) = Finite (7475975381435023 / 4503599627370496)"
  by (simp only: round2_def lit_5 calc_1 lit_2_100 calc_2 lit_8_100 calc_3 calc_4 lit_1_10 calc_5 ease_delta_5 calc_6 calc_7 calc_8 calc_9 calc_10 ease_delta_3 calc_11 calc_12 calc_13 calc_14 calc_15 ease_delta_1 calc_16 calc_17 calc_18 calc_19 calc_20 ease_delta_4 calc_21 calc_22 calc_23 calc_24 calc_25 ease_delta_2 calc_26 calc_27 calc_28 calc_29 calc_30 ease_delta_0 calc_31 lit_13_10 calc_32 lit_100 calc_33 calc_34 calc_35 calc_36 ease_after_first floor_times_100 calc_37 floor_from_130 round2_floor calc_38 calc_39 calc_40 calc_41 calc_42 calc_43 ease_after_lapse calc_44 calc_45 calc_46 calc_47 calc_48 calc_49 ease_after_second third_product calc_50 third_interval calc_51 calc_52 calc_53 calc_54 calc_55 calc_56 ease_after_third calc_57 calc_58 spec_third_interval calc_59 calc_60 sixth_interval calc_61 calc_62 calc_63 calc_64 calc_65 calc_66 ease_after_sixth calc_67 calc_68 calc_69 calc_70 calc_71 calc_72 ease_after_neutral calc_73 calc_74 ease_neutral_at_floor calc_75 calc_76 calc_77 calc_78 calc_79 calc_80 ease_neutral_huge calc_81 calc_82 floor_interval lit_5_2 lit_13_5 lit_73_50 calc_83 calc_84 calc_85 calc_86 calc_87 calc_88 calc_89 calc_90 calc_91 calc_92 calc_93 calc_94 calc_95 calc_96 calc_97 calc_98 calc_99 calc_100 calc_101 calc_102 calc_103 calc_104 calc_105 calc_106 calc_107 calc_108 calc_109 calc_110 calc_111 calc_112 calc_113 calc_114 calc_115 calc_116 calc_117 calc_118 calc_119 calc_120 calc_121 calc_122 calc_123 calc_124 calc_125 calc_126 calc_127 calc_128 calc_129 calc_130 calc_131 calc_132 calc_133 calc_134 calc_135 calc_136 calc_137 calc_138 calc_139 calc_140 calc_141 calc_142 calc_143 calc_144 calc_145 calc_146 calc_147 calc_148 calc_149 calc_150 calc_151 calc_152 calc_153 calc_154 calc_155 calc_156 calc_157 calc_158 calc_159 calc_160 calc_161 calc_162 calc_163 calc_164 calc_165 calc_166 calc_167 calc_168 calc_169 calc_170 calc_171 calc_172 calc_173 calc_174 calc_175 calc_176 calc_177 calc_178 calc_179 calc_180)

lemma calc_182: "round2 (clamp_ease (fadd (Finite (8106479329266893 / 4503599627370496)) (ease_delta (Finite 3)))) = Finite (7475975381435023 / 4503599627370496)"
  by (simp only: lit_5 calc_1 lit_2_100 calc_2 lit_8_100 calc_3 calc_4 lit_1_10 calc_5 ease_delta_5 calc_6 calc_7 calc_8 calc_9 calc_10 ease_delta_3 calc_11 calc_12 calc_13 calc_14 calc_15 ease_delta_1 calc_16 calc_17 calc_18 calc_19 calc_20 ease_delta_4 calc_21 calc_22 calc_23 calc_24 calc_25 ease_delta_2 calc_26 calc_27 calc_28 calc_29 calc_30 ease_delta_0 calc_31 lit_13_10 calc_32 lit_100 calc_33 calc_34 calc_35 calc_36 ease_after_first floor_times_100 calc_37 floor_from_130 round2_floor calc_38 calc_39 calc_40 calc_41 calc_42 calc_43 ease_after_lapse calc_44 calc_45 calc_46 calc_47 calc_48 calc_49 ease_after_second third_product calc_50 third_interval calc_51 calc_52 calc_53 calc_54 calc_55 calc_56 ease_after_third calc_57 calc_58 spec_third_interval calc_59 calc_60 sixth_interval calc_61 calc_62 calc_63 calc_64 calc_65 calc_66 ease_after_sixth calc_67 calc_68 calc_69 calc_70 calc_71 calc_72 ease_after_neutral calc_73 calc_74 ease_neutral_at_floor calc_75 calc_76 calc_77 calc_78 calc_79 calc_80 ease_neutral_huge calc_81 calc_82 floor_interval lit_5_2 lit_13_5 lit_73_50 calc_83 calc_84 calc_85 calc_86 calc_87 calc_88 calc_89 calc_90 calc_91 calc_92 calc_93 calc_94 calc_95 calc_96 calc_97 calc_98 calc_99 calc_100 calc_101 calc_102 calc_103 calc_104 calc_105 calc_106 calc_107 calc_108 calc_109 calc_110 calc_111 calc_112 calc_113 calc_114 calc_115 calc_116 calc_117 calc_118 calc_119 calc_120 calc_121 calc_122 calc_123 calc_124 calc_125 calc_126 calc_127 calc_128 calc_129 calc_130 calc_131 calc_132 calc_133 calc_134 calc_135 calc_136 calc_137 calc_138 calc_139 calc_140 calc_141 calc_142 calc_143 calc_144 calc_145 calc_146 calc_147 calc_148 calc_149 calc_150 calc_151 calc_152 calc_153 calc_154 calc_155 calc_156 calc_157 calc_158 calc_159 calc_160 calc_161 calc_162 calc_163 calc_164 calc_165 calc_166 calc_167 calc_168 calc_169 calc_170 calc_171 calc_172 calc_173 calc_174 calc_175 calc_176 calc_177 calc_178 calc_179 calc_180 calc_181)

lemma calc_183: "fmul (Finite 59) (Finite (8106479329266893 / 4503599627370496)) = Finite (7473160631667917 / 70368744177664)"
proof -
  have "rnd (59 * (8106479329266893 / 4503599627370496)) = Finite (7473160631667917 / 70368744177664)"
    by (rule rnd_normal_near [where k = "6" and m = "7473160631667917", THEN trans]) simp_all
  then show ?thesis by (simp)
qed

lemma calc_184: "js_ceil (Finite (7473160631667917 / 70368744177664)) = Finite 107"
  by (rule js_ceil_eqI [where n = "107", THEN trans]) simp_all

lemma calc_185: "js_ceil (fmul (Finite 59) (Finite (8106479329266893 / 4503599627370496))) = Finite 107"
  by (simp only: calc_183 calc_184)

lemma calc_186: "fadd (Finite (7475975381435023 / 4503599627370496)) (Finite (- (5044031582654955 / 36028797018963968))) = Finite (3422735716801577 / 2251799813685248)"
proof -
  have "rnd ((7475975381435023 / 4503599627370496) + (- (5044031582654955 / 36028797018963968))) = Finite (3422735716801577 / 2251799813685248)"
    by (rule rnd_normal_near [where k = "0" and m = "6845471433603154", THEN trans]) simp_all
  then show ?thesis by (simp)
qed

lemma calc_187: "clamp_ease (Finite (3422735716801577 / 2251799813685248)) = Finite (3422735716801577 / 2251799813685248)"
  by (simp add: clamp_ease_def lit_13_10)

lemma calc_188: "fmul (Finite (3422735716801577 / 2251799813685248)) (Finite 100) = Finite 152"
proof -
  have "rnd ((3422735716801577 / 2251799813685248) * 100) = Finite (152)"
    by (rule rnd_normal_near [where k = "7" and m = "5348024557502464", THEN trans]) simp_all
  then show ?thesis by (simp)
qed

lemma calc_189: "js_round (Finite 152) = Finite 152"
  by (rule js_round_eqI [where n = "152", THEN trans]) simp_all

lemma calc_190: "fdiv (Finite 152) (Finite 100) = Finite (3422735716801577 / 2251799813685248)"
proof -
  have "rnd (152 / 100) = Finite (3422735716801577 / 2251799813685248)"
    by (rule rnd_normal_near [where k = "0" and m = "6845471433603154", THEN trans]) simp_all
  then show ?thesis by (simp)
qed

lemma calc_191: "round2 (Finite (3422735716801577 / 2251799813685248)) = Finite (3422735716801577 / 2251799813685248)"
  by (simp only: round2_def lit_5 calc_1 lit_2_100 calc_2 lit_8_100 calc_3 calc_4 lit_1_10 calc_5 ease_delta_5 calc_6 calc_7 calc_8 calc_9 calc_10 ease_delta_3 calc_11 calc_12 calc_13 calc_14 calc_15 ease_delta_1 calc_16 calc_17 calc_18 calc_19 calc_20 ease_delta_4 calc_21 calc_22 calc_23 calc_24 calc_25 ease_delta_2 calc_26 calc_27 calc_28 calc_29 calc_30 ease_delta_0 calc_31 lit_13_10 calc_32 lit_100 calc_33 calc_34 calc_35 calc_36 ease_after_first floor_times_100 calc_37 floor_from_130 round2_floor calc_38 calc_39 calc_40 calc_41 calc_42 calc_43 ease_after_lapse calc_44 calc_45 calc_46 calc_47 calc_48 calc_49 ease_after_second third_product calc_50 third_interval calc_51 calc_52 calc_53 calc_54 calc_55 calc_56 ease_after_third calc_57 calc_58 spec_third_interval calc_59 calc_60 sixth_interval calc_61 calc_62 calc_63 calc_64 calc_65 calc_66 ease_after_sixth calc_67 calc_68 calc_69 calc_70 calc_71 calc_72 ease_after_neutral calc_73 calc_74 ease_neutral_at_floor calc_75 calc_76 calc_77 calc_78 calc_79 calc_80 ease_neutral_huge calc_81 calc_82 floor_interval lit_5_2 lit_13_5 lit_73_50 calc_83 calc_84 calc_85 calc_86 calc_87 calc_88 calc_89 calc_90 calc_91 calc_92 calc_93 calc_94 calc_95 calc_96 calc_97 calc_98 calc_99 calc_100 calc_101 calc_102 calc_103 calc_104 calc_105 calc_106 calc_107 calc_108 calc_109 calc_110 calc_111 calc_112 calc_113 calc_114 calc_115 calc_116 calc_117 calc_118 calc_119 calc_120 calc_121 calc_122 calc_123 calc_124 calc_125 calc_126 calc_127 calc_128 calc_129 calc_130 calc_131 calc_132 calc_133 calc_134 calc_135 calc_136 calc_137 calc_138 calc_139 calc_140 calc_141 calc_142 calc_143 calc_144 calc_145 calc_146 calc_147 calc_148 calc_149 calc_150 calc_151 calc_152 calc_153 calc_154 calc_155 calc_156 calc_157 calc_158 calc_159 calc_160 calc_161 calc_162 calc_163 calc_164 calc_165 calc_166 calc_167 calc_168 calc_169 calc_170 calc_171 calc_172 calc_173 calc_174 calc_175 calc_176 calc_177 calc_178 calc_179 calc_180 calc_181 calc_182 calc_183 calc_184 calc_185 calc_186 calc_187 calc_188 calc_189 calc_190)

lemma calc_192: "round2 (clamp_ease (fadd (Finite (7475975381435023 / 4503599627370496)) (ease_delta (Finite 3)))) = Finite (3422735716801577 / 2251799813685248)"
  by (simp only: lit_5 calc_1 lit_2_100 calc_2 lit_8_100 calc_3 calc_4 lit_1_10 calc_5 ease_delta_5 calc_6 calc_7 calc_8 calc_9 calc_10 ease_delta_3 calc_11 calc_12 calc_13 calc_14 calc_15 ease_delta_1 calc_16 calc_17 calc_18 calc_19 calc_20 ease_delta_4 calc_21 calc_22 calc_23 calc_24 calc_25 ease_delta_2 calc_26 calc_27 calc_28 calc_29 calc_30 ease_delta_0 calc_31 lit_13_10 calc_32 lit_100 calc_33 calc_34 calc_35 calc_36 ease_after_first floor_times_100 calc_37 floor_from_130 round2_floor calc_38 calc_39 calc_40 calc_41 calc_42 calc_43 ease_after_lapse calc_44 calc_45 calc_46 calc_47 calc_48 calc_49 ease_after_second third_product calc_50 third_interval calc_51 calc_52 calc_53 calc_54 calc_55 calc_56 ease_after_third calc_57 calc_58 spec_third_interval calc_59 calc_60 sixth_interval calc_61 calc_62 calc_63 calc_64 calc_65 calc_66 ease_after_sixth calc_67 calc_68 calc_69 calc_70 calc_71 calc_72 ease_after_neutral calc_73 calc_74 ease_neutral_at_floor calc_75 calc_76 calc_77 calc_78 calc_79 calc_80 ease_neutral_huge calc_81 calc_82 floor_interval lit_5_2 lit_13_5 lit_73_50 calc_83 calc_84 calc_85 calc_86 calc_87 calc_88 calc_89 calc_90 calc_91 calc_92 calc_93 calc_94 calc_95 calc_96 calc_97 calc_98 calc_99 calc_100 calc_101 calc_102 calc_103 calc_104 calc_105 calc_106 calc_107 calc_108 calc_109 calc_110 calc_111 calc_112 calc_113 calc_114 calc_115 calc_116 calc_117 calc_118 calc_119 calc_120 calc_121 calc_122 calc_123 calc_124 calc_125 calc_126 calc_127 calc_128 calc_129 calc_130 calc_131 calc_132 calc_133 calc_134 calc_135 calc_136 calc_137 calc_138 calc_139 calc_140 calc_141 calc_142 calc_143 calc_144 calc_145 calc_146 calc_147 calc_148 calc_149 calc_150 calc_151 calc_152 calc_153 calc_154 calc_155 calc_156 calc_157 calc_158 calc_159 calc_160 calc_161 calc_162 calc_163 calc_164 calc_165 calc_166 calc_167 calc_168 calc_169 calc_170 calc_171 calc_172 calc_173 calc_174 calc_175 calc_176 calc_177 calc_178 calc_179 calc_180 calc_181 calc_182 calc_183 calc_184 calc_185 calc_186 calc_187 calc_188 calc_189 calc_190 calc_191)

lemma calc_193: "fmul (Finite 107) (Finite (7475975381435023 / 4503599627370496)) = Finite (1562362042604585 / 8796093022208)"
proof -
  have "rnd (107 * (7475975381435023 / 4503599627370496)) = Finite (1562362042604585 / 8796093022208)"
    by (rule rnd_normal_near [where k = "7" and m = "6249448170418340", THEN trans]) simp_all
  then show ?thesis by (simp)
qed

lemma calc_194: "js_ceil (Finite (1562362042604585 / 8796093022208)) = Finite 178"
  by (rule js_ceil_eqI [where n = "178", THEN trans]) simp_all

lemma calc_195: "js_ceil (fmul (Finite 107) (Finite (7475975381435023 / 4503599627370496))) = Finite 178"
  by (simp only: calc_193 calc_194)

lemma calc_196: "fadd (Finite (3422735716801577 / 2251799813685248)) (Finite (- (5044031582654955 / 36028797018963968))) = Finite (6214967485771285 / 4503599627370496)"
proof -
  have "rnd ((3422735716801577 / 2251799813685248) + (- (5044031582654955 / 36028797018963968))) = Finite (6214967485771285 / 4503599627370496)"
    by (rule rnd_normal_near [where k = "0" and m = "6214967485771285", THEN trans]) simp_all
  then show ?thesis by (simp)
qed

lemma calc_197: "clamp_ease (Finite (6214967485771285 / 4503599627370496)) = Finite (6214967485771285 / 4503599627370496)"
  by (simp add: clamp_ease_def lit_13_10)

lemma calc_198: "fmul (Finite (6214967485771285 / 4503599627370496)) (Finite 100) = Finite 138"
proof -
  have "rnd ((6214967485771285 / 4503599627370496) * 100) = Finite (138)"
    by (rule rnd_normal_near [where k = "7" and m = "4855443348258816", THEN trans]) simp_all
  then show ?thesis by (simp)
qed

lemma calc_199: "js_round (Finite 138) = Finite 138"
  by (rule js_round_eqI [where n = "138", THEN trans]) simp_all

lemma calc_200: "fdiv (Finite 138) (Finite 100) = Finite (1553741871442821 / 1125899906842624)"
proof -
  have "rnd (138 / 100) = Finite (1553741871442821 / 1125899906842624)"
    by (rule rnd_normal_near [where k = "0" and m = "6214967485771284", THEN trans]) simp_all
  then show ?thesis by (simp)
qed

lemma calc_201: "round2 (Finite (6214967485771285 / 4503599627370496)) = Finite (1553741871442821 / 1125899906842624)"
  by (simp only: round2_def lit_5 calc_1 lit_2_100 calc_2 lit_8_100 calc_3 calc_4 lit_1_10 calc_5 ease_delta_5 calc_6 calc_7 calc_8 calc_9 calc_10 ease_delta_3 calc_11 calc_12 calc_13 calc_14 calc_15 ease_delta_1 calc_16 calc_17 calc_18 calc_19 calc_20 ease_delta_4 calc_21 calc_22 calc_23 calc_24 calc_25 ease_delta_2 calc_26 calc_27 calc_28 calc_29 calc_30 ease_delta_0 calc_31 lit_13_10 calc_32 lit_100 calc_33 calc_34 calc_35 calc_36 ease_after_first floor_times_100 calc_37 floor_from_130 round2_floor calc_38 calc_39 calc_40 calc_41 calc_42 calc_43 ease_after_lapse calc_44 calc_45 calc_46 calc_47 calc_48 calc_49 ease_after_second third_product calc_50 third_interval calc_51 calc_52 calc_53 calc_54 calc_55 calc_56 ease_after_third calc_57 calc_58 spec_third_interval calc_59 calc_60 sixth_interval calc_61 calc_62 calc_63 calc_64 calc_65 calc_66 ease_after_sixth calc_67 calc_68 calc_69 calc_70 calc_71 calc_72 ease_after_neutral calc_73 calc_74 ease_neutral_at_floor calc_75 calc_76 calc_77 calc_78 calc_79 calc_80 ease_neutral_huge calc_81 calc_82 floor_interval lit_5_2 lit_13_5 lit_73_50 calc_83 calc_84 calc_85 calc_86 calc_87 calc_88 calc_89 calc_90 calc_91 calc_92 calc_93 calc_94 calc_95 calc_96 calc_97 calc_98 calc_99 calc_100 calc_101 calc_102 calc_103 calc_104 calc_105 calc_106 calc_107 calc_108 calc_109 calc_110 calc_111 calc_112 calc_113 calc_114 calc_115 calc_116 calc_117 calc_118 calc_119 calc_120 calc_121 calc_122 calc_123 calc_124 calc_125 calc_126 calc_127 calc_128 calc_129 calc_130 calc_131 calc_132 calc_133 calc_134 calc_135 calc_136 calc_137 calc_138 calc_139 calc_140 calc_141 calc_142 calc_143 calc_144 calc_145 calc_146 calc_147 calc_148 calc_149 calc_150 calc_151 calc_152 calc_153 calc_154 calc_155 calc_156 calc_157 calc_158 calc_159 calc_160 calc_161 calc_162 calc_163 calc_164 calc_165 calc_166 calc_167 calc_168 calc_169 calc_170 calc_171 calc_172 calc_173 calc_174 calc_175 calc_176 calc_177 calc_178 calc_179 calc_180 calc_181 calc_182 calc_183 calc_184 calc_185 calc_186 calc_187 calc_188 calc_189 calc_190 calc_191 calc_192 calc_193 calc_194 calc_195 calc_196 calc_197 calc_198 calc_199 calc_200)

lemma calc_202: "round2 (clamp_ease (fadd (Finite (3422735716801577 / 2251799813685248)) (ease_delta (Finite 3)))) = Finite (1553741871442821 / 1125899906842624)"
  by (simp only: lit_5 calc_1 lit_2_100 calc_2 lit_8_100 calc_3 calc_4 lit_1_10 calc_5 ease_delta_5 calc_6 calc_7 calc_8 calc_9 calc_10 ease_delta_3 calc_11 calc_12 calc_13 calc_14 calc_15 ease_delta_1 calc_16 calc_17 calc_18 calc_19 calc_20 ease_delta_4 calc_21 calc_22 calc_23 calc_24 calc_25 ease_delta_2 calc_26 calc_27 calc_28 calc_29 calc_30 ease_delta_0 calc_31 lit_13_10 calc_32 lit_100 calc_33 calc_34 calc_35 calc_36 ease_after_first floor_times_100 calc_37 floor_from_130 round2_floor calc_38 calc_39 calc_40 calc_41 calc_42 calc_43 ease_after_lapse calc_44 calc_45 calc_46 calc_47 calc_48 calc_49 ease_after_second third_product calc_50 third_interval calc_51 calc_52 calc_53 calc_54 calc_55 calc_56 ease_after_third calc_57 calc_58 spec_third_interval calc_59 calc_60 sixth_interval calc_61 calc_62 calc_63 calc_64 calc_65 calc_66 ease_after_sixth calc_67 calc_68 calc_69 calc_70 calc_71 calc_72 ease_after_neutral calc_73 calc_74 ease_neutral_at_floor calc_75 calc_76 calc_77 calc_78 calc_79 calc_80 ease_neutral_huge calc_81 calc_82 floor_interval lit_5_2 lit_13_5 lit_73_50 calc_83 calc_84 calc_85 calc_86 calc_87 calc_88 calc_89 calc_90 calc_91 calc_92 calc_93 calc_94 calc_95 calc_96 calc_97 calc_98 calc_99 calc_100 calc_101 calc_102 calc_103 calc_104 calc_105 calc_106 calc_107 calc_108 calc_109 calc_110 calc_111 calc_112 calc_113 calc_114 calc_115 calc_116 calc_117 calc_118 calc_119 calc_120 calc_121 calc_122 calc_123 calc_124 calc_125 calc_126 calc_127 calc_128 calc_129 calc_130 calc_131 calc_132 calc_133 calc_134 calc_135 calc_136 calc_137 calc_138 calc_139 calc_140 calc_141 calc_142 calc_143 calc_144 calc_145 calc_146 calc_147 calc_148 calc_149 calc_150 calc_151 calc_152 calc_153 calc_154 calc_155 calc_156 calc_157 calc_158 calc_159 calc_160 calc_161 calc_162 calc_163 calc_164 calc_165 calc_166 calc_167 calc_168 calc_169 calc_170 calc_171 calc_172 calc_173 calc_174 calc_175 calc_176 calc_177 calc_178 calc_179 calc_180 calc_181 calc_182 calc_183 calc_184 calc_185 calc_186 calc_187 calc_188 calc_189 calc_190 calc_191 calc_192 calc_193 calc_194 calc_195 calc_196 calc_197 calc_198 calc_199 calc_200 calc_201)

lemma calc_203: "fmul (Finite 178) (Finite (3422735716801577 / 2251799813685248)) = Finite (4759741856177193 / 17592186044416)"
proof -
  have "rnd (178 * (3422735716801577 / 2251799813685248)) = Finite (4759741856177193 / 17592186044416)"
    by (rule rnd_normal_near [where k = "8" and m = "4759741856177193", THEN trans]) simp_all
  then show ?thesis by (simp)
qed

lemma calc_204: "js_ceil (Finite (4759741856177193 / 17592186044416)) = Finite 271"
  by (rule js_ceil_eqI [where n = "271", THEN trans]) simp_all

lemma calc_205: "js_ceil (fmul (Finite 178) (Finite (3422735716801577 / 2251799813685248))) = Finite 271"
  by (simp only: calc_203 calc_204)

lemma calc_206: "fadd (Finite (1553741871442821 / 1125899906842624)) (Finite (- (5044031582654955 / 36028797018963968))) = Finite (5584463537939415 / 4503599627370496)"
proof -
  have "rnd ((1553741871442821 / 1125899906842624) + (- (5044031582654955 / 36028797018963968))) = Finite (5584463537939415 / 4503599627370496)"
    by (rule rnd_normal_near [where k = "0" and m = "5584463537939415", THEN trans]) simp_all
  then show ?thesis by (simp)
qed

lemma calc_207: "clamp_ease (Finite (5584463537939415 / 4503599627370496)) = Finite (5854679515581645 / 4503599627370496)"
  by (simp add: clamp_ease_def lit_13_10)

lemma calc_208: "round2 (clamp_ease (fadd (Finite (1553741871442821 / 1125899906842624)) (ease_delta (Finite 3)))) = Finite (5854679515581645 / 4503599627370496)"
  by (simp only: lit_5 calc_1 lit_2_100 calc_2 lit_8_100 calc_3 calc_4 lit_1_10 calc_5 ease_delta_5 calc_6 calc_7 calc_8 calc_9 calc_10 ease_delta_3 calc_11 calc_12 calc_13 calc_14 calc_15 ease_delta_1 calc_16 calc_17 calc_18 calc_19 calc_20 ease_delta_4 calc_21 calc_22 calc_23 calc_24 calc_25 ease_delta_2 calc_26 calc_27 calc_28 calc_29 calc_30 ease_delta_0 calc_31 lit_13_10 calc_32 lit_100 calc_33 calc_34 calc_35 calc_36 ease_after_first floor_times_100 calc_37 floor_from_130 round2_floor calc_38 calc_39 calc_40 calc_41 calc_42 calc_43 ease_after_lapse calc_44 calc_45 calc_46 calc_47 calc_48 calc_49 ease_after_second third_product calc_50 third_interval calc_51 calc_52 calc_53 calc_54 calc_55 calc_56 ease_after_third calc_57 calc_58 spec_third_interval calc_59 calc_60 sixth_interval calc_61 calc_62 calc_63 calc_64 calc_65 calc_66 ease_after_sixth calc_67 calc_68 calc_69 calc_70 calc_71 calc_72 ease_after_neutral calc_73 calc_74 ease_neutral_at_floor calc_75 calc_76 calc_77 calc_78 calc_79 calc_80 ease_neutral_huge calc_81 calc_82 floor_interval lit_5_2 lit_13_5 lit_73_50 calc_83 calc_84 calc_85 calc_86 calc_87 calc_88 calc_89 calc_90 calc_91 calc_92 calc_93 calc_94 calc_95 calc_96 calc_97 calc_98 calc_99 calc_100 calc_101 calc_102 calc_103 calc_104 calc_105 calc_106 calc_107 calc_108 calc_109 calc_110 calc_111 calc_112 calc_113 calc_114 calc_115 calc_116 calc_117 calc_118 calc_119 calc_120 calc_121 calc_122 calc_123 calc_124 calc_125 calc_126 calc_127 calc_128 calc_129 calc_130 calc_131 calc_132 calc_133 calc_134 calc_135 calc_136 calc_137 calc_138 calc_139 calc_140 calc_141 calc_142 calc_143 calc_144 calc_145 calc_146 calc_147 calc_148 calc_149 calc_150 calc_151 calc_152 calc_153 calc_154 calc_155 calc_156 calc_157 calc_158 calc_159 calc_160 calc_161 calc_162 calc_163 calc_164 calc_165 calc_166 calc_167 calc_168 calc_169 calc_170 calc_171 calc_172 calc_173 calc_174 calc_175 calc_176 calc_177 calc_178 calc_179 calc_180 calc_181 calc_182 calc_183 calc_184 calc_185 calc_186 calc_187 calc_188 calc_189 calc_190 calc_191 calc_192 calc_193 calc_194 calc_195 calc_196 calc_197 calc_198 calc_199 calc_200 calc_201 calc_202 calc_203 calc_204 calc_205 calc_206 calc_207)

lemma calc_209: "fmul (Finite 271) (Finite (1553741871442821 / 1125899906842624)) = Finite (6579125736890695 / 17592186044416)"
proof -
  have "rnd (271 * (1553741871442821 / 1125899906842624)) = Finite (6579125736890695 / 17592186044416)"
    by (rule rnd_normal_near [where k = "8" and m = "6579125736890695", THEN trans]) simp_all
  then show ?thesis by (simp)
qed

lemma calc_210: "js_ceil (Finite (6579125736890695 / 17592186044416)) = Finite 374"
  by (rule js_ceil_eqI [where n = "374", THEN trans]) simp_all

lemma calc_211: "js_ceil (fmul (Finite 271) (Finite (1553741871442821 / 1125899906842624))) = Finite 374"
  by (simp only: calc_209 calc_210)

lemma calc_212: "fadd (Finite (3152519739159347 / 1125899906842624)) (Finite (3602879701896397 / 36028797018963968)) = Finite (6530219459687219 / 2251799813685248)"
proof -
  have "rnd ((3152519739159347 / 1125899906842624) + (3602879701896397 / 36028797018963968)) = Finite (6530219459687219 / 2251799813685248)"
    by (rule rnd_normal_near [where k = "1" and m = "6530219459687219", THEN trans]) simp_all
  then show ?thesis by (simp)
qed

lemma calc_213: "clamp_ease (Finite (6530219459687219 / 2251799813685248)) = Finite (6530219459687219 / 2251799813685248)"
  by (simp add: clamp_ease_def lit_13_10)

lemma calc_214: "fmul (Finite (6530219459687219 / 2251799813685248)) (Finite 100) = Finite 290"
proof -
  have "rnd ((6530219459687219 / 2251799813685248) * 100) = Finite (290)"
    by (rule rnd_normal_near [where k = "8" and m = "5101733952880640", THEN trans]) simp_all
  then show ?thesis by (simp)
qed

lemma calc_215: "js_round (Finite 290) = Finite 290"
  by (rule js_round_eqI [where n = "290", THEN trans]) simp_all

lemma calc_216: "fdiv (Finite 290) (Finite 100) = Finite (6530219459687219 / 2251799813685248)"
proof -
  have "rnd (290 / 100) = Finite (6530219459687219 / 2251799813685248)"
    by (rule rnd_normal_near [where k = "1" and m = "6530219459687219", THEN trans]) simp_all
  then show ?thesis by (simp)
qed

lemma calc_217: "round2 (Finite (6530219459687219 / 2251799813685248)) = Finite (6530219459687219 / 2251799813685248)"
  by (simp only: round2_def lit_5 calc_1 lit_2_100 calc_2 lit_8_100 calc_3 calc_4 lit_1_10 calc_5 ease_delta_5 calc_6 calc_7 calc_8 calc_9 calc_10 ease_delta_3 calc_11 calc_12 calc_13 calc_14 calc_15 ease_delta_1 calc_16 calc_17 calc_18 calc_19 calc_20 ease_delta_4 calc_21 calc_22 calc_23 calc_24 calc_25 ease_delta_2 calc_26 calc_27 calc_28 calc_29 calc_30 ease_delta_0 calc_31 lit_13_10 calc_32 lit_100 calc_33 calc_34 calc_35 calc_36 ease_after_first floor_times_100 calc_37 floor_from_130 round2_floor calc_38 calc_39 calc_40 calc_41 calc_42 calc_43 ease_after_lapse calc_44 calc_45 calc_46 calc_47 calc_48 calc_49 ease_after_second third_product calc_50 third_interval calc_51 calc_52 calc_53 calc_54 calc_55 calc_56 ease_after_third calc_57 calc_58 spec_third_interval calc_59 calc_60 sixth_interval calc_61 calc_62 calc_63 calc_64 calc_65 calc_66 ease_after_sixth calc_67 calc_68 calc_69 calc_70 calc_71 calc_72 ease_after_neutral calc_73 calc_74 ease_neutral_at_floor calc_75 calc_76 calc_77 calc_78 calc_79 calc_80 ease_neutral_huge calc_81 calc_82 floor_interval lit_5_2 lit_13_5 lit_73_50 calc_83 calc_84 calc_85 calc_86 calc_87 calc_88 calc_89 calc_90 calc_91 calc_92 calc_93 calc_94 calc_95 calc_96 calc_97 calc_98 calc_99 calc_100 calc_101 calc_102 calc_103 calc_104 calc_105 calc_106 calc_107 calc_108 calc_109 calc_110 calc_111 calc_112 calc_113 calc_114 calc_115 calc_116 calc_117 calc_118 calc_119 calc_120 calc_121 calc_122 calc_123 calc_124 calc_125 calc_126 calc_127 calc_128 calc_129 calc_130 calc_131 calc_132 calc_133 calc_134 calc_135 calc_136 calc_137 calc_138 calc_139 calc_140 calc_141 calc_142 calc_143 calc_144 calc_145 calc_146 calc_147 calc_148 calc_149 calc_150 calc_151 calc_152 calc_153 calc_154 calc_155 calc_156 calc_157 calc_158 calc_159 calc_160 calc_161 calc_162 calc_163 calc_164 calc_165 calc_166 calc_167 calc_168 calc_169 calc_170 calc_171 calc_172 calc_173 calc_174 calc_175 calc_176 calc_177 calc_178 calc_179 calc_180 calc_181 calc_182 calc_183 calc_184 calc_185 calc_186 calc_187 calc_188 calc_189 calc_190 calc_191 calc_192 calc_193 calc_194 calc_195 calc_196 calc_197 calc_198 calc_199 calc_200 calc_201 calc_202 calc_203 calc_204 calc_205 calc_206 calc_207 calc_208 calc_209 calc_210 calc_211 calc_212 calc_213 calc_214 calc_215 calc_216)

lemma calc_218: "round2 (clamp_ease (fadd (Finite (3152519739159347 / 1125899906842624)) (ease_delta (Finite 5)))) = Finite (6530219459687219 / 2251799813685248)"
  by (simp only: lit_5 calc_1 lit_2_100 calc_2 lit_8_100 calc_3 calc_4 lit_1_10 calc_5 ease_delta_5 calc_6 calc_7 calc_8 calc_9 calc_10 ease_delta_3 calc_11 calc_12 calc_13 calc_14 calc_15 ease_delta_1 calc_16 calc_17 calc_18 calc_19 calc_20 ease_delta_4 calc_21 calc_22 calc_23 calc_24 calc_25 ease_delta_2 calc_26 calc_27 calc_28 calc_29 calc_30 ease_delta_0 calc_31 lit_13_10 calc_32 lit_100 calc_33 calc_34 calc_35 calc_36 ease_after_first floor_times_100 calc_37 floor_from_130 round2_floor calc_38 calc_39 calc_40 calc_41 calc_42 calc_43 ease_after_lapse calc_44 calc_45 calc_46 calc_47 calc_48 calc_49 ease_after_second third_product calc_50 third_interval calc_51 calc_52 calc_53 calc_54 calc_55 calc_56 ease_after_third calc_57 calc_58 spec_third_interval calc_59 calc_60 sixth_interval calc_61 calc_62 calc_63 calc_64 calc_65 calc_66 ease_after_sixth calc_67 calc_68 calc_69 calc_70 calc_71 calc_72 ease_after_neutral calc_73 calc_74 ease_neutral_at_floor calc_75 calc_76 calc_77 calc_78 calc_79 calc_80 ease_neutral_huge calc_81 calc_82 floor_interval lit_5_2 lit_13_5 lit_73_50 calc_83 calc_84 calc_85 calc_86 calc_87 calc_88 calc_89 calc_90 calc_91 calc_92 calc_93 calc_94 calc_95 calc_96 calc_97 calc_98 calc_99 calc_100 calc_101 calc_102 calc_103 calc_104 calc_105 calc_106 calc_107 calc_108 calc_109 calc_110 calc_111 calc_112 calc_113 calc_114 calc_115 calc_116 calc_117 calc_118 calc_119 calc_120 calc_121 calc_122 calc_123 calc_124 calc_125 calc_126 calc_127 calc_128 calc_129 calc_130 calc_131 calc_132 calc_133 calc_134 calc_135 calc_136 calc_137 calc_138 calc_139 calc_140 calc_141 calc_142 calc_143 calc_144 calc_145 calc_146 calc_147 calc_148 calc_149 calc_150 calc_151 calc_152 calc_153 calc_154 calc_155 calc_156 calc_157 calc_158 calc_159 calc_160 calc_161 calc_162 calc_163 calc_164 calc_165 calc_166 calc_167 calc_168 calc_169 calc_170 calc_171 calc_172 calc_173 calc_174 calc_175 calc_176 calc_177 calc_178 calc_179 calc_180 calc_181 calc_182 calc_183 calc_184 calc_185 calc_186 calc_187 calc_188 calc_189 calc_190 calc_191 calc_192 calc_193 calc_194 calc_195 calc_196 calc_197 calc_198 calc_199 calc_200 calc_201 calc_202 calc_203 calc_204 calc_205 calc_206 calc_207 calc_208 calc_209 calc_210 calc_211 calc_212 calc_213 calc_214 calc_215 calc_216 calc_217)

lemma calc_219: "fmul (Finite 17) (Finite (3152519739159347 / 1125899906842624)) = Finite (1674776111428403 / 35184372088832)"
proof -
  have "rnd (17 * (3152519739159347 / 1125899906842624)) = Finite (1674776111428403 / 35184372088832)"
    by (rule rnd_normal_near [where k = "5" and m = "6699104445713612", THEN trans]) simp_all
  then show ?thesis by (simp)
qed

lemma calc_220: "js_ceil (Finite (1674776111428403 / 35184372088832)) = Finite 48"
  by (rule js_ceil_eqI [where n = "48", THEN trans]) simp_all

lemma calc_221: "js_ceil (fmul (Finite 17) (Finite (3152519739159347 / 1125899906842624))) = Finite 48"
  by (simp only: calc_219 calc_220)

lemma calc_222: "fadd (Finite (6530219459687219 / 2251799813685248)) (Finite (3602879701896397 / 36028797018963968)) = Finite 3"
proof -
  have "rnd ((6530219459687219 / 2251799813685248) + (3602879701896397 / 36028797018963968)) = Finite (3)"
    by (rule rnd_normal_near [where k = "1" and m = "6755399441055744", THEN trans]) simp_all
  then show ?thesis by (simp)
qed

lemma calc_223: "clamp_ease (Finite 3) = Finite 3"
  by (simp add: clamp_ease_def lit_13_10)

lemma calc_224: "fmul (Finite 3) (Finite 100) = Finite 300"
  by (simp)

lemma calc_225: "js_round (Finite 300) = Finite 300"
  by (rule js_round_eqI [where n = "300", THEN trans]) simp_all

lemma calc_226: "fdiv (Finite 300) (Finite 100) = Finite 3"
  by (simp)

lemma calc_227: "round2 (Finite 3) = Finite 3"
  by (simp only: round2_def lit_5 calc_1 lit_2_100 calc_2 lit_8_100 calc_3 calc_4 lit_1_10 calc_5 ease_delta_5 calc_6 calc_7 calc_8 calc_9 calc_10 ease_delta_3 calc_11 calc_12 calc_13 calc_14 calc_15 ease_delta_1 calc_16 calc_17 calc_18 calc_19 calc_20 ease_delta_4 calc_21 calc_22 calc_23 calc_24 calc_25 ease_delta_2 calc_26 calc_27 calc_28 calc_29 calc_30 ease_delta_0 calc_31 lit_13_10 calc_32 lit_100 calc_33 calc_34 calc_35 calc_36 ease_after_first floor_times_100 calc_37 floor_from_130 round2_floor calc_38 calc_39 calc_40 calc_41 calc_42 calc_43 ease_after_lapse calc_44 calc_45 calc_46 calc_47 calc_48 calc_49 ease_after_second third_product calc_50 third_interval calc_51 calc_52 calc_53 calc_54 calc_55 calc_56 ease_after_third calc_57 calc_58 spec_third_interval calc_59 calc_60 sixth_interval calc_61 calc_62 calc_63 calc_64 calc_65 calc_66 ease_after_sixth calc_67 calc_68 calc_69 calc_70 calc_71 calc_72 ease_after_neutral calc_73 calc_74 ease_neutral_at_floor calc_75 calc_76 calc_77 calc_78 calc_79 calc_80 ease_neutral_huge calc_81 calc_82 floor_interval lit_5_2 lit_13_5 lit_73_50 calc_83 calc_84 calc_85 calc_86 calc_87 calc_88 calc_89 calc_90 calc_91 calc_92 calc_93 calc_94 calc_95 calc_96 calc_97 calc_98 calc_99 calc_100 calc_101 calc_102 calc_103 calc_104 calc_105 calc_106 calc_107 calc_108 calc_109 calc_110 calc_111 calc_112 calc_113 calc_114 calc_115 calc_116 calc_117 calc_118 calc_119 calc_120 calc_121 calc_122 calc_123 calc_124 calc_125 calc_126 calc_127 calc_128 calc_129 calc_130 calc_131 calc_132 calc_133 calc_134 calc_135 calc_136 calc_137 calc_138 calc_139 calc_140 calc_141 calc_142 calc_143 calc_144 calc_145 calc_146 calc_147 calc_148 calc_149 calc_150 calc_151 calc_152 calc_153 calc_154 calc_155 calc_156 calc_157 calc_158 calc_159 calc_160 calc_161 calc_162 calc_163 calc_164 calc_165 calc_166 calc_167 calc_168 calc_169 calc_170 calc_171 calc_172 calc_173 calc_174 calc_175 calc_176 calc_177 calc_178 calc_179 calc_180 calc_181 calc_182 calc_183 calc_184 calc_185 calc_186 calc_187 calc_188 calc_189 calc_190 calc_191 calc_192 calc_193 calc_194 calc_195 calc_196 calc_197 calc_198 calc_199 calc_200 calc_201 calc_202 calc_203 calc_204 calc_205 calc_206 calc_207 calc_208 calc_209 calc_210 calc_211 calc_212 calc_213 calc_214 calc_215 calc_216 calc_217 calc_218 calc_219 calc_220 calc_221 calc_222 calc_223 calc_224 calc_225 calc_226)

lemma calc_228: "round2 (clamp_ease (fadd (Finite (6530219459687219 / 2251799813685248)) (ease_delta (Finite 5)))) = Finite 3"
  by (simp only: lit_5 calc_1 lit_2_100 calc_2 lit_8_100 calc_3 calc_4 lit_1_10 calc_5 ease_delta_5 calc_6 calc_7 calc_8 calc_9 calc_10 ease_delta_3 calc_11 calc_12 calc_13 calc_14 calc_15 ease_delta_1 calc_16 calc_17 calc_18 calc_19 calc_20 ease_delta_4 calc_21 calc_22 calc_23 calc_24 calc_25 ease_delta_2 calc_26 calc_27 calc_28 calc_29 calc_30 ease_delta_0 calc_31 lit_13_10 calc_32 lit_100 calc_33 calc_34 calc_35 calc_36 ease_after_first floor_times_100 calc_37 floor_from_130 round2_floor calc_38 calc_39 calc_40 calc_41 calc_42 calc_43 ease_after_lapse calc_44 calc_45 calc_46 calc_47 calc_48 calc_49 ease_after_second third_product calc_50 third_interval calc_51 calc_52 calc_53 calc_54 calc_55 calc_56 ease_after_third calc_57 calc_58 spec_third_interval calc_59 calc_60 sixth_interval calc_61 calc_62 calc_63 calc_64 calc_65 calc_66 ease_after_sixth calc_67 calc_68 calc_69 calc_70 calc_71 calc_72 ease_after_neutral calc_73 calc_74 ease_neutral_at_floor calc_75 calc_76 calc_77 calc_78 calc_79 calc_80 ease_neutral_huge calc_81 calc_82 floor_interval lit_5_2 lit_13_5 lit_73_50 calc_83 calc_84 calc_85 calc_86 calc_87 calc_88 calc_89 calc_90 calc_91 calc_92 calc_93 calc_94 calc_95 calc_96 calc_97 calc_98 calc_99 calc_100 calc_101 calc_102 calc_103 calc_104 calc_105 calc_106 calc_107 calc_108 calc_109 calc_110 calc_111 calc_112 calc_113 calc_114 calc_115 calc_116 calc_117 calc_118 calc_119 calc_120 calc_121 calc_122 calc_123 calc_124 calc_125 calc_126 calc_127 calc_128 calc_129 calc_130 calc_131 calc_132 calc_133 calc_134 calc_135 calc_136 calc_137 calc_138 calc_139 calc_140 calc_141 calc_142 calc_143 calc_144 calc_145 calc_146 calc_147 calc_148 calc_149 calc_150 calc_151 calc_152 calc_153 calc_154 calc_155 calc_156 calc_157 calc_158 calc_159 calc_160 calc_161 calc_162 calc_163 calc_164 calc_165 calc_166 calc_167 calc_168 calc_169 calc_170 calc_171 calc_172 calc_173 calc_174 calc_175 calc_176 calc_177 calc_178 calc_179 calc_180 calc_181 calc_182 calc_183 calc_184 calc_185 calc_186 calc_187 calc_188 calc_189 calc_190 calc_191 calc_192 calc_193 calc_194 calc_195 calc_196 calc_197 calc_198 calc_199 calc_200 calc_201 calc_202 calc_203 calc_204 calc_205 calc_206 calc_207 calc_208 calc_209 calc_210 calc_211 calc_212 calc_213 calc_214 calc_215 calc_216 calc_217 calc_218 calc_219 calc_220 calc_221 calc_222 calc_223 calc_224 calc_225 calc_226 calc_227)

lemma calc_229: "fmul (Finite 48) (Finite (6530219459687219 / 2251799813685248)) = Finite (2448832297382707 / 17592186044416)"
proof -
  have "rnd (48 * (6530219459687219 / 2251799813685248)) = Finite (2448832297382707 / 17592186044416)"
    by (rule rnd_normal_near [where k = "7" and m = "4897664594765414", THEN trans]) simp_all
  then show ?thesis by (simp)
qed

lemma calc_230: "js_ceil (Finite (2448832297382707 / 17592186044416)) = Finite 140"
  by (rule js_ceil_eqI [where n = "140", THEN trans]) simp_all

lemma calc_231: "js_ceil (fmul (Finite 48) (Finite (6530219459687219 / 2251799813685248))) = Finite 140"
  by (simp only: calc_229 calc_230)

lemma calc_232: "fadd (Finite 3) (Finite (3602879701896397 / 36028797018963968)) = Finite (6980579422424269 / 2251799813685248)"
proof -
  have "rnd (3 + (3602879701896397 / 36028797018963968)) = Finite (6980579422424269 / 2251799813685248)"
    by (rule rnd_normal_near [where k = "1" and m = "6980579422424269", THEN trans]) simp_all
  then show ?thesis by (simp)
qed

lemma calc_233: "clamp_ease (Finite (6980579422424269 / 2251799813685248)) = Finite (6980579422424269 / 2251799813685248)"
  by (simp add: clamp_ease_def lit_13_10)

lemma calc_234: "fmul (Finite (6980579422424269 / 2251799813685248)) (Finite 100) = Finite 310"
proof -
  have "rnd ((6980579422424269 / 2251799813685248) * 100) = Finite (310)"
    by (rule rnd_normal_near [where k = "8" and m = "5453577673768960", THEN trans]) simp_all
  then show ?thesis by (simp)
qed

lemma calc_235: "js_round (Finite 310) = Finite 310"
  by (rule js_round_eqI [where n = "310", THEN trans]) simp_all

lemma calc_236: "fdiv (Finite 310) (Finite 100) = Finite (6980579422424269 / 2251799813685248)"
proof -
  have "rnd (310 / 100) = Finite (6980579422424269 / 2251799813685248)"
    by (rule rnd_normal_near [where k = "1" and m = "6980579422424269", THEN trans]) simp_all
  then show ?thesis by (simp)
qed

lemma calc_237: "round2 (Finite (6980579422424269 / 2251799813685248)) = Finite (6980579422424269 / 2251799813685248)"
  by (simp only: round2_def lit_5 calc_1 lit_2_100 calc_2 lit_8_100 calc_3 calc_4 lit_1_10 calc_5 ease_delta_5 calc_6 calc_7 calc_8 calc_9 calc_10 ease_delta_3 calc_11 calc_12 calc_13 calc_14 calc_15 ease_delta_1 calc_16 calc_17 calc_18 calc_19 calc_20 ease_delta_4 calc_21 calc_22 calc_23 calc_24 calc_25 ease_delta_2 calc_26 calc_27 calc_28 calc_29 calc_30 ease_delta_0 calc_31 lit_13_10 calc_32 lit_100 calc_33 calc_34 calc_35 calc_36 ease_after_first floor_times_100 calc_37 floor_from_130 round2_floor calc_38 calc_39 calc_40 calc_41 calc_42 calc_43 ease_after_lapse calc_44 calc_45 calc_46 calc_47 calc_48 calc_49 ease_after_second third_product calc_50 third_interval calc_51 calc_52 calc_53 calc_54 calc_55 calc_56 ease_after_third calc_57 calc_58 spec_third_interval calc_59 calc_60 sixth_interval calc_61 calc_62 calc_63 calc_64 calc_65 calc_66 ease_after_sixth calc_67 calc_68 calc_69 calc_70 calc_71 calc_72 ease_after_neutral calc_73 calc_74 ease_neutral_at_floor calc_75 calc_76 calc_77 calc_78 calc_79 calc_80 ease_neutral_huge calc_81 calc_82 floor_interval lit_5_2 lit_13_5 lit_73_50 calc_83 calc_84 calc_85 calc_86 calc_87 calc_88 calc_89 calc_90 calc_91 calc_92 calc_93 calc_94 calc_95 calc_96 calc_97 calc_98 calc_99 calc_100 calc_101 calc_102 calc_103 calc_104 calc_105 calc_106 calc_107 calc_108 calc_109 calc_110 calc_111 calc_112 calc_113 calc_114 calc_115 calc_116 calc_117 calc_118 calc_119 calc_120 calc_121 calc_122 calc_123 calc_124 calc_125 calc_126 calc_127 calc_128 calc_129 calc_130 calc_131 calc_132 calc_133 calc_134 calc_135 calc_136 calc_137 calc_138 calc_139 calc_140 calc_141 calc_142 calc_143 calc_144 calc_145 calc_146 calc_147 calc_148 calc_149 calc_150 calc_151 calc_152 calc_153 calc_154 calc_155 calc_156 calc_157 calc_158 calc_159 calc_160 calc_161 calc_162 calc_163 calc_164 calc_165 calc_166 calc_167 calc_168 calc_169 calc_170 calc_171 calc_172 calc_173 calc_174 calc_175 calc_176 calc_177 calc_178 calc_179 calc_180 calc_181 calc_182 calc_183 calc_184 calc_185 calc_186 calc_187 calc_188 calc_189 calc_190 calc_191 calc_192 calc_193 calc_194 calc_195 calc_196 calc_197 calc_198 calc_199 calc_200 calc_201 calc_202 calc_203 calc_204 calc_205 calc_206 calc_207 calc_208 calc_209 calc_210 calc_211 calc_212 calc_213 calc_214 calc_215 calc_216 calc_217 calc_218 calc_219 calc_220 calc_221 calc_222 calc_223 calc_224 calc_225 calc_226 calc_227 calc_228 calc_229 calc_230 calc_231 calc_232 calc_233 calc_234 calc_235 calc_236)

lemma calc_238: "round2 (clamp_ease (fadd (Finite 3) (ease_delta (Finite 5)))) = Finite (6980579422424269 / 2251799813685248)"
  by (simp only: lit_5 calc_1 lit_2_100 calc_2 lit_8_100 calc_3 calc_4 lit_1_10 calc_5 ease_delta_5 calc_6 calc_7 calc_8 calc_9 calc_10 ease_delta_3 calc_11 calc_12 calc_13 calc_14 calc_15 ease_delta_1 calc_16 calc_17 calc_18 calc_19 calc_20 ease_delta_4 calc_21 calc_22 calc_23 calc_24 calc_25 ease_delta_2 calc_26 calc_27 calc_28 calc_29 calc_30 ease_delta_0 calc_31 lit_13_10 calc_32 lit_100 calc_33 calc_34 calc_35 calc_36 ease_after_first floor_times_100 calc_37 floor_from_130 round2_floor calc_38 calc_39 calc_40 calc_41 calc_42 calc_43 ease_after_lapse calc_44 calc_45 calc_46 calc_47 calc_48 calc_49 ease_after_second third_product calc_50 third_interval calc_51 calc_52 calc_53 calc_54 calc_55 calc_56 ease_after_third calc_57 calc_58 spec_third_interval calc_59 calc_60 sixth_interval calc_61 calc_62 calc_63 calc_64 calc_65 calc_66 ease_after_sixth calc_67 calc_68 calc_69 calc_70 calc_71 calc_72 ease_after_neutral calc_73 calc_74 ease_neutral_at_floor calc_75 calc_76 calc_77 calc_78 calc_79 calc_80 ease_neutral_huge calc_81 calc_82 floor_interval lit_5_2 lit_13_5 lit_73_50 calc_83 calc_84 calc_85 calc_86 calc_87 calc_88 calc_89 calc_90 calc_91 calc_92 calc_93 calc_94 calc_95 calc_96 calc_97 calc_98 calc_99 calc_100 calc_101 calc_102 calc_103 calc_104 calc_105 calc_106 calc_107 calc_108 calc_109 calc_110 calc_111 calc_112 calc_113 calc_114 calc_115 calc_116 calc_117 calc_118 calc_119 calc_120 calc_121 calc_122 calc_123 calc_124 calc_125 calc_126 calc_127 calc_128 calc_129 calc_130 calc_131 calc_132 calc_133 calc_134 calc_135 calc_136 calc_137 calc_138 calc_139 calc_140 calc_141 calc_142 calc_143 calc_144 calc_145 calc_146 calc_147 calc_148 calc_149 calc_150 calc_151 calc_152 calc_153 calc_154 calc_155 calc_156 calc_157 calc_158 calc_159 calc_160 calc_161 calc_162 calc_163 calc_164 calc_165 calc_166 calc_167 calc_168 calc_169 calc_170 calc_171 calc_172 calc_173 calc_174 calc_175 calc_176 calc_177 calc_178 calc_179 calc_180 calc_181 calc_182 calc_183 calc_184 calc_185 calc_186 calc_187 calc_188 calc_189 calc_190 calc_191 calc_192 calc_193 calc_194 calc_195 calc_196 calc_197 calc_198 calc_199 calc_200 calc_201 calc_202 calc_203 calc_204 calc_205 calc_206 calc_207 calc_208 calc_209 calc_210 calc_211 calc_212 calc_213 calc_214 calc_215 calc_216 calc_217 calc_218 calc_219 calc_220 calc_221 calc_222 calc_223 calc_224 calc_225 calc_226 calc_227 calc_228 calc_229 calc_230 calc_231 calc_232 calc_233 calc_234 calc_235 calc_236 calc_237)

lemma calc_239: "fmul (Finite 140) (Finite 3) = Finite 420"
  by (simp)

lemma calc_240: "js_ceil (Finite 420) = Finite 420"
  by (rule js_ceil_eqI [where n = "420", THEN trans]) simp_all

lemma calc_241: "js_ceil (fmul (Finite 140) (Finite 3)) = Finite 420"
  by (simp only: calc_239 calc_240)

lemma lit_218_100: "rnd (218 / 100) = Finite (4908923593833841 / 2251799813685248)"
  by (rule rnd_normal_near [where k = "1" and m = "4908923593833841", THEN trans]) simp_all

lemma lit_109_50: "rnd (109 / 50) = Finite (4908923593833841 / 2251799813685248)"
  by (rule rnd_normal_near [where k = "1" and m = "4908923593833841", THEN trans]) simp_all

section \<open>Three runs of reviews, step by step\<close>

lemma drift_1:
  "sm2 demo_env (Finite 3) \<lparr>repetitions = Finite 0, easeFactor = Finite (5 / 2), intervalDays = Finite 0, nextReviewAt = 0\<rparr>
     = Inr \<lparr>repetitions = Finite 1, easeFactor = Finite (5314247560297185 / 2251799813685248), intervalDays = Finite 1, nextReviewAt = 1000086400000\<rparr>"
proof -
  let ?s = "\<lparr>repetitions = Finite 0, easeFactor = Finite (5 / 2), intervalDays = Finite 0, nextReviewAt = 0\<rparr>"
  have r: "next_repetitions (Finite 3) ?s = Finite 1"
    by (simp add: next_repetitions_def)
  have i: "next_intervalDays (Finite 3) ?s = Finite 1"
    by (simp add: next_intervalDays_def)
  have "next_easeFactor (Finite 3) ?s = round2 (clamp_ease (fadd (Finite (5 / 2)) (ease_delta (Finite 3))))"
    by (simp add: next_easeFactor_def)
  then have e: "next_easeFactor (Finite 3) ?s = Finite (5314247560297185 / 2251799813685248)"
    by (simp only: ease_after_neutral)
  show ?thesis
    by (simp add: sm2_unfold r i e demo_env_def msPerDay_def)
qed

lemma drift_2:
  "sm2 demo_env (Finite 3) \<lparr>repetitions = Finite 1, easeFactor = Finite (5314247560297185 / 2251799813685248), intervalDays = Finite 1, nextReviewAt = 1000086400000\<rparr>
     = Inr \<lparr>repetitions = Finite 2, easeFactor = Finite (4998995586381251 / 2251799813685248), intervalDays = Finite 6, nextReviewAt = 1000518400000\<rparr>"
proof -
  let ?s = "\<lparr>repetitions = Finite 1, easeFactor = Finite (5314247560297185 / 2251799813685248), intervalDays = Finite 1, nextReviewAt = 1000086400000\<rparr>"
  have r: "next_repetitions (Finite 3) ?s = Finite 2"
    by (simp add: next_repetitions_def)
  have i: "next_intervalDays (Finite 3) ?s = Finite 6"
    by (simp add: next_intervalDays_def)
  have "next_easeFactor (Finite 3) ?s = round2 (clamp_ease (fadd (Finite (5314247560297185 / 2251799813685248)) (ease_delta (Finite 3))))"
    by (simp add: next_easeFactor_def)
  then have e: "next_easeFactor (Finite 3) ?s = Finite (4998995586381251 / 2251799813685248)"
    by (simp only: calc_89)
  show ?thesis
    by (simp add: sm2_unfold r i e demo_env_def msPerDay_def)
qed

lemma drift_3:
  "sm2 demo_env (Finite 1) \<lparr>repetitions = Finite 2, easeFactor = Finite (4998995586381251 / 2251799813685248), intervalDays = Finite 6, nextReviewAt = 1000518400000\<rparr>
     = Inr \<lparr>repetitions = Finite 0, easeFactor = Finite (7566047373982433 / 4503599627370496), intervalDays = Finite 1, nextReviewAt = 1000086400000\<rparr>"
proof -
  let ?s = "\<lparr>repetitions = Finite 2, easeFactor = Finite (4998995586381251 / 2251799813685248), intervalDays = Finite 6, nextReviewAt = 1000518400000\<rparr>"
  have r: "next_repetitions (Finite 1) ?s = Finite 0"
    by (simp add: next_repetitions_def)
  have i: "next_intervalDays (Finite 1) ?s = Finite 1"
    by (simp add: next_intervalDays_def)
  have "next_easeFactor (Finite 1) ?s = round2 (clamp_ease (fadd (Finite (4998995586381251 / 2251799813685248)) (ease_delta (Finite 1))))"
    by (simp add: next_easeFactor_def)
  then have e: "next_easeFactor (Finite 1) ?s = Finite (7566047373982433 / 4503599627370496)"
    by (simp only: calc_96)
  show ?thesis
    by (simp add: sm2_unfold r i e demo_env_def msPerDay_def)
qed

lemma drift_4:
  "sm2 demo_env (Finite 5) \<lparr>repetitions = Finite 0, easeFactor = Finite (7566047373982433 / 4503599627370496), intervalDays = Finite 1, nextReviewAt = 1000086400000\<rparr>
     = Inr \<lparr>repetitions = Finite 1, easeFactor = Finite (8016407336719483 / 4503599627370496), intervalDays = Finite 1, nextReviewAt = 1000086400000\<rparr>"
proof -
  let ?s = "\<lparr>repetitions = Finite 0, easeFactor = Finite (7566047373982433 / 4503599627370496), intervalDays = Finite 1, nextReviewAt = 1000086400000\<rparr>"
  have r: "next_repetitions (Finite 5) ?s = Finite 1"
    by (simp add: next_repetitions_def)
  have i: "next_intervalDays (Finite 5) ?s = Finite 1"
    by (simp add: next_intervalDays_def)
  have "next_easeFactor (Finite 5) ?s = round2 (clamp_ease (fadd (Finite (7566047373982433 / 4503599627370496)) (ease_delta (Finite 5))))"
    by (simp add: next_easeFactor_def)
  then have e: "next_easeFactor (Finite 5) ?s = Finite (8016407336719483 / 4503599627370496)"
    by (simp only: calc_103)
  show ?thesis
    by (simp add: sm2_unfold r i e demo_env_def msPerDay_def)
qed

lemma drift_5:
  "sm2 demo_env (Finite 5) \<lparr>repetitions = Finite 1, easeFactor = Finite (8016407336719483 / 4503599627370496), intervalDays = Finite 1, nextReviewAt = 1000086400000\<rparr>
     = Inr \<lparr>repetitions = Finite 2, easeFactor = Finite (2116691824864133 / 1125899906842624), intervalDays = Finite 6, nextReviewAt = 1000518400000\<rparr>"
proof -
  let ?s = "\<lparr>repetitions = Finite 1, easeFactor = Finite (8016407336719483 / 4503599627370496), intervalDays = Finite 1, nextReviewAt = 1000086400000\<rparr>"
  have r: "next_repetitions (Finite 5) ?s = Finite 2"
    by (simp add: next_repetitions_def)
  have i: "next_intervalDays (Finite 5) ?s = Finite 6"
    by (simp add: next_intervalDays_def)
  have "next_easeFactor (Finite 5) ?s = round2 (clamp_ease (fadd (Finite (8016407336719483 / 4503599627370496)) (ease_delta (Finite 5))))"
    by (simp add: next_easeFactor_def)
  then have e: "next_easeFactor (Finite 5) ?s = Finite (2116691824864133 / 1125899906842624)"
    by (simp only: calc_110)
  show ?thesis
    by (simp add: sm2_unfold r i e demo_env_def msPerDay_def)
qed

lemma drift_6:
  "sm2 demo_env (Finite 5) \<lparr>repetitions = Finite 2, easeFactor = Finite (2116691824864133 / 1125899906842624), intervalDays = Finite 6, nextReviewAt = 1000518400000\<rparr>
     = Inr \<lparr>repetitions = Finite 3, easeFactor = Finite (4458563631096791 / 2251799813685248), intervalDays = Finite 12, nextReviewAt = 1001036800000\<rparr>"
proof -
  let ?s = "\<lparr>repetitions = Finite 2, easeFactor = Finite (2116691824864133 / 1125899906842624), intervalDays = Finite 6, nextReviewAt = 1000518400000\<rparr>"
  have r: "next_repetitions (Finite 5) ?s = Finite 3"
    by (simp add: next_repetitions_def)
  have "next_intervalDays (Finite 5) ?s = js_ceil (fmul (Finite 6) (Finite (2116691824864133 / 1125899906842624)))"
    by (simp add: next_intervalDays_def del: fmul.simps js_ceil.simps)
  then have i: "next_intervalDays (Finite 5) ?s = Finite 12"
    by (simp only: calc_120)
  have "next_easeFactor (Finite 5) ?s = round2 (clamp_ease (fadd (Finite (2116691824864133 / 1125899906842624)) (ease_delta (Finite 5))))"
    by (simp add: next_easeFactor_def)
  then have e: "next_easeFactor (Finite 5) ?s = Finite (4458563631096791 / 2251799813685248)"
    by (simp only: calc_117)
  show ?thesis
    by (simp add: sm2_unfold r i e demo_env_def msPerDay_def)
qed

lemma drift_7:
  "sm2 demo_env (Finite 5) \<lparr>repetitions = Finite 3, easeFactor = Finite (4458563631096791 / 2251799813685248), intervalDays = Finite 12, nextReviewAt = 1001036800000\<rparr>
     = Inr \<lparr>repetitions = Finite 4, easeFactor = Finite (1170935903116329 / 562949953421312), intervalDays = Finite 24, nextReviewAt = 1002073600000\<rparr>"
proof -
  let ?s = "\<lparr>repetitions = Finite 3, easeFactor = Finite (4458563631096791 / 2251799813685248), intervalDays = Finite 12, nextReviewAt = 1001036800000\<rparr>"
  have r: "next_repetitions (Finite 5) ?s = Finite 4"
    by (simp add: next_repetitions_def)
  have "next_intervalDays (Finite 5) ?s = js_ceil (fmul (Finite 12) (Finite (4458563631096791 / 2251799813685248)))"
    by (simp add: next_intervalDays_def del: fmul.simps js_ceil.simps)
  then have i: "next_intervalDays (Finite 5) ?s = Finite 24"
    by (simp only: calc_130)
  have "next_easeFactor (Finite 5) ?s = round2 (clamp_ease (fadd (Finite (4458563631096791 / 2251799813685248)) (ease_delta (Finite 5))))"
    by (simp add: next_easeFactor_def)
  then have e: "next_easeFactor (Finite 5) ?s = Finite (1170935903116329 / 562949953421312)"
    by (simp only: calc_127)
  show ?thesis
    by (simp add: sm2_unfold r i e demo_env_def msPerDay_def)
qed

lemma drift_8:
  "sm2 demo_env (Finite 5) \<lparr>repetitions = Finite 4, easeFactor = Finite (1170935903116329 / 562949953421312), intervalDays = Finite 24, nextReviewAt = 1002073600000\<rparr>
     = Inr \<lparr>repetitions = Finite 5, easeFactor = Finite (4908923593833841 / 2251799813685248), intervalDays = Finite 50, nextReviewAt = 1004320000000\<rparr>"
proof -
  let ?s = "\<lparr>repetitions = Finite 4, easeFactor = Finite (1170935903116329 / 562949953421312), intervalDays = Finite 24, nextReviewAt = 1002073600000\<rparr>"
  have r: "next_repetitions (Finite 5) ?s = Finite 5"
    by (simp add: next_repetitions_def)
  have "next_intervalDays (Finite 5) ?s = js_ceil (fmul (Finite 24) (Finite (1170935903116329 / 562949953421312)))"
    by (simp add: next_intervalDays_def del: fmul.simps js_ceil.simps)
  then have i: "next_intervalDays (Finite 5) ?s = Finite 50"
    by (simp only: calc_140)
  have "next_easeFactor (Finite 5) ?s = round2 (clamp_ease (fadd (Finite (1170935903116329 / 562949953421312)) (ease_delta (Finite 5))))"
    by (simp add: next_easeFactor_def)
  then have e: "next_easeFactor (Finite 5) ?s = Finite (4908923593833841 / 2251799813685248)"
    by (simp only: calc_137)
  show ?thesis
    by (simp add: sm2_unfold r i e demo_env_def msPerDay_def)
qed

lemma drift_9:
  "sm2 demo_env (Finite 5) \<lparr>repetitions = Finite 5, easeFactor = Finite (4908923593833841 / 2251799813685248), intervalDays = Finite 50, nextReviewAt = 1004320000000\<rparr>
     = Inr \<lparr>repetitions = Finite 6, easeFactor = Finite (5134103575202365 / 2251799813685248), intervalDays = Finite 110, nextReviewAt = 1009504000000\<rparr>"
proof -
  let ?s = "\<lparr>repetitions = Finite 5, easeFactor = Finite (4908923593833841 / 2251799813685248), intervalDays = Finite 50, nextReviewAt = 1004320000000\<rparr>"
  have r: "next_repetitions (Finite 5) ?s = Finite 6"
    by (simp add: next_repetitions_def)
  have "next_intervalDays (Finite 5) ?s = js_ceil (fmul (Finite 50) (Finite (4908923593833841 / 2251799813685248)))"
    by (simp add: next_intervalDays_def del: fmul.simps js_ceil.simps)
  then have i: "next_intervalDays (Finite 5) ?s = Finite 110"
    by (simp only: calc_150)
  have "next_easeFactor (Finite 5) ?s = round2 (clamp_ease (fadd (Finite (4908923593833841 / 2251799813685248)) (ease_delta (Finite 5))))"
    by (simp add: next_easeFactor_def)
  then have e: "next_easeFactor (Finite 5) ?s = Finite (5134103575202365 / 2251799813685248)"
    by (simp only: calc_147)
  show ?thesis
    by (simp add: sm2_unfold r i e demo_env_def msPerDay_def)
qed

lemma neutral_1:
  "sm2 demo_env (Finite 3) \<lparr>repetitions = Finite 0, easeFactor = Finite (5 / 2), intervalDays = Finite 0, nextReviewAt = 0\<rparr>
     = Inr \<lparr>repetitions = Finite 1, easeFactor = Finite (5314247560297185 / 2251799813685248), intervalDays = Finite 1, nextReviewAt = 1000086400000\<rparr>"
proof -
  let ?s = "\<lparr>repetitions = Finite 0, easeFactor = Finite (5 / 2), intervalDays = Finite 0, nextReviewAt = 0\<rparr>"
  have r: "next_repetitions (Finite 3) ?s = Finite 1"
    by (simp add: next_repetitions_def)
  have i: "next_intervalDays (Finite 3) ?s = Finite 1"
    by (simp add: next_intervalDays_def)
  have "next_easeFactor (Finite 3) ?s = round2 (clamp_ease (fadd (Finite (5 / 2)) (ease_delta (Finite 3))))"
    by (simp add: next_easeFactor_def)
  then have e: "next_easeFactor (Finite 3) ?s = Finite (5314247560297185 / 2251799813685248)"
    by (simp only: ease_after_neutral)
  show ?thesis
    by (simp add: sm2_unfold r i e demo_env_def msPerDay_def)
qed

lemma neutral_2:
  "sm2 demo_env (Finite 3) \<lparr>repetitions = Finite 1, easeFactor = Finite (5314247560297185 / 2251799813685248), intervalDays = Finite 1, nextReviewAt = 1000086400000\<rparr>
     = Inr \<lparr>repetitions = Finite 2, easeFactor = Finite (4998995586381251 / 2251799813685248), intervalDays = Finite 6, nextReviewAt = 1000518400000\<rparr>"
proof -
  let ?s = "\<lparr>repetitions = Finite 1, easeFactor = Finite (5314247560297185 / 2251799813685248), intervalDays = Finite 1, nextReviewAt = 1000086400000\<rparr>"
  have r: "next_repetitions (Finite 3) ?s = Finite 2"
    by (simp add: next_repetitions_def)
  have i: "next_intervalDays (Finite 3) ?s = Finite 6"
    by (simp add: next_intervalDays_def)
  have "next_easeFactor (Finite 3) ?s = round2 (clamp_ease (fadd (Finite (5314247560297185 / 2251799813685248)) (ease_delta (Finite 3))))"
    by (simp add: next_easeFactor_def)
  then have e: "next_easeFactor (Finite 3) ?s = Finite (4998995586381251 / 2251799813685248)"
    by (simp only: calc_89)
  show ?thesis
    by (simp add: sm2_unfold r i e demo_env_def msPerDay_def)
qed

lemma neutral_3:
  "sm2 demo_env (Finite 3) \<lparr>repetitions = Finite 2, easeFactor = Finite (4998995586381251 / 2251799813685248), intervalDays = Finite 6, nextReviewAt = 1000518400000\<rparr>
     = Inr \<lparr>repetitions = Finite 3, easeFactor = Finite (1170935903116329 / 562949953421312), intervalDays = Finite 14, nextReviewAt = 1001209600000\<rparr>"
proof -
  let ?s = "\<lparr>repetitions = Finite 2, easeFactor = Finite (4998995586381251 / 2251799813685248), intervalDays = Finite 6, nextReviewAt = 1000518400000\<rparr>"
  have r: "next_repetitions (Finite 3) ?s = Finite 3"
    by (simp add: next_repetitions_def)
  have "next_intervalDays (Finite 3) ?s = js_ceil (fmul (Finite 6) (Finite (4998995586381251 / 2251799813685248)))"
    by (simp add: next_intervalDays_def del: fmul.simps js_ceil.simps)
  then have i: "next_intervalDays (Finite 3) ?s = Finite 14"
    by (simp only: calc_155)
  have "next_easeFactor (Finite 3) ?s = round2 (clamp_ease (fadd (Finite (4998995586381251 / 2251799813685248)) (ease_delta (Finite 3))))"
    by (simp add: next_easeFactor_def)
  then have e: "next_easeFactor (Finite 3) ?s = Finite (1170935903116329 / 562949953421312)"
    by (simp only: calc_152)
  show ?thesis
    by (simp add: sm2_unfold r i e demo_env_def msPerDay_def)
qed

lemma neutral_4:
  "sm2 demo_env (Finite 3) \<lparr>repetitions = Finite 3, easeFactor = Finite (1170935903116329 / 562949953421312), intervalDays = Finite 14, nextReviewAt = 1001209600000\<rparr>
     = Inr \<lparr>repetitions = Finite 4, easeFactor = Finite (4368491638549381 / 2251799813685248), intervalDays = Finite 30, nextReviewAt = 1002592000000\<rparr>"
proof -
  let ?s = "\<lparr>repetitions = Finite 3, easeFactor = Finite (1170935903116329 / 562949953421312), intervalDays = Finite 14, nextReviewAt = 1001209600000\<rparr>"
  have r: "next_repetitions (Finite 3) ?s = Finite 4"
    by (simp add: next_repetitions_def)
  have "next_intervalDays (Finite 3) ?s = js_ceil (fmul (Finite 14) (Finite (1170935903116329 / 562949953421312)))"
    by (simp add: next_intervalDays_def del: fmul.simps js_ceil.simps)
  then have i: "next_intervalDays (Finite 3) ?s = Finite 30"
    by (simp only: calc_165)
  have "next_easeFactor (Finite 3) ?s = round2 (clamp_ease (fadd (Finite (1170935903116329 / 562949953421312)) (ease_delta (Finite 3))))"
    by (simp add: next_easeFactor_def)
  then have e: "next_easeFactor (Finite 3) ?s = Finite (4368491638549381 / 2251799813685248)"
    by (simp only: calc_162)
  show ?thesis
    by (simp add: sm2_unfold r i e demo_env_def msPerDay_def)
qed

lemma neutral_5:
  "sm2 demo_env (Finite 3) \<lparr>repetitions = Finite 4, easeFactor = Finite (4368491638549381 / 2251799813685248), intervalDays = Finite 30, nextReviewAt = 1002592000000\<rparr>
     = Inr \<lparr>repetitions = Finite 5, easeFactor = Finite (8106479329266893 / 4503599627370496), intervalDays = Finite 59, nextReviewAt = 1005097600000\<rparr>"
proof -
  let ?s = "\<lparr>repetitions = Finite 4, easeFactor = Finite (4368491638549381 / 2251799813685248), intervalDays = Finite 30, nextReviewAt = 1002592000000\<rparr>"
  have r: "next_repetitions (Finite 3) ?s = Finite 5"
    by (simp add: next_repetitions_def)
  have "next_intervalDays (Finite 3) ?s = js_ceil (fmul (Finite 30) (Finite (4368491638549381 / 2251799813685248)))"
    by (simp add: next_intervalDays_def del: fmul.simps js_ceil.simps)
  then have i: "next_intervalDays (Finite 3) ?s = Finite 59"
    by (simp only: calc_175)
  have "next_easeFactor (Finite 3) ?s = round2 (clamp_ease (fadd (Finite (4368491638549381 / 2251799813685248)) (ease_delta (Finite 3))))"
    by (simp add: next_easeFactor_def)
  then have e: "next_easeFactor (Finite 3) ?s = Finite (8106479329266893 / 4503599627370496)"
    by (simp only: calc_172)
  show ?thesis
    by (simp add: sm2_unfold r i e demo_env_def msPerDay_def)
qed

lemma neutral_6:
  "sm2 demo_env (Finite 3) \<lparr>repetitions = Finite 5, easeFactor = Finite (8106479329266893 / 4503599627370496), intervalDays = Finite 59, nextReviewAt = 1005097600000\<rparr>
     = Inr \<lparr>repetitions = Finite 6, easeFactor = Finite (7475975381435023 / 4503599627370496), intervalDays = Finite 107, nextReviewAt = 1009244800000\<rparr>"
proof -
  let ?s = "\<lparr>repetitions = Finite 5, easeFactor = Finite (8106479329266893 / 4503599627370496), intervalDays = Finite 59, nextReviewAt = 1005097600000\<rparr>"
  have r: "next_repetitions (Finite 3) ?s = Finite 6"
    by (simp add: next_repetitions_def)
  have "next_intervalDays (Finite 3) ?s = js_ceil (fmul (Finite 59) (Finite (8106479329266893 / 4503599627370496)))"
    by (simp add: next_intervalDays_def del: fmul.simps js_ceil.simps)
  then have i: "next_intervalDays (Finite 3) ?s = Finite 107"
    by (simp only: calc_185)
  have "next_easeFactor (Finite 3) ?s = round2 (clamp_ease (fadd (Finite (8106479329266893 / 4503599627370496)) (ease_delta (Finite 3))))"
    by (simp add: next_easeFactor_def)
  then have e: "next_easeFactor (Finite 3) ?s = Finite (7475975381435023 / 4503599627370496)"
    by (simp only: calc_182)
  show ?thesis
    by (simp add: sm2_unfold r i e demo_env_def msPerDay_def)
qed

lemma neutral_7:
  "sm2 demo_env (Finite 3) \<lparr>repetitions = Finite 6, easeFactor = Finite (7475975381435023 / 4503599627370496), intervalDays = Finite 107, nextReviewAt = 1009244800000\<rparr>
     = Inr \<lparr>repetitions = Finite 7, easeFactor = Finite (3422735716801577 / 2251799813685248), intervalDays = Finite 178, nextReviewAt = 1015379200000\<rparr>"
proof -
  let ?s = "\<lparr>repetitions = Finite 6, easeFactor = Finite (7475975381435023 / 4503599627370496), intervalDays = Finite 107, nextReviewAt = 1009244800000\<rparr>"
  have r: "next_repetitions (Finite 3) ?s = Finite 7"
    by (simp add: next_repetitions_def)
  have "next_intervalDays (Finite 3) ?s = js_ceil (fmul (Finite 107) (Finite (7475975381435023 / 4503599627370496)))"
    by (simp add: next_intervalDays_def del: fmul.simps js_ceil.simps)
  then have i: "next_intervalDays (Finite 3) ?s = Finite 178"
    by (simp only: calc_195)
  have "next_easeFactor (Finite 3) ?s = round2 (clamp_ease (fadd (Finite (7475975381435023 / 4503599627370496)) (ease_delta (Finite 3))))"
    by (simp add: next_easeFactor_def)
  then have e: "next_easeFactor (Finite 3) ?s = Finite (3422735716801577 / 2251799813685248)"
    by (simp only: calc_192)
  show ?thesis
    by (simp add: sm2_unfold r i e demo_env_def msPerDay_def)
qed

lemma neutral_8:
  "sm2 demo_env (Finite 3) \<lparr>repetitions = Finite 7, easeFactor = Finite (3422735716801577 / 2251799813685248), intervalDays = Finite 178, nextReviewAt = 1015379200000\<rparr>
     = Inr \<lparr>repetitions = Finite 8, easeFactor = Finite (1553741871442821 / 1125899906842624), intervalDays = Finite 271, nextReviewAt = 1023414400000\<rparr>"
proof -
  let ?s = "\<lparr>repetitions = Finite 7, easeFactor = Finite (3422735716801577 / 2251799813685248), intervalDays = Finite 178, nextReviewAt = 1015379200000\<rparr>"
  have r: "next_repetitions (Finite 3) ?s = Finite 8"
    by (simp add: next_repetitions_def)
  have "next_intervalDays (Finite 3) ?s = js_ceil (fmul (Finite 178) (Finite (3422735716801577 / 2251799813685248)))"
    by (simp add: next_intervalDays_def del: fmul.simps js_ceil.simps)
  then have i: "next_intervalDays (Finite 3) ?s = Finite 271"
    by (simp only: calc_205)
  have "next_easeFactor (Finite 3) ?s = round2 (clamp_ease (fadd (Finite (3422735716801577 / 2251799813685248)) (ease_delta (Finite 3))))"
    by (simp add: next_easeFactor_def)
  then have e: "next_easeFactor (Finite 3) ?s = Finite (1553741871442821 / 1125899906842624)"
    by (simp only: calc_202)
  show ?thesis
    by (simp add: sm2_unfold r i e demo_env_def msPerDay_def)
qed

lemma neutral_9:
  "sm2 demo_env (Finite 3) \<lparr>repetitions = Finite 8, easeFactor = Finite (1553741871442821 / 1125899906842624), intervalDays = Finite 271, nextReviewAt = 1023414400000\<rparr>
     = Inr \<lparr>repetitions = Finite 9, easeFactor = Finite (5854679515581645 / 4503599627370496), intervalDays = Finite 374, nextReviewAt = 1032313600000\<rparr>"
proof -
  let ?s = "\<lparr>repetitions = Finite 8, easeFactor = Finite (1553741871442821 / 1125899906842624), intervalDays = Finite 271, nextReviewAt = 1023414400000\<rparr>"
  have r: "next_repetitions (Finite 3) ?s = Finite 9"
    by (simp add: next_repetitions_def)
  have "next_intervalDays (Finite 3) ?s = js_ceil (fmul (Finite 271) (Finite (1553741871442821 / 1125899906842624)))"
    by (simp add: next_intervalDays_def del: fmul.simps js_ceil.simps)
  then have i: "next_intervalDays (Finite 3) ?s = Finite 374"
    by (simp only: calc_211)
  have "next_easeFactor (Finite 3) ?s = round2 (clamp_ease (fadd (Finite (1553741871442821 / 1125899906842624)) (ease_delta (Finite 3))))"
    by (simp add: next_easeFactor_def)
  then have e: "next_easeFactor (Finite 3) ?s = Finite (5854679515581645 / 4503599627370496)"
    by (simp only: calc_208)
  show ?thesis
    by (simp add: sm2_unfold r i e demo_env_def msPerDay_def)
qed

lemma easy_1:
  "sm2 demo_env (Finite 5) \<lparr>repetitions = Finite 0, easeFactor = Finite (5 / 2), intervalDays = Finite 0, nextReviewAt = 0\<rparr>
     = Inr \<lparr>repetitions = Finite 1, easeFactor = Finite (5854679515581645 / 2251799813685248), intervalDays = Finite 1, nextReviewAt = 1000086400000\<rparr>"
proof -
  let ?s = "\<lparr>repetitions = Finite 0, easeFactor = Finite (5 / 2), intervalDays = Finite 0, nextReviewAt = 0\<rparr>"
  have r: "next_repetitions (Finite 5) ?s = Finite 1"
    by (simp add: next_repetitions_def)
  have i: "next_intervalDays (Finite 5) ?s = Finite 1"
    by (simp add: next_intervalDays_def)
  have "next_easeFactor (Finite 5) ?s = round2 (clamp_ease (fadd (Finite (5 / 2)) (ease_delta (Finite 5))))"
    by (simp add: next_easeFactor_def)
  then have e: "next_easeFactor (Finite 5) ?s = Finite (5854679515581645 / 2251799813685248)"
    by (simp only: ease_after_first)
  show ?thesis
    by (simp add: sm2_unfold r i e demo_env_def msPerDay_def)
qed

lemma easy_2:
  "sm2 demo_env (Finite 5) \<lparr>repetitions = Finite 1, easeFactor = Finite (5854679515581645 / 2251799813685248), intervalDays = Finite 1, nextReviewAt = 1000086400000\<rparr>
     = Inr \<lparr>repetitions = Finite 2, easeFactor = Finite (3039929748475085 / 1125899906842624), intervalDays = Finite 6, nextReviewAt = 1000518400000\<rparr>"
proof -
  let ?s = "\<lparr>repetitions = Finite 1, easeFactor = Finite (5854679515581645 / 2251799813685248), intervalDays = Finite 1, nextReviewAt = 1000086400000\<rparr>"
  have r: "next_repetitions (Finite 5) ?s = Finite 2"
    by (simp add: next_repetitions_def)
  have i: "next_intervalDays (Finite 5) ?s = Finite 6"
    by (simp add: next_intervalDays_def)
  have "next_easeFactor (Finite 5) ?s = round2 (clamp_ease (fadd (Finite (5854679515581645 / 2251799813685248)) (ease_delta (Finite 5))))"
    by (simp add: next_easeFactor_def)
  then have e: "next_easeFactor (Finite 5) ?s = Finite (3039929748475085 / 1125899906842624)"
    by (simp only: ease_after_second)
  show ?thesis
    by (simp add: sm2_unfold r i e demo_env_def msPerDay_def)
qed

lemma easy_3:
  "sm2 demo_env (Finite 5) \<lparr>repetitions = Finite 2, easeFactor = Finite (3039929748475085 / 1125899906842624), intervalDays = Finite 6, nextReviewAt = 1000518400000\<rparr>
     = Inr \<lparr>repetitions = Finite 3, easeFactor = Finite (3152519739159347 / 1125899906842624), intervalDays = Finite 17, nextReviewAt = 1001468800000\<rparr>"
proof -
  let ?s = "\<lparr>repetitions = Finite 2, easeFactor = Finite (3039929748475085 / 1125899906842624), intervalDays = Finite 6, nextReviewAt = 1000518400000\<rparr>"
  have r: "next_repetitions (Finite 5) ?s = Finite 3"
    by (simp add: next_repetitions_def)
  have "next_intervalDays (Finite 5) ?s = js_ceil (fmul (Finite 6) (Finite (3039929748475085 / 1125899906842624)))"
    by (simp add: next_intervalDays_def del: fmul.simps js_ceil.simps)
  then have i: "next_intervalDays (Finite 5) ?s = Finite 17"
    by (simp only: third_interval)
  have "next_easeFactor (Finite 5) ?s = round2 (clamp_ease (fadd (Finite (3039929748475085 / 1125899906842624)) (ease_delta (Finite 5))))"
    by (simp add: next_easeFactor_def)
  then have e: "next_easeFactor (Finite 5) ?s = Finite (3152519739159347 / 1125899906842624)"
    by (simp only: ease_after_third)
  show ?thesis
    by (simp add: sm2_unfold r i e demo_env_def msPerDay_def)
qed

lemma easy_4:
  "sm2 demo_env (Finite 5) \<lparr>repetitions = Finite 3, easeFactor = Finite (3152519739159347 / 1125899906842624), intervalDays = Finite 17, nextReviewAt = 1001468800000\<rparr>
     = Inr \<lparr>repetitions = Finite 4, easeFactor = Finite (6530219459687219 / 2251799813685248), intervalDays = Finite 48, nextReviewAt = 1004147200000\<rparr>"
proof -
  let ?s = "\<lparr>repetitions = Finite 3, easeFactor = Finite (3152519739159347 / 1125899906842624), intervalDays = Finite 17, nextReviewAt = 1001468800000\<rparr>"
  have r: "next_repetitions (Finite 5) ?s = Finite 4"
    by (simp add: next_repetitions_def)
  have "next_intervalDays (Finite 5) ?s = js_ceil (fmul (Finite 17) (Finite (3152519739159347 / 1125899906842624)))"
    by (simp add: next_intervalDays_def del: fmul.simps js_ceil.simps)
  then have i: "next_intervalDays (Finite 5) ?s = Finite 48"
    by (simp only: calc_221)
  have "next_easeFactor (Finite 5) ?s = round2 (clamp_ease (fadd (Finite (3152519739159347 / 1125899906842624)) (ease_delta (Finite 5))))"
    by (simp add: next_easeFactor_def)
  then have e: "next_easeFactor (Finite 5) ?s = Finite (6530219459687219 / 2251799813685248)"
    by (simp only: calc_218)
  show ?thesis
    by (simp add: sm2_unfold r i e demo_env_def msPerDay_def)
qed

lemma easy_5:
  "sm2 demo_env (Finite 5) \<lparr>repetitions = Finite 4, easeFactor = Finite (6530219459687219 / 2251799813685248), intervalDays = Finite 48, nextReviewAt = 1004147200000\<rparr>
     = Inr \<lparr>repetitions = Finite 5, easeFactor = Finite 3, intervalDays = Finite 140, nextReviewAt = 1012096000000\<rparr>"
proof -
  let ?s = "\<lparr>repetitions = Finite 4, easeFactor = Finite (6530219459687219 / 2251799813685248), intervalDays = Finite 48, nextReviewAt = 1004147200000\<rparr>"
  have r: "next_repetitions (Finite 5) ?s = Finite 5"
    by (simp add: next_repetitions_def)
  have "next_intervalDays (Finite 5) ?s = js_ceil (fmul (Finite 48) (Finite (6530219459687219 / 2251799813685248)))"
    by (simp add: next_intervalDays_def del: fmul.simps js_ceil.simps)
  then have i: "next_intervalDays (Finite 5) ?s = Finite 140"
    by (simp only: calc_231)
  have "next_easeFactor (Finite 5) ?s = round2 (clamp_ease (fadd (Finite (6530219459687219 / 2251799813685248)) (ease_delta (Finite 5))))"
    by (simp add: next_easeFactor_def)
  then have e: "next_easeFactor (Finite 5) ?s = Finite 3"
    by (simp only: calc_228)
  show ?thesis
    by (simp add: sm2_unfold r i e demo_env_def msPerDay_def)
qed

lemma easy_6:
  "sm2 demo_env (Finite 5) \<lparr>repetitions = Finite 5, easeFactor = Finite 3, intervalDays = Finite 140, nextReviewAt = 1012096000000\<rparr>
     = Inr \<lparr>repetitions = Finite 6, easeFactor = Finite (6980579422424269 / 2251799813685248), intervalDays = Finite 420, nextReviewAt = 1036288000000\<rparr>"
proof -
  let ?s = "\<lparr>repetitions = Finite 5, easeFactor = Finite 3, intervalDays = Finite 140, nextReviewAt = 1012096000000\<rparr>"
  have r: "next_repetitions (Finite 5) ?s = Finite 6"
    by (simp add: next_repetitions_def)
  have "next_intervalDays (Finite 5) ?s = js_ceil (fmul (Finite 140) (Finite 3))"
    by (simp add: next_intervalDays_def del: fmul.simps js_ceil.simps)
  then have i: "next_intervalDays (Finite 5) ?s = Finite 420"
    by (simp only: calc_241)
  have "next_easeFactor (Finite 5) ?s = round2 (clamp_ease (fadd (Finite 3) (ease_delta (Finite 5))))"
    by (simp add: next_easeFactor_def)
  then have e: "next_easeFactor (Finite 5) ?s = Finite (6980579422424269 / 2251799813685248)"
    by (simp only: calc_238)
  show ?thesis
    by (simp add: sm2_unfold r i e demo_env_def msPerDay_def)
qed

lemma demo_ease:
  "next_easeFactor (Finite 5) (demo_state\<lparr>nextReviewAt := t\<rparr>)
     = Finite (5854679515581645 / 2251799813685248)"
proof -
  have "next_easeFactor (Finite 5) (demo_state\<lparr>nextReviewAt := t\<rparr>)
      = round2 (clamp_ease (fadd (Finite (5 / 2)) (ease_delta (Finite 5))))"
    by (simp add: next_easeFactor_def demo_state_def)
  then show ?thesis by (simp only: ease_after_first)
qed

lemma demo_sm2_any:
  "sm2 demo_env (Finite 5) (demo_state\<lparr>nextReviewAt := t\<rparr>) = Inr first_review"
  by (simp add: sm2_unfold demo_interval demo_repetitions demo_ease demo_env_def msPerDay_def
      first_review_def)

lemma demo_sm2: "sm2 demo_env (Finite 5) demo_state = Inr first_review"
  using demo_sm2_any [of "nextReviewAt demo_state"] by simp

lemma due_word_sm2: "sm2 demo_env (Finite 5) (state_of_word due_word) = Inr first_review"
  by (simp add: due_word_def demo_state_of_word demo_sm2_any)

lemma later_sm2: "sm2 later_env (Finite 5) demo_state = Inr first_review_later"
  using demo_interval [of "nextReviewAt demo_state"] demo_repetitions [of "nextReviewAt demo_state"]
    demo_ease [of "nextReviewAt demo_state"]
  by (simp add: sm2_unfold later_env_def msPerDay_def first_review_later_def first_review_def)

lemma learnt_ease:
  "next_easeFactor (Finite 1) learnt_state = Finite (1643813863990231 / 1125899906842624)"
proof -
  have "next_easeFactor (Finite 1) learnt_state
      = round2 (clamp_ease (fadd (Finite 2) (ease_delta (Finite 1))))"
    by (simp add: next_easeFactor_def learnt_state_def)
  then show ?thesis by (simp only: ease_after_lapse)
qed

lemma learnt_sm2: "sm2 demo_env (Finite 1) learnt_state = Inr lapsed_review"
  by (simp add: sm2_unfold next_intervalDays_def next_repetitions_def learnt_ease
      demo_env_def msPerDay_def lapsed_review_def)

lemma second_sm2: "sm2 demo_env (Finite 5) first_review = Inr second_review"
proof -
  have r: "next_repetitions (Finite 5) first_review = Finite 2"
    by (simp add: next_repetitions_def first_review_def)
  have i: "next_intervalDays (Finite 5) first_review = Finite 6"
    by (simp add: next_intervalDays_def first_review_def)
  have "next_easeFactor (Finite 5) first_review
      = round2 (clamp_ease (fadd (Finite (5854679515581645 / 2251799813685248)) (ease_delta (Finite 5))))"
    by (simp add: next_easeFactor_def first_review_def)
  then have e: "next_easeFactor (Finite 5) first_review = easeFactor second_review"
    by (simp only: ease_after_second) (simp add: second_review_def)
  show ?thesis
    by (simp add: sm2_unfold r i e demo_env_def msPerDay_def) (simp add: second_review_def)
qed

lemma third_sm2: "sm2 demo_env (Finite 5) second_review = Inr third_review"
proof -
  have r: "next_repetitions (Finite 5) second_review = Finite 3"
    by (simp add: next_repetitions_def second_review_def)
  have "next_intervalDays (Finite 5) second_review
      = js_ceil (fmul (Finite 6) (Finite (3039929748475085 / 1125899906842624)))"
    by (simp add: next_intervalDays_def second_review_def del: fmul.simps js_ceil.simps)
  then have i: "next_intervalDays (Finite 5) second_review = Finite 17"
    by (simp only: third_interval)
  have "next_easeFactor (Finite 5) second_review
      = round2 (clamp_ease (fadd (Finite (3039929748475085 / 1125899906842624)) (ease_delta (Finite 5))))"
    by (simp add: next_easeFactor_def second_review_def)
  then have e: "next_easeFactor (Finite 5) second_review = easeFactor third_review"
    by (simp only: ease_after_third) (simp add: third_review_def)
  show ?thesis
    by (simp add: sm2_unfold r i e demo_env_def msPerDay_def) (simp add: third_review_def)
qed

lemma sixth_sm2: "sm2 demo_env (Finite 5) learnt_state = Inr sixth_review"
proof -
  have r: "next_repetitions (Finite 5) learnt_state = Finite 6"
    by (simp add: next_repetitions_def learnt_state_def)
  have "next_intervalDays (Finite 5) learnt_state = js_ceil (fmul (Finite 30) (Finite 2))"
    by (simp add: next_intervalDays_def learnt_state_def del: fmul.simps js_ceil.simps)
  then have i: "next_intervalDays (Finite 5) learnt_state = Finite 60"
    by (simp only: sixth_interval)
  have "next_easeFactor (Finite 5) learnt_state
      = round2 (clamp_ease (fadd (Finite 2) (ease_delta (Finite 5))))"
    by (simp add: next_easeFactor_def learnt_state_def)
  then have e: "next_easeFactor (Finite 5) learnt_state = easeFactor sixth_review"
    by (simp only: ease_after_sixth) (simp add: sixth_review_def)
  show ?thesis
    by (simp add: sm2_unfold r i e demo_env_def msPerDay_def) (simp add: sixth_review_def)
qed

lemma neutral_sm2: "sm2 demo_env (Finite 3) demo_state = Inr neutral_review"
proof -
  have r: "next_repetitions (Finite 3) demo_state = Finite 1"
    by (simp add: next_repetitions_def demo_state_def)
  have i: "next_intervalDays (Finite 3) demo_state = Finite 1"
    by (simp add: next_intervalDays_def demo_state_def)
  have "next_easeFactor (Finite 3) demo_state
      = round2 (clamp_ease (fadd (Finite (5 / 2)) (ease_delta (Finite 3))))"
    by (simp add: next_easeFactor_def demo_state_def)
  then have e: "next_easeFactor (Finite 3) demo_state = easeFactor neutral_review"
    by (simp only: ease_after_neutral) (simp add: neutral_review_def)
  show ?thesis
    by (simp add: sm2_unfold r i e demo_env_def msPerDay_def) (simp add: neutral_review_def)
qed

lemma floor_sm2: "sm2 demo_env (Finite 3) floor_state = Inr floor_review"
proof -
  have r: "next_repetitions (Finite 3) floor_state = Finite 4"
    by (simp add: next_repetitions_def floor_state_def)
  have "next_intervalDays (Finite 3) floor_state
      = js_ceil (fmul (Finite 17) (Finite (5854679515581645 / 4503599627370496)))"
    by (simp add: next_intervalDays_def floor_state_def del: fmul.simps js_ceil.simps)
  then have i: "next_intervalDays (Finite 3) floor_state = Finite 23"
    by (simp only: floor_interval)
  have "next_easeFactor (Finite 3) floor_state
      = round2 (clamp_ease (fadd (Finite (5854679515581645 / 4503599627370496)) (ease_delta (Finite 3))))"
    by (simp add: next_easeFactor_def floor_state_def)
  then have e: "next_easeFactor (Finite 3) floor_state = easeFactor floor_review"
    by (simp only: ease_neutral_at_floor) (simp add: floor_review_def)
  show ?thesis
    by (simp add: sm2_unfold r i e demo_env_def msPerDay_def) (simp add: floor_review_def)
qed

lemma huge_sm2: "sm2 demo_env (Finite 3) huge_state = Inr huge_review"
proof -
  have r: "next_repetitions (Finite 3) huge_state = Finite 1"
    by (simp add: next_repetitions_def huge_state_def)
  have i: "next_intervalDays (Finite 3) huge_state = Finite 1"
    by (simp add: next_intervalDays_def huge_state_def)
  have "next_easeFactor (Finite 3) huge_state
      = round2 (clamp_ease (fadd (Finite 100000000000000000) (ease_delta (Finite 3))))"
    by (simp add: next_easeFactor_def huge_state_def)
  then have e: "next_easeFactor (Finite 3) huge_state = easeFactor huge_review"
    by (simp only: ease_neutral_huge) (simp add: huge_review_def)
  show ?thesis
    by (simp add: sm2_unfold r i e demo_env_def msPerDay_def) (simp add: huge_review_def)
qed

section \<open>Lemmas on the ease factor, the intervals and the rounding errors\<close>

lemma fadd_Finite_not_NaN: "a \<noteq> NaN \<Longrightarrow> fadd a (Finite c) \<noteq> NaN"
  by (cases a) simp_all

lemma clamp_ease_ge:
  "e \<noteq> NaN \<Longrightarrow> fge (clamp_ease e) (Finite (5854679515581645 / 4503599627370496))"
  by (cases e) (auto simp: clamp_ease_def lit_13_10 fge_def)

lemma round2_PosInf [simp]: "round2 PosInf = PosInf"
  by (simp add: round2_def signed_inf_def)

lemma round2_ge_floor:
  assumes "fge e (Finite (5854679515581645 / 4503599627370496))"
  shows "fge (round2 e) (Finite (5854679515581645 / 4503599627370496))"
proof -
  let ?c = "5854679515581645 / 4503599627370496 :: rat"
  from assms consider "e = PosInf" | x where "e = Finite x" "?c \<le> x"
    by (auto simp: fge_Finite_iff)
  then show ?thesis
  proof cases
    case 1
    then show ?thesis by (simp add: fge_def)
  next
    case 2
    have c100: "rnd (?c * 100) = Finite 130"
      using floor_times_100 by simp
    have "fge (rnd (x * 100)) (Finite 130)"
      by (rule rnd_ge_Finite [OF _ _ c100]) (use 2(2) in simp_all)
    then consider "rnd (x * 100) = PosInf" | p where "rnd (x * 100) = Finite p" "130 \<le> p"
      by (auto simp: fge_Finite_iff)
    then show ?thesis
    proof cases
      case 1
      then show ?thesis
        by (simp add: round2_def 2(1) signed_inf_def fge_def)
    next
      case b: 2
      let ?n = "\<lfloor>p + 1 / 2\<rfloor>"
      have n: "130 \<le> ?n" using b(2) by (simp add: le_floor_iff)
      then have "(of_int 130 :: rat) \<le> of_int ?n" by (simp only: of_int_le_iff)
      then have "(130 / 100 :: rat) \<le> of_int ?n / 100" by simp
      moreover have "rnd (130 / 100) = Finite ?c" using lit_13_10 by simp
      ultimately have "fge (rnd (of_int ?n / 100)) (Finite ?c)"
        by (intro rnd_ge_Finite [where c = "130 / 100"]) simp_all
      then show ?thesis
        by (simp add: round2_def 2(1) b(1))
    qed
  qed
qed

lemma next_ease_ge_floor:
  assumes "easeFactor s \<noteq> NaN" "ease_delta quality = Finite c"
  shows "fge (next_easeFactor quality s) (Finite (5854679515581645 / 4503599627370496))"
proof -
  have "fadd (easeFactor s) (ease_delta quality) \<noteq> NaN"
    unfolding assms(2) by (rule fadd_Finite_not_NaN [OF assms(1)])
  then have "fge (clamp_ease (fadd (easeFactor s) (ease_delta quality)))
      (Finite (5854679515581645 / 4503599627370496))"
    by (rule clamp_ease_ge)
  then show ?thesis unfolding next_easeFactor_def by (rule round2_ge_floor)
qed

lemma js_ceil_ge_1: "fge a (Finite 1) \<Longrightarrow> fge (js_ceil a) (Finite 1)"
proof -
  assume "fge a (Finite 1)"
  then consider "a = PosInf" | x where "a = Finite x" "1 \<le> x"
    by (auto simp: fge_Finite_iff)
  then show ?thesis
  proof cases
    case 1 then show ?thesis by (simp add: fge_def)
  next
    case 2
    have "1 \<le> \<lceil>x\<rceil>" using 2(2) by linarith
    then show ?thesis using 2(1) by simp
  qed
qed

lemma fmul_ge_1:
  assumes "fge a (Finite 1)" "fge b (Finite c)" "1 \<le> c"
  shows "fge (fmul a b) (Finite 1)"
proof -
  from assms(1) consider "a = PosInf" | x where "a = Finite x" "1 \<le> x"
    by (auto simp: fge_Finite_iff)
  then show ?thesis
  proof cases
    case 1
    from assms(2) show ?thesis unfolding 1 using assms(3)
      by (auto simp: fge_Finite_iff signed_inf_def)
  next
    case a: 2
    from assms(2) consider "b = PosInf" | y where "b = Finite y" "c \<le> y"
      by (auto simp: fge_Finite_iff)
    then show ?thesis
    proof cases
      case 1
      then show ?thesis using a by (auto simp: fge_Finite_iff signed_inf_def)
    next
      case 2
      have "1 * 1 \<le> x * y"
        by (rule mult_mono) (use a(2) 2(2) assms(3) in simp_all)
      then have "fge (rnd (x * y)) (Finite 1)"
        by (intro rnd_ge_Finite [where c = 1]) simp_all
      then show ?thesis by (simp add: a(1) 2(1))
    qed
  qed
qed

lemma rnd_nonpos_not_ge_1: "q \<le> 0 \<Longrightarrow> \<not> fge (rnd q) (Finite 1)"
  using rval_nonpos [of q] by (auto simp: rnd_def fge_Finite_iff)

lemma ilog2_nonneg: "1 \<le> q \<Longrightarrow> 0 \<le> ilog2 q"
proof -
  assume q: "1 \<le> q"
  then have "0 < q" by linarith
  from ilog2_bounds(2) [OF this] q have "(2::rat) powi 0 < 2 powi (ilog2 q + 1)" by simp
  then show ?thesis by (simp only: powi2_less_iff)
qed

lemma rval_rel_error:
  assumes "1 \<le> q"
  shows "\<bar>rval q - q\<bar> \<le> q / 2 ^ 53"
proof -
  have qpos: "0 < q" using assms by linarith
  have e: "expo q = ilog2 q - 52"
    using ilog2_nonneg [OF assms] qpos by (simp add: expo_def)
  have "\<bar>rval q - q\<bar> \<le> 2 powi (ilog2 q - 52 - 1)"
    using rval_error [of q] by (simp add: e)
  also have "ilog2 q - 52 - 1 = ilog2 q - 53" by simp
  also have "(2::rat) powi (ilog2 q - 53) = 2 powi (ilog2 q) / 2 powi 53"
    by (rule powi2_diff)
  also have "\<dots> \<le> q / 2 powi 53"
    by (rule divide_right_mono [OF ilog2_bounds(1) [OF qpos]]) simp
  finally show ?thesis by simp
qed

lemma fge_trans: "fge a b \<Longrightarrow> fge b c \<Longrightarrow> fge a c"
  by (cases a; cases b; cases c) (auto simp: fge_def)

lemma fge_refl: "a \<noteq> NaN \<Longrightarrow> fge a a"
  by (cases a) (auto simp: fge_def)

lemma ceil_product_ge:
  assumes "1 \<le> i" "5854679515581645 / 4503599627370496 \<le> e"
  shows "fge (js_ceil (rnd (i * e))) (Finite i)"
proof -
  let ?c = "5854679515581645 / 4503599627370496 :: rat"
  have ie: "i * ?c \<le> i * e" using assms by (simp add: mult_left_mono)
  then have q1: "1 \<le> i * e" using assms(1) by linarith
  then have qpos: "0 < i * e" by linarith
  show ?thesis
  proof (rule rnd_cases_pos [OF qpos])
    assume "rnd (i * e) = PosInf"
    then show ?thesis by (simp add: fge_def)
  next
    assume r: "rnd (i * e) = Finite (rval (i * e))"
    define u where "u = i * ?c"
    define v where "v = i * e"
    have uv: "u \<le> v" using ie by (simp add: u_def v_def)
    have "v - v / 2 ^ 53 \<le> rval v"
      using rval_rel_error [OF q1] unfolding v_def by linarith
    moreover have "i \<le> u - u / 2 ^ 53" using assms(1) by (simp add: u_def)
    moreover have "u - u / 2 ^ 53 \<le> v - v / 2 ^ 53"
      using uv by simp
    ultimately have "i \<le> rval (i * e)" unfolding v_def by linarith
    then have "i \<le> of_int \<lceil>rval (i * e)\<rceil>" by linarith
    then show ?thesis by (simp add: r)
  qed
qed

lemma ceil_fmul_ge:
  assumes "fge x (Finite 1)" "fge y (Finite (5854679515581645 / 4503599627370496))"
  shows "fge (js_ceil (fmul x y)) x"
proof (cases x)
  case (Finite i)
  then have i: "1 \<le> i" using assms(1) by simp
  show ?thesis
  proof (cases y)
    case y: (Finite e)
    then have "5854679515581645 / 4503599627370496 \<le> e" using assms(2) by simp
    from ceil_product_ge [OF i this] show ?thesis by (simp add: Finite y)
  next
    case PosInf
    then show ?thesis using i by (simp add: Finite signed_inf_def fge_def)
  qed (use assms(2) in \<open>simp_all add: fge_def\<close>)
next
  case PosInf
  then show ?thesis using assms(2) by (cases y) (auto simp: fge_def signed_inf_def)
qed (use assms(1) in \<open>simp_all add: fge_def\<close>)

lemma fadd_1_ge_2: "fge a (Finite 2) \<Longrightarrow> fge (fadd a (Finite 1)) (Finite 2)"
proof (cases a)
  case (Finite x)
  assume "fge a (Finite 2)"
  then have "2 \<le> x + 1" using Finite by simp
  then have "fge (rnd (x + 1)) (Finite 2)"
    by (intro rnd_ge_Finite [where c = 2]) simp_all
  then show ?thesis by (simp add: Finite)
qed (simp_all add: fge_def)

lemma easy_step_settled:
  assumes "sm2 ev (Finite 5) s = Inr s'"
    and "fge (repetitions s) (Finite 2)" "fge (intervalDays s) (Finite 1)"
    and "fge (easeFactor s) (Finite (5854679515581645 / 4503599627370496))"
  shows "grows s s'" "fge (intervalDays s') (intervalDays s)"
    "fge (repetitions s') (Finite 2)" "fge (intervalDays s') (Finite 1)"
    "fge (easeFactor s') (Finite (5854679515581645 / 4503599627370496))"
proof -
  have n: "\<not> feq (repetitions s) (Finite 0)" "\<not> feq (repetitions s) (Finite 1)"
    using assms(2) by (auto simp: fge_Finite_iff)
  then show g: "grows s s'"
    by (simp add: grows_def sm2_fields(3) [OF assms(1)] next_intervalDays_def)
  then show i: "fge (intervalDays s') (intervalDays s)"
    unfolding grows_def using ceil_fmul_ge [OF assms(3,4)] by simp
  show "fge (repetitions s') (Finite 2)"
    using fadd_1_ge_2 [OF assms(2)]
    by (simp add: sm2_fields(1) [OF assms(1)] next_repetitions_def)
  show "fge (intervalDays s') (Finite 1)"
    by (rule fge_trans [OF i assms(3)])
  show "fge (easeFactor s') (Finite (5854679515581645 / 4503599627370496))"
    unfolding sm2_fields(2) [OF assms(1)]
    by (rule next_ease_ge_floor [OF fge_not_NaN [OF assms(4)] ease_delta_5])
qed

lemma easy_reviews_settled:
  assumes "reviews evs (Finite 5) s = Inr ss"
    and "fge (repetitions s) (Finite 2)" "fge (intervalDays s) (Finite 1)"
    and "fge (easeFactor s) (Finite (5854679515581645 / 4503599627370496))"
  shows "successively grows (s # ss) \<and>
         sorted_wrt (\<lambda>a b. fge (intervalDays b) (intervalDays a)) (s # ss)"
  using assms
proof (induction evs arbitrary: s ss)
  case Nil
  then show ?case by simp
next
  case (Cons ev evs)
  from Cons.prems(1) obtain s' ss' where s': "sm2 ev (Finite 5) s = Inr s'"
    and ss': "reviews evs (Finite 5) s' = Inr ss'" and ss: "ss = s' # ss'"
    by (auto split: sum.splits)
  note st = easy_step_settled [OF s' Cons.prems(2-4)]
  from Cons.IH [OF ss' st(3,4,5)]
  have ih: "successively grows (s' # ss')"
    "sorted_wrt (\<lambda>a b. fge (intervalDays b) (intervalDays a)) (s' # ss')"
    by simp_all
  have "fge (intervalDays b) (intervalDays s)" if "b \<in> set (s' # ss')" for b
  proof (cases "b = s'")
    case True then show ?thesis using st(2) by simp
  next
    case False
    with that ih(2) have "fge (intervalDays b) (intervalDays s')" by auto
    then show ?thesis using st(2) by (rule fge_trans)
  qed
  then show ?case using ih st(1) by (simp add: ss)
qed

lemma demo_reviews:
  "reviews [demo_env, demo_env, demo_env] (Finite 5) demo_state
     = Inr [first_review, second_review, third_review]"
  by (simp add: demo_sm2 second_sm2 third_sm2)

lemma expo_le:
  assumes "0 < q" "q \<le> 2 powi j" "- 1074 \<le> j"
  shows "expo q \<le> j"
proof -
  have "2 powi (ilog2 q) \<le> (2::rat) powi j"
    using ilog2_bounds(1) [OF assms(1)] assms(2) by linarith
  then have "ilog2 q \<le> j" by simp
  then show ?thesis using assms(1,3) by (simp add: expo_def)
qed

lemma rnd_Finite_pos:
  assumes "0 < q" "q \<le> 2 powi j" "- 1074 \<le> j" "j < 1024"
  shows "rnd q = Finite (rval q)"
proof -
  have "rval q \<le> of_int 1 * 2 powi j"
    by (rule rval_le_grid) (use assms in \<open>simp_all add: expo_le\<close>)
  also have "(of_int 1 :: rat) * 2 powi j < 2 powi 1024"
    using assms(4) by (simp only: of_int_1 mult_1 powi2_less_iff)
  finally have "rval q < 2 powi 1024" .
  moreover have "0 \<le> rval q" using assms(1) by (simp add: rval_nonneg)
  ultimately show ?thesis by (simp add: rnd_def)
qed

lemma rnd_rel:
  assumes "1 \<le> q" "q \<le> 2 powi j" "j < 1024"
  obtains r where "rnd q = Finite r"
    "r \<le> q + q / 9007199254740992" "q - q / 9007199254740992 \<le> r"
proof -
  have j: "- 1074 \<le> j"
  proof (rule ccontr)
    assume "\<not> - 1074 \<le> j"
    then have "(2::rat) powi j < 2 powi 0" by (simp only: powi2_less_iff)
    then show False using assms(1,2) by simp
  qed
  have "rnd q = Finite (rval q)"
    by (rule rnd_Finite_pos [OF _ assms(2) j assms(3)]) (use assms(1) in simp)
  moreover have "\<bar>rval q - q\<bar> \<le> q / 9007199254740992"
    using rval_rel_error [OF assms(1)] by simp
  then have "rval q \<le> q + q / 9007199254740992" "q - q / 9007199254740992 \<le> rval q"
    by linarith+
  ultimately show ?thesis using that by blast
qed

lemma neutral_lowers:
  assumes "5854679515581645 / 4503599627370496 < e" "e \<le> 2 ^ 48"
  shows "\<exists>e'. round2 (clamp_ease (fadd (Finite e) (ease_delta (Finite 3)))) = Finite e' \<and> e' < e"
proof -
  let ?d = "5854679515581645 / 4503599627370496 :: rat"
  let ?c = "- (5044031582654955 / 36028797018963968) :: rat"
  define x where "x = e + ?c"
  have x1: "1 \<le> x" using assms(1) by (simp add: x_def)
  have xb: "x \<le> 2 powi 48" using assms(2) by (simp add: x_def)
  obtain e1 where e1: "rnd x = Finite e1" "e1 \<le> x + x / 9007199254740992" "x - x / 9007199254740992 \<le> e1"
    by (rule rnd_rel [OF x1 xb]) simp
  have "fadd (Finite e) (Finite ?c) = rnd x"
    by (simp add: x_def)
  then have a: "fadd (Finite e) (ease_delta (Finite 3)) = Finite e1"
    by (simp only: ease_delta_3 e1(1))
  show ?thesis
  proof (cases "e1 < ?d")
    case True
    then have "clamp_ease (Finite e1) = Finite ?d"
      by (simp add: clamp_ease_def lit_13_10)
    then have "round2 (clamp_ease (fadd (Finite e) (ease_delta (Finite 3)))) = Finite ?d"
      by (simp only: a round2_floor)
    then show ?thesis using assms(1) by blast
  next
    case False
    then have c: "clamp_ease (Finite e1) = Finite e1"
      by (simp add: clamp_ease_def lit_13_10)
    define y where "y = e1 * 100"
    have y1: "1 \<le> y" using False by (simp add: y_def)
    have xn: "x \<le> 281474976710656" using xb by simp
    then have e1b: "e1 \<le> 562949953421312" using e1(2) x1 by linarith
    have yb: "y \<le> 2 powi 56"
      using e1b by (simp add: y_def)
    obtain p where p: "rnd y = Finite p" "p \<le> y + y / 9007199254740992" "y - y / 9007199254740992 \<le> p"
      by (rule rnd_rel [OF y1 yb]) simp
    define n where "n = \<lfloor>p + 1 / 2\<rfloor>"
    have n_le: "of_int n \<le> p + 1 / 2" unfolding n_def by linarith
    have n_gt: "p - 1 / 2 < of_int n" unfolding n_def by linarith
    define z where "z = (of_int n :: rat) / 100"
    have p129: "129 \<le> p" using p(3) False y_def by linarith
    have z1: "1 \<le> z" using n_gt p129 z_def by linarith
    have "y \<le> 72057594037927936" using yb by simp
    then have pb: "p \<le> 144115188075855872" using p(2) y1 by linarith
    have "z \<le> 144115188075855872" using n_le pb z_def by linarith
    then have zb: "z \<le> 2 powi 57" by simp
    obtain e' where e': "rnd z = Finite e'" "e' \<le> z + z / 9007199254740992" "z - z / 9007199254740992 \<le> e'"
      by (rule rnd_rel [OF z1 zb]) simp
    have "fmul (Finite e1) (Finite 100) = rnd y"
      by (simp add: y_def)
    moreover have "js_round (Finite p) = Finite (of_int n)"
      by (simp add: n_def)
    moreover have "fdiv (Finite (of_int n)) (Finite 100) = rnd z"
      by (simp add: z_def)
    ultimately have r: "round2 (Finite e1) = Finite e'"
      by (simp only: round2_def lit_100 p(1) e'(1))
    have "e' < e"
      using e'(2) n_le p(2) e1(2) xn x1 y1 z1 z_def y_def x_def
      by linarith
    then show ?thesis by (simp add: a c r)
  qed
qed

lemma rval_abs_error:
  assumes "0 < q" "q \<le> 2 powi j" "- 1022 \<le> j"
  shows "\<bar>rval q - q\<bar> \<le> 2 powi (j - 53)"
proof -
  have "2 powi (ilog2 q) \<le> (2::rat) powi j"
    using ilog2_bounds(1) [OF assms(1)] assms(2) by linarith
  then have "ilog2 q \<le> j" by simp
  then have "expo q - 1 \<le> j - 53" using assms(1,3) by (simp add: expo_def)
  then have "(2::rat) powi (expo q - 1) \<le> 2 powi (j - 53)" by (simp only: powi2_le_iff)
  then show ?thesis using rval_error [of q] by linarith
qed

lemma rnd_below_128:
  assumes "0 < q" "q \<le> 128"
  obtains r where "rnd q = Finite r" "r \<le> q + 1 / 70368744177664" "q - 1 / 70368744177664 \<le> r"
proof -
  have b: "q \<le> 2 powi 7" using assms(2) by simp
  have "rnd q = Finite (rval q)"
    by (rule rnd_Finite_pos [OF assms(1) b]) simp_all
  moreover have "\<bar>rval q - q\<bar> \<le> 1 / 70368744177664"
    using rval_abs_error [OF assms(1) b] by simp
  then have "rval q \<le> q + 1 / 70368744177664" "q - 1 / 70368744177664 \<le> rval q"
    by linarith+
  ultimately show ?thesis using that by blast
qed

lemma rnd_below_16384:
  assumes "0 < q" "q \<le> 16384"
  obtains r where "rnd q = Finite r" "r \<le> q + 1 / 549755813888" "q - 1 / 549755813888 \<le> r"
proof -
  have b: "q \<le> 2 powi 14" using assms(2) by simp
  have "rnd q = Finite (rval q)"
    by (rule rnd_Finite_pos [OF assms(1) b]) simp_all
  moreover have "\<bar>rval q - q\<bar> \<le> 1 / 549755813888"
    using rval_abs_error [OF assms(1) b] by simp
  then have "rval q \<le> q + 1 / 549755813888" "q - 1 / 549755813888 \<le> rval q"
    by linarith+
  ultimately show ?thesis using that by blast
qed

lemma ease_exact:
  assumes c: "of_int d / 100 - 1 / 4503599627370496 \<le> c"
      "c \<le> of_int d / 100 + 1 / 4503599627370496"
    and k: "130 \<le> k" "k \<le> 9999" and d: "- 80 \<le> d" "d \<le> 10"
  shows "round2 (clamp_ease (fadd (rnd (of_int k / 100)) (Finite c)))
           = rnd (of_int (max 130 (k + d)) / 100)"
proof -
  let ?f = "5854679515581645 / 4503599627370496 :: rat"
  define a :: rat where "a = of_int k / 100"
  define t :: rat where "t = of_int (k + d) / 100"
  define dd :: rat where "dd = of_int d / 100"
  have kr: "(130 :: rat) \<le> of_int k" "(of_int k :: rat) \<le> 9999"
    using k by simp_all
  have dr: "(- 80 :: rat) \<le> of_int d" "(of_int d :: rat) \<le> 10"
    using d by simp_all
  have ab: "13 / 10 \<le> a" "a \<le> 9999 / 100" using kr by (simp_all add: a_def)
  have db: "- 8 / 10 \<le> dd" "dd \<le> 1 / 10" using dr by (simp_all add: dd_def)
  have td: "t = a + dd" by (simp add: t_def a_def dd_def add_divide_distrib)
  have cb: "c \<le> dd + 1 / 4503599627370496" "dd - 1 / 4503599627370496 \<le> c"
    using c unfolding dd_def by simp_all
  obtain ef where ef: "rnd a = Finite ef" "ef \<le> a + 1 / 70368744177664"
      "a - 1 / 70368744177664 \<le> ef"
    by (rule rnd_below_128 [of a]) (use ab in simp_all)
  define x where "x = ef + c"
  have xb: "0 < x" "x \<le> 128" using ef(2,3) ab cb db x_def by linarith+
  obtain e1 where e1: "rnd x = Finite e1" "e1 \<le> x + 1 / 70368744177664"
      "x - 1 / 70368744177664 \<le> e1"
    by (rule rnd_below_128 [OF xb])
  have fa: "fadd (rnd (of_int k / 100)) (Finite c) = Finite e1"
    using ef(1) e1(1) by (simp add: a_def x_def)
  have near: "e1 \<le> t + 1 / 17592186044416" "t - 1 / 17592186044416 \<le> e1"
    using e1(2,3) ef(2,3) cb td x_def by linarith+
  show ?thesis
  proof (cases "e1 < ?f")
    case True
    have "t < 13001 / 10000" using near(2) True by linarith
    then have "(of_int (k + d) :: rat) < 131" by (simp add: t_def)
    then have "k + d < 131" by simp
    then have m: "max 130 (k + d) = 130" by simp
    have "clamp_ease (Finite e1) = Finite ?f"
      using True by (simp add: clamp_ease_def lit_13_10)
    then have "round2 (clamp_ease (fadd (rnd (of_int k / 100)) (Finite c))) = Finite ?f"
      by (simp only: fa round2_floor)
    moreover have "rnd (of_int (max 130 (k + d)) / 100) = Finite ?f"
      using lit_13_10 by (simp add: m)
    ultimately show ?thesis by simp
  next
    case False
    have "12999 / 10000 < t" using near(1) False by linarith
    then have "(129 :: rat) < of_int (k + d)" by (simp add: t_def)
    then have "129 < k + d" by simp
    then have m: "max 130 (k + d) = k + d" by simp
    have cl: "clamp_ease (Finite e1) = Finite e1"
      using False by (simp add: clamp_ease_def lit_13_10)
    define y where "y = e1 * 100"
    have tb: "t \<le> 101" using td ab db by linarith
    have yb: "0 < y" "y \<le> 16384" using False near(1) tb y_def by linarith+
    obtain p where p: "rnd y = Finite p" "p \<le> y + 1 / 549755813888"
        "y - 1 / 549755813888 \<le> p"
      by (rule rnd_below_16384 [OF yb])
    have t100: "of_int (k + d) = t * 100" by (simp add: t_def)
    have "of_int (k + d) \<le> p + 1 / 2" "p + 1 / 2 < of_int (k + d) + 1"
      using p(2,3) near t100 y_def by linarith+
    then have jr: "js_round (Finite p) = Finite (of_int (k + d))"
      by (rule js_round_eqI)
    have "fmul (Finite e1) (Finite 100) = rnd y" by (simp add: y_def)
    moreover have "fdiv (Finite (of_int (k + d))) (Finite 100) = rnd (of_int (k + d) / 100)"
      by simp
    ultimately have "round2 (Finite e1) = rnd (of_int (k + d) / 100)"
      by (simp only: round2_def lit_100 p(1) jr)
    then show ?thesis by (simp only: fa cl m)
  qed
qed

lemma spec_ease_exact_int:
  "spec_ease_exact (of_int q) (of_int k / 100)
     = of_int (max 130 (k + (10 - (5 - q) * (8 + (5 - q) * 2)))) / 100"
proof -
  define d where "d = 10 - (5 - q) * (8 + (5 - q) * 2)"
  have e: "of_int k / 100 + (1 / 10 - (5 - of_int q) * (8 / 100 + (5 - of_int q) * (2 / 100)))
      = (of_int (k + d) :: rat) / 100"
    by (simp add: d_def field_simps)
  have fl: "\<lfloor>(of_int m :: rat) + 1 / 2\<rfloor> = m" for m
    by (simp add: floor_eq_iff)
  show ?thesis
  proof (cases "k + d < 130")
    case True
    then have "(of_int (k + d) :: rat) < 130" by simp
    then have "(of_int (k + d) :: rat) / 100 < 13 / 10" by simp
    moreover have "\<lfloor>(13 / 10 :: rat) * 100 + 1 / 2\<rfloor> = 130"
      using fl [of 130] by simp
    ultimately show ?thesis
      using True unfolding spec_ease_exact_def e Let_def d_def [symmetric] by simp
  next
    case False
    then have "\<not> (of_int (k + d) :: rat) < 130" by simp
    then have "\<not> (of_int (k + d) :: rat) / 100 < 13 / 10" by simp
    moreover have "(of_int (k + d) :: rat) / 100 * 100 = of_int (k + d)" by simp
    then have "\<lfloor>(of_int (k + d) :: rat) / 100 * 100 + 1 / 2\<rfloor> = k + d"
      by (simp only: fl)
    ultimately show ?thesis
      using False unfolding spec_ease_exact_def e Let_def d_def [symmetric] by simp
  qed
qed

lemma next_ease_decimal:
  assumes "ease_delta (Finite (of_int q)) = Finite c"
    and "of_int (10 - (5 - q) * (8 + (5 - q) * 2)) / 100 - 1 / 4503599627370496 \<le> c"
    and "c \<le> of_int (10 - (5 - q) * (8 + (5 - q) * 2)) / 100 + 1 / 4503599627370496"
    and "0 \<le> q" "q \<le> 5" "130 \<le> k" "k \<le> 9999"
    and "easeFactor s = lit (of_int k / 100)"
  shows "next_easeFactor (Finite (of_int q)) s = lit (spec_ease_exact (of_int q) (of_int k / 100))"
proof -
  define d where "d = 10 - (5 - q) * (8 + (5 - q) * 2)"
  have "q = 0 \<or> q = 1 \<or> q = 2 \<or> q = 3 \<or> q = 4 \<or> q = 5" using assms(4,5) by linarith
  then have d: "- 80 \<le> d" "d \<le> 10" unfolding d_def by auto
  show ?thesis
    unfolding next_easeFactor_def assms(1,8) spec_ease_exact_int d_def [symmetric]
    by (rule ease_exact [OF assms(2,3) [folded d_def] assms(6,7) d])
qed

section \<open>The scheduler on the states of the data model\<close>

text \<open>
  \<^verbatim>\<open>toISOString\<close> does not throw when the clock reads a time between 1970 and 2100, the
  offset of local time is within a day and the date moves by at most 99 000 000 days. It
  throws from 100 000 003 days on.
\<close>

lemma setDate_in_range:
  assumes "0 \<le> clock ev" "clock ev \<le> 4102444800000"
    and "\<forall>t u. \<bar>localTZA ev t u\<bar> \<le> 86400000"
    and "0 \<le> m" "m \<le> 99000000"
  shows "\<exists>u. setDate_getDate_plus ev (Finite (of_int m)) = Some u"
proof -
  define a where "a = localTZA ev (clock ev) True"
  define b where "b = localTZA ev (clock ev + a + m * 86400000) False"
  have "\<bar>a\<bar> \<le> 86400000" "\<bar>b\<bar> \<le> 86400000"
    using assms(3) by (simp_all add: a_def b_def)
  moreover have "m * 86400000 \<le> 99000000 * 86400000" "0 \<le> m * 86400000"
    using assms(4,5) by simp_all
  ultimately have "\<bar>clock ev + a + m * 86400000 - b\<bar> \<le> 8640000000000000"
    using assms(1,2) by linarith
  then show ?thesis
    by (simp add: Let_def msPerDay_def a_def b_def)
qed

lemma sm2_in_range:
  assumes "0 \<le> clock ev" "clock ev \<le> 4102444800000"
    and "\<forall>t u. \<bar>localTZA ev t u\<bar> \<le> 86400000"
    and "next_intervalDays quality s = Finite (of_int m)" "0 \<le> m" "m \<le> 99000000"
  shows "\<exists>u. sm2 ev quality s =
           Inr \<lparr>repetitions = next_repetitions quality s,
                easeFactor = next_easeFactor quality s,
                intervalDays = Finite (of_int m), nextReviewAt = u\<rparr>"
proof -
  from setDate_in_range [OF assms(1,2,3,5,6)]
  obtain u where "setDate_getDate_plus ev (Finite (of_int m)) = Some u" by blast
  then show ?thesis by (simp add: sm2_unfold assms(4))
qed

lemma sm2_out_of_range:
  assumes "0 \<le> clock ev" "\<forall>t u. \<bar>localTZA ev t u\<bar> \<le> 86400000"
    and "next_intervalDays quality s = Finite (of_int m)" "100000003 \<le> m"
  shows "sm2 ev quality s = Inl RangeError"
proof -
  define a where "a = localTZA ev (clock ev) True"
  define b where "b = localTZA ev (clock ev + a + m * 86400000) False"
  have "\<bar>a\<bar> \<le> 86400000" "\<bar>b\<bar> \<le> 86400000"
    using assms(2) by (simp_all add: a_def b_def)
  moreover have "100000003 * 86400000 \<le> m * 86400000"
    using assms(4) by simp
  ultimately have "\<not> \<bar>clock ev + a + m * 86400000 - b\<bar> \<le> 8640000000000000"
    using assms(1) by linarith
  then have "setDate_getDate_plus ev (Finite (of_int m)) = None"
    by (simp add: Let_def msPerDay_def a_def b_def)
  then show ?thesis by (simp add: sm2_unfold assms(3))
qed

text \<open>
  \<^verbatim>\<open>Math.ceil\<close> of the binary64 product against the ceiling of the exact product of the
  column values: the two agree unless the exact product is a whole number, and then the
  program's value is that number or the next.
\<close>

lemma ceil_product_decimal:
  assumes "0 \<le> n" "130 \<le> k" "k \<le> 9999" "n * k \<le> 9000000000"
  shows "\<exists>m. js_ceil (fmul (Finite (of_int n)) (lit (of_int k / 100))) = Finite (of_int m) \<and>
           (m = spec_next_interval n k \<or> (100 dvd n * k \<and> m = spec_next_interval n k + 1))"
proof -
  define a :: rat where "a = of_int k / 100"
  define c where "c = spec_next_interval n k"
  define t :: rat where "t = of_int n * a"
  have kr: "(130 :: rat) \<le> of_int k" "(of_int k :: rat) \<le> 9999" using assms(2,3) by simp_all
  have ab: "13 / 10 \<le> a" "a \<le> 9999 / 100" using kr by (simp_all add: a_def)
  obtain ef where ef: "rnd a = Finite ef" "ef \<le> a + 1 / 70368744177664"
      "a - 1 / 70368744177664 \<le> ef"
    by (rule rnd_below_128 [of a]) (use ab in simp_all)
  have t100: "t * 100 = of_int (n * k)" by (simp add: t_def a_def)
  have ct: "t \<le> of_int c" "of_int c - 1 < t"
    unfolding c_def spec_next_interval_def t_def a_def by linarith+
  show ?thesis
  proof (cases "n = 0")
    case True
    then have "js_ceil (fmul (Finite (of_int n)) (lit (of_int k / 100))) = Finite (of_int 0)"
      using ef(1) by (simp add: a_def)
    moreover have "spec_next_interval n k = 0" using True by (simp add: spec_next_interval_def)
    ultimately show ?thesis by (intro exI [of _ 0]) simp
  next
    case False
    then have n1: "(1 :: rat) \<le> of_int n" using assms(1) by simp
    have "(of_int (n * k) :: rat) \<le> of_int 9000000000" using assms(4) by (simp only: of_int_le_iff)
    then have tb: "t \<le> 90000000" using t100 by simp
    have "of_int n * (13 / 10) \<le> of_int n * a"
      by (rule mult_left_mono [OF ab(1)]) (use n1 in simp)
    then have nb: "(of_int n :: rat) \<le> 90000000" using tb by (simp add: t_def)
    define x where "x = of_int n * ef"
    have "x \<le> of_int n * (a + 1 / 70368744177664)"
      unfolding x_def by (rule mult_left_mono [OF ef(2)]) (use n1 in simp)
    then have x_le: "x \<le> t + of_int n / 70368744177664"
      by (simp add: t_def distrib_left)
    have "of_int n * (a - 1 / 70368744177664) \<le> x"
      unfolding x_def by (rule mult_left_mono [OF ef(3)]) (use n1 in simp)
    then have x_ge: "t - of_int n / 70368744177664 \<le> x"
      by (simp add: t_def right_diff_distrib)
    have nd: "(of_int n :: rat) / 70368744177664 \<le> 1 / 781874"
      using nb by simp
    have "(1 :: rat) \<le> of_int n * (13 / 10)" using n1 by linarith
    then have t1: "1 \<le> t"
      using \<open>of_int n * (13 / 10) \<le> of_int n * a\<close> unfolding t_def by (rule order_trans)
    have xpos: "0 < x" using x_ge nd t1 by linarith
    have xb: "x \<le> 2 powi 27" using x_le nd tb by simp
    have px: "rnd x = Finite (rval x)"
      by (rule rnd_Finite_pos [OF xpos xb]) simp_all
    have "\<bar>rval x - x\<bar> \<le> 2 powi (27 - 53)"
      by (rule rval_abs_error [OF xpos xb]) simp
    then have pe: "\<bar>rval x - x\<bar> \<le> 1 / 67108864" by simp
    have "of_int (100 * (c - 1)) < (of_int (n * k) :: rat)"
      using ct(2) t100 by simp
    then have "100 * (c - 1) < n * k" by (simp only: of_int_less_iff)
    then have "100 * (c - 1) + 1 \<le> n * k" by simp
    then have "(of_int (100 * (c - 1) + 1) :: rat) \<le> of_int (n * k)" by (simp only: of_int_le_iff)
    then have tl: "of_int c - 1 + 1 / 100 \<le> t" using t100 by simp
    have lo: "of_int c - 1 < rval x" using tl x_ge nd pe by linarith
    have hi: "rval x < of_int c + 1" using ct(1) x_le nd pe by linarith
    have m1: "c \<le> \<lceil>rval x\<rceil>" using lo by linarith
    have m2: "\<lceil>rval x\<rceil> \<le> c + 1" using hi by linarith
    have m3: "\<lceil>rval x\<rceil> \<le> c" if nd: "\<not> 100 dvd n * k"
    proof -
      have "n * k \<noteq> 100 * c" using nd by auto
      moreover have "(of_int (n * k) :: rat) \<le> of_int (100 * c)" using ct(1) t100 by simp
      then have "n * k \<le> 100 * c" by (simp only: of_int_le_iff)
      ultimately have "n * k + 1 \<le> 100 * c" by simp
      then have "(of_int (n * k + 1) :: rat) \<le> of_int (100 * c)" by (simp only: of_int_le_iff)
      then have "t \<le> of_int c - 1 / 100" using t100 by simp
      then have "rval x \<le> of_int c"
        using x_le \<open>(of_int n :: rat) / 70368744177664 \<le> 1 / 781874\<close> pe by linarith
      then show ?thesis by linarith
    qed
    have "js_ceil (fmul (Finite (of_int n)) (lit (of_int k / 100))) = Finite (of_int \<lceil>rval x\<rceil>)"
      using ef(1) px by (simp add: a_def x_def)
    moreover have "\<lceil>rval x\<rceil> = c \<or> (100 dvd n * k \<and> \<lceil>rval x\<rceil> = c + 1)"
      using m1 m2 m3 by linarith
    ultimately show ?thesis unfolding c_def by blast
  qed
qed

lemma next_ease_stored:
  assumes "0 \<le> q" "q \<le> 5" "easeFactor s = lit (of_int k / 100)" "130 \<le> k" "k \<le> 9999"
  shows "next_easeFactor (Finite (of_int q)) s = lit (spec_ease_exact (of_int q) (of_int k / 100))"
proof -
  from assms(1,2) consider "q = 0" | "q = 1" | "q = 2" | "q = 3" | "q = 4" | "q = 5" by linarith
  then show ?thesis
  proof cases
    case 1
    have c: "ease_delta (Finite (of_int q)) = Finite (- (7205759403792793 / 9007199254740992))"
      by (simp add: 1 ease_delta_0)
    show ?thesis
      by (rule next_ease_decimal [OF c _ _ assms(1,2,4,5,3)]) (simp_all add: 1, (linarith+)?)
  next
    case 2
    have c: "ease_delta (Finite (of_int q)) = Finite (- (607985949695017 / 1125899906842624))"
      by (simp add: 2 ease_delta_1)
    show ?thesis
      by (rule next_ease_decimal [OF c _ _ assms(1,2,4,5,3)]) (simp_all add: 2, (linarith+)?)
  next
    case 3
    have c: "ease_delta (Finite (of_int q)) = Finite (- (1441151880758559 / 4503599627370496))"
      by (simp add: 3 ease_delta_2)
    show ?thesis
      by (rule next_ease_decimal [OF c _ _ assms(1,2,4,5,3)]) (simp_all add: 3, (linarith+)?)
  next
    case 4
    have c: "ease_delta (Finite (of_int q)) = Finite (- (5044031582654955 / 36028797018963968))"
      by (simp add: 4 ease_delta_3)
    show ?thesis
      by (rule next_ease_decimal [OF c _ _ assms(1,2,4,5,3)]) (simp_all add: 4, (linarith+)?)
  next
    case 5
    have c: "ease_delta (Finite (of_int q)) = Finite (0)"
      by (simp add: 5 ease_delta_4)
    show ?thesis
      by (rule next_ease_decimal [OF c _ _ assms(1,2,4,5,3)]) (simp_all add: 5, (linarith+)?)
  next
    case 6
    have c: "ease_delta (Finite (of_int q)) = Finite (3602879701896397 / 36028797018963968)"
      by (simp add: 6 ease_delta_5)
    show ?thesis
      by (rule next_ease_decimal [OF c _ _ assms(1,2,4,5,3)]) (simp_all add: 6, (linarith+)?)
  qed
qed

lemma next_ease_stored_int:
  assumes "0 \<le> q" "q \<le> 5" "easeFactor s = lit (of_int k / 100)" "130 \<le> k" "k \<le> 9999"
  shows "next_easeFactor (Finite (of_int q)) s
           = lit (of_int (max 130 (k + (10 - (5 - q) * (8 + (5 - q) * 2)))) / 100)"
  using next_ease_stored [OF assms] by (simp only: spec_ease_exact_int)

lemma stored_interval:
  assumes "stored s r k n" "3 \<le> q \<and> 2 \<le> r \<longrightarrow> n * k \<le> 9000000000"
  shows "\<exists>m. next_intervalDays (Finite (of_int q)) s = Finite (of_int m) \<and>
           0 \<le> m \<and> m \<le> 99000000 \<and>
           (q < 3 \<longrightarrow> m = 1) \<and> (3 \<le> q \<and> r = 0 \<longrightarrow> m = 1) \<and> (3 \<le> q \<and> r = 1 \<longrightarrow> m = 6) \<and>
           (3 \<le> q \<and> 2 \<le> r \<longrightarrow>
              Finite (of_int m) = js_ceil (fmul (intervalDays s) (easeFactor s)) \<and>
              (m = spec_next_interval n k \<or> (100 dvd n * k \<and> m = spec_next_interval n k + 1)))"
proof -
  have st: "repetitions s = Finite (of_int r)" "0 \<le> r" "easeFactor s = lit (of_int k / 100)"
    "130 \<le> k" "k \<le> 9999" "intervalDays s = Finite (of_int n)" "0 \<le> n"
    using assms(1) by (simp_all add: stored_def)
  consider "q < 3" | "3 \<le> q" "r = 0" | "3 \<le> q" "r = 1" | "3 \<le> q" "2 \<le> r"
    using st(2) by linarith
  then show ?thesis
  proof cases
    case 1
    then have "next_intervalDays (Finite (of_int q)) s = Finite (of_int 1)"
      by (simp add: next_intervalDays_def)
    then show ?thesis using 1 by (intro exI [of _ 1]) simp
  next
    case 2
    then have "next_intervalDays (Finite (of_int q)) s = Finite (of_int 1)"
      by (simp add: next_intervalDays_def st(1))
    then show ?thesis using 2 by (intro exI [of _ 1]) simp
  next
    case 3
    then have "next_intervalDays (Finite (of_int q)) s = Finite (of_int 6)"
      by (simp add: next_intervalDays_def st(1))
    then show ?thesis using 3 by (intro exI [of _ 6]) simp
  next
    case 4
    then have b: "n * k \<le> 9000000000" using assms(2) by simp
    from ceil_product_decimal [OF st(7,4,5) b]
    obtain m where m: "js_ceil (fmul (Finite (of_int n)) (lit (of_int k / 100))) = Finite (of_int m)"
      "m = spec_next_interval n k \<or> (100 dvd n * k \<and> m = spec_next_interval n k + 1)"
      by blast
    have "(of_int n :: rat) * (of_int k / 100) = of_int (n * k) / 100" by simp
    moreover have "(of_int (n * k) :: rat) \<le> of_int 9000000000"
      using b by (simp only: of_int_le_iff)
    moreover have "(0 :: rat) \<le> of_int (n * k)" using st(7,4) by simp
    ultimately have "0 \<le> spec_next_interval n k" "spec_next_interval n k \<le> 90000000"
      unfolding spec_next_interval_def by (simp_all add: ceiling_le_iff)
    then have mb: "0 \<le> m" "m \<le> 99000000" using m(2) by linarith+
    have "next_intervalDays (Finite (of_int q)) s
        = js_ceil (fmul (intervalDays s) (easeFactor s))"
      using 4 by (simp add: next_intervalDays_def st(1) del: fmul.simps js_ceil.simps)
    then show ?thesis using 4 m mb by (intro exI [of _ m]) (simp add: st(3,6) del: fmul.simps js_ceil.simps)
  qed
qed

lemma sm2_stored:
  assumes "0 \<le> clock ev" "clock ev \<le> 4102444800000"
    and "\<forall>t u. \<bar>localTZA ev t u\<bar> \<le> 86400000"
    and "stored s r k n" "3 \<le> q \<and> 2 \<le> r \<longrightarrow> n * k \<le> 9000000000"
  shows "\<exists>s' m. sm2 ev (Finite (of_int q)) s = Inr s' \<and>
           repetitions s' = next_repetitions (Finite (of_int q)) s \<and>
           easeFactor s' = next_easeFactor (Finite (of_int q)) s \<and>
           intervalDays s' = Finite (of_int m) \<and>
           (q < 3 \<longrightarrow> m = 1) \<and> (3 \<le> q \<and> r = 0 \<longrightarrow> m = 1) \<and> (3 \<le> q \<and> r = 1 \<longrightarrow> m = 6) \<and>
           (3 \<le> q \<and> 2 \<le> r \<longrightarrow>
              Finite (of_int m) = js_ceil (fmul (intervalDays s) (easeFactor s)) \<and>
              (m = spec_next_interval n k \<or> (100 dvd n * k \<and> m = spec_next_interval n k + 1)))"
proof -
  from stored_interval [OF assms(4,5)]
  obtain m where m: "next_intervalDays (Finite (of_int q)) s = Finite (of_int m)"
    "0 \<le> m" "m \<le> 99000000"
    and rest: "(q < 3 \<longrightarrow> m = 1) \<and> (3 \<le> q \<and> r = 0 \<longrightarrow> m = 1) \<and> (3 \<le> q \<and> r = 1 \<longrightarrow> m = 6) \<and>
           (3 \<le> q \<and> 2 \<le> r \<longrightarrow>
              Finite (of_int m) = js_ceil (fmul (intervalDays s) (easeFactor s)) \<and>
              (m = spec_next_interval n k \<or> (100 dvd n * k \<and> m = spec_next_interval n k + 1)))"
    by blast
  from sm2_in_range [OF assms(1,2,3) m]
  obtain u where "sm2 ev (Finite (of_int q)) s =
           Inr \<lparr>repetitions = next_repetitions (Finite (of_int q)) s,
                easeFactor = next_easeFactor (Finite (of_int q)) s,
                intervalDays = Finite (of_int m), nextReviewAt = u\<rparr>" (is "_ = Inr ?s'") by blast
  then show ?thesis using rest by (intro exI [of _ ?s'] exI [of _ m]) simp
qed

lemma stored_next_repetitions:
  assumes "stored s r k n"
  shows "next_repetitions (Finite (of_int q)) s = Finite (of_int (if 3 \<le> q then r + 1 else 0))"
proof -
  have st: "repetitions s = Finite (of_int r)" "0 \<le> r" "r < 2 ^ 31"
    using assms by (simp_all add: stored_def)
  have "\<bar>r + 1\<bar> < 2 ^ 53" using st(2,3) by simp
  from rnd_of_int [OF this] show ?thesis
    by (simp add: next_repetitions_def st(1))
qed

text \<open>
  What \<open>sm2\<close> returns on any state and any quality, integer or not, whenever it
  returns: the schedule and the ease update as expressions on binary64 numbers.
\<close>

lemma binary64_schedule:
  assumes "sm2 ev quality s = Inr s'"
  shows "(fge quality (Finite 3) \<longrightarrow>
            repetitions s' = fadd (repetitions s) (Finite 1) \<and>
            intervalDays s' =
              (if feq (repetitions s) (Finite 0) then Finite 1
               else if feq (repetitions s) (Finite 1) then Finite 6
               else js_ceil (fmul (intervalDays s) (easeFactor s)))) \<and>
         (flt quality (Finite 3) \<longrightarrow> repetitions s' = Finite 0 \<and> intervalDays s' = Finite 1) \<and>
         (\<forall>k. fge quality (Finite 3) \<and> repetitions s = Finite (of_int k) \<and> \<bar>k + 1\<bar> < 2 ^ 53 \<longrightarrow>
              repetitions s' = Finite (of_int (k + 1)))"
proof -
  have "fadd (Finite (of_int k)) (Finite 1) = Finite (of_int (k + 1))" if "\<bar>k + 1\<bar> < 2 ^ 53" for k
    using rnd_of_int [OF that] by simp
  then show ?thesis
    using sm2_fields(1,3) [OF assms] flt_not_fge [of quality "Finite 3"]
    by (auto simp: next_repetitions_def next_intervalDays_def)
qed

lemma binary64_ease_expression:
  assumes "sm2 ev quality s = Inr s'"
  shows "easeFactor s' =
           (let e = fadd (easeFactor s)
                      (fsub (lit (1 / 10))
                         (fmul (fsub (lit 5) quality)
                            (fadd (lit (8 / 100)) (fmul (fsub (lit 5) quality) (lit (2 / 100))))));
                clamped = (if flt e (lit (13 / 10)) then lit (13 / 10) else e)
            in fdiv (js_round (fmul clamped (lit 100))) (lit 100))"
  unfolding sm2_fields(2) [OF assms]
  by (simp only: next_easeFactor_def round2_def clamp_ease_def ease_delta_def Let_def)

lemma lit_decimal_less:
  assumes "130 \<le> j" "j < k" "k \<le> 9999"
  shows "flt (lit (of_int j / 100)) (lit (of_int k / 100))"
proof -
  define a :: rat where "a = of_int j / 100"
  define b :: rat where "b = of_int k / 100"
  have jr: "(130 :: rat) \<le> of_int j" using assms(1) by simp
  have kr: "(of_int k :: rat) \<le> 9999" using assms(3) by simp
  have "j + 1 \<le> k" using assms(2) by simp
  then have "(of_int (j + 1) :: rat) \<le> of_int k" by (simp only: of_int_le_iff)
  then have ab: "a + 1 / 100 \<le> b" by (simp add: a_def b_def)
  have bounds: "0 < a" "a \<le> 128" "0 < b" "b \<le> 128"
    using jr kr ab by (simp_all add: a_def b_def)
  obtain x where x: "rnd a = Finite x" "x \<le> a + 1 / 70368744177664"
    by (rule rnd_below_128 [OF bounds(1,2)])
  obtain y where y: "rnd b = Finite y" "b - 1 / 70368744177664 \<le> y"
    by (rule rnd_below_128 [OF bounds(3,4)])
  have "x < y" using x(2) y(2) ab by linarith
  then show ?thesis by (simp add: x(1) y(1) flip: a_def b_def)
qed

lemma lit_decimal_ge_floor:
  assumes "130 \<le> k"
  shows "fge (lit (of_int k / 100)) (Finite (5854679515581645 / 4503599627370496))"
proof -
  have "(130 :: rat) \<le> of_int k" using assms by simp
  then have "(13 / 10 :: rat) \<le> of_int k / 100" by simp
  then show ?thesis by (intro rnd_ge_Finite [where c = "13 / 10"]) (simp_all add: lit_13_10)
qed

lemma spec_next_interval_grows:
  assumes "1 \<le> n" "130 \<le> k"
  shows "n < spec_next_interval n k"
proof -
  have "(130 :: rat) \<le> of_int k" using assms(2) by simp
  then have "(13 / 10 :: rat) \<le> of_int k / 100" by simp
  moreover have "(0 :: rat) < of_int n" using assms(1) by simp
  ultimately have "of_int n * (13 / 10 :: rat) \<le> of_int n * (of_int k / 100)"
    by (intro mult_left_mono) simp_all
  moreover have "(of_int n :: rat) < of_int n * (13 / 10)" using \<open>(0 :: rat) < of_int n\<close> by simp
  ultimately have "(of_int n :: rat) < of_int n * (of_int k / 100)" by linarith
  then show ?thesis unfolding spec_next_interval_def by (simp only: less_ceiling_iff)
qed

text \<open>Counts that are on schedule stay so.\<close>

lemma on_schedule_preserved:
  assumes "stored s r k n" "on_schedule r n"
    and "3 \<le> q \<and> 2 \<le> r \<longrightarrow> n * k \<le> 9000000000"
    and "sm2 ev (Finite (of_int q)) s = Inr s'"
  shows "\<exists>r' n'. repetitions s' = Finite (of_int r') \<and> intervalDays s' = Finite (of_int n') \<and>
           on_schedule r' n'"
proof -
  have st: "0 \<le> r" "130 \<le> k" using assms(1) by (simp_all add: stored_def)
  from stored_interval [OF assms(1,3)]
  obtain m where m: "next_intervalDays (Finite (of_int q)) s = Finite (of_int m)"
    "q < 3 \<longrightarrow> m = 1" "3 \<le> q \<and> r = 0 \<longrightarrow> m = 1" "3 \<le> q \<and> r = 1 \<longrightarrow> m = 6"
    "3 \<le> q \<and> 2 \<le> r \<longrightarrow>
       (m = spec_next_interval n k \<or> (100 dvd n * k \<and> m = spec_next_interval n k + 1))"
    by blast
  define r' where "r' = (if 3 \<le> q then r + 1 else 0)"
  have rp: "repetitions s' = Finite (of_int r')"
    using stored_next_repetitions [OF assms(1), of q]
    by (simp add: sm2_fields(1) [OF assms(4)] r'_def)
  have ip: "intervalDays s' = Finite (of_int m)"
    by (simp add: sm2_fields(3) [OF assms(4)] m(1))
  consider "q < 3" | "3 \<le> q" "r = 0" | "3 \<le> q" "r = 1" | "3 \<le> q" "2 \<le> r"
    using st(1) by linarith
  then have "on_schedule r' m"
  proof cases
    case 4
    then have "6 \<le> n" using assms(2) by (auto simp: on_schedule_def)
    then have "1 \<le> n" by simp
    from spec_next_interval_grows [OF this st(2)] have "6 \<le> m" using m(5) 4 \<open>6 \<le> n\<close> by auto
    then show ?thesis using 4 by (simp add: on_schedule_def r'_def)
  qed (use m(2,3,4) in \<open>simp_all add: on_schedule_def r'_def\<close>)
  then show ?thesis using rp ip by blast
qed

section \<open>Runs of reviews\<close>

lemma neutral_step:
  assumes "sm2 ev (Finite 3) s = Inr s'"
    and "repetitions s = Finite (of_int r)" "0 \<le> r" "r + 1 < 2 ^ 53"
    and "easeFactor s = lit (of_int k / 100)" "130 \<le> k" "k \<le> 9999"
    and "r = 0 \<longrightarrow> fge (Finite 1) (intervalDays s)"
    and "r = 1 \<longrightarrow> fge (Finite 6) (intervalDays s)"
    and "2 \<le> r \<longrightarrow> fge (intervalDays s) (Finite 1)"
  shows "repetitions s' = Finite (of_int (r + 1))"
    and "easeFactor s' = lit (of_int (max 130 (k - 14)) / 100)"
    and "fge (intervalDays s') (intervalDays s)"
    and "r + 1 = 1 \<longrightarrow> fge (Finite 6) (intervalDays s')"
    and "2 \<le> r + 1 \<longrightarrow> fge (intervalDays s') (Finite 1)"
proof -
  have "\<bar>r + 1\<bar> < 2 ^ 53" using assms(3,4) by simp
  from rnd_of_int [OF this] show "repetitions s' = Finite (of_int (r + 1))"
    by (simp add: sm2_fields(1) [OF assms(1)] next_repetitions_def assms(2))
  show "easeFactor s' = lit (of_int (max 130 (k - 14)) / 100)"
    using next_ease_stored_int [of 3 s k] assms(5,6,7)
    by (simp add: sm2_fields(2) [OF assms(1)])
  have i: "intervalDays s' =
      (if r = 0 then Finite 1 else if r = 1 then Finite 6
       else js_ceil (fmul (intervalDays s) (easeFactor s)))"
    by (simp add: sm2_fields(3) [OF assms(1)] next_intervalDays_def assms(2)
        del: fmul.simps js_ceil.simps)
  have g: "fge (js_ceil (fmul (intervalDays s) (easeFactor s))) (intervalDays s)" if "2 \<le> r"
    by (rule ceil_fmul_ge) (use that assms(10) lit_decimal_ge_floor [OF assms(6)] assms(5) in simp_all)
  consider "r = 0" | "r = 1" | "2 \<le> r" using assms(3) by linarith
  then show "fge (intervalDays s') (intervalDays s)"
    using assms(8,9) g by cases (simp_all add: i del: fmul.simps js_ceil.simps)
  show "r + 1 = 1 \<longrightarrow> fge (Finite 6) (intervalDays s')"
    by (simp add: i)
  show "2 \<le> r + 1 \<longrightarrow> fge (intervalDays s') (Finite 1)"
  proof
    assume "2 \<le> r + 1"
    then consider "r = 1" | "2 \<le> r" by linarith
    then show "fge (intervalDays s') (Finite 1)"
    proof cases
      case 1 then show ?thesis by (simp add: i)
    next
      case 2
      then have "fge (intervalDays s') (intervalDays s)"
        using g by (simp add: i del: fmul.simps js_ceil.simps)
      moreover have "fge (intervalDays s) (Finite 1)" using 2 assms(10) by simp
      ultimately show ?thesis by (rule fge_trans)
    qed
  qed
qed

lemma neutral_reviews_run:
  assumes "reviews evs (Finite 3) s = Inr ss"
    and "repetitions s = Finite (of_int r)" "0 \<le> r" "r + int (length evs) < 2 ^ 53"
    and "easeFactor s = lit (of_int k / 100)" "130 \<le> k" "k \<le> 9999"
    and "r = 0 \<longrightarrow> fge (Finite 1) (intervalDays s)"
    and "r = 1 \<longrightarrow> fge (Finite 6) (intervalDays s)"
    and "2 \<le> r \<longrightarrow> fge (intervalDays s) (Finite 1)"
  shows "length ss = length evs \<and>
         (\<forall>j<length ss.
            easeFactor (ss ! j) = lit (of_int (max 130 (k - 14 * (int j + 1))) / 100) \<and>
            repetitions (ss ! j) = Finite (of_int (r + int j + 1))) \<and>
         sorted_wrt (\<lambda>a b. fge b a) (intervalDays s # map intervalDays ss)"
  using assms
proof (induction evs arbitrary: s ss r k)
  case Nil
  then show ?case by simp
next
  case (Cons ev evs)
  from Cons.prems(1) obtain s' ss' where s': "sm2 ev (Finite 3) s = Inr s'"
    and ss': "reviews evs (Finite 3) s' = Inr ss'" and ss: "ss = s' # ss'"
    by (auto split: sum.splits)
  have r1: "r + 1 < 2 ^ 53" using Cons.prems(4) by simp
  note st = neutral_step [OF s' Cons.prems(2,3) r1 Cons.prems(5-10)]
  define k' where "k' = max 130 (k - 14)"
  have k': "130 \<le> k'" "k' \<le> 9999" using Cons.prems(6,7) by (simp_all add: k'_def)
  have rb: "0 \<le> r + 1" "r + 1 + int (length evs) < 2 ^ 53"
    using Cons.prems(3,4) by simp_all
  have c0: "r + 1 = 0 \<longrightarrow> fge (Finite 1) (intervalDays s')" using Cons.prems(3) by simp
  from Cons.IH [OF ss' st(1) rb st(2) [folded k'_def] k' c0 st(4,5)]
  have ih: "length ss' = length evs"
    "\<And>j. j < length ss' \<Longrightarrow>
        easeFactor (ss' ! j) = lit (of_int (max 130 (k' - 14 * (int j + 1))) / 100) \<and>
        repetitions (ss' ! j) = Finite (of_int (r + 1 + int j + 1))"
    "sorted_wrt (\<lambda>a b. fge b a) (intervalDays s' # map intervalDays ss')"
    by simp_all
  have m: "max 130 (k' - 14 * (int j + 1)) = max 130 (k - 14 * (int (Suc j) + 1))" for j
    by (simp add: k'_def)
  have nth: "easeFactor (ss ! j) = lit (of_int (max 130 (k - 14 * (int j + 1))) / 100) \<and>
            repetitions (ss ! j) = Finite (of_int (r + int j + 1))" if "j < length ss" for j
  proof (cases j)
    case 0
    then show ?thesis using st(1,2) by (simp add: ss)
  next
    case (Suc i)
    then have "i < length ss'" using that by (simp add: ss)
    from ih(2) [OF this]
    have "easeFactor (ss' ! i) = lit (of_int (max 130 (k - 14 * (int (Suc i) + 1))) / 100)"
      "repetitions (ss' ! i) = Finite (of_int (r + 1 + int i + 1))"
      by (simp_all only: m)
    moreover have "r + 1 + int i + 1 = r + int (Suc i) + 1" by simp
    ultimately show ?thesis by (simp only: ss Suc nth_Cons_Suc)
  qed
  have "fge b (intervalDays s)" if "b \<in> set (intervalDays s' # map intervalDays ss')" for b
  proof (cases "b = intervalDays s'")
    case True then show ?thesis using st(3) by simp
  next
    case False
    with that ih(3) have "fge b (intervalDays s')" by auto
    then show ?thesis using st(3) by (rule fge_trans)
  qed
  then have "sorted_wrt (\<lambda>a b. fge b a) (intervalDays s # map intervalDays ss)"
    using ih(3) by (simp add: ss)
  then show ?case using nth ih(1) by (simp add: ss)
qed

lemma neutral_reviews_ease:
  assumes "reviews evs (Finite 3) s = Inr ss"
    and "repetitions s = Finite (of_int r)" "0 \<le> r" "r + int (length evs) < 2 ^ 53"
    and "easeFactor s = lit (of_int k / 100)" "130 \<le> k" "k \<le> 9999"
  shows "\<forall>j<length ss.
            easeFactor (ss ! j) = lit (of_int (max 130 (k - 14 * (int j + 1))) / 100) \<and>
            repetitions (ss ! j) = Finite (of_int (r + int j + 1))"
  using assms
proof (induction evs arbitrary: s ss r k)
  case Nil
  then show ?case by simp
next
  case (Cons ev evs)
  from Cons.prems(1) obtain s' ss' where s': "sm2 ev (Finite 3) s = Inr s'"
    and ss': "reviews evs (Finite 3) s' = Inr ss'" and ss: "ss = s' # ss'"
    by (auto split: sum.splits)
  have "\<bar>r + 1\<bar> < 2 ^ 53" using Cons.prems(3,4) by simp
  from rnd_of_int [OF this] have rp: "repetitions s' = Finite (of_int (r + 1))"
    by (simp add: sm2_fields(1) [OF s'] next_repetitions_def Cons.prems(2))
  define k' where "k' = max 130 (k - 14)"
  have e: "easeFactor s' = lit (of_int k' / 100)"
    using next_ease_stored_int [of 3 s k] Cons.prems(5,6,7)
    by (simp add: sm2_fields(2) [OF s'] k'_def)
  have k': "130 \<le> k'" "k' \<le> 9999" using Cons.prems(6,7) by (simp_all add: k'_def)
  have rb: "0 \<le> r + 1" "r + 1 + int (length evs) < 2 ^ 53"
    using Cons.prems(3,4) by simp_all
  note ih = Cons.IH [OF ss' rp rb e k']
  have m: "max 130 (k' - 14 * (int j + 1)) = max 130 (k - 14 * (int (Suc j) + 1))" for j
    by (simp add: k'_def)
  show ?case
  proof (intro allI impI)
    fix j assume j: "j < length ss"
    show "easeFactor (ss ! j) = lit (of_int (max 130 (k - 14 * (int j + 1))) / 100) \<and>
            repetitions (ss ! j) = Finite (of_int (r + int j + 1))"
    proof (cases j)
      case 0
      then show ?thesis using rp e by (simp add: ss k'_def)
    next
      case (Suc i)
      then have "i < length ss'" using j by (simp add: ss)
      with ih
      have "easeFactor (ss' ! i) = lit (of_int (max 130 (k' - 14 * (int i + 1))) / 100)"
        "repetitions (ss' ! i) = Finite (of_int (r + 1 + int i + 1))"
        by blast+
      then have "easeFactor (ss' ! i) = lit (of_int (max 130 (k - 14 * (int (Suc i) + 1))) / 100)"
        "repetitions (ss' ! i) = Finite (of_int (r + 1 + int i + 1))"
        by (simp_all only: m)
      moreover have "r + 1 + int i + 1 = r + int (Suc i) + 1" by simp
      ultimately show ?thesis by (simp only: ss Suc nth_Cons_Suc)
    qed
  qed
qed

lemma easy_reviews_ease:
  assumes "reviews evs (Finite 5) s = Inr ss"
    and "easeFactor s = lit (of_int k / 100)" "130 \<le> k" "k + 10 * int (length ss) \<le> 9999"
  shows "\<forall>j<length ss. easeFactor (ss ! j) = lit (of_int (k + 10 * (int j + 1)) / 100)"
  using assms
proof (induction evs arbitrary: s ss k)
  case Nil
  then show ?case by simp
next
  case (Cons ev evs)
  from Cons.prems(1) obtain s' ss' where s': "sm2 ev (Finite 5) s = Inr s'"
    and ss': "reviews evs (Finite 5) s' = Inr ss'" and ss: "ss = s' # ss'"
    by (auto split: sum.splits)
  have kb: "k \<le> 9999" "k + 10 + 10 * int (length ss') \<le> 9999"
    using Cons.prems(4) by (simp_all add: ss)
  have e: "easeFactor s' = lit (of_int (k + 10) / 100)"
    using next_ease_stored_int [of 5 s k] Cons.prems(2,3) kb(1)
    by (simp add: sm2_fields(2) [OF s'])
  have k10: "130 \<le> k + 10" using Cons.prems(3) by simp
  note ih = Cons.IH [OF ss' e k10 kb(2)]
  show ?case
  proof (intro allI impI)
    fix j assume j: "j < length ss"
    show "easeFactor (ss ! j) = lit (of_int (k + 10 * (int j + 1)) / 100)"
    proof (cases j)
      case 0
      then show ?thesis using e by (simp add: ss)
    next
      case (Suc i)
      then have "i < length ss'" using j by (simp add: ss)
      with ih have "easeFactor (ss' ! i) = lit (of_int (k + 10 + 10 * (int i + 1)) / 100)"
        by blast
      moreover have "k + 10 + 10 * (int i + 1) = k + 10 * (int (Suc i) + 1)" by simp
      ultimately show ?thesis by (simp only: ss Suc nth_Cons_Suc)
    qed
  qed
qed

text \<open>The three runs of the fresh word, and the states of the examples as stored states.\<close>

lemma drift_reachable:
  "ratings (map (Pair demo_env)
      [Finite 3, Finite 3, Finite 1, Finite 5, Finite 5, Finite 5, Finite 5, Finite 5]) demo_state
     = Inr drift_state"
  by (simp add: demo_state_def drift_1 drift_2 drift_3 drift_4 drift_5 drift_6 drift_7 drift_8
      drift_state_def)

lemma drift_sm2: "sm2 demo_env (Finite 5) drift_state = Inr drift_review"
  unfolding drift_state_def drift_review_def by (rule drift_9)

lemma stored_drift: "stored drift_state 5 218 50"
  by (simp add: stored_def drift_state_def lit_109_50)

lemma spec_drift: "spec_next_interval 50 218 = 109"
  by (simp add: spec_next_interval_def)

lemma demo_clock:
  "0 \<le> clock demo_env" "clock demo_env \<le> 4102444800000"
  "\<forall>t u. \<bar>localTZA demo_env t u\<bar> \<le> 86400000"
  by (simp_all add: demo_env_def)

lemma stored_demo:
  "stored demo_state 0 250 0" "stored first_review 1 260 1" "stored learnt_state 5 200 30"
  by (simp_all add: stored_def demo_state_def first_review_def learnt_state_def lit_5_2 lit_13_5)

lemma stored_floor: "stored floor_state 3 130 17"
  by (simp add: stored_def floor_state_def lit_13_10)

lemma on_schedule_fresh: "stored demo_state 0 250 0 \<and> on_schedule 0 0"
  using stored_demo(1) by (simp add: on_schedule_def)

lemma neutral_reviews:
  "reviews [demo_env, demo_env, demo_env, demo_env, demo_env, demo_env, demo_env, demo_env,
      demo_env] (Finite 3) demo_state = Inr neutral_run"
  by (simp add: demo_state_def neutral_1 neutral_2 neutral_3 neutral_4 neutral_5 neutral_6
      neutral_7 neutral_8 neutral_9 neutral_run_def)

lemma easy_reviews:
  "reviews [demo_env, demo_env, demo_env, demo_env, demo_env, demo_env] (Finite 5) demo_state
     = Inr easy_run"
  by (simp add: demo_state_def easy_1 easy_2 easy_3 easy_4 easy_5 easy_6 easy_run_def)

text \<open>A run of reviews returns. A review of a stored state gives a stored state again, with
  an ease factor at most \<open>g\<close> hundredths larger (\<open>g\<close> bounds the change of the ease factor at this
  quality from above) and an interval at most \<open>easeFactor + 2\<close> times the larger of the old one and
  6. So the intervals of a run stay in the range where the date of the next review exists as long
  as the bound of the last hypothesis holds, \<open>e\<close> being a bound of every ease factor of the run
  in hundredths.\<close>

lemma sm2_stored_step:
  assumes "0 \<le> clock ev" "clock ev \<le> 4102444800000"
    and "\<forall>t u. \<bar>localTZA ev t u\<bar> \<le> 86400000"
    and "stored s r k n" "3 \<le> q \<and> 2 \<le> r \<longrightarrow> n * k \<le> 9000000000"
    and "0 \<le> q" "q \<le> 5" "10 - (5 - q) * (8 + (5 - q) * 2) \<le> g" "0 \<le> g"
    and "k + g \<le> 9999" "r + 1 < 2 ^ 31"
  shows "\<exists>s' r' k' n'. sm2 ev (Finite (of_int q)) s = Inr s' \<and> stored s' r' k' n' \<and>
           r' \<le> r + 1 \<and> k' \<le> k + g \<and>
           (of_int (max n' 6) :: rat) \<le> of_int (max n 6) * ((of_int k + 200) / 100)"
proof -
  have st: "0 \<le> r" "130 \<le> k" "k \<le> 9999" "easeFactor s = lit (of_int k / 100)" "0 \<le> n"
    using assms(4) by (simp_all add: stored_def)
  from sm2_stored [OF assms(1-5)]
  obtain s' m where s': "sm2 ev (Finite (of_int q)) s = Inr s'"
    "repetitions s' = next_repetitions (Finite (of_int q)) s"
    "easeFactor s' = next_easeFactor (Finite (of_int q)) s"
    "intervalDays s' = Finite (of_int m)"
    "q < 3 \<longrightarrow> m = 1" "3 \<le> q \<and> r = 0 \<longrightarrow> m = 1" "3 \<le> q \<and> r = 1 \<longrightarrow> m = 6"
    "3 \<le> q \<and> 2 \<le> r \<longrightarrow>
       Finite (of_int m) = js_ceil (fmul (intervalDays s) (easeFactor s)) \<and>
       (m = spec_next_interval n k \<or> (100 dvd n * k \<and> m = spec_next_interval n k + 1))"
    by blast
  define r' where "r' = (if 3 \<le> q then r + 1 else 0)"
  define d where "d = 10 - (5 - q) * (8 + (5 - q) * 2)"
  define k' where "k' = max 130 (k + d)"
  have d10: "d \<le> g" using assms(8) by (simp add: d_def)
  have rp: "repetitions s' = Finite (of_int r')"
    using stored_next_repetitions [OF assms(4), of q] by (simp add: s'(2) r'_def)
  have ep: "easeFactor s' = lit (of_int k' / 100)"
    using next_ease_stored_int [OF assms(6,7) st(4,2,3)] by (simp add: s'(3) k'_def d_def)
  have kb: "130 \<le> k'" "k' \<le> k + g" "k' \<le> 9999"
    using d10 st(2) assms(9,10) by (simp_all add: k'_def)
  have rb: "0 \<le> r'" "r' \<le> r + 1" "r' < 2 ^ 31"
    using st(1) assms(11) by (simp_all add: r'_def)
  define c :: rat where "c = (of_int k + 200) / 100"
  have c3: "3 \<le> c" using st(2) by (simp add: c_def)
  have sp: "(of_int (spec_next_interval n k) :: rat) \<le> of_int n * (of_int k / 100) + 1"
    unfolding spec_next_interval_def by linarith
  have sp0: "0 \<le> spec_next_interval n k"
  proof -
    have "(0 :: rat) \<le> of_int n * (of_int k / 100)" using st(5,2) by simp
    then show ?thesis unfolding spec_next_interval_def by (simp add: ceiling_le_iff flip: not_less)
  qed
  have m_le: "(of_int m :: rat) \<le> of_int (max n 6) * c \<and> 0 \<le> m \<and> m \<le> 99000000"
  proof -
    have six: "(6 :: rat) \<le> of_int (max n 6) * c"
    proof -
      have "(6 :: rat) * 1 \<le> of_int (max n 6) * c"
        by (rule mult_mono) (use c3 in simp_all)
      then show ?thesis by simp
    qed
    consider "q < 3" | "3 \<le> q" "r = 0" | "3 \<le> q" "r = 1" | "3 \<le> q" "2 \<le> r"
      using st(1) by linarith
    then show ?thesis
    proof cases
      case 4
      then have b: "n * k \<le> 9000000000" using assms(5) by simp
      have m: "m = spec_next_interval n k \<or> m = spec_next_interval n k + 1"
        using s'(8) 4 by blast
      then have m2: "(of_int m :: rat) \<le> of_int n * (of_int k / 100) + 2" using sp by auto
      have "(of_int (n * k) :: rat) \<le> of_int 9000000000" using b by (simp only: of_int_le_iff)
      then have "(of_int n :: rat) * (of_int k / 100) \<le> 90000000" by simp
      then have "(of_int m :: rat) \<le> of_int 90000002" using m2 by simp
      then have mb: "m \<le> 90000002" by (simp only: of_int_le_iff)
      have "(of_int m :: rat) \<le> of_int (max n 6) * c"
      proof (cases "n = 0")
        case True
        then have "(of_int m :: rat) \<le> 2" using m2 by simp
        then show ?thesis using six by linarith
      next
        case False
        then have n1: "(1 :: rat) \<le> of_int n" using st(5) by simp
        have "of_int n * (of_int k / 100) + 2 \<le> of_int n * (of_int k / 100) + of_int n * (2 :: rat)"
          using n1 by simp
        also have "\<dots> = of_int n * c" by (simp add: c_def algebra_simps add_divide_distrib)
        also have "\<dots> \<le> of_int (max n 6) * c"
          by (rule mult_right_mono) (use c3 in simp_all)
        finally show ?thesis using m2 by linarith
      qed
      then show ?thesis using m sp0 mb by auto
    qed (use s'(5,6,7) six in auto)
  qed
  then have mb: "0 \<le> m" "m < 2 ^ 31" by simp_all
  have "(of_int (max m 6) :: rat) \<le> of_int (max n 6) * c"
  proof (cases "m \<le> 6")
    case True
    have "(6 :: rat) * 1 \<le> of_int (max n 6) * c"
      by (rule mult_mono) (use c3 in simp_all)
    then show ?thesis using True by (simp add: max_def)
  next
    case False
    then show ?thesis using m_le by (simp add: max_def)
  qed
  moreover have "stored s' r' k' m"
    using rp ep s'(4) kb rb mb by (simp add: stored_def)
  ultimately show ?thesis
    using s'(1) rb(2) kb(2) unfolding c_def by blast
qed

lemma reviews_return:
  assumes "\<forall>ev\<in>set evs. 0 \<le> clock ev \<and> clock ev \<le> 4102444800000 \<and>
             (\<forall>t u. \<bar>localTZA ev t u\<bar> \<le> 86400000)"
    and "stored s r k n" "0 \<le> q" "q \<le> 5"
    and "10 - (5 - q) * (8 + (5 - q) * 2) \<le> g" "0 \<le> g"
    and "k + g * int (length evs) \<le> e" "e \<le> 9999" "r + int (length evs) < 2 ^ 31"
    and "of_int (max n 6) * ((of_int e + 200) / 100) ^ length evs * of_int e
           \<le> (9000000000 :: rat)"
  shows "\<exists>ss. reviews evs (Finite (of_int q)) s = Inr ss \<and> length ss = length evs"
  using assms
proof (induction evs arbitrary: s r k n)
  case Nil
  then show ?case by simp
next
  case (Cons ev evs)
  define c :: rat where "c = (of_int e + 200) / 100"
  have st: "0 \<le> n" "130 \<le> k" using Cons.prems(2) by (simp_all add: stored_def)
  have gl: "0 \<le> g * int (length evs)" using Cons.prems(6) by simp
  have kg: "k + g + g * int (length evs) \<le> e"
    using Cons.prems(7) by (simp add: algebra_simps)
  have ke: "k + g \<le> e" "k \<le> e"
    using kg gl Cons.prems(6) by linarith+
  have c1: "1 \<le> c" "0 \<le> c" using st(2) ke(2) by (simp_all add: c_def)
  have cp: "1 \<le> c ^ length evs" using c1(1) by (rule one_le_power)
  have e0: "(0 :: rat) \<le> of_int e" using st(2) ke(2) by simp
  have n6: "(0 :: rat) \<le> of_int (max n 6)" by simp
  have big: "of_int (max n 6) * (c * c ^ length evs) * of_int e \<le> (9000000000 :: rat)"
    using Cons.prems(10) by (simp add: c_def)
  have prod: "n * k \<le> 9000000000"
  proof -
    have "(of_int n :: rat) * of_int k \<le> of_int (max n 6) * of_int e"
      by (rule mult_mono) (use ke(2) st in simp_all)
    also have "\<dots> = of_int (max n 6) * 1 * of_int e" by simp
    also have "\<dots> \<le> of_int (max n 6) * (c * c ^ length evs) * of_int e"
    proof -
      have "1 * 1 \<le> c * c ^ length evs" by (rule mult_mono) (use c1 cp in simp_all)
      then have "of_int (max n 6) * 1 \<le> of_int (max n 6) * (c * c ^ length evs)"
        by (intro mult_left_mono) simp_all
      then show ?thesis by (rule mult_right_mono) (rule e0)
    qed
    finally have "(of_int (n * k) :: rat) \<le> of_int 9000000000" using big by simp
    then show ?thesis by (simp only: of_int_le_iff)
  qed
  have cl: "0 \<le> clock ev" "clock ev \<le> 4102444800000" "\<forall>t u. \<bar>localTZA ev t u\<bar> \<le> 86400000"
    using Cons.prems(1) by simp_all
  have k10: "k + g \<le> 9999" using ke(1) Cons.prems(8) by simp
  have r1: "r + 1 < 2 ^ 31" using Cons.prems(9) by simp
  have pq: "3 \<le> q \<and> 2 \<le> r \<longrightarrow> n * k \<le> 9000000000" using prod by simp
  from sm2_stored_step [OF cl Cons.prems(2) pq Cons.prems(3,4,5,6) k10 r1]
  obtain s' r' k' n' where s': "sm2 ev (Finite (of_int q)) s = Inr s'" "stored s' r' k' n'"
    "r' \<le> r + 1" "k' \<le> k + g"
    "(of_int (max n' 6) :: rat) \<le> of_int (max n 6) * ((of_int k + 200) / 100)"
    by blast
  have "(of_int k + 200) / 100 \<le> c" using ke(2) by (simp add: c_def)
  then have "of_int (max n 6) * ((of_int k + 200) / 100) \<le> of_int (max n 6) * c"
    by (intro mult_left_mono) simp_all
  then have n': "(of_int (max n' 6) :: rat) \<le> of_int (max n 6) * c" using s'(5) by linarith
  have "of_int (max n' 6) * c ^ length evs * of_int e
      \<le> (of_int (max n 6) * c) * c ^ length evs * of_int e"
    by (intro mult_right_mono n') (use c1 e0 in simp_all)
  also have "\<dots> = of_int (max n 6) * (c * c ^ length evs) * of_int e" by simp
  finally have b': "of_int (max n' 6) * ((of_int e + 200) / 100) ^ length evs * of_int e
      \<le> (9000000000 :: rat)"
    using big by (simp add: c_def)
  have cl': "\<forall>ev\<in>set evs. 0 \<le> clock ev \<and> clock ev \<le> 4102444800000 \<and>
             (\<forall>t u. \<bar>localTZA ev t u\<bar> \<le> 86400000)"
    using Cons.prems(1) by simp
  have k'e: "k' + g * int (length evs) \<le> e"
    using s'(4) kg by linarith
  have r'l: "r' + int (length evs) < 2 ^ 31" using s'(3) Cons.prems(9) by simp
  from Cons.IH [OF cl' s'(2) Cons.prems(3,4,5,6) k'e Cons.prems(8) r'l b']
  obtain ss where "reviews evs (Finite (of_int q)) s' = Inr ss" "length ss = length evs"
    by blast
  then show ?case using s'(1) by simp
qed

section \<open>The date of the next review\<close>

lemma sm2_returns_integral:
  assumes "sm2 ev quality s = Inr a"
  shows "\<exists>n. intervalDays a = Finite (of_int n) \<and>
           setDate_getDate_plus ev (Finite (of_int n)) = Some (nextReviewAt a)"
proof -
  note f = sm2_fields(3,4) [OF assms]
  obtain x where x: "next_intervalDays quality s = Finite x"
    using f(2) by (cases "next_intervalDays quality s") simp_all
  have "of_int \<lfloor>x\<rfloor> = x" by (rule next_intervalDays_integral [OF x])
  then have "next_intervalDays quality s = Finite (of_int \<lfloor>x\<rfloor>)" by (simp only: x)
  then show ?thesis using f by (intro exI [of _ "\<lfloor>x\<rfloor>"]) simp
qed

lemma setDate_fixed_offset:
  assumes "setDate_getDate_plus ev (Finite (of_int n)) = Some u" "localTZA ev = (\<lambda>t u. z)"
  shows "u = clock ev + n * 86400000"
  using assms by (simp add: Let_def msPerDay_def split: if_splits)

text \<open>With daylight saving, two clock readings can give the same date.\<close>

lemma same_date_across_dst:
  "clock autumn_env \<noteq> clock autumn_env_later"
  "sm2 autumn_env (Finite 5) demo_state = sm2 autumn_env_later (Finite 5) demo_state"
  using demo_interval [of "nextReviewAt demo_state"]
  by (simp_all add: sm2_unfold autumn_env_def autumn_env_later_def new_york_def msPerDay_def
      Let_def)

section \<open>A session on the review page\<close>

lemma reveal_fields [simp]:
  "store (reveal p) = store p" "console (reveal p) = console p"
  "dueWords (sess (reveal p)) = dueWords (sess p)"
  "currentIndex (sess (reveal p)) = currentIndex (sess p)"
  "loading (sess (reveal p)) = loading (sess p)"
  "sessionComplete (sess (reveal p)) = sessionComplete (sess p)"
  "reviewed (sess (reveal p)) = reviewed (sess p)"
  "revealed (sess (reveal p))"
  by (simp_all add: reveal_def)

lemma currentWord_reveal [simp]: "currentWord (sess (reveal p)) = currentWord (sess p)"
  by (simp add: currentWord_def)

lemma review_session_done:
  "presented (sess p) = None \<Longrightarrow> review_session rs p = []"
  by (cases rs) auto

lemma unique_id_filter:
  assumes "distinct (map w_id xs)" "x \<in> set xs"
  shows "filter (\<lambda>r. w_id r = w_id x) xs = [x]"
  using assms
proof (induction xs)
  case Nil
  then show ?case by simp
next
  case (Cons y ys)
  show ?case
  proof (cases "x = y")
    case True
    have "w_id z \<noteq> w_id y" if "z \<in> set ys" for z
      using Cons.prems(1) that by (metis distinct.simps(2) image_eqI list.simps(9) set_map)
    then have "filter (\<lambda>r. w_id r = w_id y) ys = []"
      by (simp add: filter_empty_conv)
    then show ?thesis using True by simp
  next
    case False
    then have "x \<in> set ys" using Cons.prems(2) by simp
    moreover from this have "w_id y \<noteq> w_id x" using Cons.prems(1) by auto
    ultimately show ?thesis using Cons.IH Cons.prems(1) by simp
  qed
qed

lemma apply_updates_id [simp]: "w_id (apply_updates u r) = w_id r"
  by (simp add: apply_updates_def)

lemma filter_id_map:
  assumes "filter (\<lambda>r. w_id r = i) xs = [r]" "\<And>x. w_id (f x) = w_id x"
  shows "\<exists>r'. filter (\<lambda>r. w_id r = i) (map f xs) = [r']"
proof -
  have "filter (\<lambda>r. w_id r = i) (map f xs) = map f (filter (\<lambda>r. w_id r = i) xs)"
    by (simp add: filter_map comp_def assms(2))
  then show ?thesis using assms(1) by simp
qed

lemma handleReview_advances:
  assumes "currentWord (sess p) = Some cw" "sm2 ev quality (state_of_word cw) = Inr ns"
    and "online (store p)" "filter (\<lambda>r. w_id r = w_id cw) (rows (store p)) = [r]"
  shows "\<exists>p'. handleReview ev quality p = Inr p' \<and>
           online (store p') \<and>
           rows (store p') =
             map (\<lambda>r. if w_id r = w_id cw then apply_updates (review_updates quality ns) r else r)
               (rows (store p)) \<and>
           dueWords (sess p') = dueWords (sess p) \<and>
           loading (sess p') = loading (sess p) \<and>
           (if currentIndex (sess p) + 1 < length (dueWords (sess p))
            then currentIndex (sess p') = currentIndex (sess p) + 1 \<and>
                 sessionComplete (sess p') = sessionComplete (sess p)
            else sessionComplete (sess p'))"
  using assms(3)
  by (simp add: handleReview_unfold [OF assms(1,2)] updateWord_succeeds [OF assms(3,4)])

lemma review_session_run:
  assumes "online (store p)" "\<not> loading (sess p)" "\<not> sessionComplete (sess p)"
    and "currentIndex (sess p) < length (dueWords (sess p))"
    and "\<forall>w\<in>set (dueWords (sess p)). \<exists>r. filter (\<lambda>r. w_id r = w_id w) (rows (store p)) = [r]"
    and "\<forall>(ev, q)\<in>set rs. \<forall>w\<in>set (dueWords (sess p)). \<exists>ns. sm2 ev q (state_of_word w) = Inr ns"
  shows "review_session rs p
           = take (length rs + 1) (drop (currentIndex (sess p)) (dueWords (sess p)))"
  using assms
proof (induction rs arbitrary: p)
  case Nil
  let ?i = "currentIndex (sess p)" and ?ws = "dueWords (sess p)"
  have "presented (sess p) = Some (?ws ! ?i)"
    using Nil.prems(2,3,4) by (simp add: presented_def currentWord_def)
  moreover have "take 1 (drop ?i ?ws) = [?ws ! ?i]"
    using Nil.prems(4) by (simp add: take_Suc_conv_app_nth hd_drop_conv_nth take_Suc)
  ultimately show ?case by simp
next
  case (Cons x rs)
  obtain ev q where x: "x = (ev, q)" by (cases x)
  let ?i = "currentIndex (sess p)" and ?ws = "dueWords (sess p)"
  let ?w = "?ws ! ?i"
  have w: "?w \<in> set ?ws" using Cons.prems(4) by simp
  have pr: "presented (sess p) = Some ?w"
    using Cons.prems(2,3,4) by (simp add: presented_def currentWord_def)
  have cw: "currentWord (sess (reveal p)) = Some ?w"
    using Cons.prems(4) by (simp add: currentWord_def)
  obtain ns where ns: "sm2 ev q (state_of_word ?w) = Inr ns"
    using Cons.prems(6) w by (auto simp: x)
  obtain r where r: "filter (\<lambda>r. w_id r = w_id ?w) (rows (store (reveal p))) = [r]"
    using Cons.prems(5) w by auto
  have on: "online (store (reveal p))" using Cons.prems(1) by simp
  from handleReview_advances [OF cw ns on r]
  obtain p' where p': "handleReview ev q (reveal p) = Inr p'" "online (store p')"
    "rows (store p') =
       map (\<lambda>r. if w_id r = w_id ?w then apply_updates (review_updates q ns) r else r)
         (rows (store p))"
    "dueWords (sess p') = ?ws" "loading (sess p') = loading (sess p)"
    "if ?i + 1 < length ?ws
     then currentIndex (sess p') = ?i + 1 \<and> sessionComplete (sess p') = sessionComplete (sess p)
     else sessionComplete (sess p')"
    by auto
  have step: "review_session (x # rs) p = ?w # review_session rs p'"
    by (simp add: x pr p'(1))
  have dr: "?w # drop (Suc ?i) ?ws = drop ?i ?ws"
    by (rule Cons_nth_drop_Suc [OF Cons.prems(4)])
  show ?case
  proof (cases "?i + 1 < length ?ws")
    case True
    have ids: "\<forall>w\<in>set (dueWords (sess p')). \<exists>r. filter (\<lambda>r. w_id r = w_id w) (rows (store p')) = [r]"
    proof
      fix v assume "v \<in> set (dueWords (sess p'))"
      then obtain r0 where "filter (\<lambda>r. w_id r = w_id v) (rows (store p)) = [r0]"
        using Cons.prems(5) p'(4) by auto
      then show "\<exists>r. filter (\<lambda>r. w_id r = w_id v) (rows (store p')) = [r]"
        unfolding p'(3) by (rule filter_id_map) simp
    qed
    have sm: "\<forall>(ev, q)\<in>set rs. \<forall>w\<in>set (dueWords (sess p')). \<exists>ns. sm2 ev q (state_of_word w) = Inr ns"
      using Cons.prems(6) p'(4) by auto
    have "review_session rs p' = take (length rs + 1) (drop (currentIndex (sess p')) (dueWords (sess p')))"
      by (rule Cons.IH [OF p'(2) _ _ _ ids sm]) (use True p' Cons.prems(2,3) in simp_all)
    then have "review_session rs p' = take (length rs + 1) (drop (Suc ?i) ?ws)"
      using True p'(4,6) by simp
    then show ?thesis using dr by (simp add: step flip: dr)
  next
    case False
    then have "sessionComplete (sess p')" using p'(6) by simp
    then have "review_session rs p' = []"
      by (intro review_session_done) (simp add: presented_def)
    moreover have "drop (Suc ?i) ?ws = []" using False by simp
    ultimately show ?thesis using dr by (simp add: step flip: dr)
  qed
qed

lemma sort_key_Nil_iff: "sort_key f xs = [] \<longleftrightarrow> xs = []"
  by (metis length_0_conv length_sort)

lemma loadDueWords_page:
  assumes "online b"
  shows "store (loadDueWords ev \<lparr>store = b, sess = initial_session, console = []\<rparr>) = b"
    and "\<not> loading (sess (loadDueWords ev \<lparr>store = b, sess = initial_session, console = []\<rparr>))"
    and "currentIndex (sess (loadDueWords ev \<lparr>store = b, sess = initial_session, console = []\<rparr>)) = 0"
    and "sessionComplete (sess (loadDueWords ev \<lparr>store = b, sess = initial_session, console = []\<rparr>))
           \<longleftrightarrow> dueWords (sess (loadDueWords ev \<lparr>store = b, sess = initial_session, console = []\<rparr>)) = []"
  using assms
  by (simp_all add: loadDueWords_def getDueWords_def initial_session_def Let_def
      sort_key_Nil_iff)

section \<open>The schedule (claim C1)\<close>

text \<open>
  Claim C1 says that from the third successful review on the new interval is
  \<open>ceil(intervalDays * easeFactor)\<close>. The program evaluates
  \<^verbatim>\<open>Math.ceil(intervalDays * easeFactor)\<close> on binary64 numbers, and the ease factor it
  receives is the binary64 value nearest to the stored decimal. The freshly saved word,
  rated Neutral, Neutral, Hard and five times Easy, has \<open>repetitions = 5\<close>,
  \<open>easeFactor = 2.18\<close> and \<open>intervalDays = 50\<close>. One more Easy review returns
  \<open>intervalDays = 110\<close>, where \<open>ceil(50 * 2.18)\<close> is 109: the binary64 value of 2.18
  lies above 2.18, so the product lies above 109.
\<close>

theorem sm2_interval_drift_counterexample:
  "ratings (map (Pair demo_env)
      [Finite 3, Finite 3, Finite 1, Finite 5, Finite 5, Finite 5, Finite 5, Finite 5]) demo_state
     = Inr drift_state \<and>
   stored drift_state 5 218 50 \<and>
   sm2 demo_env (Finite 5) drift_state = Inr drift_review \<and>
   intervalDays drift_review = Finite 110 \<and>
   spec_next_interval 50 218 = 109"
  using drift_reachable stored_drift drift_sm2 spec_drift by (simp add: drift_review_def)

text \<open>
  Claim C1, amended. For every integer quality and every state of the data model
  (\<open>repetitions\<close> and \<open>intervalDays\<close> non-negative integers, \<open>easeFactor\<close> a
  two-decimal value from 1.30 to 99.99), \<open>sm2\<close> returns, and it returns
  \<open>repetitions\<close> and \<open>intervalDays\<close> per the SM-2 schedule. For \<open>quality \<ge> 3\<close>:
  \<open>intervalDays\<close> is 1 when \<open>repetitions\<close> is 0, 6 when it is 1, and otherwise
  \<^verbatim>\<open>Math.ceil\<close> of the binary64 product \<open>intervalDays * easeFactor\<close>, which is
  \<open>ceil(intervalDays * easeFactor)\<close> or, only when \<open>intervalDays * easeFactor\<close> is a
  whole number, possibly one more; \<open>repetitions\<close> is incremented by 1. For
  \<open>quality < 3\<close>: \<open>repetitions = 0\<close> and \<open>intervalDays = 1\<close>, for every prior state
  whatsoever (the reset is total). \<open>sm2\<close> returns when the clock reads a time between
  1970 and 2100, the offset of local time is within a day, and the product
  \<open>intervalDays * easeFactor\<close>, where it is used, is at most 90 000 000 days. On every
  other state, whenever \<open>sm2\<close> returns, the schedule is the same with the binary64
  product (lemma \<open>binary64_schedule\<close>).
\<close>

theorem sm2_schedule:
  assumes "0 \<le> clock ev" and "clock ev \<le> 4102444800000"
    and "\<forall>t u. \<bar>localTZA ev t u\<bar> \<le> 86400000"
  shows "(q < 3 \<longrightarrow>
            (\<exists>s'. sm2 ev (Finite (of_int q)) s = Inr s' \<and>
               repetitions s' = Finite 0 \<and> intervalDays s' = Finite 1)) \<and>
         (3 \<le> q \<and> stored s r k n \<and> (2 \<le> r \<longrightarrow> n * k \<le> 9000000000) \<longrightarrow>
            (\<exists>s'. sm2 ev (Finite (of_int q)) s = Inr s' \<and>
               repetitions s' = Finite (of_int (r + 1)) \<and>
               intervalDays s' =
                 (if r = 0 then Finite 1 else if r = 1 then Finite 6
                  else js_ceil (fmul (intervalDays s) (easeFactor s))) \<and>
               (2 \<le> r \<longrightarrow>
                  intervalDays s' = Finite (of_int (spec_next_interval n k)) \<or>
                  100 dvd n * k \<and> intervalDays s' = Finite (of_int (spec_next_interval n k + 1)))))"
proof (intro conjI impI)
  assume q: "q < 3"
  then have i: "next_intervalDays (Finite (of_int q)) s = Finite (of_int 1)"
    by (simp add: next_intervalDays_def)
  from sm2_in_range [OF assms i]
  obtain u where "sm2 ev (Finite (of_int q)) s =
           Inr \<lparr>repetitions = next_repetitions (Finite (of_int q)) s,
                easeFactor = next_easeFactor (Finite (of_int q)) s,
                intervalDays = Finite (of_int 1), nextReviewAt = u\<rparr>" by auto
  then show "\<exists>s'. sm2 ev (Finite (of_int q)) s = Inr s' \<and>
               repetitions s' = Finite 0 \<and> intervalDays s' = Finite 1"
    using q by (simp add: next_repetitions_def)
next
  assume h: "3 \<le> q \<and> stored s r k n \<and> (2 \<le> r \<longrightarrow> n * k \<le> 9000000000)"
  then have q: "3 \<le> q" and st: "stored s r k n" and b: "3 \<le> q \<and> 2 \<le> r \<longrightarrow> n * k \<le> 9000000000"
    by simp_all
  have r0: "0 \<le> r" using st by (simp add: stored_def)
  from sm2_stored [OF assms st b]
  obtain s' m where s': "sm2 ev (Finite (of_int q)) s = Inr s'"
    "repetitions s' = next_repetitions (Finite (of_int q)) s"
    "intervalDays s' = Finite (of_int m)"
    "3 \<le> q \<and> r = 0 \<longrightarrow> m = 1" "3 \<le> q \<and> r = 1 \<longrightarrow> m = 6"
    "3 \<le> q \<and> 2 \<le> r \<longrightarrow>
              Finite (of_int m) = js_ceil (fmul (intervalDays s) (easeFactor s)) \<and>
              (m = spec_next_interval n k \<or> (100 dvd n * k \<and> m = spec_next_interval n k + 1))"
    by blast
  have "repetitions s' = Finite (of_int (r + 1))"
    using q by (simp add: s'(2) stored_next_repetitions [OF st])
  moreover have "intervalDays s' =
                 (if r = 0 then Finite 1 else if r = 1 then Finite 6
                  else js_ceil (fmul (intervalDays s) (easeFactor s)))"
    using s'(3,4,5,6) q r0 by (cases "r = 0"; cases "r = 1") (auto simp del: fmul.simps js_ceil.simps)
  moreover have "2 \<le> r \<longrightarrow>
                  intervalDays s' = Finite (of_int (spec_next_interval n k)) \<or>
                  100 dvd n * k \<and> intervalDays s' = Finite (of_int (spec_next_interval n k + 1))"
    using s'(3,6) q by auto
  ultimately show "\<exists>s'. sm2 ev (Finite (of_int q)) s = Inr s' \<and>
               repetitions s' = Finite (of_int (r + 1)) \<and>
               intervalDays s' =
                 (if r = 0 then Finite 1 else if r = 1 then Finite 6
                  else js_ceil (fmul (intervalDays s) (easeFactor s))) \<and>
               (2 \<le> r \<longrightarrow>
                  intervalDays s' = Finite (of_int (spec_next_interval n k)) \<or>
                  100 dvd n * k \<and> intervalDays s' = Finite (of_int (spec_next_interval n k + 1)))"
    using s'(1) by blast
qed

theorem sm2_schedule_witness:
  "0 \<le> clock demo_env \<and> clock demo_env \<le> 4102444800000 \<and>
   localTZA demo_env = (\<lambda>t u. 0) \<and>
   (1 :: int) < 3 \<and>
   sm2 demo_env (Finite (of_int 1)) learnt_state = Inr lapsed_review \<and>
   repetitions lapsed_review = Finite 0 \<and> intervalDays lapsed_review = Finite 1 \<and>
   (3 :: int) \<le> 5 \<and> stored first_review 1 260 1 \<and>
   sm2 demo_env (Finite (of_int 5)) first_review = Inr second_review \<and>
   repetitions second_review = Finite (of_int (1 + 1)) \<and>
   intervalDays second_review = Finite 6 \<and>
   stored drift_state 5 218 50 \<and> (2 :: int) \<le> 5 \<and> (50 * 218 :: int) \<le> 9000000000 \<and>
   sm2 demo_env (Finite (of_int 5)) drift_state = Inr drift_review \<and>
   repetitions drift_review = Finite (of_int (5 + 1)) \<and>
   intervalDays drift_review = js_ceil (fmul (intervalDays drift_state) (easeFactor drift_state)) \<and>
   (100 :: int) dvd 50 * 218 \<and>
   intervalDays drift_review = Finite (of_int (spec_next_interval 50 218 + 1)) \<and>
   stored demo_state 0 250 0 \<and>
   sm2 demo_env (Finite (of_int 5)) demo_state = Inr first_review \<and>
   repetitions first_review = Finite (of_int (0 + 1)) \<and> intervalDays first_review = Finite 1 \<and>
   stored learnt_state 5 200 30 \<and> (30 * 200 :: int) \<le> 9000000000 \<and>
   sm2 demo_env (Finite (of_int 5)) learnt_state = Inr sixth_review \<and>
   intervalDays sixth_review = Finite (of_int (spec_next_interval 30 200)) \<and>
   spec_next_interval 30 200 = 60"
proof -
  have a: "repetitions lapsed_review = Finite 0 \<and> intervalDays lapsed_review = Finite 1"
    using sm2_schedule [OF demo_clock, where q = 1 and s = learnt_state, THEN conjunct1]
      learnt_sm2 by simp
  have b: "repetitions second_review = Finite (of_int (1 + 1)) \<and>
      intervalDays second_review = Finite 6"
    using sm2_schedule [OF demo_clock, where q = 5 and s = first_review and r = 1 and k = 260
        and n = 1, THEN conjunct2] stored_demo(2) second_sm2 by simp
  have c: "repetitions drift_review = Finite (of_int (5 + 1)) \<and>
      intervalDays drift_review = js_ceil (fmul (intervalDays drift_state) (easeFactor drift_state)) \<and>
      intervalDays drift_review = Finite (of_int (spec_next_interval 50 218 + 1))"
    using sm2_schedule [OF demo_clock, where q = 5 and s = drift_state and r = 5 and k = 218
        and n = 50, THEN conjunct2] stored_drift drift_sm2 spec_drift
    by (simp add: drift_review_def del: fmul.simps js_ceil.simps)
  have d: "repetitions first_review = Finite (of_int (0 + 1)) \<and>
      intervalDays first_review = Finite 1"
    using sm2_schedule [OF demo_clock, where q = 5 and s = demo_state and r = 0 and k = 250
        and n = 0, THEN conjunct2] stored_demo(1) demo_sm2 by simp
  have v: "spec_next_interval 30 200 = 60" by (simp add: spec_next_interval_def)
  have f: "intervalDays sixth_review = Finite (of_int (spec_next_interval 30 200))"
    using sm2_schedule [OF demo_clock, where q = 5 and s = learnt_state and r = 5 and k = 200
        and n = 30, THEN conjunct2] stored_demo(3) sixth_sm2 v
    by (simp add: sixth_review_def del: fmul.simps js_ceil.simps)
  have e: "0 \<le> clock demo_env" "clock demo_env \<le> 4102444800000"
    "localTZA demo_env = (\<lambda>t u. 0)"
    by (simp_all add: demo_env_def)
  have n: "(1 :: int) < 3" "(3 :: int) \<le> 5" "(2 :: int) \<le> 5" "(50 * 218 :: int) \<le> 9000000000"
    "(100 :: int) dvd 50 * 218" "(30 * 200 :: int) \<le> 9000000000"
    by simp_all
  have l: "sm2 demo_env (Finite (of_int 1)) learnt_state = Inr lapsed_review"
    "sm2 demo_env (Finite (of_int 5)) first_review = Inr second_review"
    "sm2 demo_env (Finite (of_int 5)) drift_state = Inr drift_review"
    "sm2 demo_env (Finite (of_int 5)) demo_state = Inr first_review"
    "sm2 demo_env (Finite (of_int 5)) learnt_state = Inr sixth_review"
    using learnt_sm2 second_sm2 drift_sm2 demo_sm2 sixth_sm2 by simp_all
  show ?thesis
    using a b c d f v e n l stored_demo stored_drift by blast
qed

section \<open>The ease update (claim C2)\<close>

text \<open>
  Claim C2. For every state of the data model and every integer quality from 0 to 5
  (the page rates 1, 3 or 5), on the success branch and on the failure branch alike,
  \<open>sm2\<close> returns, and the \<open>easeFactor\<close> it returns is the old one plus
  \<open>0.1 - (5 - quality) * (0.08 + (5 - quality) * 0.02)\<close>, clamped up to 1.3 and rounded
  to two decimal places: it is the binary64 value of the exact decimal result of this
  formula, \<open>spec_ease_exact\<close>. What the binary64 operations add to or take from the
  exact result is removed by \<^verbatim>\<open>Math.round(x * 100) / 100\<close>. The conditions on the
  clock and on the product \<open>intervalDays * easeFactor\<close> are those under which
  \<^verbatim>\<open>toISOString\<close> does not throw. On every other input, whenever \<open>sm2\<close> returns, the
  ease factor is the same expression on binary64 numbers (lemma
  \<open>binary64_ease_expression\<close>).
\<close>

theorem ease_update:
  assumes "0 \<le> clock ev" and "clock ev \<le> 4102444800000"
    and "\<forall>t u. \<bar>localTZA ev t u\<bar> \<le> 86400000"
    and "stored s r k n" and "3 \<le> q \<and> 2 \<le> r \<longrightarrow> n * k \<le> 9000000000"
    and "0 \<le> q" and "q \<le> 5"
  shows "\<exists>s'. sm2 ev (Finite (of_int q)) s = Inr s' \<and>
           easeFactor s' = lit (spec_ease_exact (of_int q) (of_int k / 100))"
proof -
  have st: "easeFactor s = lit (of_int k / 100)" "130 \<le> k" "k \<le> 9999"
    using assms(4) by (simp_all add: stored_def)
  from sm2_stored [OF assms(1-5)]
  obtain s' where "sm2 ev (Finite (of_int q)) s = Inr s'"
    "easeFactor s' = next_easeFactor (Finite (of_int q)) s"
    by blast
  then show ?thesis
    using next_ease_stored [OF assms(6,7) st] by auto
qed

theorem ease_update_witness:
  "0 \<le> clock demo_env \<and> clock demo_env \<le> 4102444800000 \<and>
   localTZA demo_env = (\<lambda>t u. 0) \<and>
   stored demo_state 0 250 0 \<and> (0 :: int) \<le> 5 \<and> (5 :: int) \<le> 5 \<and>
   sm2 demo_env (Finite (of_int 5)) demo_state = Inr first_review \<and>
   easeFactor first_review = lit (spec_ease_exact (of_int 5) (of_int 250 / 100)) \<and>
   spec_ease_exact (of_int 5) (of_int 250 / 100) = 260 / 100 \<and>
   stored learnt_state 5 200 30 \<and> (0 :: int) \<le> 1 \<and> (1 :: int) \<le> 5 \<and>
   sm2 demo_env (Finite (of_int 1)) learnt_state = Inr lapsed_review \<and>
   easeFactor lapsed_review = lit (spec_ease_exact (of_int 1) (of_int 200 / 100)) \<and>
   spec_ease_exact (of_int 1) (of_int 200 / 100) = 146 / 100 \<and>
   (3 :: int) \<le> 5 \<and> (2 :: int) \<le> 5 \<and> (30 * 200 :: int) \<le> 9000000000 \<and>
   sm2 demo_env (Finite (of_int 5)) learnt_state = Inr sixth_review \<and>
   easeFactor sixth_review = lit (spec_ease_exact (of_int 5) (of_int 200 / 100)) \<and>
   spec_ease_exact (of_int 5) (of_int 200 / 100) = 210 / 100"
proof -
  have a: "easeFactor first_review = lit (spec_ease_exact (of_int 5) (of_int 250 / 100))"
    using ease_update [OF demo_clock stored_demo(1), where q = 5] demo_sm2 by simp
  have b: "easeFactor lapsed_review = lit (spec_ease_exact (of_int 1) (of_int 200 / 100))"
    using ease_update [OF demo_clock stored_demo(3), where q = 1] learnt_sm2 by simp
  have c: "easeFactor sixth_review = lit (spec_ease_exact (of_int 5) (of_int 200 / 100))"
    using ease_update [OF demo_clock stored_demo(3), where q = 5] sixth_sm2 by simp
  have va: "spec_ease_exact (of_int 5) (of_int 250 / 100) = 260 / 100"
    using spec_ease_exact_int [of 5 250] by simp
  have vb: "spec_ease_exact (of_int 1) (of_int 200 / 100) = 146 / 100"
    using spec_ease_exact_int [of 1 200] by simp
  have vc: "spec_ease_exact (of_int 5) (of_int 200 / 100) = 210 / 100"
    using spec_ease_exact_int [of 5 200] by simp
  have e: "0 \<le> clock demo_env" "clock demo_env \<le> 4102444800000"
    "localTZA demo_env = (\<lambda>t u. 0)"
    by (simp_all add: demo_env_def)
  have n: "(0 :: int) \<le> 5" "(5 :: int) \<le> 5" "(0 :: int) \<le> 1" "(1 :: int) \<le> 5"
    "(3 :: int) \<le> 5" "(2 :: int) \<le> 5" "(30 * 200 :: int) \<le> 9000000000"
    by simp_all
  have l: "sm2 demo_env (Finite (of_int 5)) demo_state = Inr first_review"
    "sm2 demo_env (Finite (of_int 1)) learnt_state = Inr lapsed_review"
    "sm2 demo_env (Finite (of_int 5)) learnt_state = Inr sixth_review"
    using demo_sm2 learnt_sm2 sixth_sm2 by simp_all
  show ?thesis
    using a b c va vb vc e n l stored_demo(1,3) by blast
qed

section \<open>The floor of the ease factor (claim C3)\<close>

text \<open>
  Claim C3. For every state whose \<open>easeFactor\<close> is at least 1.3 (the program's
  \<^verbatim>\<open>1.3\<close>, an infinity included) and for each of the three ratings 1, 3 and 5, the
  state that \<open>sm2\<close> returns has an \<open>easeFactor\<close> of at least 1.3 again: the clamp holds
  through the rounding to two decimals, because \<^verbatim>\<open>Math.round(1.3 * 100) / 100\<close> is
  \<^verbatim>\<open>1.3\<close> and every step is monotone.
\<close>

theorem ease_floor_invariant:
  assumes "sm2 ev quality s = Inr s'"
    and "fge (easeFactor s) (lit (13 / 10))"
    and "quality = Finite 1 \<or> quality = Finite 3 \<or> quality = Finite 5"
  shows "fge (easeFactor s') (lit (13 / 10))"
proof -
  obtain c where c: "ease_delta quality = Finite c"
    using assms(3) ease_delta_1 ease_delta_3 ease_delta_5 by blast
  have "easeFactor s \<noteq> NaN" using assms(2) by (rule fge_not_NaN)
  from next_ease_ge_floor [OF this c] show ?thesis
    by (simp add: sm2_fields(2) [OF assms(1)] lit_13_10)
qed

theorem ease_floor_invariant_witness:
  "sm2 demo_env (Finite 5) demo_state = Inr first_review \<and>
   fge (easeFactor demo_state) (lit (13 / 10)) \<and>
   fge (easeFactor first_review) (lit (13 / 10))"
proof -
  have h: "fge (easeFactor demo_state) (lit (13 / 10))"
    by (simp add: demo_state_def lit_13_10)
  from ease_floor_invariant [OF demo_sm2 h] show ?thesis
    using demo_sm2 h by simp
qed

section \<open>The clock (claim C4)\<close>

text \<open>
  Claim C4 says that the scheduler takes the current date-time as an explicit input and
  that two calls with identical inputs yield identical outputs, \<open>nextReviewAt\<close> included.
  The function \<open>sm2\<close> has two parameters, \<open>quality\<close> and \<open>state\<close>, and reads the clock
  itself (\<^verbatim>\<open>new Date()\<close>): called twice with the same quality and the same state, a
  minute apart, it returns two different states.
\<close>

theorem sm2_hidden_clock_counterexample:
  "sm2 demo_env (Finite 5) demo_state \<noteq> sm2 later_env (Finite 5) demo_state"
  by (simp add: demo_sm2 later_sm2 first_review_later_def first_review_def)

text \<open>
  Claim C4, amended. \<open>sm2\<close> takes the quality and the state only and reads the current
  date-time from the ambient clock; apart from that reading it is a pure function with
  no side effects. Two calls with identical quality and state yield identical
  \<open>repetitions\<close>, \<open>easeFactor\<close> and \<open>intervalDays\<close>; made at the same clock reading in
  the same time zone they yield identical outputs, \<open>nextReviewAt\<close> included. In a time
  zone of fixed offset \<open>nextReviewAt\<close> is the clock reading plus \<open>intervalDays\<close> days,
  so that there two calls at different clock readings yield different \<open>nextReviewAt\<close>.
  (Where the offset changes they need not: lemma \<open>same_date_across_dst\<close>.)

  That \<open>sm2\<close> has no side effects is how the model has it: the source assigns to its
  own local variables only and returns a new object, so \<open>sm2\<close> is a function of the
  clock, the time zone, the quality and the state, and its value is all it produces.
\<close>

theorem sm2_pure_up_to_clock:
  assumes "sm2 ev quality s = Inr a" and "sm2 ev' quality s = Inr b"
  shows "repetitions a = repetitions b \<and> easeFactor a = easeFactor b \<and>
         intervalDays a = intervalDays b \<and>
         (clock ev = clock ev' \<and> localTZA ev = localTZA ev' \<longrightarrow> a = b) \<and>
         (\<exists>n. intervalDays a = Finite (of_int n) \<and>
            (\<forall>z. localTZA ev = (\<lambda>t u. z) \<longrightarrow> nextReviewAt a = clock ev + n * 86400000) \<and>
            (\<forall>z. localTZA ev' = (\<lambda>t u. z) \<longrightarrow> nextReviewAt b = clock ev' + n * 86400000)) \<and>
         (\<forall>z z'. localTZA ev = (\<lambda>t u. z) \<and> localTZA ev' = (\<lambda>t u. z') \<and> clock ev \<noteq> clock ev' \<longrightarrow>
            nextReviewAt a \<noteq> nextReviewAt b)"
proof -
  note fa = sm2_fields [OF assms(1)] and fb = sm2_fields [OF assms(2)]
  have same: "repetitions a = repetitions b" "easeFactor a = easeFactor b"
    "intervalDays a = intervalDays b"
    by (simp_all add: fa fb)
  have eq: "a = b" if "clock ev = clock ev' \<and> localTZA ev = localTZA ev'"
  proof -
    have "ev = ev'" using that by simp
    then show ?thesis using assms by simp
  qed
  from sm2_returns_integral [OF assms(1)]
  obtain n where n: "intervalDays a = Finite (of_int n)"
    "setDate_getDate_plus ev (Finite (of_int n)) = Some (nextReviewAt a)" by blast
  have nb: "setDate_getDate_plus ev' (Finite (of_int n)) = Some (nextReviewAt b)"
    using fb(4) fb(3) same(3) n(1) by simp
  have "\<forall>z. localTZA ev = (\<lambda>t u. z) \<longrightarrow> nextReviewAt a = clock ev + n * 86400000"
    using setDate_fixed_offset [OF n(2)] by blast
  moreover have "\<forall>z. localTZA ev' = (\<lambda>t u. z) \<longrightarrow> nextReviewAt b = clock ev' + n * 86400000"
    using setDate_fixed_offset [OF nb] by blast
  moreover have "nextReviewAt a \<noteq> nextReviewAt b"
    if "localTZA ev = (\<lambda>t u. z) \<and> localTZA ev' = (\<lambda>t u. z') \<and> clock ev \<noteq> clock ev'" for z z'
    using setDate_fixed_offset [OF n(2), of z] setDate_fixed_offset [OF nb, of z'] that by simp
  ultimately show ?thesis using same eq n(1) by blast
qed

theorem sm2_pure_up_to_clock_witness:
  "sm2 demo_env (Finite 5) demo_state = Inr first_review \<and>
   sm2 later_env (Finite 5) demo_state = Inr first_review_later \<and>
   repetitions first_review = repetitions first_review_later \<and>
   easeFactor first_review = easeFactor first_review_later \<and>
   intervalDays first_review = intervalDays first_review_later \<and>
   intervalDays first_review = Finite (of_int 1) \<and>
   localTZA demo_env = (\<lambda>t u. 0) \<and> localTZA later_env = (\<lambda>t u. 0) \<and>
   nextReviewAt first_review = clock demo_env + 1 * 86400000 \<and>
   nextReviewAt first_review_later = clock later_env + 1 * 86400000 \<and>
   clock demo_env \<noteq> clock later_env \<and>
   nextReviewAt first_review \<noteq> nextReviewAt first_review_later \<and>
   clock demo_env = clock demo_env \<and> localTZA demo_env = localTZA demo_env \<and>
   first_review = first_review"
proof -
  note a = sm2_pure_up_to_clock [OF demo_sm2 later_sm2]
  note b = sm2_pure_up_to_clock [OF demo_sm2 demo_sm2]
  have z: "localTZA demo_env = (\<lambda>t u. 0)" "localTZA later_env = (\<lambda>t u. 0)"
    by (simp_all add: demo_env_def later_env_def)
  from a obtain n where n: "intervalDays first_review = Finite (of_int n)"
    "\<forall>z. localTZA demo_env = (\<lambda>t u. z) \<longrightarrow> nextReviewAt first_review = clock demo_env + n * 86400000"
    "\<forall>z. localTZA later_env = (\<lambda>t u. z) \<longrightarrow>
       nextReviewAt first_review_later = clock later_env + n * 86400000"
    by blast
  have "n = 1" using n(1) by (simp add: first_review_def)
  then have t: "nextReviewAt first_review = clock demo_env + 1 * 86400000"
    "nextReviewAt first_review_later = clock later_env + 1 * 86400000"
    using n(2,3) z by blast+
  have i: "intervalDays first_review = Finite (of_int 1)" by (simp add: first_review_def)
  have c: "clock demo_env \<noteq> clock later_env" by (simp add: demo_env_def later_env_def)
  have d: "nextReviewAt first_review \<noteq> nextReviewAt first_review_later"
    using a z c by blast
  have "first_review = first_review" using b by blast
  then show ?thesis using a t i z c d demo_sm2 later_sm2 by blast
qed

section \<open>The category of a review (claim C5)\<close>

text \<open>
  Claim C5. On a review of the current word for which the scheduler returns a new
  state, \<^verbatim>\<open>handleReview\<close> makes exactly one update request, keyed by the id of the
  word; the request carries the four new scheduling fields together with the category,
  which is \<open>learned\<close> for quality 5, \<open>difficult\<close> for quality 1 and \<open>learning\<close> for
  every other quality (3 in particular). When the store answers and holds the row, the
  row of that id receives these five values and no other row changes.
\<close>

theorem handleReview_persists_category:
  assumes "currentWord (sess p) = Some cw"
    and "sm2 ev quality (state_of_word cw) = Inr ns"
  shows "\<exists>p'. handleReview ev quality p = Inr p' \<and>
           calls (store p') = calls (store p) @
             [(w_id cw,
               no_updates\<lparr>u_repetitions := Some (repetitions ns),
                           u_ease_factor := Some (easeFactor ns),
                           u_interval_days := Some (intervalDays ns),
                           u_next_review_at := Some (nextReviewAt ns),
                           u_category :=
                             Some (if feq quality (Finite 5) then ''learned''
                                   else if feq quality (Finite 1) then ''difficult''
                                   else ''learning'')\<rparr>)] \<and>
           (\<forall>r. online (store p) \<and> filter (\<lambda>r. w_id r = w_id cw) (rows (store p)) = [r] \<longrightarrow>
              rows (store p') =
                map (\<lambda>r. if w_id r = w_id cw
                          then r\<lparr>w_category :=
                                   (if feq quality (Finite 5) then ''learned''
                                    else if feq quality (Finite 1) then ''difficult''
                                    else ''learning''),
                                 w_repetitions := repetitions ns,
                                 w_ease_factor := easeFactor ns,
                                 w_interval_days := intervalDays ns,
                                 w_next_review_at := nextReviewAt ns\<rparr>
                          else r) (rows (store p)))"
proof -
  let ?u = "review_updates quality ns"
  obtain res st where up: "updateWord (store p) (w_id cw) ?u = (res, st)"
    by (cases "updateWord (store p) (w_id cw) ?u")
  have c: "calls st = calls (store p) @ [(w_id cw, ?u)]"
    using updateWord_calls [of "store p" "w_id cw" ?u] by (simp add: up)
  have u: "?u = no_updates\<lparr>u_repetitions := Some (repetitions ns),
                           u_ease_factor := Some (easeFactor ns),
                           u_interval_days := Some (intervalDays ns),
                           u_next_review_at := Some (nextReviewAt ns),
                           u_category :=
                             Some (if feq quality (Finite 5) then ''learned''
                                   else if feq quality (Finite 1) then ''difficult''
                                   else ''learning'')\<rparr>"
    by (simp add: review_updates_def review_category_def)
  have a: "apply_updates ?u r =
      r\<lparr>w_category :=
           (if feq quality (Finite 5) then ''learned''
            else if feq quality (Finite 1) then ''difficult''
            else ''learning''),
         w_repetitions := repetitions ns,
         w_ease_factor := easeFactor ns,
         w_interval_days := intervalDays ns,
         w_next_review_at := nextReviewAt ns\<rparr>" for r
    by (simp add: apply_updates_def review_updates_def review_category_def no_updates_def)
  have r: "rows st = map (\<lambda>r. if w_id r = w_id cw then apply_updates ?u r else r) (rows (store p))"
    if "online (store p)" "filter (\<lambda>r. w_id r = w_id cw) (rows (store p)) = [r]" for r
    using updateWord_succeeds [OF that, of ?u] by (simp add: up)
  obtain p' where p': "handleReview ev quality p = Inr p'" "store p' = st"
    by (cases res) (simp_all add: handleReview_unfold [OF assms] up)
  show ?thesis
    using p' c r by (auto simp: a simp flip: u)
qed

theorem handleReview_persists_category_witness:
  "currentWord (sess demo_page) = Some due_word \<and>
   sm2 demo_env (Finite 5) (state_of_word due_word) = Inr first_review \<and>
   online (store demo_page) \<and>
   filter (\<lambda>r. w_id r = w_id due_word) (rows (store demo_page)) = [due_word] \<and>
   (\<exists>p'. handleReview demo_env (Finite 5) demo_page = Inr p' \<and>
      calls (store p') =
        [(''d'', no_updates\<lparr>u_repetitions := Some (Finite 1),
                             u_ease_factor := Some (Finite (5854679515581645 / 2251799813685248)),
                             u_interval_days := Some (Finite 1),
                             u_next_review_at := Some 1000086400000,
                             u_category := Some ''learned''\<rparr>)] \<and>
      rows (store p') =
        [demo_word ''a'' (1000000000000 - 3 * 86400000),
         demo_word ''b'' (1000000000000 - 86400000),
         demo_word ''c'' (1000000000000 + 86400000),
         due_word\<lparr>w_category := ''learned'', w_repetitions := Finite 1,
                  w_ease_factor := Finite (5854679515581645 / 2251799813685248),
                  w_interval_days := Finite 1, w_next_review_at := 1000086400000\<rparr>])"
proof -
  have o: "online (store demo_page)"
    by (simp add: demo_page_def demo_backend_def)
  have f: "filter (\<lambda>r. w_id r = w_id due_word) (rows (store demo_page)) = [due_word]"
    by (simp add: demo_page_def demo_backend_def due_word_def demo_word_def)
  from handleReview_persists_category [OF demo_current(1) due_word_sm2]
  obtain p' where p': "handleReview demo_env (Finite 5) demo_page = Inr p'"
    and c: "calls (store p') = calls (store demo_page) @
             [(w_id due_word,
               no_updates\<lparr>u_repetitions := Some (repetitions first_review),
                           u_ease_factor := Some (easeFactor first_review),
                           u_interval_days := Some (intervalDays first_review),
                           u_next_review_at := Some (nextReviewAt first_review),
                           u_category :=
                             Some (if feq (Finite 5) (Finite 5) then ''learned''
                                   else if feq (Finite 5) (Finite 1) then ''difficult''
                                   else ''learning'')\<rparr>)]"
    and r: "\<forall>r. online (store demo_page) \<and>
              filter (\<lambda>r. w_id r = w_id due_word) (rows (store demo_page)) = [r] \<longrightarrow>
              rows (store p') =
                map (\<lambda>r. if w_id r = w_id due_word
                          then r\<lparr>w_category :=
                                   (if feq (Finite 5) (Finite 5) then ''learned''
                                    else if feq (Finite 5) (Finite 1) then ''difficult''
                                    else ''learning''),
                                 w_repetitions := repetitions first_review,
                                 w_ease_factor := easeFactor first_review,
                                 w_interval_days := intervalDays first_review,
                                 w_next_review_at := nextReviewAt first_review\<rparr>
                          else r) (rows (store demo_page))"
    by blast
  from r o f have "rows (store p') =
                map (\<lambda>r. if w_id r = w_id due_word
                          then r\<lparr>w_category :=
                                   (if feq (Finite 5) (Finite 5) then ''learned''
                                    else if feq (Finite 5) (Finite 1) then ''difficult''
                                    else ''learning''),
                                 w_repetitions := repetitions first_review,
                                 w_ease_factor := easeFactor first_review,
                                 w_interval_days := intervalDays first_review,
                                 w_next_review_at := nextReviewAt first_review\<rparr>
                          else r) (rows (store demo_page))"
    by blast
  then have "rows (store p') =
        [demo_word ''a'' (1000000000000 - 3 * 86400000),
         demo_word ''b'' (1000000000000 - 86400000),
         demo_word ''c'' (1000000000000 + 86400000),
         due_word\<lparr>w_category := ''learned'', w_repetitions := Finite 1,
                  w_ease_factor := Finite (5854679515581645 / 2251799813685248),
                  w_interval_days := Finite 1, w_next_review_at := 1000086400000\<rparr>]"
    by (simp add: demo_page_def demo_backend_def due_word_def demo_word_def first_review_def)
  moreover have "calls (store p') =
        [(''d'', no_updates\<lparr>u_repetitions := Some (Finite 1),
                             u_ease_factor := Some (Finite (5854679515581645 / 2251799813685248)),
                             u_interval_days := Some (Finite 1),
                             u_next_review_at := Some 1000086400000,
                             u_category := Some ''learned''\<rparr>)]"
    using c by (simp add: demo_page_def demo_backend_def due_word_def demo_word_def
        first_review_def)
  ultimately show ?thesis
    using p' o f demo_current(1) due_word_sm2 by blast
qed

section \<open>A failed update (claim C6)\<close>

text \<open>
  Claim C6 says that when persisting fails the session does not advance, the word stays
  on screen with its rating controls, and the error is surfaced to the caller. The
  first two hold. The third does not: \<^verbatim>\<open>handleReview\<close> catches the error itself and
  writes a line to the console, so its caller sees a normal return. With the store
  offline, the update fails and the handler returns normally, the session untouched.
\<close>

theorem handleReview_swallows_error_counterexample:
  "fst (updateWord (store offline_page) (w_id due_word) (review_updates (Finite 5) first_review))
     = Inl (StoreError ''fetch failed'') \<and>
   handleReview demo_env (Finite 5) offline_page =
     Inr (offline_page
            \<lparr>store := (store offline_page)
                \<lparr>calls := [(w_id due_word, review_updates (Finite 5) first_review)]\<rparr>,
             console := [''Failed to update word:'']\<rparr>)"
  by (simp add: handleReview_unfold [OF demo_current(2) due_word_sm2] offline_update_fails)
     (simp add: updateWord_def offline_page_def demo_backend_def Let_def)

text \<open>
  Claim C6, amended. If persisting the reviewed word's new state fails, the session does
  not advance: the cursor, the reviewed count, the revealed flag and the
  session-complete flag are unchanged, the current word remains presented and the
  rating controls are on screen exactly as before, so the user may retry; no row of
  the store changes. The error is caught by \<^verbatim>\<open>handleReview\<close> and logged to the
  console; the handler itself completes normally.
\<close>

theorem handleReview_failure_keeps_session:
  assumes "currentWord (sess p) = Some cw"
    and "sm2 ev quality (state_of_word cw) = Inr ns"
    and "fst (updateWord (store p) (w_id cw) (review_updates quality ns)) = Inl e"
  shows "\<exists>p'. handleReview ev quality p = Inr p' \<and>
           sess p' = sess p \<and>
           currentWord (sess p') = Some cw \<and>
           rating_controls_shown (sess p') = rating_controls_shown (sess p) \<and>
           rows (store p') = rows (store p) \<and>
           console p' = console p @ [''Failed to update word:'']"
proof -
  let ?u = "review_updates quality ns"
  obtain st where up: "updateWord (store p) (w_id cw) ?u = (Inl e, st)"
    using assms(3) by (cases "updateWord (store p) (w_id cw) ?u") simp
  have "rows st = rows (store p)"
    using updateWord_fails_rows [OF assms(3)] by (simp add: up)
  then show ?thesis
    using assms(1) by (simp add: handleReview_unfold [OF assms(1,2)] up)
qed

theorem handleReview_failure_keeps_session_witness:
  "currentWord (sess offline_page) = Some due_word \<and>
   sm2 demo_env (Finite 5) (state_of_word due_word) = Inr first_review \<and>
   fst (updateWord (store offline_page) (w_id due_word) (review_updates (Finite 5) first_review))
     = Inl (StoreError ''fetch failed'') \<and>
   (\<exists>p'. handleReview demo_env (Finite 5) offline_page = Inr p' \<and>
      sess p' = demo_session \<and> rating_controls_shown (sess p') \<and>
      console p' = [''Failed to update word:''])"
proof -
  have f: "fst (updateWord (store offline_page) (w_id due_word)
      (review_updates (Finite 5) first_review)) = Inl (StoreError ''fetch failed'')"
    by (rule offline_update_fails)
  have r: "rating_controls_shown (sess offline_page)"
    by (simp add: rating_controls_shown_def demo_current(2))
       (simp add: offline_page_def demo_session_def)
  from handleReview_failure_keeps_session [OF demo_current(2) due_word_sm2 f]
  show ?thesis using f r demo_current(2) due_word_sm2
    by (auto simp: offline_page_def)
qed

section \<open>The due-word query (claim C7)\<close>

text \<open>
  Claim C7. When the store answers, \<^verbatim>\<open>getDueWords\<close> returns exactly the words whose
  \<open>next_review_at\<close> is not after the clock reading, each as often as the table holds it,
  in ascending order of \<open>next_review_at\<close>, the most overdue first; and the review page
  presents them in this order. Once loaded, the page is off its spinner and shows the
  first of them (the summary if there is none); while the user rates the word on
  screen, each rating being persisted, the page shows the words one after the other in
  the order of the query. For due words at three days, one day and five days before now
  (and one word not yet due), the page shows five days, three days, one day.
\<close>

theorem getDueWords_due_ascending:
  assumes "online b"
  shows "\<exists>ws. getDueWords ev b = Inr ws \<and>
           mset ws = filter_mset (\<lambda>r. w_next_review_at r \<le> clock ev) (mset (rows b)) \<and>
           sorted (map w_next_review_at ws) \<and>
           dueWords (sess (loadDueWords ev \<lparr>store = b, sess = initial_session, console = []\<rparr>))
             = ws \<and>
           presented (sess (loadDueWords ev \<lparr>store = b, sess = initial_session, console = []\<rparr>))
             = (if ws = [] then None else Some (hd ws)) \<and>
           (distinct (map w_id (rows b)) \<and>
            (\<forall>(ev', q)\<in>set rs. \<forall>w\<in>set ws. \<exists>ns. sm2 ev' q (state_of_word w) = Inr ns) \<longrightarrow>
              review_session rs (loadDueWords ev \<lparr>store = b, sess = initial_session, console = []\<rparr>)
                = take (length rs + 1) ws)"
proof -
  let ?p = "loadDueWords ev \<lparr>store = b, sess = initial_session, console = []\<rparr>"
  define ws where "ws = sort_key w_next_review_at
               (filter (\<lambda>r. w_next_review_at r \<le> clock ev) (rows b))"
  have g: "getDueWords ev b = Inr ws" using assms by (simp add: getDueWords_def ws_def)
  have d: "dueWords (sess ?p) = ws"
    using loadDueWords_online [of "\<lparr>store = b, sess = initial_session, console = []\<rparr>" ev] assms
    by (simp add: ws_def)
  note pg = loadDueWords_page [OF assms, of ev]
  have sub: "set ws \<subseteq> set (rows b)" by (auto simp: ws_def)
  have pr: "presented (sess ?p) = (if ws = [] then None else Some (hd ws))"
    using pg(2,3,4) d by (auto simp: presented_def currentWord_def hd_conv_nth)
  have run: "review_session rs ?p = take (length rs + 1) ws"
    if h: "distinct (map w_id (rows b)) \<and>
            (\<forall>(ev', q)\<in>set rs. \<forall>w\<in>set ws. \<exists>ns. sm2 ev' q (state_of_word w) = Inr ns)"
  proof (cases "ws = []")
    case True
    then have "presented (sess ?p) = None" using pr by simp
    then show ?thesis using True by (simp add: review_session_done)
  next
    case False
    have ids: "\<forall>w\<in>set (dueWords (sess ?p)). \<exists>r. filter (\<lambda>r. w_id r = w_id w) (rows (store ?p)) = [r]"
      using unique_id_filter [OF h [THEN conjunct1]] sub by (auto simp: d pg(1))
    have sm: "\<forall>(ev', q)\<in>set rs. \<forall>w\<in>set (dueWords (sess ?p)). \<exists>ns. sm2 ev' q (state_of_word w) = Inr ns"
      using h by (simp add: d)
    have "review_session rs ?p = take (length rs + 1) (drop (currentIndex (sess ?p)) (dueWords (sess ?p)))"
      by (rule review_session_run [OF _ pg(2) _ _ ids sm]) (use False pg d assms in simp_all)
    then show ?thesis by (simp add: pg(3) d)
  qed
  have m: "mset ws = filter_mset (\<lambda>r. w_next_review_at r \<le> clock ev) (mset (rows b))"
    "sorted (map w_next_review_at ws)"
    by (simp_all add: ws_def)
  show ?thesis using g m d pr run by (intro exI [of _ ws]) simp
qed

theorem getDueWords_due_ascending_witness:
  "online demo_backend \<and>
   getDueWords demo_env demo_backend =
     Inr [demo_word ''d'' (1000000000000 - 5 * 86400000),
          demo_word ''a'' (1000000000000 - 3 * 86400000),
          demo_word ''b'' (1000000000000 - 86400000)] \<and>
   distinct (map w_id (rows demo_backend)) \<and>
   sm2 demo_env (Finite 5) (state_of_word (demo_word ''d'' (1000000000000 - 5 * 86400000)))
     = Inr first_review \<and>
   sm2 demo_env (Finite 5) (state_of_word (demo_word ''a'' (1000000000000 - 3 * 86400000)))
     = Inr first_review \<and>
   sm2 demo_env (Finite 5) (state_of_word (demo_word ''b'' (1000000000000 - 86400000)))
     = Inr first_review \<and>
   (\<exists>ws. getDueWords demo_env demo_backend = Inr ws \<and>
      mset ws = filter_mset (\<lambda>r. w_next_review_at r \<le> clock demo_env) (mset (rows demo_backend)) \<and>
      sorted (map w_next_review_at ws) \<and>
      dueWords (sess (loadDueWords demo_env
                        \<lparr>store = demo_backend, sess = initial_session, console = []\<rparr>))
        = ws \<and>
      presented (sess (loadDueWords demo_env
                         \<lparr>store = demo_backend, sess = initial_session, console = []\<rparr>))
        = Some (demo_word ''d'' (1000000000000 - 5 * 86400000)) \<and>
      review_session [(demo_env, Finite 5), (demo_env, Finite 5)]
          (loadDueWords demo_env \<lparr>store = demo_backend, sess = initial_session, console = []\<rparr>)
        = [demo_word ''d'' (1000000000000 - 5 * 86400000),
           demo_word ''a'' (1000000000000 - 3 * 86400000),
           demo_word ''b'' (1000000000000 - 86400000)])"
proof -
  let ?ws = "[demo_word ''d'' (1000000000000 - 5 * 86400000),
          demo_word ''a'' (1000000000000 - 3 * 86400000),
          demo_word ''b'' (1000000000000 - 86400000)]"
  let ?rs = "[(demo_env, Finite 5), (demo_env, Finite 5)]"
  have h: "online demo_backend" by (simp add: demo_backend_def)
  have v: "getDueWords demo_env demo_backend = Inr ?ws"
    by (simp add: getDueWords_def demo_env_def demo_backend_def demo_word_def)
  have dis: "distinct (map w_id (rows demo_backend))"
    by (simp add: demo_backend_def demo_word_def)
  have sm: "\<forall>(ev', q)\<in>set ?rs. \<forall>w\<in>set ?ws. \<exists>ns. sm2 ev' q (state_of_word w) = Inr ns"
    by (simp add: demo_state_of_word demo_sm2_any)
  from getDueWords_due_ascending [OF h, of demo_env ?rs]
  obtain ws where ws: "getDueWords demo_env demo_backend = Inr ws"
    "mset ws = filter_mset (\<lambda>r. w_next_review_at r \<le> clock demo_env) (mset (rows demo_backend))"
    "sorted (map w_next_review_at ws)"
    "dueWords (sess (loadDueWords demo_env
                        \<lparr>store = demo_backend, sess = initial_session, console = []\<rparr>)) = ws"
    "presented (sess (loadDueWords demo_env
                         \<lparr>store = demo_backend, sess = initial_session, console = []\<rparr>))
        = (if ws = [] then None else Some (hd ws))"
    "distinct (map w_id (rows demo_backend)) \<and>
            (\<forall>(ev', q)\<in>set ?rs. \<forall>w\<in>set ws. \<exists>ns. sm2 ev' q (state_of_word w) = Inr ns) \<longrightarrow>
              review_session ?rs (loadDueWords demo_env \<lparr>store = demo_backend, sess = initial_session, console = []\<rparr>)
                = take (length ?rs + 1) ws"
    by blast
  have e: "ws = ?ws" using ws(1) v by simp
  have p: "presented (sess (loadDueWords demo_env
                         \<lparr>store = demo_backend, sess = initial_session, console = []\<rparr>))
        = Some (demo_word ''d'' (1000000000000 - 5 * 86400000))"
    using ws(5) unfolding e by simp
  have r: "review_session ?rs
          (loadDueWords demo_env \<lparr>store = demo_backend, sess = initial_session, console = []\<rparr>)
        = ?ws"
    using ws(6) dis sm unfolding e by simp
  have each: "sm2 demo_env (Finite 5) (state_of_word (demo_word i t)) = Inr first_review" for i t
    by (simp add: demo_state_of_word demo_sm2_any)
  show ?thesis using h v dis each ws(2,3,4) p r unfolding e by blast
qed

section \<open>Growth of the intervals (claim C8)\<close>

text \<open>
  Claim C8 gives the intervals of successive Easy reviews from \<open>repetitions = 0\<close> as
  \<open>1, 6, ceil(6*ease), ceil(6*ease*ease), ...\<close> for a fixed ease factor. The program
  does not hold the ease factor fixed: every review replaces it, and the interval grows
  from the previous interval, already rounded up. From the fresh word (ease 2.5) three
  Easy reviews give the intervals 1, 6, 17, where the claim's sequence has 1, 6, 15.
\<close>

theorem easy_reviews_spec_sequence_counterexample:
  "reviews [demo_env, demo_env, demo_env] (Finite 5) demo_state
     = Inr [first_review, second_review, third_review] \<and>
   map intervalDays [first_review, second_review, third_review]
     = [Finite 1, Finite 6, Finite 17] \<and>
   map (spec_interval (easeFactor demo_state)) [0, 1, 2] = [Finite 1, Finite 6, Finite 15]"
proof -
  have "spec_interval (Finite (5 / 2)) 2 = js_ceil (fmul (Finite 6) (Finite (5 / 2)))"
    by (simp add: spec_interval_def numeral_2_eq_2 del: fmul.simps js_ceil.simps)
  then have "spec_interval (Finite (5 / 2)) 2 = Finite 15"
    by (simp only: spec_third_interval)
  then have "map (spec_interval (easeFactor demo_state)) [0, 1, 2]
      = [Finite 1, Finite 6, Finite 15]"
    by (simp add: demo_state_def spec_interval_def)
  moreover have "map intervalDays [first_review, second_review, third_review]
      = [Finite 1, Finite 6, Finite 17]"
    by (simp add: first_review_def second_review_def third_review_def)
  ultimately show ?thesis
    using demo_reviews by blast
qed

text \<open>
  Claim C8, amended. For every start state with \<open>repetitions = 0\<close> and an ease factor of
  at least 1.3, the intervals that successive Easy reviews (quality 5) return are
  non-decreasing: 1, then 6, and from the third review on \<^verbatim>\<open>Math.ceil\<close> of the binary64
  product of the \<open>intervalDays\<close> and the \<open>easeFactor\<close> of the state before. The ease
  factor is not held fixed, every review replaces it: from a stored ease factor
  \<open>k / 100\<close> of at least 1.30 the ease factor after \<open>j\<close> Easy reviews is
  \<open>(k + 10 * j) / 100\<close>, as long as that is at most 99.99. From the fresh word six Easy
  reviews give the intervals 1, 6, 17, 48, 140, 420 and the ease factors 2.6 to 3.1.

  The first part is about the states that a run returns; the second part says when a
  run of \<open>m\<close> reviews returns: from a state of the data model, with every clock between
  1970 and 2100 and an offset of at most a day, as long as
  \<open>max n 6 * (e + 2) ^ m * e \<le> 90000000\<close>, where \<open>n\<close> is the interval at the start and
  \<open>e = (k + 10 * m) / 100\<close> the ease factor at the end (lemma \<open>reviews_return\<close>).
\<close>

theorem easy_reviews_intervals:
  assumes "repetitions s = Finite 0"
    and "fge (easeFactor s) (lit (13 / 10))"
  shows "(\<forall>ss. reviews evs (Finite 5) s = Inr ss \<longrightarrow>
            sorted_wrt (\<lambda>a b. fge b a) (map intervalDays ss) \<and>
            map intervalDays (take 2 ss) = take (length ss) [Finite 1, Finite 6] \<and>
            successively grows (tl ss) \<and>
            (\<forall>k. easeFactor s = lit (of_int k / 100) \<and> 130 \<le> k \<and>
                  k + 10 * int (length ss) \<le> 9999 \<longrightarrow>
               (\<forall>j<length ss.
                  easeFactor (ss ! j) = lit (of_int (k + 10 * (int j + 1)) / 100)))) \<and>
         (\<forall>k n. stored s 0 k n \<and>
            (\<forall>ev\<in>set evs. 0 \<le> clock ev \<and> clock ev \<le> 4102444800000 \<and>
               (\<forall>t u. \<bar>localTZA ev t u\<bar> \<le> 86400000)) \<and>
            int (length evs) < 2 ^ 31 \<and> k + 10 * int (length evs) \<le> 9999 \<and>
            of_int (max n 6) * ((of_int (k + 10 * int (length evs)) + 200) / 100) ^ length evs
              * of_int (k + 10 * int (length evs)) \<le> (9000000000 :: rat) \<longrightarrow>
            (\<exists>ss. reviews evs (Finite 5) s = Inr ss \<and> length ss = length evs))"
proof -
  have main: "sorted_wrt (\<lambda>a b. fge b a) (map intervalDays ss) \<and>
            map intervalDays (take 2 ss) = take (length ss) [Finite 1, Finite 6] \<and>
            successively grows (tl ss) \<and>
            (\<forall>k. easeFactor s = lit (of_int k / 100) \<and> 130 \<le> k \<and>
                  k + 10 * int (length ss) \<le> 9999 \<longrightarrow>
               (\<forall>j<length ss.
                  easeFactor (ss ! j) = lit (of_int (k + 10 * (int j + 1)) / 100)))"
    if a1: "reviews evs (Finite 5) s = Inr ss" for ss
  proof -
    have iv: "sorted_wrt (\<lambda>a b. fge b a) (map intervalDays ss) \<and>
           map intervalDays (take 2 ss) = take (length ss) [Finite 1, Finite 6] \<and>
           successively grows (tl ss)"
    proof (cases evs)
      case Nil
      then show ?thesis using a1 by simp
    next
      case evs: (Cons ev1 evs1)
      from a1 obtain s1 ss1 where s1: "sm2 ev1 (Finite 5) s = Inr s1"
        and ss1: "reviews evs1 (Finite 5) s1 = Inr ss1" and ss: "ss = s1 # ss1"
        unfolding evs by (auto split: sum.splits)
      have e0: "fge (easeFactor s) (Finite (5854679515581645 / 4503599627370496))"
        using assms(2) by (simp add: lit_13_10)
      have r1: "repetitions s1 = Finite 1"
        by (simp add: sm2_fields(1) [OF s1] next_repetitions_def assms(1))
      have i1: "intervalDays s1 = Finite 1"
        by (simp add: sm2_fields(3) [OF s1] next_intervalDays_def assms(1))
      have e1: "fge (easeFactor s1) (Finite (5854679515581645 / 4503599627370496))"
        unfolding sm2_fields(2) [OF s1]
        by (rule next_ease_ge_floor [OF fge_not_NaN [OF e0] ease_delta_5])
      show ?thesis
      proof (cases evs1)
        case Nil
        then show ?thesis using ss1 by (simp add: ss i1)
      next
        case evs1: (Cons ev2 evs2)
        from ss1 obtain s2 ss2 where s2: "sm2 ev2 (Finite 5) s1 = Inr s2"
          and ss2: "reviews evs2 (Finite 5) s2 = Inr ss2" and ss1': "ss1 = s2 # ss2"
          unfolding evs1 by (auto split: sum.splits)
        have r2: "repetitions s2 = Finite 2"
          by (simp add: sm2_fields(1) [OF s2] next_repetitions_def r1)
        have i2: "intervalDays s2 = Finite 6"
          by (simp add: sm2_fields(3) [OF s2] next_intervalDays_def r1)
        have e2: "fge (easeFactor s2) (Finite (5854679515581645 / 4503599627370496))"
          unfolding sm2_fields(2) [OF s2]
          by (rule next_ease_ge_floor [OF fge_not_NaN [OF e1] ease_delta_5])
        have t: "successively grows (s2 # ss2)"
          "sorted_wrt (\<lambda>a b. fge (intervalDays b) (intervalDays a)) (s2 # ss2)"
          using easy_reviews_settled [OF ss2 _ _ e2] by (simp_all add: r2 i2)
        have "fge (intervalDays b) (Finite 1)" if "b \<in> set (s2 # ss2)" for b
        proof (cases "b = s2")
          case True then show ?thesis by (simp add: i2)
        next
          case False
          with that t(2) have "fge (intervalDays b) (Finite 6)" by (auto simp: i2)
          then show ?thesis by (rule fge_trans) simp
        qed
        then show ?thesis
          using t by (simp add: ss ss1' i1 i2 sorted_wrt_map)
      qed
    qed
    have "\<forall>j<length ss. easeFactor (ss ! j) = lit (of_int (k + 10 * (int j + 1)) / 100)"
      if "easeFactor s = lit (of_int k / 100) \<and> 130 \<le> k \<and>
          k + 10 * int (length ss) \<le> 9999" for k
      using easy_reviews_ease [OF a1, of k] that by blast
    then show ?thesis using iv by blast
  qed
  have total: "\<exists>ss. reviews evs (Finite 5) s = Inr ss \<and> length ss = length evs"
    if h: "stored s 0 k n \<and>
            (\<forall>ev\<in>set evs. 0 \<le> clock ev \<and> clock ev \<le> 4102444800000 \<and>
               (\<forall>t u. \<bar>localTZA ev t u\<bar> \<le> 86400000)) \<and>
            int (length evs) < 2 ^ 31 \<and> k + 10 * int (length evs) \<le> 9999 \<and>
            of_int (max n 6) * ((of_int (k + 10 * int (length evs)) + 200) / 100) ^ length evs
              * of_int (k + 10 * int (length evs)) \<le> (9000000000 :: rat)" for k n
  proof -
    have c: "\<forall>ev\<in>set evs. 0 \<le> clock ev \<and> clock ev \<le> 4102444800000 \<and>
               (\<forall>t u. \<bar>localTZA ev t u\<bar> \<le> 86400000)"
      using h by blast
    have st: "stored s 0 k n" using h by blast
    have l: "0 + int (length evs) < 2 ^ 31" using h by simp
    have e: "k + 10 * int (length evs) \<le> k + 10 * int (length evs)"
      "k + 10 * int (length evs) \<le> 9999"
      using h by simp_all
    have b: "of_int (max n 6)
        * ((of_int (k + 10 * int (length evs)) + 200) / 100) ^ length evs
        * of_int (k + 10 * int (length evs)) \<le> (9000000000 :: rat)"
      using h by blast
    have q: "(0 :: int) \<le> 5" "(5 :: int) \<le> 5" "10 - (5 - 5) * (8 + (5 - 5) * 2) \<le> (10 :: int)"
      "(0 :: int) \<le> 10"
      by simp_all
    from reviews_return [OF c st q e l b] show ?thesis by simp
  qed
  show ?thesis using main total by blast
qed

theorem easy_reviews_intervals_witness:
  "reviews [demo_env, demo_env, demo_env, demo_env, demo_env, demo_env] (Finite 5) demo_state
     = Inr easy_run \<and>
   repetitions demo_state = Finite 0 \<and>
   fge (easeFactor demo_state) (lit (13 / 10)) \<and>
   map intervalDays easy_run
     = [Finite 1, Finite 6, Finite 17, Finite 48, Finite 140, Finite 420] \<and>
   sorted_wrt (\<lambda>a b. fge b a) (map intervalDays easy_run) \<and>
   map intervalDays (take 2 easy_run) = take (length easy_run) [Finite 1, Finite 6] \<and>
   successively grows (tl easy_run) \<and>
   easeFactor demo_state = lit (of_int 250 / 100) \<and> (130 :: int) \<le> 250 \<and>
   250 + 10 * int (length easy_run) \<le> 9999 \<and>
   (0 :: nat) < length easy_run \<and>
   easeFactor (easy_run ! 0) = lit (of_int (250 + 10 * (int 0 + 1)) / 100) \<and>
   (5 :: nat) < length easy_run \<and>
   easeFactor (easy_run ! 5) = lit (of_int (250 + 10 * (int 5 + 1)) / 100) \<and>
   stored demo_state 0 250 0 \<and>
   0 \<le> clock demo_env \<and> clock demo_env \<le> 4102444800000 \<and>
   localTZA demo_env = (\<lambda>t u. 0) \<and>
   of_int (max 0 6) * ((of_int (250 + 10 * 6) + 200) / 100) ^ 6 * of_int (250 + 10 * 6)
     \<le> (9000000000 :: rat) \<and>
   length easy_run = 6"
proof -
  let ?evs = "[demo_env, demo_env, demo_env, demo_env, demo_env, demo_env]"
  have r: "repetitions demo_state = Finite 0" by (simp add: demo_state_def)
  have e: "fge (easeFactor demo_state) (lit (13 / 10))"
    by (simp add: demo_state_def lit_13_10)
  have k: "easeFactor demo_state = lit (of_int 250 / 100)" "(130 :: int) \<le> 250"
    "250 + 10 * int (length easy_run) \<le> 9999"
    by (simp_all add: demo_state_def lit_5_2 easy_run_def)
  have i: "map intervalDays easy_run
     = [Finite 1, Finite 6, Finite 17, Finite 48, Finite 140, Finite 420]"
    by (simp add: easy_run_def)
  have len: "(0 :: nat) < length easy_run" "(5 :: nat) < length easy_run"
    by (simp_all add: easy_run_def)
  have c: "0 \<le> clock demo_env" "clock demo_env \<le> 4102444800000"
    "localTZA demo_env = (\<lambda>t u. 0)"
    by (simp_all add: demo_env_def)
  have b: "of_int (max 0 6) * ((of_int (250 + 10 * 6) + 200) / 100) ^ 6 * of_int (250 + 10 * 6)
     \<le> (9000000000 :: rat)"
    by (simp add: power_divide)
  note t = easy_reviews_intervals [OF r e, of ?evs]
  have h: "stored demo_state 0 250 0 \<and>
      (\<forall>ev\<in>set ?evs. 0 \<le> clock ev \<and> clock ev \<le> 4102444800000 \<and>
         (\<forall>t u. \<bar>localTZA ev t u\<bar> \<le> 86400000)) \<and>
      int (length ?evs) < 2 ^ 31 \<and> 250 + 10 * int (length ?evs) \<le> 9999 \<and>
      of_int (max 0 6) * ((of_int (250 + 10 * int (length ?evs)) + 200) / 100) ^ length ?evs
        * of_int (250 + 10 * int (length ?evs)) \<le> (9000000000 :: rat)"
    using stored_demo(1) c by simp
  from t [THEN conjunct2, rule_format, OF h]
  obtain ss where ss: "reviews ?evs (Finite 5) demo_state = Inr ss" "length ss = length ?evs"
    by blast
  have "ss = easy_run" using ss(1) easy_reviews by simp
  then have l: "length easy_run = 6" using ss(2) by simp
  from t [THEN conjunct1, rule_format, OF easy_reviews] show ?thesis
    using easy_reviews r e k i len c b l stored_demo(1) by blast
qed

section \<open>The interval invariant (claim C9)\<close>

text \<open>
  Claim C9. The invariant \<open>intervalDays \<ge> 1\<close> whenever \<open>repetitions \<ge> 1\<close> is
  preserved by \<open>sm2\<close>: for every quality and every state of the data model
  (\<open>repetitions\<close> an integer count) whose \<open>easeFactor\<close> is at least 1.3 and which
  satisfies the invariant, the returned state satisfies it again.
\<close>

theorem interval_invariant_preserved:
  assumes "sm2 ev quality s = Inr s'"
    and "fge (easeFactor s) (lit (13 / 10))"
    and "repetitions s = Finite (of_int k)"
    and "fge (repetitions s) (Finite 1) \<longrightarrow> fge (intervalDays s) (Finite 1)"
  shows "fge (repetitions s') (Finite 1) \<longrightarrow> fge (intervalDays s') (Finite 1)"
proof (cases "fge quality (lit 3)")
  case False
  then show ?thesis
    by (simp add: sm2_fields(3) [OF assms(1)] next_intervalDays_def)
next
  case q: True
  show ?thesis
  proof (cases "k = 0 \<or> k = 1")
    case True
    then show ?thesis
      using q by (auto simp: sm2_fields(3) [OF assms(1)] next_intervalDays_def assms(3))
  next
    case False
    then have i: "intervalDays s' = js_ceil (fmul (intervalDays s) (easeFactor s))"
      using q by (simp add: sm2_fields(3) [OF assms(1)] next_intervalDays_def assms(3))
    have r: "repetitions s' = rnd (of_int k + 1)"
      using q by (simp add: sm2_fields(1) [OF assms(1)] next_repetitions_def assms(3))
    show ?thesis
    proof (cases "2 \<le> k")
      case True
      then have "fge (repetitions s) (Finite 1)" by (simp add: assms(3))
      with assms(4) have "fge (intervalDays s) (Finite 1)" by blast
      moreover have "fge (easeFactor s) (Finite (5854679515581645 / 4503599627370496))"
        using assms(2) by (simp add: lit_13_10)
      ultimately have "fge (fmul (intervalDays s) (easeFactor s)) (Finite 1)"
        by (rule fmul_ge_1) simp
      then show ?thesis unfolding i by (simp add: js_ceil_ge_1)
    next
      case False
      with \<open>\<not> (k = 0 \<or> k = 1)\<close> have "k + 1 \<le> 0" by linarith
      then have "(of_int k :: rat) + 1 \<le> 0"
        by (metis of_int_1 of_int_add of_int_le_0_iff)
      then show ?thesis unfolding r by (simp add: rnd_nonpos_not_ge_1)
    qed
  qed
qed

theorem interval_invariant_preserved_witness:
  "sm2 demo_env (Finite 5) learnt_state = Inr sixth_review \<and>
   fge (easeFactor learnt_state) (lit (13 / 10)) \<and>
   repetitions learnt_state = Finite (of_int 5) \<and>
   fge (repetitions learnt_state) (Finite 1) \<and> fge (intervalDays learnt_state) (Finite 1) \<and>
   fge (repetitions sixth_review) (Finite 1) \<and> fge (intervalDays sixth_review) (Finite 1)"
proof -
  have h: "fge (easeFactor learnt_state) (lit (13 / 10))"
    by (simp add: learnt_state_def lit_13_10)
  have k: "repetitions learnt_state = Finite (of_int 5)"
    by (simp add: learnt_state_def)
  have i: "fge (repetitions learnt_state) (Finite 1) \<longrightarrow> fge (intervalDays learnt_state) (Finite 1)"
    by (simp add: learnt_state_def)
  from interval_invariant_preserved [OF sixth_sm2 h k i] show ?thesis
    using sixth_sm2 h by (simp add: learnt_state_def sixth_review_def)
qed

section \<open>Neutral reviews (claim C10)\<close>

text \<open>
  Claim C10. For every state of the data model a Neutral review (quality 3) returns,
  and it strictly decreases the ease factor whenever that is above the floor 1.3: the
  update before the clamp is the binary64 value of \<^verbatim>\<open>0.1 - 2 * (0.08 + 2 * 0.02)\<close>,
  which is \<open>-0.14\<close> to within \<open>10^-16\<close>, and the ease factor \<open>k / 100\<close> becomes
  \<open>(k - 14) / 100\<close>, or 1.3 if that is below 1.3. So repeated Neutral reviews drive
  the ease factor down to the clamp: after \<open>j\<close> of them it is the larger of 1.3 and
  \<open>(k - 14 * j) / 100\<close>, which is 1.3 from \<open>14 * j \<ge> k - 130\<close> on. All the while
  \<open>repetitions\<close> grows by one with every review, and \<open>intervalDays\<close> never decreases
  and strictly grows from the second successful review on, for the counts that the
  scheduler itself produces (\<open>on_schedule\<close>: those of the freshly saved word, kept by
  every review, lemma \<open>on_schedule_preserved\<close>). From the fresh word (ease 2.5) nine
  Neutral reviews bring the ease factor to 1.3 and the interval to 374 days. A run of
  \<open>m\<close> Neutral reviews returns with every clock between 1970 and 2100 and an offset of
  at most a day, as long as \<open>max n 6 * (k / 100 + 2) ^ m * (k / 100) \<le> 90000000\<close> (lemma
  \<open>reviews_return\<close>).

  The states are those of the data model. Beyond them, every finite ease factor above
  the floor and up to \<open>2^48\<close> is lowered as well (lemma \<open>neutral_lowers\<close>); a binary64
  ease factor such as \<open>10^17\<close>, which no \<^verbatim>\<open>DECIMAL(4,2)\<close> column holds, absorbs the
  update of \<open>-0.14\<close> (lemma \<open>huge_sm2\<close>).
\<close>

theorem neutral_review_lowers_ease:
  assumes "0 \<le> clock ev" and "clock ev \<le> 4102444800000"
    and "\<forall>t u. \<bar>localTZA ev t u\<bar> \<le> 86400000"
    and "stored s r k n" and "2 \<le> r \<longrightarrow> n * k \<le> 9000000000"
  shows "ease_delta (Finite 3) = Finite (- (5044031582654955 / 36028797018963968)) \<and>
         \<bar>- (5044031582654955 / 36028797018963968) + 14 / 100 :: rat\<bar> < 1 / 10 ^ 16 \<and>
         (\<exists>s'. sm2 ev (Finite 3) s = Inr s' \<and>
            easeFactor s' = lit (of_int (max 130 (k - 14)) / 100) \<and>
            (130 < k \<longrightarrow> flt (easeFactor s') (easeFactor s)) \<and>
            fge (easeFactor s') (lit (13 / 10)) \<and>
            repetitions s' = Finite (of_int (r + 1)) \<and>
            (on_schedule r n \<longrightarrow>
               fge (intervalDays s') (intervalDays s) \<and>
               (1 \<le> r \<longrightarrow> flt (intervalDays s) (intervalDays s')))) \<and>
         (\<forall>evs ss. reviews evs (Finite 3) s = Inr ss \<and> int (length evs) < 2 ^ 31 \<longrightarrow>
            (\<forall>j<length ss.
               easeFactor (ss ! j) = lit (of_int (max 130 (k - 14 * (int j + 1))) / 100) \<and>
               (k \<le> 130 + 14 * (int j + 1) \<longrightarrow> easeFactor (ss ! j) = lit (13 / 10)) \<and>
               repetitions (ss ! j) = Finite (of_int (r + int j + 1))) \<and>
            (on_schedule r n \<longrightarrow>
               sorted_wrt (\<lambda>a b. fge b a) (intervalDays s # map intervalDays ss))) \<and>
         (\<forall>evs. (\<forall>ev\<in>set evs. 0 \<le> clock ev \<and> clock ev \<le> 4102444800000 \<and>
                    (\<forall>t u. \<bar>localTZA ev t u\<bar> \<le> 86400000)) \<and>
            r + int (length evs) < 2 ^ 31 \<and>
            of_int (max n 6) * ((of_int k + 200) / 100) ^ length evs * of_int k
              \<le> (9000000000 :: rat) \<longrightarrow>
            (\<exists>ss. reviews evs (Finite 3) s = Inr ss \<and> length ss = length evs))"
proof -
  have st: "repetitions s = Finite (of_int r)" "0 \<le> r" "r < 2 ^ 31"
    "easeFactor s = lit (of_int k / 100)" "130 \<le> k" "k \<le> 9999"
    "intervalDays s = Finite (of_int n)" "0 \<le> n"
    using assms(4) by (simp_all add: stored_def)
  have b: "(3 :: int) \<le> 3 \<and> 2 \<le> r \<longrightarrow> n * k \<le> 9000000000" using assms(5) by simp
  from sm2_stored [OF assms(1-4) b]
  obtain s' m where s': "sm2 ev (Finite (of_int 3)) s = Inr s'"
    "repetitions s' = next_repetitions (Finite (of_int 3)) s"
    "easeFactor s' = next_easeFactor (Finite (of_int 3)) s"
    "intervalDays s' = Finite (of_int m)"
    "(3 :: int) \<le> 3 \<and> r = 0 \<longrightarrow> m = 1" "(3 :: int) \<le> 3 \<and> r = 1 \<longrightarrow> m = 6"
    "(3 :: int) \<le> 3 \<and> 2 \<le> r \<longrightarrow>
              Finite (of_int m) = js_ceil (fmul (intervalDays s) (easeFactor s)) \<and>
              (m = spec_next_interval n k \<or> (100 dvd n * k \<and> m = spec_next_interval n k + 1))"
    by blast
  have e: "easeFactor s' = lit (of_int (max 130 (k - 14)) / 100)"
    using next_ease_stored_int [of 3 s k] st(4,5,6) by (simp add: s'(3))
  have lower: "flt (easeFactor s') (easeFactor s)" if "130 < k"
    unfolding e st(4) by (rule lit_decimal_less) (use that st(6) in simp_all)
  have fl: "fge (easeFactor s') (lit (13 / 10))"
    unfolding e using lit_decimal_ge_floor [of "max 130 (k - 14)"] by (simp add: lit_13_10)
  have rp: "repetitions s' = Finite (of_int (r + 1))"
    using stored_next_repetitions [OF assms(4), of 3] by (simp add: s'(2))
  have iv: "fge (intervalDays s') (intervalDays s) \<and>
      (1 \<le> r \<longrightarrow> flt (intervalDays s) (intervalDays s'))" if o: "on_schedule r n"
  proof -
    have sch: "r = 0 \<longrightarrow> n = 0 \<or> n = 1" "r = 1 \<longrightarrow> n = 1" "2 \<le> r \<longrightarrow> 6 \<le> n"
      using o st(2) by (auto simp: on_schedule_def)
    consider "r = 0" | "r = 1" | "2 \<le> r" using st(2) by linarith
    then have "n \<le> m \<and> (1 \<le> r \<longrightarrow> n < m)"
    proof cases
      case 1 then show ?thesis using s'(5) sch(1) by auto
    next
      case 2 then show ?thesis using s'(6) sch(2) by auto
    next
      case 3
      then have "1 \<le> n" using sch(3) by simp
      from spec_next_interval_grows [OF this st(5)] show ?thesis using s'(7) 3 by auto
    qed
    then show ?thesis by (simp add: s'(4) st(7))
  qed
  have step: "\<exists>s'. sm2 ev (Finite 3) s = Inr s' \<and>
            easeFactor s' = lit (of_int (max 130 (k - 14)) / 100) \<and>
            (130 < k \<longrightarrow> flt (easeFactor s') (easeFactor s)) \<and>
            fge (easeFactor s') (lit (13 / 10)) \<and>
            repetitions s' = Finite (of_int (r + 1)) \<and>
            (on_schedule r n \<longrightarrow>
               fge (intervalDays s') (intervalDays s) \<and>
               (1 \<le> r \<longrightarrow> flt (intervalDays s) (intervalDays s')))"
    using s'(1) e lower fl rp iv by (intro exI [of _ s']) simp
  have run: "(\<forall>j<length ss.
               easeFactor (ss ! j) = lit (of_int (max 130 (k - 14 * (int j + 1))) / 100) \<and>
               (k \<le> 130 + 14 * (int j + 1) \<longrightarrow> easeFactor (ss ! j) = lit (13 / 10)) \<and>
               repetitions (ss ! j) = Finite (of_int (r + int j + 1))) \<and>
            (on_schedule r n \<longrightarrow>
               sorted_wrt (\<lambda>a b. fge b a) (intervalDays s # map intervalDays ss))"
    if h: "reviews evs (Finite 3) s = Inr ss \<and> int (length evs) < 2 ^ 31" for evs ss
  proof -
    have len: "r + int (length evs) < 2 ^ 53" using h st(3) by simp
    note run = neutral_reviews_ease [OF h [THEN conjunct1] st(1,2) len st(4,5,6)]
    have "easeFactor (ss ! j) = lit (13 / 10)"
      if "j < length ss" "k \<le> 130 + 14 * (int j + 1)" for j
    proof -
      have "max 130 (k - 14 * (int j + 1)) = 130" using that(2) by simp
      then show ?thesis using run that(1) by simp
    qed
    moreover have "sorted_wrt (\<lambda>a b. fge b a) (intervalDays s # map intervalDays ss)"
      if o: "on_schedule r n"
    proof -
      have c: "r = 0 \<longrightarrow> fge (Finite 1) (intervalDays s)"
        "r = 1 \<longrightarrow> fge (Finite 6) (intervalDays s)"
        "2 \<le> r \<longrightarrow> fge (intervalDays s) (Finite 1)"
        using o st(2) by (auto simp: st(7) on_schedule_def)
      from neutral_reviews_run [OF h [THEN conjunct1] st(1,2) len st(4,5,6) c]
      show ?thesis by blast
    qed
    ultimately show ?thesis using run by blast
  qed
  have total: "\<exists>ss. reviews evs (Finite 3) s = Inr ss \<and> length ss = length evs"
    if h: "(\<forall>ev\<in>set evs. 0 \<le> clock ev \<and> clock ev \<le> 4102444800000 \<and>
                    (\<forall>t u. \<bar>localTZA ev t u\<bar> \<le> 86400000)) \<and>
            r + int (length evs) < 2 ^ 31 \<and>
            of_int (max n 6) * ((of_int k + 200) / 100) ^ length evs * of_int k
              \<le> (9000000000 :: rat)" for evs
  proof -
    have c: "\<forall>ev\<in>set evs. 0 \<le> clock ev \<and> clock ev \<le> 4102444800000 \<and>
               (\<forall>t u. \<bar>localTZA ev t u\<bar> \<le> 86400000)"
      using h by blast
    have l: "r + int (length evs) < 2 ^ 31" using h by blast
    have e: "k + 0 * int (length evs) \<le> k" by simp
    have bd: "of_int (max n 6) * ((of_int k + 200) / 100) ^ length evs * of_int k
        \<le> (9000000000 :: rat)"
      using h by blast
    have q: "(0 :: int) \<le> 3" "(3 :: int) \<le> 5" "10 - (5 - 3) * (8 + (5 - 3) * 2) \<le> (0 :: int)"
      "(0 :: int) \<le> 0"
      by simp_all
    from reviews_return [OF c assms(4) q e st(6) l bd] show ?thesis by simp
  qed
  have d: "\<bar>- (5044031582654955 / 36028797018963968) + 14 / 100 :: rat\<bar> < 1 / 10 ^ 16"
    by simp
  show ?thesis using ease_delta_3 d step run total by blast
qed

theorem neutral_review_lowers_ease_witness:
  "0 \<le> clock demo_env \<and> clock demo_env \<le> 4102444800000 \<and>
   localTZA demo_env = (\<lambda>t u. 0) \<and>
   stored demo_state 0 250 0 \<and> on_schedule 0 0 \<and>
   sm2 demo_env (Finite 3) demo_state = Inr neutral_review \<and>
   (130 :: int) < 250 \<and>
   easeFactor neutral_review = lit (of_int (max 130 (250 - 14)) / 100) \<and>
   flt (easeFactor neutral_review) (easeFactor demo_state) \<and>
   reviews [demo_env, demo_env, demo_env, demo_env, demo_env, demo_env, demo_env, demo_env,
      demo_env] (Finite 3) demo_state = Inr neutral_run \<and>
   (8 :: nat) < length neutral_run \<and> (250 :: int) \<le> 130 + 14 * (int 8 + 1) \<and>
   easeFactor (neutral_run ! 8) = lit (13 / 10) \<and>
   repetitions (neutral_run ! 8) = Finite (of_int (0 + int 8 + 1)) \<and>
   sorted_wrt (\<lambda>a b. fge b a) (intervalDays demo_state # map intervalDays neutral_run) \<and>
   of_int (max 0 6) * ((of_int 250 + 200) / 100) ^ 9 * of_int 250 \<le> (9000000000 :: rat) \<and>
   length neutral_run = 9 \<and>
   stored floor_state 3 130 17 \<and> on_schedule 3 17 \<and> (17 * 130 :: int) \<le> 9000000000 \<and>
   sm2 demo_env (Finite 3) floor_state = Inr floor_review \<and>
   easeFactor floor_review = lit (13 / 10) \<and>
   (1 :: int) \<le> 3 \<and> flt (intervalDays floor_state) (intervalDays floor_review)"
proof -
  have o: "on_schedule 0 0" "on_schedule 3 17" by (simp_all add: on_schedule_def)
  have "2 \<le> (0 :: int) \<longrightarrow> (0 * 250 :: int) \<le> 9000000000" by simp
  note a = neutral_review_lowers_ease [OF demo_clock stored_demo(1) this]
  note b = neutral_review_lowers_ease [OF demo_clock stored_floor]
  from a obtain s' where s': "sm2 demo_env (Finite 3) demo_state = Inr s'"
    "easeFactor s' = lit (of_int (max 130 (250 - 14)) / 100)"
    "130 < (250 :: int) \<longrightarrow> flt (easeFactor s') (easeFactor demo_state)"
    by blast
  have "s' = neutral_review" using s'(1) neutral_sm2 by simp
  then have a1: "easeFactor neutral_review = lit (of_int (max 130 (250 - 14)) / 100)"
    "flt (easeFactor neutral_review) (easeFactor demo_state)"
    using s'(2,3) by simp_all
  have len: "(8 :: nat) < length neutral_run" by (simp add: neutral_run_def)
  have a2: "easeFactor (neutral_run ! 8) = lit (13 / 10)"
    "repetitions (neutral_run ! 8) = Finite (of_int (0 + int 8 + 1))"
    "sorted_wrt (\<lambda>a b. fge b a) (intervalDays demo_state # map intervalDays neutral_run)"
    using a [THEN conjunct2, THEN conjunct2, THEN conjunct2, THEN conjunct1, rule_format,
        OF conjI, OF neutral_reviews] len o(1)
    by simp_all
  let ?evs = "[demo_env, demo_env, demo_env, demo_env, demo_env, demo_env, demo_env, demo_env,
      demo_env]"
  have bd: "of_int (max 0 6) * ((of_int 250 + 200) / 100) ^ 9 * of_int 250
      \<le> (9000000000 :: rat)"
    by (simp add: power_divide)
  have h: "(\<forall>ev\<in>set ?evs. 0 \<le> clock ev \<and> clock ev \<le> 4102444800000 \<and>
         (\<forall>t u. \<bar>localTZA ev t u\<bar> \<le> 86400000)) \<and>
      0 + int (length ?evs) < 2 ^ 31 \<and>
      of_int (max 0 6) * ((of_int 250 + 200) / 100) ^ length ?evs * of_int 250
        \<le> (9000000000 :: rat)"
    by (simp add: demo_env_def)
  from a [THEN conjunct2, THEN conjunct2, THEN conjunct2, THEN conjunct2, rule_format, OF h]
  obtain ss where ss: "reviews ?evs (Finite 3) demo_state = Inr ss" "length ss = length ?evs"
    by blast
  have "ss = neutral_run" using ss(1) neutral_reviews by simp
  then have a3: "length neutral_run = 9" using ss(2) by simp
  have "2 \<le> (3 :: int) \<longrightarrow> (17 * 130 :: int) \<le> 9000000000" by simp
  from b [OF this] obtain t' where t': "sm2 demo_env (Finite 3) floor_state = Inr t'"
    "easeFactor t' = lit (of_int (max 130 (130 - 14)) / 100)"
    "on_schedule 3 17 \<longrightarrow>
       fge (intervalDays t') (intervalDays floor_state) \<and>
       (1 \<le> (3 :: int) \<longrightarrow> flt (intervalDays floor_state) (intervalDays t'))"
    by blast
  have "t' = floor_review" using t'(1) floor_sm2 by simp
  then have b1: "easeFactor floor_review = lit (13 / 10)"
    "flt (intervalDays floor_state) (intervalDays floor_review)"
    using t'(2,3) o(2) by simp_all
  have e: "0 \<le> clock demo_env" "clock demo_env \<le> 4102444800000"
    "localTZA demo_env = (\<lambda>t u. 0)"
    by (simp_all add: demo_env_def)
  have n: "(130 :: int) < 250" "(250 :: int) \<le> 130 + 14 * (int 8 + 1)"
    "(17 * 130 :: int) \<le> 9000000000" "(1 :: int) \<le> 3"
    by simp_all
  show ?thesis
    using a1 a2 a3 bd b1 e n o len neutral_sm2 floor_sm2 neutral_reviews stored_demo(1)
      stored_floor
    by blast
qed

end
